(* ===== verification/Containers.thy ===== *)
theory Containers
  imports Prelude
begin

text \<open>
  \<open>std::map\<close> and \<open>std::unordered_map\<close> as the program uses them. A \<open>std::map\<close> is
  an association list in increasing key order (its iteration order), a
  \<open>std::unordered_map\<close> an association list with distinct keys whose order means
  nothing. Both offer \<open>find\<close>, \<open>emplace\<close> (which keeps an element that is there),
  \<open>insert_or_assign\<close> and \<open>erase\<close>; the locale \<open>keyed_store\<close> states the laws
  their clients rely on.
\<close>

subsection \<open>The interface\<close>

locale keyed_store =
  fixes lookup :: "'m \<Rightarrow> 'k \<Rightarrow> 'v option"
    and emplace :: "'k \<Rightarrow> 'v \<Rightarrow> 'm \<Rightarrow> 'm"
    and assign :: "'k \<Rightarrow> 'v \<Rightarrow> 'm \<Rightarrow> 'm"
    and erase :: "'k \<Rightarrow> 'm \<Rightarrow> 'm"
    and invar :: "'m \<Rightarrow> bool"
  assumes lookup_emplace:
      "invar m \<Longrightarrow> lookup (emplace k v m) k' =
         (if k' = k then (case lookup m k of Some w \<Rightarrow> Some w | None \<Rightarrow> Some v) else lookup m k')"
    and lookup_assign: "invar m \<Longrightarrow> lookup (assign k v m) k' = (if k' = k then Some v else lookup m k')"
    and lookup_erase: "invar m \<Longrightarrow> lookup (erase k m) k' = (if k' = k then None else lookup m k')"
    and invar_emplace: "invar m \<Longrightarrow> invar (emplace k v m)"
    and invar_assign: "invar m \<Longrightarrow> invar (assign k v m)"
    and invar_erase: "invar m \<Longrightarrow> invar (erase k m)"
begin

definition emplace_all :: "('k \<times> 'v) list \<Rightarrow> 'm \<Rightarrow> 'm" where
  "emplace_all kvs m = fold (\<lambda>(k, v). emplace k v) kvs m"

lemma emplace_all_simps [simp]:
  "emplace_all [] m = m"
  "emplace_all ((k, v) # kvs) m = emplace_all kvs (emplace k v m)"
  by (simp_all add: emplace_all_def)

lemma invar_emplace_all: "invar m \<Longrightarrow> invar (emplace_all kvs m)"
  by (induction kvs arbitrary: m) (auto simp: invar_emplace)

text \<open>Emplacing a list: what was there stays, and of new bindings the first one wins.\<close>

lemma lookup_emplace_all:
  "invar m \<Longrightarrow> lookup (emplace_all kvs m) k =
     (case lookup m k of Some v \<Rightarrow> Some v | None \<Rightarrow> map_of kvs k)"
proof (induction kvs arbitrary: m)
  case Nil
  then show ?case by (auto split: option.splits)
next
  case (Cons kv kvs)
  obtain k0 v0 where kv: "kv = (k0, v0)" by (cases kv)
  show ?case
    unfolding kv using Cons.IH [OF invar_emplace [OF Cons.prems, of k0 v0]] Cons.prems
    by (auto simp: lookup_emplace split: option.splits)
qed

lemma emplace_present: "invar m \<Longrightarrow> lookup m k = Some w \<Longrightarrow> lookup (emplace k v m) = lookup m"
  by (auto simp: lookup_emplace)

lemma erase_emplace_absent:
  "invar m \<Longrightarrow> lookup m k = None \<Longrightarrow> lookup (erase k (emplace k v m)) = lookup m"
  by (auto simp: lookup_erase lookup_emplace invar_emplace)

end

subsection \<open>\<open>std::map\<close>\<close>

type_synonym ('k, 'v) omap = "('k \<times> 'v) list"

fun om_assign :: "'k::linorder \<Rightarrow> 'v \<Rightarrow> ('k, 'v) omap \<Rightarrow> ('k, 'v) omap" where
  "om_assign k v [] = [(k, v)]"
| "om_assign k v ((k', v') # m) =
     (if k < k' then (k, v) # (k', v') # m
      else if k = k' then (k, v) # m
      else (k', v') # om_assign k v m)"

definition om_emplace :: "'k::linorder \<Rightarrow> 'v \<Rightarrow> ('k, 'v) omap \<Rightarrow> ('k, 'v) omap" where
  "om_emplace k v m = (case map_of m k of Some _ \<Rightarrow> m | None \<Rightarrow> om_assign k v m)"

definition om_erase :: "'k \<Rightarrow> ('k, 'v) omap \<Rightarrow> ('k, 'v) omap" where
  "om_erase k m = filter (\<lambda>(k', _). k' \<noteq> k) m"

definition om_ok :: "('k::linorder, 'v) omap \<Rightarrow> bool" where
  "om_ok m \<longleftrightarrow> sorted_wrt (<) (map fst m)"

lemma om_ok_Nil [simp]: "om_ok []"
  by (simp add: om_ok_def)

lemma om_ok_Cons: "om_ok (kv # m) \<longleftrightarrow> (\<forall>kv' \<in> set m. fst kv < fst kv') \<and> om_ok m"
  by (auto simp: om_ok_def)

lemma om_ok_distinct: "om_ok m \<Longrightarrow> distinct (map fst m)"
  unfolding om_ok_def by (simp add: strict_sorted_iff)

lemma map_of_om_assign: "map_of (om_assign k v m) = (map_of m)(k \<mapsto> v)"
  by (induction m) auto

lemma keys_om_assign [simp]: "fst ` set (om_assign k v m) = insert k (fst ` set m)"
  by (simp add: dom_map_of_conv_image_fst [symmetric] map_of_om_assign)

lemma om_assign_elem: "kv \<in> set (om_assign k v m) \<Longrightarrow> kv = (k, v) \<or> kv \<in> set m"
  by (induction m) (auto split: if_splits)

lemma om_ok_assign [wf_intros]: "om_ok m \<Longrightarrow> om_ok (om_assign k v m)"
proof (induction m)
  case Nil
  then show ?case by (simp add: om_ok_Cons)
next
  case (Cons kv m)
  obtain k' v' where kv: "kv = (k', v')" by (cases kv)
  from Cons.prems have below: "\<forall>kv' \<in> set m. k' < fst kv'" and ok: "om_ok m"
    by (auto simp: om_ok_Cons kv)
  show ?case
  proof (cases k k' rule: linorder_cases)
    case less
    with below have "\<forall>kv' \<in> set m. k < fst kv'" by (meson less_trans)
    with less below ok show ?thesis by (simp add: kv om_ok_Cons)
  next
    case equal
    with below ok show ?thesis by (simp add: kv om_ok_Cons)
  next
    case greater
    with below Cons.IH [OF ok] show ?thesis
      by (auto simp: kv om_ok_Cons dest!: om_assign_elem)
  qed
qed

lemma om_ok_emplace [wf_intros]: "om_ok m \<Longrightarrow> om_ok (om_emplace k v m)"
  by (auto simp: om_emplace_def wf_intros split: option.splits)

lemma map_of_filter_key: "map_of (filter (\<lambda>(k', _). k' \<noteq> k) m) = (map_of m)(k := None)"
  by (induction m) auto

lemma om_ok_erase [wf_intros]: "om_ok m \<Longrightarrow> om_ok (om_erase k m)"
  by (induction m) (auto simp: om_erase_def om_ok_Cons)

lemma map_of_om_emplace:
  "map_of (om_emplace k v m) = (case map_of m k of Some _ \<Rightarrow> map_of m | None \<Rightarrow> (map_of m)(k \<mapsto> v))"
  by (auto simp: om_emplace_def map_of_om_assign split: option.splits)

interpretation om: keyed_store map_of om_emplace om_assign om_erase om_ok
  by unfold_locales
     (auto simp: map_of_om_emplace map_of_om_assign om_erase_def map_of_filter_key
       intro: om_ok_emplace om_ok_assign om_ok_erase [unfolded om_erase_def] split: option.splits)

lemma om_empty_iff: "(\<forall>k. map_of m k = None) \<longleftrightarrow> m = []"
  by (cases m) auto

subsection \<open>\<open>std::unordered_map\<close>\<close>

definition um_emplace :: "'k \<Rightarrow> 'v \<Rightarrow> ('k \<times> 'v) list \<Rightarrow> ('k \<times> 'v) list" where
  "um_emplace k v m = (case map_of m k of Some _ \<Rightarrow> m | None \<Rightarrow> m @ [(k, v)])"

fun um_assign :: "'k \<Rightarrow> 'v \<Rightarrow> ('k \<times> 'v) list \<Rightarrow> ('k \<times> 'v) list" where
  "um_assign k v [] = [(k, v)]"
| "um_assign k v ((k', v') # m) = (if k' = k then (k, v) # m else (k', v') # um_assign k v m)"

definition um_erase :: "'k \<Rightarrow> ('k \<times> 'v) list \<Rightarrow> ('k \<times> 'v) list" where
  "um_erase k m = filter (\<lambda>(k', _). k' \<noteq> k) m"

definition um_ok :: "('k \<times> 'v) list \<Rightarrow> bool" where
  "um_ok m \<longleftrightarrow> distinct (map fst m)"

lemma um_ok_Nil [simp]: "um_ok []"
  by (simp add: um_ok_def)

lemma map_of_um_emplace:
  "map_of (um_emplace k v m) = (case map_of m k of Some _ \<Rightarrow> map_of m | None \<Rightarrow> (map_of m)(k \<mapsto> v))"
  by (auto simp: um_emplace_def map_add_def fun_eq_iff split: option.splits)

lemma um_ok_emplace [wf_intros]: "um_ok m \<Longrightarrow> um_ok (um_emplace k v m)"
  by (auto simp: um_ok_def um_emplace_def map_of_eq_None_iff split: option.splits)

lemma map_of_um_assign: "map_of (um_assign k v m) = (map_of m)(k \<mapsto> v)"
  by (induction m) auto

lemma keys_um_assign [simp]: "fst ` set (um_assign k v m) = insert k (fst ` set m)"
  by (simp add: dom_map_of_conv_image_fst [symmetric] map_of_um_assign)

lemma um_ok_assign [wf_intros]: "um_ok m \<Longrightarrow> um_ok (um_assign k v m)"
  by (induction m) (auto simp: um_ok_def)

lemma um_ok_filter [wf_intros]: "um_ok m \<Longrightarrow> um_ok (filter P m)"
  by (simp add: um_ok_def distinct_map_filter)

lemma um_ok_erase [wf_intros]: "um_ok m \<Longrightarrow> um_ok (um_erase k m)"
  by (simp add: um_erase_def um_ok_filter)

interpretation um: keyed_store map_of um_emplace um_assign um_erase um_ok
  by unfold_locales
     (auto simp: map_of_um_emplace map_of_um_assign um_erase_def map_of_filter_key
       intro: um_ok_emplace um_ok_assign um_ok_filter split: option.splits)

lemma um_set_lookup: "um_ok m \<Longrightarrow> (k, v) \<in> set m \<longleftrightarrow> map_of m k = Some v"
  by (simp add: um_ok_def)

end
