(* ===== verification/Json.thy ===== *)
theory Json
  imports Containers
begin

text \<open>
  \<open>nlohmann::json\<close> as the program uses it. A value is one of the library's kinds; an
  object is a \<open>std::map\<close> (the library's default), so its members are in increasing key
  order; both integer kinds are 64 bits wide and a float is its bit pattern.
  The text of a value (\<open>parse\<close> and \<open>dump\<close>) is a parameter of the components that read
  or write it; \<open>parsed\<close> says what a parser makes of a value that was written.
\<close>

datatype json =
    JNull
  | JBool bool
  | JInt "64 word"
  | JUint "64 word"
  | JFloat "64 word"
  | JString string
  | JArray "json list"
  | JObject "(string \<times> json) list"
  | JDiscarded

fun is_object :: "json \<Rightarrow> bool" where
  "is_object (JObject _) = True" | "is_object _ = False"

fun is_array :: "json \<Rightarrow> bool" where
  "is_array (JArray _) = True" | "is_array _ = False"

fun is_null :: "json \<Rightarrow> bool" where
  "is_null JNull = True" | "is_null _ = False"

subsection \<open>Access\<close>

text \<open>\<open>get_ptr<T const*>\<close>: null unless the value has the kind. An unsigned number also
  answers to \<open>int64_t\<close>, with its bits read as signed.\<close>

fun get_string_ptr :: "json \<Rightarrow> string option" where
  "get_string_ptr (JString s) = Some s" | "get_string_ptr _ = None"

fun get_int64_ptr :: "json \<Rightarrow> int option" where
  "get_int64_ptr (JInt w) = Some (sint w)"
| "get_int64_ptr (JUint w) = Some (sint w)"
| "get_int64_ptr _ = None"

fun get_bool :: "json \<Rightarrow> bool option" where
  "get_bool (JBool b) = Some b" | "get_bool _ = None"

text \<open>\<open>items ()\<close>: an object's members; an array's elements under their indices; a value of
  another kind once, under the empty key; nothing for null.\<close>

fun json_items :: "json \<Rightarrow> (string \<times> json) list" where
  "json_items (JObject m) = m"
| "json_items (JArray xs) = zip (map dec_nat [0..<length xs]) xs"
| "json_items JNull = []"
| "json_items j = [([], j)]"

text \<open>A range-based \<open>for\<close> over a value.\<close>

definition json_elems :: "json \<Rightarrow> json list" where
  "json_elems j = map snd (json_items j)"

text \<open>\<open>find (key)\<close> on a constant value; \<open>None\<close> is \<open>end ()\<close>.\<close>

fun json_find :: "string \<Rightarrow> json \<Rightarrow> json option" where
  "json_find k (JObject m) = map_of m k" | "json_find k _ = None"

text \<open>\<open>empty ()\<close>\<close>

fun json_empty :: "json \<Rightarrow> bool" where
  "json_empty JNull = True"
| "json_empty (JArray xs) = (xs = [])"
| "json_empty (JObject m) = (m = [])"
| "json_empty _ = False"

subsection \<open>Update\<close>

text \<open>
  \<open>f (j[key])\<close> for an \<open>f\<close> that writes through the reference: null becomes an object, a
  missing member is null, and another kind throws \<open>type_error.305\<close>.
\<close>

definition json_member :: "string \<Rightarrow> (json \<Rightarrow> json may_throw) \<Rightarrow> json \<Rightarrow> json may_throw" where
  "json_member key f j =
     (case (case j of JNull \<Rightarrow> Some [] | JObject m \<Rightarrow> Some m | _ \<Rightarrow> None) of
        None \<Rightarrow> Inl (Json_type_error 305)
      | Some m \<Rightarrow> (case f (case map_of m key of Some v \<Rightarrow> v | None \<Rightarrow> JNull) of
                     Inl e \<Rightarrow> Inl e
                   | Inr v \<Rightarrow> Inr (JObject (om_assign key v m))))"

text \<open>\<open>j[key] = v\<close>\<close>

definition json_put :: "string \<Rightarrow> json \<Rightarrow> json \<Rightarrow> json may_throw" where
  "json_put key v j = json_member key (\<lambda>_. Inr v) j"

text \<open>\<open>push_back\<close>: null becomes an array; another kind throws \<open>type_error.308\<close>.\<close>

fun json_push_back :: "json \<Rightarrow> json \<Rightarrow> json may_throw" where
  "json_push_back v (JArray xs) = Inr (JArray (xs @ [v]))"
| "json_push_back v JNull = Inr (JArray [v])"
| "json_push_back v _ = Inl (Json_type_error 308)"

text \<open>A braced list of pairs whose first elements are strings is an object; of equal keys
  the first one stays.\<close>

definition json_object :: "(string \<times> json) list \<Rightarrow> json" where
  "json_object kvs = JObject (om.emplace_all kvs [])"

lemmas json_ops = json_member_def json_put_def

lemma json_put_object [simp]: "json_put k v (JObject m) = Inr (JObject (om_assign k v m))"
  by (simp add: json_ops split: option.splits)

lemma json_put_null [simp]: "json_put k v JNull = Inr (JObject [(k, v)])"
  by (simp add: json_ops)

lemma json_find_put: "json_put k v j = Inr j' \<Longrightarrow> json_find k' j' = (if k' = k then Some v else json_find k' j)"
  by (auto simp: json_ops map_of_om_assign split: json.splits option.splits if_splits)

lemma json_object_find: "json_find k (json_object kvs) = map_of kvs k"
  using om.lookup_emplace_all [of "[]" kvs k] by (simp add: json_object_def)

subsection \<open>Well-formed values and what comes back from a text\<close>

fun json_ok :: "json \<Rightarrow> bool" where
  "json_ok (JArray xs) = list_all json_ok xs"
| "json_ok (JObject m) = (om_ok m \<and> list_all (json_ok o snd) m)"
| "json_ok _ = True"

text \<open>
  A parser reads an integer that has no minus sign as unsigned; everything else that was
  written comes back as it was.
\<close>

fun parsed :: "json \<Rightarrow> json" where
  "parsed (JInt w) = (if 0 \<le> sint w then JUint w else JInt w)"
| "parsed (JArray xs) = JArray (map parsed xs)"
| "parsed (JObject m) = JObject (map (\<lambda>(k, v). (k, parsed v)) m)"
| "parsed j = j"

lemma get_int64_parsed [simp]: "get_int64_ptr (parsed j) = get_int64_ptr j"
  by (cases j) auto

lemma get_string_parsed [simp]: "get_string_ptr (parsed j) = get_string_ptr j"
  by (cases j) auto

lemma get_bool_parsed [simp]: "get_bool (parsed j) = get_bool j"
  by (cases j) auto

lemma om_assign_mem: "v' \<in> snd ` set (om_assign k v m) \<Longrightarrow> v' = v \<or> v' \<in> snd ` set m"
  by (force dest: om_assign_elem)

lemma json_ok_put [wf_intros]:
  "json_put k v j = Inr j' \<Longrightarrow> json_ok j \<Longrightarrow> json_ok v \<Longrightarrow> json_ok j'"
  by (auto simp: json_ops list_all_iff om_ok_assign om_ok_Cons dest!: om_assign_elem
      split: json.splits option.splits)

lemma json_ok_push [wf_intros]:
  "json_push_back v j = Inr j' \<Longrightarrow> json_ok j \<Longrightarrow> json_ok v \<Longrightarrow> json_ok j'"
  by (cases j) auto

subsection \<open>Writing a member\<close>

lemma is_objectE: "is_object j \<Longrightarrow> (\<And>m. j = JObject m \<Longrightarrow> P) \<Longrightarrow> P"
  by (cases j) auto

definition member_or_null :: "string \<Rightarrow> json \<Rightarrow> json" where
  "member_or_null k j = (case json_find k j of Some v \<Rightarrow> v | None \<Rightarrow> JNull)"

lemma json_member_on_object:
  assumes "is_object j" "member_or_null k j = x" "f x = Inr v"
  shows "\<exists>j'. json_member k f j = Inr j' \<and> is_object j' \<and>
    (\<forall>k'. json_find k' j' = (if k' = k then Some v else json_find k' j))"
  using assms by (auto simp: member_or_null_def json_ops map_of_om_assign elim!: is_objectE split: option.splits)

end
