(* ===== verification/Utils.thy ===== *)
theory Utils
  imports Prelude
begin

unbundle bit_operations_syntax

text \<open>
  \<open>src/core/helpers/utils.hpp\<close>: the string helpers every other component calls.
  OpenSSL's \<open>EVP_DecodeBlock\<close> is a parameter of \<open>base64Decode\<close>
  (its return code and the bytes it wrote) and systemd's machine id one of
  \<open>getUuid\<close>. The clock, \<open>localtime\<close>, \<open>put_time\<close> and
  \<open>RAND_bytes\<close> are parameters too.
\<close>

subsection \<open>Path segments\<close>

text \<open>The two loops of \<open>countExtraSegmentsOfPath\<close>, over the positions they move.\<close>

function skip_front :: "string \<Rightarrow> nat \<Rightarrow> nat \<Rightarrow> nat" where
  "skip_front path start fin =
     (if start < fin \<and> path ! start = CHR ''/'' then skip_front path (Suc start) fin else start)"
  by pat_completeness auto
termination
  by (relation "measure (\<lambda>(_, start, fin). fin - start)") auto

function skip_back :: "string \<Rightarrow> nat \<Rightarrow> nat \<Rightarrow> nat" where
  "skip_back path start fin =
     (if start < fin \<and> path ! (fin - 1) = CHR ''/'' then skip_back path start (fin - 1) else fin)"
  by pat_completeness auto
termination
  by (relation "measure (\<lambda>(_, start, fin). fin - start)") auto

declare skip_front.simps [simp del] skip_back.simps [simp del]

definition countExtraSegmentsOfPath :: "string \<Rightarrow> string \<Rightarrow> int" where
  "countExtraSegmentsOfPath namespacePath path =
     (let start = skip_front path (length namespacePath) (length path);
          fin = skip_back path start (length path)
      in if start < fin
         then int (count_list (take (fin - start) (drop start path)) CHR ''/'') + 1
         else 0)"

subsection \<open>Comparison of secrets\<close>

text \<open>\<open>CRYPTO_memcmp (a, b, n) == 0\<close> is the equality of the two blocks.\<close>

definition constantTimeStringCompare :: "string \<Rightarrow> string \<Rightarrow> bool" where
  "constantTimeStringCompare a b = (if length a \<noteq> length b then False else a = b)"

subsection \<open>Encodings\<close>

text \<open>
  The output buffer has \<open>predictedLen + 1\<close> zeroed bytes, \<open>EVP_DecodeBlock\<close> writes a
  prefix of it, and the result is built from the \<open>char*\<close>: it ends at the first NUL.
  The comparison is on \<open>unsigned long\<close>, so the error code \<open>-1\<close> wraps.
\<close>

definition base64Decode :: "(string \<Rightarrow> int \<times> string) \<Rightarrow> string \<Rightarrow> string may_throw" where
  "base64Decode evp_decode input =
     (let predictedLen = 3 * length input div 4;
          (outputLen, written) = evp_decode input
      in if predictedLen \<noteq> nat (outputLen mod 2 ^ 64)
         then Inl (Runtime_error ''DecodeBase64 error'')
         else Inr (c_str written))"

definition url_unreserved :: "char \<Rightarrow> bool" where
  "url_unreserved c \<longleftrightarrow> isalnum c \<or> c = CHR ''-'' \<or> c = CHR ''_'' \<or> c = CHR ''.'' \<or> c = CHR ''~''"

fun urlEncode :: "string \<Rightarrow> string" where
  "urlEncode [] = []"
| "urlEncode (c # value) =
     (if url_unreserved c then c # urlEncode value
      else CHR ''%'' # hex_upper ((of_char c :: nat) div 16)
             # hex_upper ((of_char c :: nat) mod 16) # urlEncode value)"

subsection \<open>Names and case\<close>

definition getNameFromLastSegmentObjectPath :: "string \<Rightarrow> bool \<Rightarrow> string" where
  "getNameFromLastSegmentObjectPath objectPath cleanup =
     (case rfind_char CHR ''/'' objectPath of
        None \<Rightarrow> objectPath
      | Some found \<Rightarrow>
          (let name = drop (found + 1) objectPath
           in if cleanup then replace_char CHR ''_'' CHR '' '' name else name))"

definition toLower :: "string \<Rightarrow> string" where
  "toLower data = map tolower_char data"

text \<open>
  \<open>getUuid\<close>: \<open>None\<close> is a failing \<open>sd_id128_get_machine_app_specific\<close>, \<open>Some s\<close> the text
  \<open>sd_id128_to_string\<close> wrote. \<open>std::string::insert\<close> throws past the end.
\<close>

definition string_insert :: "nat \<Rightarrow> char \<Rightarrow> string \<Rightarrow> string may_throw" where
  "string_insert pos c s = (if length s < pos then Inl Out_of_range
                            else Inr (take pos s @ c # drop pos s))"

definition getUuid :: "string option \<Rightarrow> string may_throw" where
  "getUuid machineId =
     (case machineId of
        None \<Rightarrow> Inr []
      | Some s0 \<Rightarrow>
          (case string_insert 8 CHR ''-'' s0 of Inl e \<Rightarrow> Inl e | Inr s1 \<Rightarrow>
          (case string_insert 13 CHR ''-'' s1 of Inl e \<Rightarrow> Inl e | Inr s2 \<Rightarrow>
          (case string_insert 18 CHR ''-'' s2 of Inl e \<Rightarrow> Inl e | Inr s3 \<Rightarrow>
           string_insert 23 CHR ''-'' s3))))"

subsection \<open>Trimming and splitting\<close>

definition ltrim :: "string \<Rightarrow> string" where
  "ltrim s = dropWhile isspace s"

definition rtrim :: "string \<Rightarrow> string" where
  "rtrim s = rev (dropWhile isspace (rev s))"

definition trim :: "string \<Rightarrow> string" where
  "trim s = rtrim (ltrim s)"

text \<open>
  \<open>std::getline (ss, substr, delimiter)\<close>: the characters up to the delimiter, which is
  removed, and the rest of the stream; \<open>None\<close> when the end of the stream was reached,
  after which \<open>ss.good ()\<close> is false. A delimiter as the last character leaves the stream
  good, so one more (empty) piece follows.
\<close>

fun getline :: "string \<Rightarrow> char \<Rightarrow> string \<times> string option" where
  "getline [] d = ([], None)"
| "getline (c # cs) d =
     (if c = d then ([], Some cs)
      else (let (sub, rest) = getline cs d in (c # sub, rest)))"

lemma getline_rest_length: "getline s d = (sub, Some rest) \<Longrightarrow> length rest < length s"
  by (induction s arbitrary: sub) (auto split: if_splits prod.splits)

function splitToVector :: "string \<Rightarrow> char \<Rightarrow> string list" where
  "splitToVector ss delimiter =
     (case getline ss delimiter of
        (substr, None) \<Rightarrow> [substr]
      | (substr, Some rest) \<Rightarrow> substr # splitToVector rest delimiter)"
  by pat_completeness auto
termination
  by (relation "measure (\<lambda>(ss, _). length ss)") (auto dest: getline_rest_length [OF sym])

declare splitToVector.simps [simp del]

definition splitToPair :: "string \<Rightarrow> char \<Rightarrow> string \<times> string" where
  "splitToPair s delimiter =
     (case find_char delimiter s of
        None \<Rightarrow> (s, [])
      | Some pos \<Rightarrow> (if length s \<le> pos then (s, []) else (take pos s, drop (pos + 1) s)))"

subsection \<open>Netmask\<close>

text \<open>
  \<open>uint32_t\<close> arithmetic. A shift by 32 or more (\<open>bits = 0\<close>, or \<open>bits > 32\<close>, where
  \<open>32 - bits\<close> wraps) is undefined in C++: \<open>None\<close>.
\<close>

definition netmask_value :: "32 word \<Rightarrow> 32 word option" where
  "netmask_value bits =
     (let shift = 32 - bits
      in if 32 \<le> unat shift then None else Some (push_bit (unat shift) 0xffffffff))"

definition getNetmask :: "32 word \<Rightarrow> string option" where
  "getNetmask bits =
     map_option (\<lambda>value.
       dec_nat (unat (drop_bit 24 value AND 0xff)) @ ''.'' @
       dec_nat (unat (drop_bit 16 value AND 0xff)) @ ''.'' @
       dec_nat (unat (drop_bit 8 value AND 0xff)) @ ''.'' @
       dec_nat (unat (value AND 0xff))) (netmask_value bits)"

subsection \<open>Dates and random bytes\<close>

text \<open>\<open>std::localtime\<close> and \<open>std::put_time\<close> depend on the zone and the locale: parameters.\<close>

definition getFormattedDate :: "(int \<Rightarrow> 'tm) \<Rightarrow> ('tm \<Rightarrow> string \<Rightarrow> string) \<Rightarrow> string \<Rightarrow> int \<Rightarrow> string" where
  "getFormattedDate localtime put_time format seconds = put_time (localtime seconds) (c_str format)"

definition getFormattedCurrentDate :: "(int \<Rightarrow> 'tm) \<Rightarrow> ('tm \<Rightarrow> string \<Rightarrow> string) \<Rightarrow> int \<Rightarrow> string \<Rightarrow> string" where
  "getFormattedCurrentDate localtime put_time now format = getFormattedDate localtime put_time format now"

text \<open>\<open>OpenSSLGenerator\<close>: its state is \<open>err\<close>; \<open>RAND_bytes\<close> gives its return code and the byte it left.\<close>

definition new_OpenSSLGenerator :: bool where "new_OpenSSLGenerator = False"

definition OpenSSLGenerator_call :: "int \<times> 8 word \<Rightarrow> bool \<Rightarrow> 8 word \<times> bool" where
  "OpenSSLGenerator_call drawn err = (case drawn of (rc, index) \<Rightarrow> (index, if rc \<noteq> 1 then True else err))"

definition OpenSSLGenerator_max :: "8 word" where "OpenSSLGenerator_max = 255"
definition OpenSSLGenerator_min :: "8 word" where "OpenSSLGenerator_min = 0"

definition OpenSSLGenerator_error :: "bool \<Rightarrow> bool" where "OpenSSLGenerator_error err = err"

section \<open>What the helpers compute\<close>

subsection \<open>Splitting\<close>

text \<open>The reference for \<open>splitToVector\<close>: pieces joined by single delimiters.\<close>

fun join_with :: "char \<Rightarrow> string list \<Rightarrow> string" where
  "join_with d [] = []"
| "join_with d [x] = x"
| "join_with d (x # y # xs) = x @ d # join_with d (y # xs)"

lemma getline_eq:
  "getline s d = (takeWhile (\<lambda>c. c \<noteq> d) s,
                  if d \<in> set s then Some (tl (dropWhile (\<lambda>c. c \<noteq> d) s)) else None)"
  by (induction s) auto

lemma splitToVector_nonempty: "splitToVector s d \<noteq> []"
  by (subst splitToVector.simps) (simp split: prod.splits option.splits)

lemma splitToVector_no_delim:
  "d \<notin> set s \<Longrightarrow> splitToVector s d = [s]"
  by (subst splitToVector.simps) (auto simp: getline_eq takeWhile_eq_all_conv)

lemma splitToVector_delim:
  assumes "d \<notin> set x"
  shows "splitToVector (x @ d # s) d = x # splitToVector s d"
  using assms
  by (subst splitToVector.simps)
     (auto simp: getline_eq takeWhile_append dropWhile_append split: if_splits)

lemma split_cases:
  obtains (no) "d \<notin> set s" | (yes) x t where "d \<notin> set x" "s = x @ d # t"
  by (metis split_list_first)

lemma splitToVector_facts:
  "join_with d (splitToVector s d) = s \<and> d \<notin> \<Union> (set ` set (splitToVector s d)) \<and>
   length (splitToVector s d) = count_list s d + 1"
proof (induction "length s" arbitrary: s rule: less_induct)
  case less
  show ?case
  proof (cases d s rule: split_cases)
    case no
    then show ?thesis by (simp add: splitToVector_no_delim)
  next
    case (yes x t)
    then have len: "length t < length s" by simp
    obtain y ys where ys: "splitToVector t d = y # ys"
      using splitToVector_nonempty by (cases "splitToVector t d") auto
    from less [OF len] yes ys show ?thesis
      by (simp add: splitToVector_delim)
  qed
qed

subsection \<open>Trimming\<close>

lemma dropWhile_rev_decompose: "\<exists>w. s = rev (dropWhile P (rev s)) @ w \<and> (\<forall>c \<in> set w. P c)"
proof -
  have "s = rev (takeWhile P (rev s) @ dropWhile P (rev s))" by simp
  then have "s = rev (dropWhile P (rev s)) @ rev (takeWhile P (rev s))"
    by (simp only: rev_append)
  moreover have "\<forall>c \<in> set (rev (takeWhile P (rev s))). P c"
    by (auto dest: set_takeWhileD)
  ultimately show ?thesis by blast
qed

lemma ltrim_decompose: "\<exists>w. s = w @ ltrim s \<and> list_all isspace w"
  unfolding ltrim_def list_all_iff
  by (metis set_takeWhileD takeWhile_dropWhile_id)

lemma rtrim_decompose: "\<exists>w. s = rtrim s @ w \<and> list_all isspace w"
  unfolding rtrim_def list_all_iff by (rule dropWhile_rev_decompose)

lemma rtrim_last: "rtrim s \<noteq> [] \<Longrightarrow> \<not> isspace (last (rtrim s))"
  unfolding rtrim_def by (simp add: last_rev hd_dropWhile)

lemma ltrim_hd: "ltrim s \<noteq> [] \<Longrightarrow> \<not> isspace (hd (ltrim s))"
  unfolding ltrim_def by (rule hd_dropWhile)

lemma trim_hd: "trim s \<noteq> [] \<Longrightarrow> \<not> isspace (hd (trim s))"
proof -
  assume ne: "trim s \<noteq> []"
  obtain w where w: "ltrim s = trim s @ w"
    using rtrim_decompose [of "ltrim s"] unfolding trim_def by blast
  with ne have "hd (ltrim s) = hd (trim s)" "ltrim s \<noteq> []" by auto
  with ltrim_hd show ?thesis by metis
qed

subsection \<open>Percent-encoding\<close>

text \<open>The reference decoder: \<open>%XY\<close> is the byte with these hexadecimal digits.\<close>

definition hex_val :: "char \<Rightarrow> nat" where
  "hex_val c = (if isdigit c then of_char c - 48 else of_char c - 55)"

fun urlDecode :: "string \<Rightarrow> string" where
  "urlDecode [] = []"
| "urlDecode (c # s) =
     (if c = CHR ''%''
      then (case s of a # b # t \<Rightarrow> char_of (16 * hex_val a + hex_val b) # urlDecode t | _ \<Rightarrow> c # s)
      else c # urlDecode s)"

lemma hex_val_hex_upper [simp]: "n < 16 \<Longrightarrow> hex_val (hex_upper n) = n"
  by (auto simp: hex_val_def hex_upper_def isdigit_def)

lemma hex_upper_unreserved [simp]: "n < 16 \<Longrightarrow> url_unreserved (hex_upper n)"
  by (auto simp: url_unreserved_def hex_upper_def isalnum_def isdigit_def isupper_def)

lemma percent_reserved [simp]: "\<not> url_unreserved CHR ''%''"
  by (simp add: url_unreserved_def isalnum_def isdigit_def isupper_def islower_def)

lemma urlDecode_urlEncode: "urlDecode (urlEncode s) = s"
proof (induction s)
  case Nil
  then show ?case by simp
next
  case (Cons c s)
  have small: "(of_char c :: nat) div 16 < 16"
    using of_char_less_256 [of c] by (auto simp: less_mult_imp_div_less)
  have whole: "16 * ((of_char c :: nat) div 16) + (of_char c :: nat) mod 16 = of_char c"
    by simp
  have "url_unreserved c \<Longrightarrow> c \<noteq> CHR ''%''" by auto
  with Cons show ?case
    by (cases "url_unreserved c") (simp_all add: small whole)
qed

lemma urlEncode_chars: "set (urlEncode s) \<subseteq> insert CHR ''%'' {c. url_unreserved c}"
proof (induction s)
  case Nil
  then show ?case by simp
next
  case (Cons c s)
  have "(of_char c :: nat) div 16 < 16"
    using of_char_less_256 [of c] by (auto simp: less_mult_imp_div_less)
  with Cons show ?case by auto
qed

lemma urlEncode_no_ctrl:
  "c \<in> set (urlEncode s) \<Longrightarrow> 33 \<le> (of_char c :: nat) \<and> (of_char c :: nat) < 127"
  using urlEncode_chars [of s]
  by (auto simp: url_unreserved_def isalnum_def isdigit_def isupper_def islower_def)

subsection \<open>Counting path segments\<close>

abbreviation slash :: "char \<Rightarrow> bool" where
  "slash c \<equiv> c = CHR ''/''"

definition strip_slashes :: "string \<Rightarrow> string" where
  "strip_slashes s = rev (dropWhile slash (rev (dropWhile slash s)))"

lemma take_drop_step:
  assumes "s < e" "e \<le> length p"
  shows "take (e - s) (drop s p) = p ! s # take (e - Suc s) (drop (Suc s) p)"
  using assms by (simp add: Cons_nth_drop_Suc [symmetric] take_Cons')

lemma take_drop_snoc:
  assumes "s < e" "e \<le> length p"
  shows "take (e - s) (drop s p) = take (e - 1 - s) (drop s p) @ [p ! (e - 1)]"
proof -
  have "take (Suc (e - 1 - s)) (drop s p) = take (e - 1 - s) (drop s p) @ [drop s p ! (e - 1 - s)]"
    using assms by (intro take_Suc_conv_app_nth) simp
  moreover have "Suc (e - 1 - s) = e - s" "drop s p ! (e - 1 - s) = p ! (e - 1)"
    using assms by auto
  ultimately show ?thesis by simp
qed

lemma skip_front_eq:
  "s \<le> e \<Longrightarrow> e \<le> length p \<Longrightarrow>
     s \<le> skip_front p s e \<and> skip_front p s e \<le> e \<and>
     take (e - skip_front p s e) (drop (skip_front p s e) p) =
       dropWhile slash (take (e - s) (drop s p))"
proof (induction p s e rule: skip_front.induct)
  case (1 p s e)
  show ?case
  proof (cases "s < e \<and> slash (p ! s)")
    case True
    with True "1.IH" "1.prems" take_drop_step [of s e p] show ?thesis
      by (simp add: skip_front.simps [of p s e])
  next
    case False
    then consider "s = e" | "s < e" "\<not> slash (p ! s)"
      using "1.prems" by linarith
    then show ?thesis
    proof cases
      case 1
      then show ?thesis using skip_front.simps [of p e e] by simp
    next
      case 2
      with "1.prems" take_drop_step [of s e p] show ?thesis
        by (simp add: skip_front.simps [of p s e])
    qed
  qed
qed

lemma skip_back_eq:
  "s \<le> e \<Longrightarrow> e \<le> length p \<Longrightarrow>
     s \<le> skip_back p s e \<and> skip_back p s e \<le> e \<and>
     take (skip_back p s e - s) (drop s p) =
       rev (dropWhile slash (rev (take (e - s) (drop s p))))"
proof (induction p s e rule: skip_back.induct)
  case (1 p s e)
  show ?case
  proof (cases "s < e \<and> slash (p ! (e - 1))")
    case True
    then have le: "s \<le> e - 1" "e - 1 \<le> length p" using "1.prems" by linarith+
    from "1.IH" [OF True le] True "1.prems" take_drop_snoc [of s e p] show ?thesis
      by (auto simp add: skip_back.simps [of p s e])
  next
    case False
    then consider "s = e" | "s < e" "\<not> slash (p ! (e - 1))"
      using "1.prems" by linarith
    then show ?thesis
    proof cases
      case 1
      then show ?thesis using skip_back.simps [of p e e] by simp
    next
      case 2
      with "1.prems" take_drop_snoc [of s e p] show ?thesis
        by (simp add: skip_back.simps [of p s e])
    qed
  qed
qed

lemma skip_front_beyond: "e < s \<Longrightarrow> skip_front p s e = s"
  by (simp add: skip_front.simps [of p s e])

lemma skip_back_beyond: "e < s \<Longrightarrow> skip_back p s e = e"
  by (simp add: skip_back.simps [of p s e])

lemma countExtraSegments_strip:
  "countExtraSegmentsOfPath ns p =
     (let m = strip_slashes (drop (length ns) p)
      in if m = [] then 0 else int (count_list m CHR ''/'') + 1)"
proof (cases "length ns \<le> length p")
  case True
  define s where "s = skip_front p (length ns) (length p)"
  define e where "e = skip_back p s (length p)"
  from skip_front_eq [OF True order_refl] have s:
    "s \<le> length p" "drop s p = dropWhile slash (drop (length ns) p)"
    by (auto simp: s_def)
  from skip_back_eq [OF s(1) order_refl] have e:
    "s \<le> e" "e \<le> length p" "take (e - s) (drop s p) = rev (dropWhile slash (rev (drop s p)))"
    by (auto simp: e_def)
  have m: "strip_slashes (drop (length ns) p) = take (e - s) (drop s p)"
    unfolding strip_slashes_def s(2) [symmetric] e(3) ..
  have "take (e - s) (drop s p) = [] \<longleftrightarrow> \<not> s < e"
    using e(1,2) by auto
  then show ?thesis
    unfolding countExtraSegmentsOfPath_def Let_def s_def [symmetric] e_def [symmetric] m
    by (simp only: if_not_P split: if_split) blast
next
  case False
  then show ?thesis
    by (simp add: countExtraSegmentsOfPath_def skip_front_beyond skip_back_beyond strip_slashes_def)
qed

subsection \<open>Netmask\<close>

lemma all_ones_32: "(0xffffffff :: 32 word) = - 1"
  by simp

lemma netmask_value_eq:
  assumes "1 \<le> n" "n \<le> 32"
  shows "netmask_value (of_nat n) = Some (- (2 ^ (32 - n)))"
proof -
  have "unat (32 - of_nat n :: 32 word) = 32 - n"
  proof -
    have "(of_nat (32 - n) :: 32 word) = of_nat 32 - of_nat n"
      using assms by (simp only: of_nat_diff)
    then have "(32 - of_nat n :: 32 word) = of_nat (32 - n)" by simp
    moreover have "(32 - n) mod 2 ^ 32 = 32 - n" by (rule mod_less) simp
    ultimately show ?thesis by (simp only: unat_of_nat len_num1 len_bit0 mult_1_right) simp
  qed
  with assms show ?thesis
    unfolding netmask_value_def Let_def all_ones_32 by (simp add: push_bit_eq_mult)
qed

lemma unat_neg_pow: "k < 32 \<Longrightarrow> unat (- (2 ^ k) :: 32 word) = 2 ^ 32 - 2 ^ k"
proof -
  assume k: "k < 32"
  have lt: "(2::nat) ^ k < 2 ^ 32" using k by (intro power_strict_increasing) auto
  then have "(of_nat (2 ^ 32 - 2 ^ k) :: 32 word) = of_nat (2 ^ 32) - of_nat (2 ^ k)"
    by (simp only: of_nat_diff less_imp_le)
  then have "(- (2 ^ k) :: 32 word) = of_nat (2 ^ 32 - 2 ^ k)" by simp
  moreover have "(2 ^ 32 - 2 ^ k) mod 2 ^ 32 = (2 ^ 32 - 2 ^ k :: nat)"
    by (rule mod_less) simp
  ultimately show ?thesis by (simp only: unat_of_nat) simp
qed

text \<open>The dotted quad of a 32-bit value.\<close>

definition dotted :: "nat \<Rightarrow> string" where
  "dotted v = dec_nat (v div 2 ^ 24 mod 256) @ ''.'' @ dec_nat (v div 2 ^ 16 mod 256) @ ''.'' @
              dec_nat (v div 2 ^ 8 mod 256) @ ''.'' @ dec_nat (v mod 256)"

lemma unat_octet: "unat (drop_bit k (w :: 32 word) AND 0xff) = unat w div 2 ^ k mod 256"
proof -
  have "(0xff :: 32 word) = mask 8" by (simp add: mask_eq_exp_minus_1)
  then have octet: "drop_bit k w AND 0xff = take_bit 8 (drop_bit k w)"
    by (simp only: take_bit_eq_mask)
  show ?thesis
    unfolding octet
    unfolding unsigned_take_bit_eq unat_drop_bit_eq
    unfolding take_bit_eq_mod drop_bit_eq_div by simp
qed

lemma getNetmask_dotted:
  "netmask_value b = Some v \<Longrightarrow> getNetmask b = Some (dotted (unat v))"
  using unat_octet [of 0 v] by (simp add: getNetmask_def dotted_def unat_octet)

subsection \<open>Properties\<close>

text \<open>\<open>urlEncode\<close> loses nothing and is safe in a header: percent-decoding its
  result gives the input back, and the result holds only unreserved characters and
  percent signs, for every byte string.\<close>

theorem urlEncode_roundtrip:
  "urlDecode (urlEncode s) = s \<and>
   set (urlEncode s) \<subseteq> insert CHR ''%'' {c. url_unreserved c}"
  using urlDecode_urlEncode urlEncode_chars by blast

text \<open>The \<open>getline\<close> loop of \<open>splitToVector\<close> cuts its input at every delimiter and
  nowhere else: joining the pieces with the delimiter gives the input back (a trailing
  delimiter included), no piece contains the delimiter, and there is one piece more than
  there are delimiters.\<close>

theorem splitToVector_join:
  "join_with d (splitToVector s d) = s \<and>
   d \<notin> \<Union> (set ` set (splitToVector s d)) \<and>
   length (splitToVector s d) = count_list s d + 1"
  by (rule splitToVector_facts)

text \<open>The index loops of \<open>countExtraSegmentsOfPath\<close> count the segments of the part
  of the path behind the namespace, leading and trailing slashes left out: the number of
  pieces \<open>splitToVector\<close> cuts that part into, and 0 when nothing is left (also when
  the path is shorter than the namespace).\<close>

theorem countExtraSegments_counts_segments:
  "countExtraSegmentsOfPath ns path =
     (let m = strip_slashes (drop (length ns) path)
      in if m = [] then 0 else int (length (splitToVector m CHR ''/'')))"
  using splitToVector_facts [where d = "CHR ''/''" and s = "strip_slashes (drop (length ns) path)"]
  by (simp add: countExtraSegments_strip Let_def)

text \<open>For a prefix length from 1 to 32 the 32-bit shift of \<open>getNetmask\<close> sets exactly
  that many leading bits, and the text is the dotted quad of the mask.\<close>

theorem getNetmask_prefix:
  assumes "1 \<le> n" and "n \<le> 32"
  shows "getNetmask (of_nat n) = Some (dotted (2 ^ 32 - 2 ^ (32 - n)))"
proof -
  have "unat (- (2 ^ (32 - n)) :: 32 word) = 2 ^ 32 - 2 ^ (32 - n)"
    using assms by (intro unat_neg_pow) simp
  with getNetmask_dotted [OF netmask_value_eq [OF assms]] show ?thesis by simp
qed

theorem getNetmask_prefix_witness:
  "getNetmask 20 = Some (dotted (2 ^ 32 - 2 ^ 12)) \<and> dotted (2 ^ 32 - 2 ^ 12) = ''255.255.240.0''"
  using getNetmask_prefix [of 20] by (simp add: dotted_def dec_nat.simps)

end
