(* ===== verification/Session.thy ===== *)
theory Session
  imports Json Utils
begin

text \<open>
  \<open>src/service/session.hpp\<close> and \<open>session.cpp\<close>: the store of user sessions, and the
  configuration files through which it is shared with the other web server process and
  survives a restart.
  The state is a \<open>world\<close>: the store, the system UUID and the file system below the two
  configuration directories. Parameters: the clock (\<open>now\<close>, in nanoseconds of the steady
  clock; all reads of one operation see one instant), the random draws
  \<open>dist (gen)\<close> with the generator's error flag, \<open>uuid_generate_time_safe\<close>, and the JSON
  library's \<open>parse\<close> and \<open>dump\<close>. \<open>dump\<close> is the text that reached the file and the
  exception that ended it, if any. Opening and creating files succeeds.
\<close>

section \<open>State\<close>

datatype persistence_type = TIMEOUT | SINGLE_REQUEST

datatype storage_type =
    configLongTermStorage
  | configCurrentBmcSession
  | configCurrentServiceSession

record user_session =
  uniqueId :: string
  sessionToken :: string
  username :: string
  csrfToken :: string
  clientId :: string
  clientIp :: string
  lastUpdated :: int
  persistence :: persistence_type
  cookieAuth :: bool
  isConfigureSelfOnly :: bool
  storageType :: storage_type
  obmcSessionId :: string

record auth_methods =
  xtoken :: bool
  cookie :: bool
  sessionTokenAuth :: bool
  basic :: bool
  tls :: bool

record session_store =
  authTokens :: "(string \<times> user_session) list"
  lastTimeoutUpdate :: int
  timeoutInSeconds :: "64 word"
  authMethodsConfig :: auth_methods

record file_system =
  files :: "(string \<times> string) list"
  directories :: "string list"
  permissions :: "(string \<times> nat) list"

record world =
  store :: session_store
  systemUuid :: string
  fs :: file_system

text \<open>An operation that may throw leaves the state it reached.\<close>

type_synonym 'a action = "world \<Rightarrow> 'a may_throw \<times> world"

definition and_then :: "'a action \<Rightarrow> ('a \<Rightarrow> 'b action) \<Rightarrow> 'b action" where
  "and_then m f w = (case m w of (Inl e, w') \<Rightarrow> (Inl e, w') | (Inr a, w') \<Rightarrow> f a w')"

text \<open>The library's text functions.\<close>

record codec =
  parse :: "string \<Rightarrow> json"
  dump :: "json \<Rightarrow> string \<times> cpp_exn option"

definition sessionTokenSize :: nat where
  "sessionTokenSize = 20"

definition new_user_session :: user_session where
  "new_user_session =
     \<lparr>uniqueId = [], sessionToken = [], username = [], csrfToken = [], clientId = [], clientIp = [],
      lastUpdated = 0, persistence = TIMEOUT, cookieAuth = False, isConfigureSelfOnly = False,
      storageType = configCurrentServiceSession, obmcSessionId = []\<rparr>"

definition new_auth_methods :: auth_methods where
  "new_auth_methods = \<lparr>xtoken = True, cookie = True, sessionTokenAuth = True, basic = True, tls = False\<rparr>"

definition new_session_store :: session_store where
  "new_session_store =
     \<lparr>authTokens = [], lastTimeoutUpdate = 0, timeoutInSeconds = 3600,
      authMethodsConfig = new_auth_methods\<rparr>"

text \<open>A process that has just started over a file system.\<close>

definition new_process :: "file_system \<Rightarrow> world" where
  "new_process f = \<lparr>store = new_session_store, systemUuid = [], fs = f\<rparr>"

definition upd_store :: "(session_store \<Rightarrow> session_store) \<Rightarrow> world \<Rightarrow> world" where
  "upd_store f w = w\<lparr>store := f (store w)\<rparr>"

definition tokens :: "world \<Rightarrow> (string \<times> user_session) list" where
  "tokens w = authTokens (store w)"

section \<open>Reading a session and the authentication methods from JSON\<close>

text \<open>One member of the object; a value that is no string, or an unknown key, is skipped.\<close>

definition session_field :: "string \<times> json \<Rightarrow> user_session \<Rightarrow> user_session" where
  "session_field element s =
     (case get_string_ptr (snd element) of
        None \<Rightarrow> s
      | Some thisValue \<Rightarrow>
          (if fst element = ''unique_id'' then s\<lparr>uniqueId := thisValue\<rparr>
           else if fst element = ''session_token'' then s\<lparr>sessionToken := thisValue\<rparr>
           else if fst element = ''csrf_token'' then s\<lparr>csrfToken := thisValue\<rparr>
           else if fst element = ''username'' then s\<lparr>username := thisValue\<rparr>
           else if fst element = ''client_ip'' then s\<lparr>clientIp := thisValue\<rparr>
           else s))"

definition session_fromJson :: "int \<Rightarrow> json \<Rightarrow> user_session option" where
  "session_fromJson now j =
     (let userSession = fold session_field (json_items j) new_user_session
      in if uniqueId userSession = [] \<or> username userSession = [] \<or>
            sessionToken userSession = [] \<or> csrfToken userSession = []
         then None
         else Some (userSession\<lparr>lastUpdated := now, persistence := TIMEOUT\<rparr>))"

definition auth_method_field :: "string \<times> json \<Rightarrow> auth_methods \<Rightarrow> auth_methods" where
  "auth_method_field element a =
     (case get_bool (snd element) of
        None \<Rightarrow> a
      | Some b \<Rightarrow>
          (if fst element = ''XToken'' then a\<lparr>xtoken := b\<rparr>
           else if fst element = ''Cookie'' then a\<lparr>cookie := b\<rparr>
           else if fst element = ''SessionToken'' then a\<lparr>sessionTokenAuth := b\<rparr>
           else if fst element = ''BasicAuth'' then a\<lparr>basic := b\<rparr>
           else if fst element = ''TLS'' then a\<lparr>tls := b\<rparr>
           else a))"

definition auth_methods_fromJson :: "json \<Rightarrow> auth_methods \<Rightarrow> auth_methods" where
  "auth_methods_fromJson j a = fold auth_method_field (json_items j) a"

section \<open>The store\<close>

definition restore :: "user_session \<Rightarrow> session_store \<Rightarrow> session_store" where
  "restore session st = st\<lparr>authTokens := um_emplace (sessionToken session) session (authTokens st)\<rparr>"

definition expired :: "int \<Rightarrow> session_store \<Rightarrow> user_session \<Rightarrow> bool" where
  "expired now st s \<longleftrightarrow> now - lastUpdated s \<ge> sint (timeoutInSeconds st) * 10 ^ 9"

definition applySessionTimeouts :: "int \<Rightarrow> session_store \<Rightarrow> session_store" where
  "applySessionTimeouts now st =
     (if now - lastTimeoutUpdate st > 10 ^ 9
      then st\<lparr>lastTimeoutUpdate := now,
             authTokens := filter (\<lambda>(_, s). \<not> expired now st s) (authTokens st)\<rparr>
      else st)"

definition loginSessionByToken ::
    "int \<Rightarrow> string \<Rightarrow> session_store \<Rightarrow> user_session option \<times> session_store" where
  "loginSessionByToken now token st0 =
     (let st = applySessionTimeouts now st0
      in if length token \<noteq> sessionTokenSize then (None, st)
         else (case map_of (authTokens st) token of
                 None \<Rightarrow> (None, st)
               | Some s \<Rightarrow>
                   (let userSession = s\<lparr>lastUpdated := now\<rparr>
                    in (Some userSession,
                        st\<lparr>authTokens := um_assign token userSession (authTokens st)\<rparr>))))"

definition getSessionByUid ::
    "int \<Rightarrow> string \<Rightarrow> session_store \<Rightarrow> user_session option \<times> session_store" where
  "getSessionByUid now uid st0 =
     (let st = applySessionTimeouts now st0
      in (map_option snd (List.find (\<lambda>(_, s). uniqueId s = uid) (authTokens st)), st))"

definition getUniqueIds ::
    "int \<Rightarrow> bool \<Rightarrow> persistence_type \<Rightarrow> session_store \<Rightarrow> string list \<times> session_store" where
  "getUniqueIds now getAll type st0 =
     (let st = applySessionTimeouts now st0
      in (map (\<lambda>(_, s). uniqueId s)
            (filter (\<lambda>(_, s). getAll \<or> type = persistence s) (authTokens st)), st))"

definition updateAuthMethodsConfig :: "auth_methods \<Rightarrow> session_store \<Rightarrow> session_store" where
  "updateAuthMethodsConfig config st = st\<lparr>authMethodsConfig := config\<rparr>"

definition updateSessionTimeout :: "64 word \<Rightarrow> session_store \<Rightarrow> session_store" where
  "updateSessionTimeout newTimeout st = st\<lparr>timeoutInSeconds := newTimeout\<rparr>"

definition getTimeoutInSeconds :: "session_store \<Rightarrow> 64 word" where
  "getTimeoutInSeconds st = timeoutInSeconds st"

section \<open>The configuration files\<close>

definition configFilePathDict :: "(storage_type \<times> string \<times> string) list" where
  "configFilePathDict =
     [(configLongTermStorage, ''/home/root'', ''bmcweb_persistent_data.json''),
      (configCurrentBmcSession, ''/tmp/bmcweb_metadata'', ''sessions.json'')]"

text \<open>\<open>owner_read | owner_write | group_read\<close>, 640 in octal.\<close>

definition configPermission :: nat where
  "configPermission = 256 + 128 + 32"

definition createConfigPath :: "string \<Rightarrow> file_system \<Rightarrow> file_system" where
  "createConfigPath configPath f =
     (if configPath \<in> set (directories f) then f
      else f\<lparr>directories := configPath # directories f,
             permissions := um_assign configPath configPermission (permissions f)\<rparr>)"

subsection \<open>What is written\<close>

definition populateRevision :: "world \<Rightarrow> json \<Rightarrow> json may_throw" where
  "populateRevision w config = json_put ''revision'' (JUint 1) config"

definition populateSystemUUID :: "world \<Rightarrow> json \<Rightarrow> json may_throw" where
  "populateSystemUUID w config = json_put ''system_uuid'' (JString (systemUuid w)) config"

definition auth_methods_json :: "auth_methods \<Rightarrow> json" where
  "auth_methods_json a = json_object
     [(''XToken'', JBool (xtoken a)),
      (''Cookie'', JBool (cookie a)),
      (''SessionToken'', JBool (sessionTokenAuth a)),
      (''BasicAuth'', JBool (basic a)),
      (''TLS'', JBool (tls a))]"

definition populateAuthConfig :: "world \<Rightarrow> json \<Rightarrow> json may_throw" where
  "populateAuthConfig w config =
     json_put ''auth_config'' (auth_methods_json (authMethodsConfig (store w))) config"

definition populateTimeout :: "world \<Rightarrow> json \<Rightarrow> json may_throw" where
  "populateTimeout w config = json_put ''timeout'' (JInt (getTimeoutInSeconds (store w))) config"

definition session_json :: "user_session \<Rightarrow> json" where
  "session_json s = json_object
     [(''unique_id'', JString (uniqueId s)),
      (''session_token'', JString (sessionToken s)),
      (''username'', JString (username s)),
      (''csrf_token'', JString (csrfToken s)),
      (''client_ip'', JString (clientIp s))]"

definition persisted :: "storage_type \<Rightarrow> user_session \<Rightarrow> bool" where
  "persisted ty s \<longleftrightarrow> persistence s \<noteq> SINGLE_REQUEST \<and> storageType s = ty"

definition populateSessions :: "storage_type \<Rightarrow> world \<Rightarrow> json \<Rightarrow> json may_throw" where
  "populateSessions ty w config =
     json_put ''sessions''
       (JArray (map (\<lambda>(_, s). session_json s) (filter (\<lambda>(_, s). persisted ty s) (tokens w)))) config"

fun configPopulatHandlersDict :: "storage_type \<Rightarrow> (world \<Rightarrow> json \<Rightarrow> json may_throw) list option" where
  "configPopulatHandlersDict configLongTermStorage =
     Some [populateRevision, populateAuthConfig, populateSystemUUID, populateTimeout,
           populateSessions configLongTermStorage]"
| "configPopulatHandlersDict configCurrentBmcSession =
     Some [populateRevision, populateSessions configCurrentBmcSession]"
| "configPopulatHandlersDict configCurrentServiceSession = None"

fun run_handlers :: "(world \<Rightarrow> json \<Rightarrow> json may_throw) list \<Rightarrow> world \<Rightarrow> json \<Rightarrow> json may_throw" where
  "run_handlers [] w data = Inr data"
| "run_handlers (h # hs) w data =
     (case h w data of Inl e \<Rightarrow> Inl e | Inr data' \<Rightarrow> run_handlers hs w data')"

text \<open>Opening the stream creates or truncates the file before the data is built.\<close>

definition writeData :: "codec \<Rightarrow> storage_type \<Rightarrow> string \<Rightarrow> string \<Rightarrow> unit action" where
  "writeData c ty configPath configFileName w =
     (let f0 = createConfigPath configPath (fs w);
          name = configPath @ ''/'' @ configFileName;
          f1 = f0\<lparr>files := um_assign name [] (files f0),
                  permissions := um_assign name configPermission (permissions f0)\<rparr>;
          w1 = w\<lparr>fs := f1\<rparr>
      in case configPopulatHandlersDict ty of
           None \<Rightarrow> (Inl Out_of_range, w1)
         | Some handlersDict \<Rightarrow>
             (case run_handlers handlersDict w1 JNull of
                Inl e \<Rightarrow> (Inl e, w1)
              | Inr data \<Rightarrow>
                  (let (text, err) = dump c data;
                       w2 = w1\<lparr>fs := f1\<lparr>files := um_assign name text (files f1)\<rparr>\<rparr>
                   in (case err of Some e \<Rightarrow> (Inl e, w2) | None \<Rightarrow> (Inr (), w2)))))"

fun for_each_config ::
    "(storage_type \<Rightarrow> string \<Rightarrow> string \<Rightarrow> unit action) \<Rightarrow> (storage_type \<times> string \<times> string) list \<Rightarrow>
     unit action" where
  "for_each_config f [] w = (Inr (), w)"
| "for_each_config f ((ty, path, name) # rest) w =
     and_then (f ty path name) (\<lambda>_. for_each_config f rest) w"

definition commit :: "codec \<Rightarrow> unit action" where
  "commit c w = for_each_config (writeData c) configFilePathDict w"

subsection \<open>What is read\<close>

definition read_session :: "int \<Rightarrow> storage_type \<Rightarrow> json \<Rightarrow> session_store \<Rightarrow> session_store" where
  "read_session now ty elem st =
     (case session_fromJson now elem of
        None \<Rightarrow> st
      | Some session \<Rightarrow> restore (session\<lparr>storageType := ty\<rparr>) st)"

definition read_item :: "int \<Rightarrow> storage_type \<Rightarrow> string \<times> json \<Rightarrow> world \<Rightarrow> world" where
  "read_item now ty item w =
     (if fst item = ''system_uuid'' then
        (case get_string_ptr (snd item) of None \<Rightarrow> w | Some u \<Rightarrow> w\<lparr>systemUuid := u\<rparr>)
      else if fst item = ''auth_config'' then
        upd_store (\<lambda>st. st\<lparr>authMethodsConfig :=
          auth_methods_fromJson (snd item) (authMethodsConfig st)\<rparr>) w
      else if fst item = ''sessions'' then
        upd_store (fold (read_session now ty) (json_elems (snd item))) w
      else if fst item = ''timeout'' then
        (case get_int64_ptr (snd item) of
           None \<Rightarrow> w
         | Some t \<Rightarrow> upd_store (updateSessionTimeout (word_of_int t)) w)
      else w)"

definition readDataFile ::
    "codec \<Rightarrow> string \<Rightarrow> int \<Rightarrow> storage_type \<Rightarrow> string \<Rightarrow> string \<Rightarrow> unit action" where
  "readDataFile c fresh now ty configPath configFileName w =
     (let generate_uuid = (\<lambda>w1. if systemUuid w1 = [] then commit c (w1\<lparr>systemUuid := fresh\<rparr>)
                                 else (Inr (), w1))
      in case map_of (files (fs w)) (configPath @ ''/'' @ configFileName) of
           None \<Rightarrow> generate_uuid w
         | Some text \<Rightarrow>
             (let data = parse c text
              in if data = JDiscarded then (Inr (), w)
                 else generate_uuid (fold (read_item now ty) (json_items data) w)))"

definition readData :: "codec \<Rightarrow> string \<Rightarrow> int \<Rightarrow> unit action" where
  "readData c fresh now w = for_each_config (readDataFile c fresh now) configFilePathDict w"

section \<open>Operations that write the files\<close>

definition storeAuthToken :: "codec \<Rightarrow> string \<Rightarrow> user_session \<Rightarrow> user_session action" where
  "storeAuthToken c token session w =
     (let w1 = upd_store (\<lambda>st. st\<lparr>authTokens := um_emplace token session (authTokens st)\<rparr>) w
      in and_then (commit c)
           (\<lambda>_ w2. (Inr (case map_of (tokens w1) token of Some s \<Rightarrow> s | None \<Rightarrow> session), w2)) w1)"

definition removeSession :: "codec \<Rightarrow> user_session \<Rightarrow> unit action" where
  "removeSession c session w =
     commit c (upd_store (\<lambda>st. st\<lparr>authTokens := um_erase (sessionToken session) (authTokens st)\<rparr>) w)"

definition alphanum :: string where
  "alphanum = ''0123456789ABCDEFGHIJKLMNOPQRSTUVWXYZabcdefghijklmnopqrstuvwxyz''"

text \<open>
  \<open>n\<close> characters from the draws \<open>i\<close>, \<open>i + 1\<close>, ...; \<open>draw i = None\<close> is a draw after which
  the generator's error flag is set, which ends the loop.
\<close>

fun draw_chars :: "(nat \<Rightarrow> nat option) \<Rightarrow> nat \<Rightarrow> nat \<Rightarrow> string option" where
  "draw_chars draw i 0 = Some []"
| "draw_chars draw i (Suc n) =
     (case draw i of
        None \<Rightarrow> None
      | Some k \<Rightarrow> (case draw_chars draw (Suc i) n of
                     None \<Rightarrow> None
                   | Some cs \<Rightarrow> Some (alphanum ! k # cs)))"

definition generateUserSession ::
    "codec \<Rightarrow> (nat \<Rightarrow> nat option) \<Rightarrow> int \<Rightarrow> string \<Rightarrow> persistence_type \<Rightarrow> bool \<Rightarrow> string \<Rightarrow> string \<Rightarrow>
     storage_type \<Rightarrow> user_session option action" where
  "generateUserSession c draw now user pers selfOnly client ip ty w =
     (case draw_chars draw 0 sessionTokenSize of
        None \<Rightarrow> (Inr None, w)
      | Some tok \<Rightarrow>
     (case draw_chars draw sessionTokenSize sessionTokenSize of
        None \<Rightarrow> (Inr None, w)
      | Some csrf \<Rightarrow>
     (case draw_chars draw (2 * sessionTokenSize) 10 of
        None \<Rightarrow> (Inr None, w)
      | Some uid \<Rightarrow>
          (let session = \<lparr>uniqueId = uid, sessionToken = tok, username = user, csrfToken = csrf,
                          clientId = client, clientIp = ip, lastUpdated = now, persistence = pers,
                          cookieAuth = False, isConfigureSelfOnly = selfOnly, storageType = ty,
                          obmcSessionId = []\<rparr>
           in and_then (storeAuthToken c tok session) (\<lambda>s w'. (Inr (Some s), w')) w))))"

definition newBasicAuthSession ::
    "codec \<Rightarrow> (nat \<Rightarrow> nat option) \<Rightarrow> int \<Rightarrow> string \<Rightarrow> bool \<Rightarrow> string \<Rightarrow> user_session option action" where
  "newBasicAuthSession c draw now user selfOnly ip =
     generateUserSession c draw now user SINGLE_REQUEST selfOnly ip ip configLongTermStorage"

definition newStandardLoginSession ::
    "codec \<Rightarrow> (nat \<Rightarrow> nat option) \<Rightarrow> int \<Rightarrow> string \<Rightarrow> bool \<Rightarrow> string \<Rightarrow> user_session option action" where
  "newStandardLoginSession c draw now user selfOnly ip =
     generateUserSession c draw now user TIMEOUT selfOnly ip ip configCurrentBmcSession"

end
