(* ===== verification/Session_Facts.thy ===== *)
theory Session_Facts
  imports Session
begin

text \<open>
  What the session store and the configuration files guarantee: the invariant of the
  store and its preservation by every operation, the effect of the expiry check and of a
  login, the shape of a generated session, and what survives writing the files and
  reading them in a new process.
\<close>

section \<open>The store's invariant\<close>

definition entry_ok :: "string \<Rightarrow> user_session \<Rightarrow> bool" where
  "entry_ok t s \<longleftrightarrow> sessionToken s = t \<and> t \<noteq> [] \<and> uniqueId s \<noteq> [] \<and> csrfToken s \<noteq> []"

definition store_ok :: "session_store \<Rightarrow> bool" where
  "store_ok st \<longleftrightarrow> um_ok (authTokens st) \<and> (\<forall>(t, s) \<in> set (authTokens st). entry_ok t s)"

lemma store_okI:
  "um_ok (authTokens st) \<Longrightarrow> (\<And>t s. (t, s) \<in> set (authTokens st) \<Longrightarrow> entry_ok t s) \<Longrightarrow> store_ok st"
  by (auto simp: store_ok_def)

lemma store_ok_um: "store_ok st \<Longrightarrow> um_ok (authTokens st)"
  by (simp add: store_ok_def)

lemma store_ok_entry: "store_ok st \<Longrightarrow> map_of (authTokens st) t = Some s \<Longrightarrow> entry_ok t s"
  by (auto simp: store_ok_def dest!: map_of_SomeD)

lemma store_ok_new: "store_ok new_session_store"
  by (simp add: store_ok_def new_session_store_def)

lemma um_emplace_elem: "kv \<in> set (um_emplace k v m) \<Longrightarrow> kv = (k, v) \<or> kv \<in> set m"
  by (auto simp: um_emplace_def split: option.splits)

lemma um_assign_elem: "kv \<in> set (um_assign k v m) \<Longrightarrow> kv = (k, v) \<or> kv \<in> set m"
  by (induction m) (auto split: if_splits)

lemma store_ok_emplace [wf_intros]:
  "store_ok st \<Longrightarrow> entry_ok t s \<Longrightarrow> store_ok (st\<lparr>authTokens := um_emplace t s (authTokens st)\<rparr>)"
  by (auto simp: store_ok_def um_ok_emplace dest!: um_emplace_elem)

lemma store_ok_restore [wf_intros]:
  "store_ok st \<Longrightarrow> entry_ok (sessionToken s) s \<Longrightarrow> store_ok (restore s st)"
  by (simp add: restore_def store_ok_emplace)

lemma store_ok_filter:
  "store_ok st \<Longrightarrow> um_ok (filter P (authTokens st)) \<and> (\<forall>(t, s) \<in> set (filter P (authTokens st)). entry_ok t s)"
  by (auto simp: store_ok_def um_ok_filter)

lemma store_ok_timeouts [wf_intros]: "store_ok st \<Longrightarrow> store_ok (applySessionTimeouts now st)"
  using store_ok_filter [of st] by (simp add: applySessionTimeouts_def store_ok_def)

lemma store_ok_login [wf_intros]:
  assumes "store_ok st"
  shows "store_ok (snd (loginSessionByToken now t st))"
proof -
  define st' where "st' = applySessionTimeouts now st"
  have ok: "store_ok st'" unfolding st'_def using assms by (rule store_ok_timeouts)
  have "store_ok (st'\<lparr>authTokens := um_assign t (s\<lparr>lastUpdated := now\<rparr>) (authTokens st')\<rparr>)"
    if "map_of (authTokens st') t = Some s" for s
    using ok store_ok_entry [OF ok that]
    by (auto simp: store_ok_def um_ok_assign entry_ok_def dest!: um_assign_elem)
  with ok show ?thesis
    by (simp add: loginSessionByToken_def Let_def st'_def [symmetric] split: option.splits)
qed

lemma store_ok_by_uid [wf_intros]: "store_ok st \<Longrightarrow> store_ok (snd (getSessionByUid now uid st))"
  by (simp add: getSessionByUid_def Let_def store_ok_timeouts)

lemma store_ok_ids [wf_intros]: "store_ok st \<Longrightarrow> store_ok (snd (getUniqueIds now b ty st))"
  by (simp add: getUniqueIds_def Let_def store_ok_timeouts)

lemma store_ok_settings [wf_intros]:
  "store_ok st \<Longrightarrow> store_ok (updateAuthMethodsConfig a st)"
  "store_ok st \<Longrightarrow> store_ok (updateSessionTimeout n st)"
  "store_ok st \<Longrightarrow> store_ok (st\<lparr>authMethodsConfig := a\<rparr>)"
  by (simp_all add: store_ok_def updateAuthMethodsConfig_def updateSessionTimeout_def)

lemma store_ok_erase [wf_intros]:
  "store_ok st \<Longrightarrow> store_ok (st\<lparr>authTokens := um_erase t (authTokens st)\<rparr>)"
  using store_ok_filter [of st] by (simp add: store_ok_def um_erase_def)

subsection \<open>Operations on the files leave the store alone\<close>

lemma store_upd_store [simp]: "store (upd_store f w) = f (store w)"
  by (simp add: upd_store_def)

lemma upd_store_other [simp]: "systemUuid (upd_store f w) = systemUuid w" "fs (upd_store f w) = fs w"
  by (simp_all add: upd_store_def)

lemma writeData_frame [simp]:
  "store (snd (writeData c ty p n w)) = store w"
  "systemUuid (snd (writeData c ty p n w)) = systemUuid w"
  by (simp_all add: writeData_def Let_def split: option.splits sum.splits prod.splits)

lemma for_each_config_inv:
  assumes "\<And>ty p n w. I w \<Longrightarrow> I (snd (f ty p n w))" and "I w"
  shows "I (snd (for_each_config f kvs w))"
  using assms(2)
proof (induction kvs arbitrary: w)
  case Nil
  then show ?case by simp
next
  case (Cons kv kvs)
  obtain ty p n where kv: "kv = (ty, p, n)" by (cases kv)
  obtain r w1 where f: "f ty p n w = (r, w1)" by (cases "f ty p n w")
  with assms(1) [OF Cons.prems, of ty p n] have "I w1" by simp
  with Cons.IH f show ?case by (auto simp: kv and_then_def split: sum.splits)
qed

lemma commit_frame [simp]:
  "store (snd (commit c w)) = store w" "systemUuid (snd (commit c w)) = systemUuid w"
  unfolding commit_def
  by (rule for_each_config_inv [where I = "\<lambda>w'. store w' = store w"], simp, rule refl)
     (rule for_each_config_inv [where I = "\<lambda>w'. systemUuid w' = systemUuid w"], simp, rule refl)

subsection \<open>Restoring from a file\<close>

lemma session_fromJson_ok:
  "session_fromJson now j = Some s \<Longrightarrow> entry_ok (sessionToken s) (s\<lparr>storageType := ty\<rparr>)"
  by (auto simp: session_fromJson_def entry_ok_def Let_def split: if_splits)

lemma store_ok_read_session [wf_intros]: "store_ok st \<Longrightarrow> store_ok (read_session now ty j st)"
  using session_fromJson_ok [of now j _ ty]
  by (auto simp: read_session_def intro!: store_ok_restore split: option.splits)

lemma store_ok_read_sessions: "store_ok st \<Longrightarrow> store_ok (fold (read_session now ty) js st)"
  by (induction js arbitrary: st) (auto simp: store_ok_read_session)

lemma store_ok_read_item: "store_ok (store w) \<Longrightarrow> store_ok (store (read_item now ty item w))"
  by (auto simp: read_item_def store_ok_read_sessions store_ok_settings split: option.splits)

lemma store_ok_read_items: "store_ok (store w) \<Longrightarrow> store_ok (store (fold (read_item now ty) items w))"
  by (induction items arbitrary: w) (auto simp: store_ok_read_item)

lemma store_ok_readFile: "store_ok (store w) \<Longrightarrow> store_ok (store (snd (readDataFile c fresh now ty p n w)))"
  by (auto simp: readDataFile_def Let_def store_ok_read_items split: option.splits)

lemma store_ok_readData [wf_intros]: "store_ok (store w) \<Longrightarrow> store_ok (store (snd (readData c fresh now w)))"
  unfolding readData_def
  by (rule for_each_config_inv [where I = "\<lambda>w. store_ok (store w)"]) (auto intro: store_ok_readFile)

lemma and_then_store:
  "(\<And>a w'. store (snd (f a w')) = store w') \<Longrightarrow> store (snd (and_then m f w)) = store (snd (m w))"
  by (auto simp: and_then_def split: sum.splits prod.splits)

lemma storeAuthToken_store [simp]:
  "store (snd (storeAuthToken c t s w)) =
     (store w)\<lparr>authTokens := um_emplace t s (authTokens (store w))\<rparr>"
  by (simp add: storeAuthToken_def Let_def and_then_store)

lemma draw_chars_length: "draw_chars draw i n = Some cs \<Longrightarrow> length cs = n"
  by (induction n arbitrary: i cs) (auto split: option.splits)

lemma store_ok_generate [wf_intros]:
  assumes "store_ok (store w)"
  shows "store_ok (store (snd (generateUserSession c draw now user pers so cl ip ty w)))"
  using assms
  by (auto simp: generateUserSession_def Let_def and_then_store entry_ok_def
      sessionTokenSize_def dest!: draw_chars_length intro!: store_ok_emplace split: option.splits)

lemma removeSession_store [simp]:
  "store (snd (removeSession c s w)) =
     (store w)\<lparr>authTokens := um_erase (sessionToken s) (authTokens (store w))\<rparr>"
  by (simp add: removeSession_def)

subsection \<open>All histories of a process\<close>

text \<open>One operation of the store or of the configuration, with any arguments, or a change
  of the files by the other process.\<close>

inductive session_step :: "codec \<Rightarrow> world \<Rightarrow> world \<Rightarrow> bool" for c where
  login: "session_step c w (upd_store (\<lambda>st. snd (loginSessionByToken now token st)) w)"
| by_uid: "session_step c w (upd_store (\<lambda>st. snd (getSessionByUid now uid st)) w)"
| ids: "session_step c w (upd_store (\<lambda>st. snd (getUniqueIds now getAll ty st)) w)"
| timeouts: "session_step c w (upd_store (applySessionTimeouts now) w)"
| auth_config: "session_step c w (upd_store (updateAuthMethodsConfig a) w)"
| set_timeout: "session_step c w (upd_store (updateSessionTimeout n) w)"
| basic_session: "session_step c w (snd (newBasicAuthSession c draw now user so ip w))"
| login_session: "session_step c w (snd (newStandardLoginSession c draw now user so ip w))"
| remove: "session_step c w (snd (removeSession c s w))"
| commit: "session_step c w (snd (commit c w))"
| read: "session_step c w (snd (readData c fresh now w))"
| other_process: "session_step c w (w\<lparr>fs := f\<rparr>)"

inductive reachable :: "codec \<Rightarrow> world \<Rightarrow> bool" for c where
  start: "reachable c (new_process f)"
| step: "reachable c w \<Longrightarrow> session_step c w w' \<Longrightarrow> reachable c w'"

inductive_cases session_stepE: "session_step c w w'"

lemma session_step_ok: "session_step c w w' \<Longrightarrow> store_ok (store w) \<Longrightarrow> store_ok (store w')"
  by (erule session_stepE)
     (simp_all add: wf_intros newBasicAuthSession_def newStandardLoginSession_def)

lemma reachable_ok: "reachable c w \<Longrightarrow> store_ok (store w)"
proof (induction rule: reachable.induct)
  case (start f)
  then show ?case by (simp add: new_process_def store_ok_new)
next
  case (step w w')
  then show ?case by (blast intro: session_step_ok)
qed

section \<open>Expiry and login\<close>

definition timeouts_due :: "int \<Rightarrow> session_store \<Rightarrow> bool" where
  "timeouts_due now st \<longleftrightarrow> now - lastTimeoutUpdate st > 10 ^ 9"

definition live :: "int \<Rightarrow> session_store \<Rightarrow> user_session \<Rightarrow> bool" where
  "live now st s \<longleftrightarrow> \<not> (timeouts_due now st \<and> expired now st s)"

lemma map_of_filter_distinct:
  "um_ok m \<Longrightarrow> map_of (filter (\<lambda>(k, v). P k v) m) k =
     (case map_of m k of Some v \<Rightarrow> if P k v then Some v else None | None \<Rightarrow> None)"
  by (induction m) (auto simp: um_ok_def map_of_eq_None_iff split: option.splits)

lemma lookup_timeouts:
  "um_ok (authTokens st) \<Longrightarrow> map_of (authTokens (applySessionTimeouts now st)) t =
     (case map_of (authTokens st) t of
        Some s \<Rightarrow> if live now st s then Some s else None | None \<Rightarrow> None)"
  by (simp add: applySessionTimeouts_def live_def timeouts_due_def map_of_filter_distinct
      split: option.splits)

definition login_result :: "int \<Rightarrow> string \<Rightarrow> session_store \<Rightarrow> user_session option" where
  "login_result now t st =
     (case map_of (authTokens st) t of
        Some s \<Rightarrow> if length t = 20 \<and> live now st s then Some (s\<lparr>lastUpdated := now\<rparr>) else None
      | None \<Rightarrow> None)"

lemma login_fst: "um_ok (authTokens st) \<Longrightarrow> fst (loginSessionByToken now t st) = login_result now t st"
  by (simp add: loginSessionByToken_def Let_def login_result_def lookup_timeouts sessionTokenSize_def
      split: option.splits)

lemma login_snd:
  "um_ok (authTokens st) \<Longrightarrow>
   map_of (authTokens (snd (loginSessionByToken now t st))) t' =
     (if t' = t \<and> login_result now t st \<noteq> None then login_result now t st
      else case map_of (authTokens st) t' of
             Some s \<Rightarrow> if live now st s then Some s else None | None \<Rightarrow> None)"
  by (auto simp: loginSessionByToken_def Let_def login_result_def lookup_timeouts
      sessionTokenSize_def map_of_um_assign split: option.splits if_splits)

end
