(* ===== verification/Session_Config.thy ===== *)
theory Session_Config
  imports Session_Facts
begin

text \<open>
  What the configuration files hold after \<open>ConfigFile::commit\<close>, and what a process that
  reads them has.
\<close>

section \<open>The configuration files\<close>

definition long_path :: string where
  "long_path = ''/home/root/bmcweb_persistent_data.json''"

definition bmc_path :: string where
  "bmc_path = ''/tmp/bmcweb_metadata/sessions.json''"

lemma paths_differ [simp]: "long_path \<noteq> bmc_path" "bmc_path \<noteq> long_path"
  by (simp_all add: long_path_def bmc_path_def)

text \<open>The two documents, with the members in the order of the map.\<close>

definition sessions_json :: "storage_type \<Rightarrow> world \<Rightarrow> json" where
  "sessions_json ty w =
     JArray (map session_json (map snd (filter (\<lambda>(_, s). persisted ty s) (tokens w))))"

definition long_doc :: "world \<Rightarrow> json" where
  "long_doc w = JObject
     [(''auth_config'', auth_methods_json (authMethodsConfig (store w))),
      (''revision'', JUint 1),
      (''sessions'', sessions_json configLongTermStorage w),
      (''system_uuid'', JString (systemUuid w)),
      (''timeout'', JInt (timeoutInSeconds (store w)))]"

definition bmc_doc :: "world \<Rightarrow> json" where
  "bmc_doc w = JObject
     [(''revision'', JUint 1), (''sessions'', sessions_json configCurrentBmcSession w)]"

lemma run_long:
  "run_handlers [populateRevision, populateAuthConfig, populateSystemUUID, populateTimeout,
     populateSessions configLongTermStorage] w JNull = Inr (long_doc w)"
  by (simp add: populateRevision_def populateAuthConfig_def populateSystemUUID_def
      populateTimeout_def populateSessions_def long_doc_def sessions_json_def getTimeoutInSeconds_def
      comp_def case_prod_beta)

lemma run_bmc:
  "run_handlers [populateRevision, populateSessions configCurrentBmcSession] w JNull = Inr (bmc_doc w)"
  by (simp add: populateRevision_def populateSessions_def bmc_doc_def sessions_json_def
      comp_def case_prod_beta)

section \<open>Writing\<close>

definition write_file :: "string \<Rightarrow> string \<Rightarrow> string \<Rightarrow> file_system \<Rightarrow> file_system" where
  "write_file dir name text f =
     (let f0 = createConfigPath dir f
      in f0\<lparr>files := um_assign name text (um_assign name [] (files f0)),
            permissions := um_assign name configPermission (permissions f0)\<rparr>)"

lemma files_createConfigPath [simp]: "files (createConfigPath dir f) = files f"
  by (simp add: createConfigPath_def)

lemma files_write_file [simp]:
  "map_of (files (write_file dir name text f)) = (map_of (files f))(name \<mapsto> text)"
  by (simp add: write_file_def Let_def map_of_um_assign)

lemma docs_fs [simp]: "long_doc (w\<lparr>fs := f\<rparr>) = long_doc w" "bmc_doc (w\<lparr>fs := f\<rparr>) = bmc_doc w"
  by (simp_all add: long_doc_def bmc_doc_def sessions_json_def tokens_def)

definition write_result :: "codec \<Rightarrow> json \<Rightarrow> string \<Rightarrow> string \<Rightarrow> world \<Rightarrow> unit may_throw \<times> world" where
  "write_result c j dir name w =
     (case snd (dump c j) of None \<Rightarrow> Inr () | Some e \<Rightarrow> Inl e,
      w\<lparr>fs := write_file dir name (fst (dump c j)) (fs w)\<rparr>)"

lemma writeData_long:
  "writeData c configLongTermStorage ''/home/root'' ''bmcweb_persistent_data.json'' w =
     write_result c (long_doc w) ''/home/root'' long_path w"
  unfolding writeData_def configPopulatHandlersDict.simps Let_def option.case run_long
  by (simp add: write_result_def write_file_def long_path_def Let_def split: prod.splits option.splits)

lemma writeData_bmc:
  "writeData c configCurrentBmcSession ''/tmp/bmcweb_metadata'' ''sessions.json'' w =
     write_result c (bmc_doc w) ''/tmp/bmcweb_metadata'' bmc_path w"
  unfolding writeData_def configPopulatHandlersDict.simps Let_def option.case run_bmc
  by (simp add: write_result_def write_file_def bmc_path_def Let_def split: prod.splits option.splits)

lemma commit_unfold:
  "commit c w = and_then (write_result c (long_doc w) ''/home/root'' long_path)
     (\<lambda>_ w1. and_then (write_result c (bmc_doc w) ''/tmp/bmcweb_metadata'' bmc_path)
               (\<lambda>_ w2. (Inr (), w2)) w1) w"
  unfolding commit_def configFilePathDict_def
  by (simp add: writeData_long and_then_def writeData_bmc write_result_def split: option.splits)

lemma commit_success:
  assumes "commit c w = (Inr (), w')"
  shows "snd (dump c (long_doc w)) = None" "snd (dump c (bmc_doc w)) = None"
    and "map_of (files (fs w')) long_path = Some (fst (dump c (long_doc w)))"
    and "map_of (files (fs w')) bmc_path = Some (fst (dump c (bmc_doc w)))"
  using assms
  by (auto simp: commit_unfold and_then_def write_result_def split: option.splits)

section \<open>Reading\<close>

text \<open>What a session is after a file: the fields the file has, a fresh idle timer.\<close>

definition restored :: "int \<Rightarrow> user_session \<Rightarrow> user_session" where
  "restored now s =
     \<lparr>uniqueId = uniqueId s, sessionToken = sessionToken s, username = username s,
      csrfToken = csrfToken s, clientId = [], clientIp = clientIp s, lastUpdated = now,
      persistence = TIMEOUT, cookieAuth = False, isConfigureSelfOnly = False,
      storageType = storageType s, obmcSessionId = []\<rparr>"

definition restorable :: "user_session \<Rightarrow> bool" where
  "restorable s \<longleftrightarrow> uniqueId s \<noteq> [] \<and> username s \<noteq> [] \<and> sessionToken s \<noteq> [] \<and> csrfToken s \<noteq> []"

lemma session_json_members:
  "session_json s = JObject
     [(''client_ip'', JString (clientIp s)), (''csrf_token'', JString (csrfToken s)),
      (''session_token'', JString (sessionToken s)), (''unique_id'', JString (uniqueId s)),
      (''username'', JString (username s))]"
  by (simp add: session_json_def json_object_def om_emplace_def)

lemma session_fromJson_json:
  "session_fromJson now (session_json s) =
     (if restorable s then Some ((restored now s)\<lparr>storageType := configCurrentServiceSession\<rparr>) else None)"
  by (auto simp: session_fromJson_def session_json_members session_field_def restorable_def
      restored_def new_user_session_def Let_def)

lemma auth_methods_fromJson_json: "auth_methods_fromJson (auth_methods_json a) b = a"
  by (simp add: auth_methods_fromJson_def auth_methods_json_def json_object_def om_emplace_def
      auth_method_field_def)

lemma parsed_session_json [simp]: "parsed (session_json s) = session_json s"
  by (simp add: session_json_members)

lemma parsed_auth_json [simp]: "parsed (auth_methods_json a) = auth_methods_json a"
  by (simp add: auth_methods_json_def json_object_def om_emplace_def)

lemma parsed_sessions_json [simp]: "parsed (sessions_json ty w) = sessions_json ty w"
  by (simp add: sessions_json_def)

lemma elems_sessions_json [simp]:
  "json_elems (sessions_json ty w) =
     map session_json (map snd (filter (\<lambda>(_, s). persisted ty s) (tokens w)))"
  by (simp add: json_elems_def sessions_json_def)

lemma read_session_json:
  "persisted ty s \<Longrightarrow> read_session now ty (session_json s) st =
     (if restorable s
      then st\<lparr>authTokens := um_emplace (sessionToken s) (restored now s) (authTokens st)\<rparr> else st)"
  by (simp add: read_session_def session_fromJson_json restore_def restored_def persisted_def)

text \<open>Reading the sessions of a file emplaces them one by one.\<close>

definition file_entries :: "int \<Rightarrow> storage_type \<Rightarrow> (string \<times> user_session) list \<Rightarrow> (string \<times> user_session) list" where
  "file_entries now ty m =
     map (\<lambda>(_, s). (sessionToken s, restored now s))
       (filter (\<lambda>(_, s). persisted ty s \<and> restorable s) m)"

lemma read_sessions_emplace:
  "fold (read_session now ty) (map (session_json \<circ> snd) (filter (\<lambda>(_, s). persisted ty s) m)) st =
     st\<lparr>authTokens := um.emplace_all (file_entries now ty m) (authTokens st)\<rparr>"
proof (induction m arbitrary: st)
  case Nil
  then show ?case by (simp add: file_entries_def)
next
  case (Cons kv m)
  obtain k s where kv: "kv = (k, s)" by (cases kv)
  show ?case
    by (cases "persisted ty s"; cases "restorable s")
       (simp_all add: kv read_session_json file_entries_def comp_def
         Cons.IH [unfolded file_entries_def comp_def])
qed

lemma lookup_file_entries:
  assumes "um_ok m" "\<And>t s. (t, s) \<in> set m \<Longrightarrow> sessionToken s = t"
  shows "map_of (file_entries now ty m) t =
     (case map_of m t of
        Some s \<Rightarrow> if persisted ty s \<and> restorable s then Some (restored now s) else None
      | None \<Rightarrow> None)"
  using assms
proof (induction m)
  case Nil
  then show ?case by (simp add: file_entries_def)
next
  case (Cons kv m)
  obtain k v where kv: "kv = (k, v)" by (cases kv)
  from Cons.prems have ok: "um_ok m" "k \<notin> fst ` set m" "sessionToken v = k"
    by (auto simp: um_ok_def kv)
  have IH: "map_of (file_entries now ty m) t =
     (case map_of m t of
        Some s \<Rightarrow> if persisted ty s \<and> restorable s then Some (restored now s) else None
      | None \<Rightarrow> None)"
    using Cons.prems by (intro Cons.IH [OF ok(1)]) auto
  show ?case
  proof (cases "k = t")
    case True
    with ok have "map_of m t = None" by (simp add: map_of_eq_None_iff)
    with True ok IH show ?thesis by (auto simp: kv file_entries_def)
  next
    case False
    with ok IH show ?thesis by (auto simp: kv file_entries_def)
  qed
qed

lemma read_long_items:
  "fold (read_item now configLongTermStorage) (json_items (parsed (long_doc w))) w0 =
     w0\<lparr>store := (store w0)\<lparr>
           authTokens := um.emplace_all (file_entries now configLongTermStorage (tokens w))
                           (authTokens (store w0)),
           authMethodsConfig := authMethodsConfig (store w),
           timeoutInSeconds := timeoutInSeconds (store w)\<rparr>,
         systemUuid := systemUuid w\<rparr>"
  by (simp add: long_doc_def read_item_def upd_store_def auth_methods_fromJson_json
      read_sessions_emplace updateSessionTimeout_def)

lemma read_bmc_items:
  "fold (read_item now configCurrentBmcSession) (json_items (parsed (bmc_doc w))) w0 =
     upd_store (\<lambda>st. st\<lparr>authTokens :=
       um.emplace_all (file_entries now configCurrentBmcSession (tokens w)) (authTokens st)\<rparr>) w0"
  by (simp add: bmc_doc_def read_item_def read_sessions_emplace)

section \<open>A restart\<close>

text \<open>The sessions of a process that reads the files another one has written.\<close>

definition survives :: "user_session \<Rightarrow> bool" where
  "survives s \<longleftrightarrow> persistence s \<noteq> SINGLE_REQUEST \<and> storageType s \<noteq> configCurrentServiceSession \<and>
     username s \<noteq> []"

definition reads_back :: "codec \<Rightarrow> json \<Rightarrow> bool" where
  "reads_back c j \<longleftrightarrow> (snd (dump c j) = None \<longrightarrow> parse c (fst (dump c j)) = parsed j)"

lemma parsed_docs_not_discarded [simp]:
  "parsed (long_doc w) \<noteq> JDiscarded" "parsed (bmc_doc w) \<noteq> JDiscarded"
  by (simp_all add: long_doc_def bmc_doc_def)

lemma readData_unfold:
  "readData c fresh now w =
     and_then (readDataFile c fresh now configLongTermStorage ''/home/root'' ''bmcweb_persistent_data.json'')
       (\<lambda>_. and_then (readDataFile c fresh now configCurrentBmcSession ''/tmp/bmcweb_metadata'' ''sessions.json'')
          (\<lambda>_ w2. (Inr (), w2))) w"
  by (simp add: readData_def configFilePathDict_def and_then_def split: sum.splits prod.splits)

lemma path_append [simp]:
  "''/home/root'' @ ''/'' @ ''bmcweb_persistent_data.json'' = long_path"
  "''/tmp/bmcweb_metadata'' @ ''/'' @ ''sessions.json'' = bmc_path"
  by (simp_all add: long_path_def bmc_path_def)

lemma readDataFile_found:
  assumes "map_of (files (fs w)) (p @ ''/'' @ n) = Some content" "parse c content = j" "j \<noteq> JDiscarded"
    and "systemUuid (fold (read_item now ty) (json_items j) w) \<noteq> []"
  shows "readDataFile c fresh now ty p n w = (Inr (), fold (read_item now ty) (json_items j) w)"
  using assms by (simp add: readDataFile_def)

text \<open>What reading both documents of \<open>w\<close> makes of a process.\<close>

definition after_read :: "int \<Rightarrow> world \<Rightarrow> world \<Rightarrow> world" where
  "after_read now w w0 = w0\<lparr>store := (store w0)\<lparr>
      authTokens := um.emplace_all (file_entries now configCurrentBmcSession (tokens w))
        (um.emplace_all (file_entries now configLongTermStorage (tokens w)) (authTokens (store w0))),
      authMethodsConfig := authMethodsConfig (store w),
      timeoutInSeconds := timeoutInSeconds (store w)\<rparr>, systemUuid := systemUuid w\<rparr>"

lemma readData_docs:
  assumes "map_of (files (fs w0)) long_path = Some l" "parse c l = parsed (long_doc w)"
    and "map_of (files (fs w0)) bmc_path = Some b" "parse c b = parsed (bmc_doc w)"
    and "systemUuid w \<noteq> []"
  shows "readData c fresh now w0 = (Inr (), after_read now w w0)"
proof -
  define w1 where "w1 = fold (read_item now configLongTermStorage) (json_items (parsed (long_doc w))) w0"
  note w1 = w1_def [unfolded read_long_items]
  have 1: "readDataFile c fresh now configLongTermStorage ''/home/root'' ''bmcweb_persistent_data.json'' w0 =
          (Inr (), w1)"
    unfolding w1_def by (rule readDataFile_found [where content = l])
      (use assms in \<open>simp_all add: read_long_items path_append [simplified]\<close>)
  have 2: "readDataFile c fresh now configCurrentBmcSession ''/tmp/bmcweb_metadata'' ''sessions.json'' w1 =
          (Inr (), fold (read_item now configCurrentBmcSession) (json_items (parsed (bmc_doc w))) w1)"
    by (rule readDataFile_found [where content = b])
      (use assms in \<open>simp_all add: w1 read_bmc_items path_append [simplified]\<close>)
  show ?thesis
    unfolding readData_unfold and_then_def 1
    by (simp add: 2 read_bmc_items) (simp add: w1 after_read_def upd_store_def)
qed

lemma lookup_after_read:
  assumes "store_ok (store w)" "um_ok (authTokens (store w0))"
  shows "map_of (tokens (after_read now w w0)) t =
     (case map_of (tokens w0) t of
        Some s \<Rightarrow> Some s
      | None \<Rightarrow> (case map_of (tokens w) t of
                  Some s \<Rightarrow> if survives s then Some (restored now s) else None
                | None \<Rightarrow> None))"
proof -
  have ok: "um_ok (tokens w)" and key: "\<And>t s. (t, s) \<in> set (tokens w) \<Longrightarrow> sessionToken s = t"
    using assms(1) by (auto simp: store_ok_def entry_ok_def tokens_def)
  have look: "map_of (tokens (after_read now w w0)) t =
     (case map_of (tokens w0) t of
        Some s \<Rightarrow> Some s
      | None \<Rightarrow> (case map_of (file_entries now configLongTermStorage (tokens w)) t of
                  Some s \<Rightarrow> Some s
                | None \<Rightarrow> map_of (file_entries now configCurrentBmcSession (tokens w)) t))"
    using assms(2)
    by (simp add: after_read_def tokens_def um.lookup_emplace_all um.invar_emplace_all
        split: option.splits)
  show ?thesis
  proof (cases "map_of (tokens w) t")
    case None
    then show ?thesis by (simp add: look lookup_file_entries [OF ok key] split: option.splits)
  next
    case (Some s)
    with store_ok_entry [OF assms(1)] have "entry_ok t s" by (simp add: tokens_def)
    with Some show ?thesis
      by (cases "storageType s")
        (auto simp: look lookup_file_entries [OF ok key] persisted_def restorable_def
          survives_def entry_ok_def split: option.splits)
  qed
qed

end
