(* ===== verification/Session_Samples.thy ===== *)
theory Session_Samples
  imports Session_Config
begin

text \<open>
  Concrete stores, files and codecs, the inputs at which the properties are applied.
\<close>

definition sample_token :: string where
  "sample_token = ''ABCDEFGHIJKLMNOPQRST''"

definition sample_session :: user_session where
  "sample_session =
     \<lparr>uniqueId = ''uid'', sessionToken = sample_token, username = ''root'', csrfToken = ''abcdefghijabcdefghij'',
      clientId = ''10.0.0.1'', clientIp = ''10.0.0.1'', lastUpdated = 0, persistence = TIMEOUT,
      cookieAuth = False, isConfigureSelfOnly = False, storageType = configCurrentBmcSession,
      obmcSessionId = []\<rparr>"

definition no_files :: file_system where
  "no_files = \<lparr>files = [], directories = [], permissions = []\<rparr>"

definition sample_world :: world where
  "sample_world =
     \<lparr>store = new_session_store\<lparr>authTokens := [(sample_token, sample_session)]\<rparr>,
      systemUuid = ''U'', fs = no_files\<rparr>"

text \<open>A codec that knows a table of documents; others can not be written.\<close>

definition table_codec :: "(json \<times> string) list \<Rightarrow> codec" where
  "table_codec tbl =
     \<lparr>parse = (\<lambda>s. case List.find (\<lambda>(j, t). t = s) tbl of Some (j, _) \<Rightarrow> parsed j | None \<Rightarrow> JDiscarded),
      dump = (\<lambda>j. case map_of tbl j of Some t \<Rightarrow> (t, None) | None \<Rightarrow> ([], Some (Json_type_error 316)))\<rparr>"

definition sample_codec :: codec where
  "sample_codec = table_codec [(long_doc sample_world, ''L''), (bmc_doc sample_world, ''B'')]"

lemma sample_docs_differ: "long_doc sample_world \<noteq> bmc_doc sample_world"
  by (simp add: long_doc_def bmc_doc_def)

lemma sample_codec_dump [simp]:
  "dump sample_codec (long_doc sample_world) = (''L'', None)"
  "dump sample_codec (bmc_doc sample_world) = (''B'', None)"
  using sample_docs_differ by (auto simp: sample_codec_def table_codec_def)

lemma sample_codec_reads_back [simp]:
  "reads_back sample_codec (long_doc sample_world)"
  "reads_back sample_codec (bmc_doc sample_world)"
  by (simp_all add: reads_back_def) (simp_all add: sample_codec_def table_codec_def)

lemma sample_world_ok: "store_ok (store sample_world)"
  by (simp add: store_ok_def sample_world_def um_ok_def entry_ok_def sample_session_def
      sample_token_def)

lemma sample_tokens [simp]: "tokens sample_world = [(sample_token, sample_session)]"
  by (simp add: tokens_def sample_world_def)

lemma sample_authTokens: "authTokens (store sample_world) = [(sample_token, sample_session)]"
  by (simp add: sample_world_def)

definition sample_committed :: world where
  "sample_committed = snd (commit sample_codec sample_world)"

lemma sample_commit: "commit sample_codec sample_world = (Inr (), sample_committed)"
  unfolding sample_committed_def
  by (simp add: commit_unfold and_then_def write_result_def)

end
