(* ===== verification/Session_Properties.thy ===== *)
theory Session_Properties
  imports Session_Samples
begin

text \<open>
  The properties of \<open>src/service/session.cpp\<close>, each with a witness at a concrete store,
  codec and history.
\<close>

section \<open>The characters of a generated session\<close>

definition alnum_text :: "nat \<Rightarrow> string \<Rightarrow> bool" where
  "alnum_text n s \<longleftrightarrow> length s = n \<and> list_all isalnum s"

lemma alphanum_nth: "k < 62 \<Longrightarrow> isalnum (alphanum ! k)"
proof -
  assume k: "k < 62"
  have "list_all isalnum alphanum"
    by (simp add: alphanum_def isalnum_def isdigit_def isupper_def islower_def)
  with k show ?thesis by (simp add: list_all_length alphanum_def)
qed

text \<open>The range of \<open>uniform_int_distribution (0, alphanum.size () - 1)\<close>.\<close>

definition dist_range :: "(nat \<Rightarrow> nat option) \<Rightarrow> bool" where
  "dist_range draw \<longleftrightarrow> (\<forall>j k. draw j = Some k \<longrightarrow> k < 62)"

lemma draw_chars_alnum: "draw_chars draw i n = Some cs \<Longrightarrow> dist_range draw \<Longrightarrow> alnum_text n cs"
  by (induction n arbitrary: i cs)
     (auto simp: alnum_text_def alphanum_nth dist_range_def split: option.splits)

lemma draw_chars_None: "draw_chars draw i n = None \<longleftrightarrow> None \<in> draw ` {i..<i + n}"
proof (induction n arbitrary: i)
  case 0
  then show ?case by simp
next
  case (Suc n)
  have range: "{i..<i + Suc n} = insert i {Suc i..<Suc i + n}" by auto
  have "draw_chars draw i (Suc n) = None \<longleftrightarrow> draw i = None \<or> draw_chars draw (Suc i) n = None"
    by (auto split: option.splits)
  then show ?case unfolding range Suc image_insert by (auto simp del: draw_chars.simps)
qed

text \<open>The session a generation of \<open>tok\<close>, \<open>csrf\<close> and \<open>uid\<close> stores.\<close>

definition fresh_session ::
    "string \<Rightarrow> string \<Rightarrow> string \<Rightarrow> int \<Rightarrow> string \<Rightarrow> persistence_type \<Rightarrow> bool \<Rightarrow> string \<Rightarrow> storage_type \<Rightarrow>
     user_session" where
  "fresh_session tok csrf uid now user pers so ip ty =
     \<lparr>uniqueId = uid, sessionToken = tok, username = user, csrfToken = csrf, clientId = ip,
      clientIp = ip, lastUpdated = now, persistence = pers, cookieAuth = False,
      isConfigureSelfOnly = so, storageType = ty, obmcSessionId = []\<rparr>"

lemma generate_outcome:
  assumes draws: "dist_range draw"
    and res: "generateUserSession c draw now user pers so ip ip ty w = (Inr r, w')"
  shows "r = None \<and> w' = w \<and> None \<in> draw ` {..<50} \<or>
    None \<notin> draw ` {..<50} \<and>
    (\<exists>tok csrf uid. alnum_text 20 tok \<and> alnum_text 20 csrf \<and> alnum_text 10 uid \<and>
       r = (case map_of (tokens w) tok of
              Some old \<Rightarrow> Some old
            | None \<Rightarrow> Some (fresh_session tok csrf uid now user pers so ip ty)) \<and>
       map_of (tokens w') = (map_of (tokens w))(tok := r))"
proof -
  have split: "{..<50} = {0..<0 + 20} \<union> {20..<20 + 20} \<union> {40..<40 + (10::nat)}" by auto
  show ?thesis
  proof (cases "None \<in> draw ` {..<50}")
    case True
    then have "draw_chars draw 0 20 = None \<or> draw_chars draw 20 20 = None \<or> draw_chars draw 40 10 = None"
      unfolding split draw_chars_None by blast
    with res True show ?thesis
      by (auto simp: generateUserSession_def sessionTokenSize_def split: option.splits)
  next
    case False
    then have "draw_chars draw 0 20 \<noteq> None" "draw_chars draw 20 20 \<noteq> None" "draw_chars draw 40 10 \<noteq> None"
      unfolding split draw_chars_None by blast+
    then obtain tok csrf uid where d: "draw_chars draw 0 20 = Some tok"
      "draw_chars draw 20 20 = Some csrf" "draw_chars draw 40 10 = Some uid" by auto
    note shape = draw_chars_alnum [OF d(1) draws] draw_chars_alnum [OF d(2) draws]
      draw_chars_alnum [OF d(3) draws]
    let ?s = "fresh_session tok csrf uid now user pers so ip ty"
    from res have r: "r = (case map_of (tokens w) tok of Some old \<Rightarrow> Some old | None \<Rightarrow> Some ?s)"
      and t: "tokens w' = um_emplace tok ?s (tokens w)"
      using storeAuthToken_store [of c tok ?s w]
      by (auto simp: generateUserSession_def sessionTokenSize_def d and_then_def Let_def
          fresh_session_def storeAuthToken_def tokens_def map_of_um_emplace
          split: prod.splits sum.splits option.splits)
    from r t have "map_of (tokens w') = (map_of (tokens w))(tok := r)"
      by (auto simp: map_of_um_emplace split: option.splits)
    with shape r False show ?thesis by blast
  qed
qed

section \<open>Properties\<close>

text \<open>C6: in every process, after any history of logins, lookups, logouts, settings,
  commits and reads of files that hold anything at all, the tokens of the store are
  distinct, every session stands under its own token, and no session lacks a token, a
  CSRF token or a unique id.\<close>

theorem session_store_invariant:
  assumes "reachable c w"
  shows "store_ok (store w)"
  using assms by (rule reachable_ok)

theorem session_store_invariant_witness:
  "store_ok (store (snd (readData sample_codec ''U'' 5 (new_process no_files))))"
  by (rule session_store_invariant [OF reachable.step [OF reachable.start session_step.read]])



text \<open>A login creates a session with a 20-character token, a 20-character CSRF token and
  a 10-character id, all alphanumeric, in that order from the draws, and stores it under
  the token with the login's data; when one of the 50 draws fails there is no session and
  the state is as before; on a token that is taken the session that has it is returned.\<close>

theorem login_session_shape:
  assumes "dist_range draw"
    and "newStandardLoginSession c draw now user so ip w = (Inr r, w')"
  shows "r = None \<and> w' = w \<and> None \<in> draw ` {..<50} \<or>
    None \<notin> draw ` {..<50} \<and>
    (\<exists>tok csrf uid. alnum_text 20 tok \<and> alnum_text 20 csrf \<and> alnum_text 10 uid \<and>
       r = (case map_of (tokens w) tok of
              Some old \<Rightarrow> Some old
            | None \<Rightarrow> Some (fresh_session tok csrf uid now user TIMEOUT so ip configCurrentBmcSession)) \<and>
       map_of (tokens w') = (map_of (tokens w))(tok := r))"
  using assms(2) by (intro generate_outcome [OF assms(1)]) (simp_all add: newStandardLoginSession_def)

theorem login_session_shape_witness:
  "\<exists>s w'. newStandardLoginSession \<lparr>parse = \<lambda>_. JDiscarded, dump = \<lambda>_. ([], None)\<rparr> (\<lambda>_. Some 0) 7
      ''root'' False ''10.0.0.1'' sample_world = (Inr (Some s), w') \<and>
    tokens w' = [(sample_token, sample_session), (sessionToken s, s)] \<and> alnum_text 20 (sessionToken s)"
proof -
  let ?c = "\<lparr>parse = \<lambda>_. JDiscarded, dump = \<lambda>_. ([], None)\<rparr>"
  let ?s = "fresh_session (replicate 20 CHR ''0'') (replicate 20 CHR ''0'') (replicate 10 CHR ''0'')
    7 ''root'' TIMEOUT False ''10.0.0.1'' configCurrentBmcSession"
  have draws: "draw_chars (\<lambda>_. Some 0) i n = Some (replicate n CHR ''0'')" for i n
    by (induction n arbitrary: i) (simp_all add: alphanum_def)
  have neq: "replicate 20 CHR ''0'' \<noteq> sample_token" "sample_token \<noteq> replicate 20 CHR ''0''"
    by (simp_all add: sample_token_def numeral_eq_Suc)
  then have new: "map_of (tokens sample_world) (replicate 20 CHR ''0'') = None"
    by simp
  have "\<exists>w'. newStandardLoginSession ?c (\<lambda>_. Some 0) 7 ''root'' False ''10.0.0.1'' sample_world =
      (Inr (Some ?s), w') \<and> tokens w' = [(sample_token, sample_session), (sessionToken ?s, ?s)]"
    using new neq
    by (simp add: newStandardLoginSession_def generateUserSession_def draws sessionTokenSize_def
        storeAuthToken_def Let_def and_then_def commit_unfold write_result_def fresh_session_def
        tokens_def upd_store_def um_emplace_def map_add_def sample_authTokens)
  then obtain w' where w': "newStandardLoginSession ?c (\<lambda>_. Some 0) 7 ''root'' False ''10.0.0.1'' sample_world =
      (Inr (Some ?s), w')" "tokens w' = [(sample_token, sample_session), (sessionToken ?s, ?s)]" by blast
  have "dist_range (\<lambda>_. Some 0)" by (simp add: dist_range_def)
  from login_session_shape [OF this w'(1)] have "alnum_text 20 (sessionToken ?s)"
    using new neq by (auto simp: fresh_session_def sample_session_def split: option.splits if_splits)
  with w' show ?thesis by blast
qed

lemma read_session_keeps:
  "map_of (authTokens st) t = Some s \<Longrightarrow> map_of (authTokens (read_session now ty j st)) t = Some s"
  by (auto simp: read_session_def restore_def map_of_um_emplace split: option.splits)

lemma read_sessions_keep:
  "map_of (authTokens st) t = Some s \<Longrightarrow>
     map_of (authTokens (fold (read_session now ty) js st)) t = Some s"
  by (induction js arbitrary: st) (auto simp: read_session_keeps)

lemma read_item_keeps:
  "map_of (tokens w) t = Some s \<Longrightarrow> map_of (tokens (read_item now ty item w)) t = Some s"
  by (auto simp: read_item_def tokens_def read_sessions_keep updateSessionTimeout_def
      split: option.splits)

lemma read_items_keep:
  "map_of (tokens w) t = Some s \<Longrightarrow> map_of (tokens (fold (read_item now ty) items w)) t = Some s"
  by (induction items arbitrary: w) (auto simp: read_item_keeps)

lemma readFile_keeps:
  "map_of (tokens w) t = Some s \<Longrightarrow> map_of (tokens (snd (readDataFile c fresh now ty p n w))) t = Some s"
  using read_items_keep [of w t s now ty]
  by (auto simp: readDataFile_def Let_def tokens_def split: option.splits)

text \<open>Reading the configuration files, whatever they hold, never removes or changes a
  session the process already has: a session that the other process has logged out and
  whose entry is gone from the files stays valid here.\<close>

theorem readData_keeps_sessions:
  assumes "map_of (tokens w) t = Some s"
  shows "map_of (tokens (snd (readData c fresh now w))) t = Some s"
  unfolding readData_def
  by (rule for_each_config_inv [where I = "\<lambda>w. map_of (tokens w) t = Some s"])
     (auto intro: readFile_keeps assms)

theorem readData_keeps_sessions_witness:
  "map_of (tokens (snd (readData sample_codec ''V'' 9 sample_world))) sample_token = Some sample_session"
  by (rule readData_keeps_sessions) simp



lemma login_expired:
  "um_ok (authTokens st) \<Longrightarrow> map_of (authTokens st) t = Some s \<Longrightarrow> timeouts_due now st \<Longrightarrow>
   expired now st s \<Longrightarrow>
     fst (loginSessionByToken now t st) = None \<and>
     map_of (authTokens (snd (loginSessionByToken now t st))) t = None"
  by (simp add: login_fst login_snd login_result_def live_def)

lemma restored_entry: "restored now s = restored now s\<lparr>lastUpdated := now\<rparr>"
  by (simp add: restored_def)

text \<open>An expired session comes back. A session that was written to its file and has
  since been idle beyond the timeout is refused and purged by the login that finds it,
  but the purge is not committed: the next request's \<open>readData\<close> restores it from the
  file with a fresh idle timer, and the same token is accepted.\<close>

theorem expired_session_revived:
  assumes "reads_back c (long_doc w)" and "reads_back c (bmc_doc w)"
    and "store_ok (store w)" and "systemUuid w \<noteq> []" and "commit c w = (Inr (), w1)"
    and "map_of (tokens w) t = Some s" and "survives s" and "length t = 20"
    and "timeouts_due now (store w)" and "expired now (store w) s"
    and "0 < sint (timeoutInSeconds (store w))"
  shows "\<exists>w2 w3. w2 = upd_store (\<lambda>st. snd (loginSessionByToken now t st)) w1 \<and>
    fst (loginSessionByToken now t (store w1)) = None \<and> map_of (tokens w2) t = None \<and>
    readData c fresh now w2 = (Inr (), w3) \<and>
    fst (loginSessionByToken now t (store w3)) = Some (restored now s)"
proof -
  note ok = commit_success [OF assms(5)]
  have st: "store w1 = store w" and fs: "fs (upd_store f w1) = fs w1" for f
    using commit_frame [of c w] assms(5) by simp_all
  let ?w2 = "upd_store (\<lambda>st. snd (loginSessionByToken now t st)) w1"
  have um: "um_ok (authTokens (store w))" using assms(3) by (rule store_ok_um)
  from login_expired [OF um _ assms(9,10)] assms(6)
  have gone: "fst (loginSessionByToken now t (store w1)) = None" "map_of (tokens ?w2) t = None"
    by (simp_all add: st tokens_def)
  have um2: "um_ok (authTokens (store ?w2))"
    using store_ok_um [OF store_ok_login [OF assms(3)]] by (simp add: st)
  let ?w3 = "after_read now w ?w2"
  have read: "readData c fresh now ?w2 = (Inr (), ?w3)"
    by (rule readData_docs [where l = "fst (dump c (long_doc w))" and b = "fst (dump c (bmc_doc w))"])
       (use assms ok in \<open>simp_all add: reads_back_def fs\<close>)
  have there: "map_of (authTokens (store ?w3)) t = Some (restored now s)"
    using lookup_after_read [OF assms(3) um2, of now t] gone assms(6,7) by (simp add: tokens_def)
  have "um_ok (authTokens (store ?w3))"
    using um2 by (simp add: after_read_def um.invar_emplace_all st)
  moreover have "live now (store ?w3) (restored now s)"
    using assms(11) by (simp add: live_def expired_def restored_def after_read_def)
  ultimately have "fst (loginSessionByToken now t (store ?w3)) = Some (restored now s)"
    using there assms(8) by (simp add: login_fst login_result_def restored_def)
  with gone read show ?thesis by blast
qed

theorem expired_session_revived_witness:
  "\<exists>w2 w3. fst (loginSessionByToken (4000 * 10 ^ 9) sample_token (store sample_committed)) = None \<and>
    w2 = upd_store (\<lambda>st. snd (loginSessionByToken (4000 * 10 ^ 9) sample_token st)) sample_committed \<and>
    readData sample_codec [] (4000 * 10 ^ 9) w2 = (Inr (), w3) \<and>
    fst (loginSessionByToken (4000 * 10 ^ 9) sample_token (store w3)) =
      Some (restored (4000 * 10 ^ 9) sample_session)"
proof -
  have look: "map_of (tokens sample_world) sample_token = Some sample_session" by simp
  have "systemUuid sample_world \<noteq> []" "survives sample_session" "length sample_token = 20"
    "timeouts_due (4000 * 10 ^ 9) (store sample_world)"
    "expired (4000 * 10 ^ 9) (store sample_world) sample_session"
    "0 < sint (timeoutInSeconds (store sample_world))"
    by (simp_all add: sample_world_def survives_def sample_session_def sample_token_def
        timeouts_due_def expired_def new_session_store_def)
  from expired_session_revived [OF sample_codec_reads_back sample_world_ok this(1) sample_commit look this(2-6),
      of "[]"]
  show ?thesis by blast
qed

end
