(* ===== verification/Headers.thy ===== *)
theory Headers
  imports Prelude Containers
begin

text \<open>
  \<open>src/http/headers.hpp\<close>: the HTTP status codes with their numbers, their classes and
  their standard phrases, the header names and content types, and the text of a
  status line and of a header line.
\<close>

section \<open>Status codes\<close>

datatype code =
    Continue
  | SwitchingProtocols
  | Processing
  | EarlyHints
  | OK
  | Created
  | Accepted
  | NonAuthoritativeInformation
  | NoContent
  | ResetContent
  | PartialContent
  | MultiStatus
  | AlreadyReported
  | IMUsed
  | MultipleChoices
  | MovedPermanently
  | Found
  | SeeOther
  | NotModified
  | UseProxy
  | TemporaryRedirect
  | PermanentRedirect
  | BadRequest
  | Unauthorized
  | PaymentRequired
  | Forbidden
  | NotFound
  | MethodNotAllowed
  | NotAcceptable
  | ProxyAuthenticationRequired
  | RequestTimeout
  | Conflict
  | Gone
  | LengthRequired
  | PreconditionFailed
  | PayloadTooLarge
  | URITooLong
  | UnsupportedMediaType
  | RangeNotSatisfiable
  | ExpectationFailed
  | ImATeapot
  | UnprocessableEntity
  | Locked
  | FailedDependency
  | UpgradeRequired
  | PreconditionRequired
  | TooManyRequests
  | RequestHeaderFieldsTooLarge
  | UnavailableForLegalReasons
  | InternalServerError
  | NotImplemented
  | BadGateway
  | ServiceUnavailable
  | GatewayTimeout
  | HTTPVersionNotSupported
  | VariantAlsoNegotiates
  | InsufficientStorage
  | LoopDetected
  | NotExtended
  | NetworkAuthenticationRequired

text \<open>\<open>static_cast<int> (code)\<close>.\<close>

primrec toInt :: "code \<Rightarrow> int" where
  "toInt Continue = 100"
| "toInt SwitchingProtocols = 101"
| "toInt Processing = 102"
| "toInt EarlyHints = 103"
| "toInt OK = 200"
| "toInt Created = 201"
| "toInt Accepted = 202"
| "toInt NonAuthoritativeInformation = 203"
| "toInt NoContent = 204"
| "toInt ResetContent = 205"
| "toInt PartialContent = 206"
| "toInt MultiStatus = 207"
| "toInt AlreadyReported = 208"
| "toInt IMUsed = 226"
| "toInt MultipleChoices = 300"
| "toInt MovedPermanently = 301"
| "toInt Found = 302"
| "toInt SeeOther = 303"
| "toInt NotModified = 304"
| "toInt UseProxy = 305"
| "toInt TemporaryRedirect = 307"
| "toInt PermanentRedirect = 308"
| "toInt BadRequest = 400"
| "toInt Unauthorized = 401"
| "toInt PaymentRequired = 402"
| "toInt Forbidden = 403"
| "toInt NotFound = 404"
| "toInt MethodNotAllowed = 405"
| "toInt NotAcceptable = 406"
| "toInt ProxyAuthenticationRequired = 407"
| "toInt RequestTimeout = 408"
| "toInt Conflict = 409"
| "toInt Gone = 410"
| "toInt LengthRequired = 411"
| "toInt PreconditionFailed = 412"
| "toInt PayloadTooLarge = 413"
| "toInt URITooLong = 414"
| "toInt UnsupportedMediaType = 415"
| "toInt RangeNotSatisfiable = 416"
| "toInt ExpectationFailed = 417"
| "toInt ImATeapot = 418"
| "toInt UnprocessableEntity = 422"
| "toInt Locked = 423"
| "toInt FailedDependency = 424"
| "toInt UpgradeRequired = 426"
| "toInt PreconditionRequired = 428"
| "toInt TooManyRequests = 429"
| "toInt RequestHeaderFieldsTooLarge = 431"
| "toInt UnavailableForLegalReasons = 451"
| "toInt InternalServerError = 500"
| "toInt NotImplemented = 501"
| "toInt BadGateway = 502"
| "toInt ServiceUnavailable = 503"
| "toInt GatewayTimeout = 504"
| "toInt HTTPVersionNotSupported = 505"
| "toInt VariantAlsoNegotiates = 506"
| "toInt InsufficientStorage = 507"
| "toInt LoopDetected = 508"
| "toInt NotExtended = 510"
| "toInt NetworkAuthenticationRequired = 511"

text \<open>The classes, on the numeric value.\<close>

definition isInformational :: "int \<Rightarrow> bool" where
  "isInformational code \<longleftrightarrow> code \<ge> 100 \<and> code < 200"

definition isSuccessful :: "int \<Rightarrow> bool" where
  "isSuccessful code \<longleftrightarrow> code \<ge> 200 \<and> code < 300"

definition isRedirection :: "int \<Rightarrow> bool" where
  "isRedirection code \<longleftrightarrow> code \<ge> 300 \<and> code < 400"

definition isClientError :: "int \<Rightarrow> bool" where
  "isClientError code \<longleftrightarrow> code \<ge> 400 \<and> code < 500"

definition isServerError :: "int \<Rightarrow> bool" where
  "isServerError code \<longleftrightarrow> code \<ge> 500 \<and> code < 600"

definition isError :: "int \<Rightarrow> bool" where
  "isError code \<longleftrightarrow> code \<ge> 400"

text \<open>The enumerators in the order of the declaration, for proofs that go through all.\<close>

definition all_codes :: "code list" where
  "all_codes = [Continue, SwitchingProtocols, Processing, EarlyHints, OK, Created, Accepted, NonAuthoritativeInformation, NoContent, ResetContent, PartialContent, MultiStatus, AlreadyReported, IMUsed, MultipleChoices, MovedPermanently, Found, SeeOther, NotModified, UseProxy, TemporaryRedirect, PermanentRedirect, BadRequest, Unauthorized, PaymentRequired, Forbidden, NotFound, MethodNotAllowed, NotAcceptable, ProxyAuthenticationRequired, RequestTimeout, Conflict, Gone, LengthRequired, PreconditionFailed, PayloadTooLarge, URITooLong, UnsupportedMediaType, RangeNotSatisfiable, ExpectationFailed, ImATeapot, UnprocessableEntity, Locked, FailedDependency, UpgradeRequired, PreconditionRequired, TooManyRequests, RequestHeaderFieldsTooLarge, UnavailableForLegalReasons, InternalServerError, NotImplemented, BadGateway, ServiceUnavailable, GatewayTimeout, HTTPVersionNotSupported, VariantAlsoNegotiates, InsufficientStorage, LoopDetected, NotExtended, NetworkAuthenticationRequired]"

lemma all_codes_complete: "c \<in> set all_codes"
  by (cases c) (simp_all add: all_codes_def)

lemma all_codes_increasing: "sorted_wrt (<) (map toInt all_codes)"
  unfolding all_codes_def list.map toInt.simps
  by (simp add: sorted_wrt2 sorted_wrt1 del: sorted_wrt.simps(2))

lemma all_codes_distinct: "distinct (map toInt all_codes)"
  using all_codes_increasing strict_sorted_iff by blast

lemma toInt_inj: "toInt c = toInt c' \<Longrightarrow> c = c'"
  using all_codes_distinct all_codes_complete [of c] all_codes_complete [of c']
  by (auto simp: distinct_map inj_on_def)

lemma by_all_codes: "list_all P all_codes \<Longrightarrow> P c"
  using all_codes_complete [of c] by (auto simp: list_all_iff)

text \<open>An \<open>enum class\<close> is ordered by its values: the order of the \<open>std::map\<close> below.\<close>

instantiation code :: linorder
begin

definition less_eq_code :: "code \<Rightarrow> code \<Rightarrow> bool" where
  "less_eq_code a b \<longleftrightarrow> toInt a \<le> toInt b"

definition less_code :: "code \<Rightarrow> code \<Rightarrow> bool" where
  "less_code a b \<longleftrightarrow> toInt a < toInt b"

instance
  by standard (auto simp: less_eq_code_def less_code_def intro: toInt_inj)

end

definition reasonPhraseDict :: "(code \<times> string) list" where
  "reasonPhraseDict = [
     (Continue, ''Continue''),
     (SwitchingProtocols, ''Switching Protocols''),
     (Processing, ''Processing''),
     (EarlyHints, ''Early Hints''),
     (OK, ''OK''),
     (Created, ''Created''),
     (Accepted, ''Accepted''),
     (NonAuthoritativeInformation, ''Non-Authoritative Information''),
     (NoContent, ''No Content''),
     (ResetContent, ''Reset Content''),
     (PartialContent, ''Partial Content''),
     (MultiStatus, ''Multi-Status''),
     (AlreadyReported, ''Already Reported''),
     (IMUsed, ''IM Used''),
     (MultipleChoices, ''Multiple Choices''),
     (MovedPermanently, ''Moved Permanently''),
     (Found, ''Found''),
     (SeeOther, ''See Other''),
     (NotModified, ''Not Modified''),
     (UseProxy, ''Use Proxy''),
     (TemporaryRedirect, ''Temporary Redirect''),
     (PermanentRedirect, ''Permanent Redirect''),
     (BadRequest, ''Bad Request''),
     (Unauthorized, ''Unauthorized''),
     (PaymentRequired, ''Payment Required''),
     (Forbidden, ''Forbidden''),
     (NotFound, ''Not Found''),
     (MethodNotAllowed, ''Method Not Allowed''),
     (NotAcceptable, ''Not Acceptable''),
     (ProxyAuthenticationRequired, ''Proxy Authentication Required''),
     (RequestTimeout, ''Request Timeout''),
     (Conflict, ''Conflict''),
     (Gone, ''Gone''),
     (LengthRequired, ''Length Required''),
     (PreconditionFailed, ''Precondition Failed''),
     (PayloadTooLarge, ''Payload Too Large''),
     (URITooLong, ''URI Too Long''),
     (UnsupportedMediaType, ''Unsupported Media Type''),
     (RangeNotSatisfiable, ''Range Not Satisfiable''),
     (ExpectationFailed, ''Expectation Failed''),
     (ImATeapot, ''I'' @ [CHR 0x27] @ ''m a teapot''),
     (UnprocessableEntity, ''Unprocessable Entity''),
     (Locked, ''Locked''),
     (FailedDependency, ''Failed Dependency''),
     (UpgradeRequired, ''Upgrade Required''),
     (PreconditionRequired, ''Precondition Required''),
     (TooManyRequests, ''Too Many Requests''),
     (RequestHeaderFieldsTooLarge, ''Request Header Fields Too Large''),
     (UnavailableForLegalReasons, ''Unavailable For Legal Reasons''),
     (InternalServerError, ''Internal Server Error''),
     (NotImplemented, ''Not Implemented''),
     (BadGateway, ''Bad Gateway''),
     (ServiceUnavailable, ''Service Unavailable''),
     (GatewayTimeout, ''Gateway Time-out''),
     (HTTPVersionNotSupported, ''HTTP Version Not Supported''),
     (VariantAlsoNegotiates, ''Variant Also Negotiates''),
     (InsufficientStorage, ''Insufficient Storage''),
     (LoopDetected, ''Loop Detected''),
     (NotExtended, ''Not Extended''),
     (NetworkAuthenticationRequired, ''Network Authentication Required'')]"

definition reasonPhrase :: "code \<Rightarrow> string" where
  "reasonPhrase code =
     (case map_of reasonPhraseDict code of None \<Rightarrow> [] | Some phrase \<Rightarrow> phrase)"

text \<open>
  \<open>reasonPhrase (uint16_t)\<close>: the cast may yield a value that is no enumerator; \<open>find\<close>
  then reaches the end of the map.
\<close>

definition enumerator_of :: "16 word \<Rightarrow> code option" where
  "enumerator_of w = List.find (\<lambda>c. toInt c = uint w) all_codes"

definition reasonPhrase16 :: "16 word \<Rightarrow> string" where
  "reasonPhrase16 w = (case enumerator_of w of None \<Rightarrow> [] | Some c \<Rightarrow> reasonPhrase c)"

section \<open>Header lines\<close>

definition http_version :: string where "http_version = ''HTTP/1.1''"
definition contentTypeName :: string where "contentTypeName = ''Content-Type''"
definition contentLengthName :: string where "contentLengthName = ''Content-Length''"
definition dateName :: string where "dateName = ''Date''"
definition locationName :: string where "locationName = ''Location''"
definition wwwAuthenticateName :: string where "wwwAuthenticateName = ''WWW-Authenticate''"

lemmas header_names =
  http_version_def contentTypeName_def contentLengthName_def dateName_def locationName_def
  wwwAuthenticateName_def

definition applicationJson :: string where
  "applicationJson = ''application/json; charset=UTF-8''"

definition textPlain :: string where
  "textPlain = ''text/plain; charset=UTF-8''"

definition textHtml :: string where
  "textHtml = ''text/html; charset=UTF-8''"

lemmas content_types = applicationJson_def textPlain_def textHtml_def

definition header :: "string \<Rightarrow> string \<Rightarrow> string" where
  "header name value = name @ '': '' @ value"

definition headerStatus :: "code \<Rightarrow> string" where
  "headerStatus code = http_version @ '' '' @ dec_int (toInt code) @ '' '' @ reasonPhrase code"

section \<open>Facts about every code\<close>

lemma reasonPhraseDict_keys: "map fst reasonPhraseDict = all_codes"
  by (simp add: reasonPhraseDict_def all_codes_def)

lemma reasonPhraseDict_ok: "om_ok reasonPhraseDict"
  using all_codes_increasing
  by (simp add: om_ok_def reasonPhraseDict_keys less_code_def [abs_def] sorted_wrt_map)

lemma map_snd_phrase: "map reasonPhrase all_codes = map snd reasonPhraseDict"
proof -
  have "distinct (map fst reasonPhraseDict)"
    by (rule om_ok_distinct [OF reasonPhraseDict_ok])
  then have "map (\<lambda>kv. reasonPhrase (fst kv)) reasonPhraseDict = map snd reasonPhraseDict"
    by (auto simp: reasonPhrase_def)
  then show ?thesis
    by (simp add: reasonPhraseDict_keys [symmetric] comp_def)
qed

lemma phrases_good:
  "list_all (\<lambda>p. p \<noteq> [] \<and> CHR 0x0D \<notin> set p \<and> CHR 0x0A \<notin> set p) (map reasonPhrase all_codes)"
  unfolding map_snd_phrase reasonPhraseDict_def by simp

lemma phrases_distinct: "distinct (map reasonPhrase all_codes)"
  unfolding map_snd_phrase reasonPhraseDict_def by simp

lemma reasonPhrase_nonempty [simp]: "reasonPhrase c \<noteq> []"
  using phrases_good all_codes_complete [of c] by (auto simp: list_all_iff)

lemma reasonPhrase_no_crlf [simp]:
  "CHR 0x0D \<notin> set (reasonPhrase c)" "CHR 0x0A \<notin> set (reasonPhrase c)"
  using phrases_good all_codes_complete [of c] by (auto simp: list_all_iff)

lemma reasonPhrase_inj: "reasonPhrase c = reasonPhrase c' \<Longrightarrow> c = c'"
  using phrases_distinct all_codes_complete [of c] all_codes_complete [of c']
  by (auto simp: distinct_map inj_on_def)

lemma toInt_range: "100 \<le> toInt c \<and> toInt c < 600"
  by (rule by_all_codes [of _ c]) (simp add: all_codes_def)

lemma enumerator_of_toInt: "enumerator_of (of_int (toInt c)) = Some c"
proof -
  have u: "uint (of_int (toInt c) :: 16 word) = toInt c"
    using toInt_range [of c] by (simp add: unsigned_of_int take_bit_int_eq_self)
  have "List.find (\<lambda>c'. toInt c' = toInt c) all_codes \<noteq> None"
    using all_codes_complete [of c] by (auto simp: find_None_iff)
  then obtain c' where c': "List.find (\<lambda>c'. toInt c' = toInt c) all_codes = Some c'" by auto
  then have "toInt c' = toInt c" by (auto simp: find_Some_iff)
  with c' show ?thesis by (auto simp: enumerator_of_def u dest: toInt_inj)
qed

lemma three_digits: "100 \<le> n \<Longrightarrow> n < 1000 \<Longrightarrow> length (dec_nat n) = 3"
proof -
  assume n: "100 \<le> n" "n < 1000"
  then have "\<not> n < 10" "\<not> n div 10 < 10" "n div 10 div 10 < 10" by auto
  then show ?thesis
    unfolding dec_nat.simps [of n] dec_nat.simps [of "n div 10"] dec_nat.simps [of "n div 10 div 10"]
    by simp
qed

lemma length_code_text [simp]: "length (dec_int (toInt c)) = 3"
  using toInt_range [of c] by (auto simp: dec_int_def intro!: three_digits)

lemma code_text_digits: "list_all isdigit (dec_int (toInt c))"
  using toInt_range [of c] by (auto simp: dec_int_def list_all_iff dec_nat_digits)

lemma digit_not_crlf: "isdigit x \<Longrightarrow> x \<noteq> CHR 0x0D \<and> x \<noteq> CHR 0x0A \<and> x \<noteq> CHR ''-''"
  by (auto simp: isdigit_def)

lemma headerStatus_no_cr: "CHR 0x0D \<notin> set (headerStatus c)"
  using code_text_digits [of c]
  by (auto simp: headerStatus_def http_version_def list_all_iff dest: digit_not_crlf)

text \<open>Every status code has its three-digit number and a phrase of its own, a status
  line that can not break the header block, and its number identifies it again; it is in
  exactly one of the five classes, and \<open>isError\<close> holds of the client and the server
  errors.\<close>

theorem status_codes_complete:
  "length (dec_int (toInt c)) = 3 \<and> list_all isdigit (dec_int (toInt c)) \<and>
   reasonPhrase c \<noteq> [] \<and> CHR 0x0D \<notin> set (headerStatus c) \<and>
   enumerator_of (of_int (toInt c)) = Some c \<and>
   (headerStatus c = headerStatus c' \<longleftrightarrow> c = c') \<and>
   length (filter (\<lambda>k. k (toInt c))
     [isInformational, isSuccessful, isRedirection, isClientError, isServerError]) = 1 \<and>
   isError (toInt c) = (isClientError (toInt c) \<or> isServerError (toInt c))"
proof -
  have "headerStatus c = headerStatus c' \<longleftrightarrow> c = c'"
  proof
    assume "headerStatus c = headerStatus c'"
    then show "c = c'"
      by (auto simp: headerStatus_def dest: reasonPhrase_inj)
  qed simp
  moreover have "length (filter (\<lambda>k. k (toInt c))
     [isInformational, isSuccessful, isRedirection, isClientError, isServerError]) = 1"
    using toInt_range [of c]
    by (simp add: isInformational_def isSuccessful_def isRedirection_def isClientError_def
        isServerError_def)
  moreover have "isError (toInt c) = (isClientError (toInt c) \<or> isServerError (toInt c))"
    using toInt_range [of c] by (auto simp: isError_def isClientError_def isServerError_def)
  ultimately show ?thesis
    by (simp add: code_text_digits headerStatus_no_cr enumerator_of_toInt)
qed

end
