(* ===== verification/Http.thy ===== *)
theory Http
  imports Headers Utils
begin

text \<open>
  \<open>src/core/response.hpp\<close>, \<open>response.cpp\<close>, \<open>request.hpp\<close> and \<open>request.cpp\<close>: the
  buffers of a response and the bytes that go out, and what the code reads from a
  request. The request's environment (fastcgi++'s parsed parameters) is a record of the
  fields the source reads.
\<close>

section \<open>Responses\<close>

record response =
  headerBuffer :: string
  internalBuffer :: string
  status :: code
  contentType :: string

definition endHeaderLine :: string where
  "endHeaderLine = [CHR 0x0D, CHR 0x0A]"

definition new_response :: response where
  "new_response = \<lparr>headerBuffer = [], internalBuffer = [], status = NotFound, contentType = textPlain\<rparr>"

definition totalSize :: "response \<Rightarrow> nat" where
  "totalSize r = length (internalBuffer r)"

definition getStatus :: "response \<Rightarrow> code" where
  "getStatus r = status r"

definition setContentType :: "string \<Rightarrow> response \<Rightarrow> response" where
  "setContentType ct r = r\<lparr>contentType := ct\<rparr>"

definition setStatus :: "code \<Rightarrow> response \<Rightarrow> response" where
  "setStatus c r = r\<lparr>status := c\<rparr>"

definition setHeader :: "string \<Rightarrow> string \<Rightarrow> response \<Rightarrow> response" where
  "setHeader name value r = r\<lparr>headerBuffer := headerBuffer r @ (header name value @ endHeaderLine)\<rparr>"

definition getHead :: "response \<Rightarrow> string" where
  "getHead r = headerStatus (status r) @ endHeaderLine @
     (header contentTypeName (contentType r) @ endHeaderLine) @ headerBuffer r @ endHeaderLine"

definition getBody :: "response \<Rightarrow> string" where
  "getBody r = internalBuffer r"

definition push :: "string \<Rightarrow> response \<Rightarrow> response" where
  "push buffer r = r\<lparr>internalBuffer := internalBuffer r @ buffer\<rparr>"

definition clear :: "response \<Rightarrow> response" where
  "clear r = r\<lparr>internalBuffer := []\<rparr>"

text \<open>\<open>operator<< (os, response)\<close>: the bytes appended to the stream.\<close>

definition emit :: "response \<Rightarrow> string" where
  "emit r = getHead r @ getBody r"

lemmas response_defs =
  new_response_def totalSize_def getStatus_def setContentType_def setStatus_def setHeader_def
  getBody_def push_def clear_def

section \<open>Requests\<close>

text \<open>fastcgi++'s methods as far as the code tells them apart.\<close>

datatype http_method = HEAD | GET | POST | PUT | DELETE | OPTIONS | Other_method

record environment =
  requestMethod :: http_method
  env_contentType :: string
  acceptContentTypes :: string
  pathInfo :: "string list"
  authorization :: string
  userAgent :: string
  remoteAddress :: string
  others :: "(string \<times> string) list"
  cookies :: "(string \<times> string) list"
  postBuffer :: string

text \<open>A request with the session it was given, of whatever type a session has.\<close>

record 's request =
  env :: environment
  userSession :: "'s option"

definition new_request :: "environment \<Rightarrow> 's request" where
  "new_request e = \<lparr>env = e, userSession = None\<rparr>"

definition allowedContentTypes :: "string set" where
  "allowedContentTypes = {''application/json'', ''text/plain''}"

definition validate :: "'s request \<Rightarrow> bool" where
  "validate r \<longleftrightarrow> env_contentType (env r) = [] \<or> env_contentType (env r) \<in> allowedContentTypes"

definition setSession :: "'s option \<Rightarrow> 's request \<Rightarrow> 's request" where
  "setSession s r = r\<lparr>userSession := s\<rparr>"

definition isSessionEmpty :: "'s request \<Rightarrow> bool" where
  "isSessionEmpty r \<longleftrightarrow> userSession r = None"

fun browser_loop :: "string list \<Rightarrow> bool" where
  "browser_loop [] = False"
| "browser_loop (encoding # encodings) =
     (if encoding = ''text/html'' then True
      else if encoding = ''application/json'' then False
      else browser_loop encodings)"

definition isBrowserRequest :: "'s request \<Rightarrow> bool" where
  "isBrowserRequest r = browser_loop (splitToVector (acceptContentTypes (env r)) CHR '','')"

definition getUriPath :: "'s request \<Rightarrow> string" where
  "getUriPath r = (let pathInfo = pathInfo (env r) in
     ''/'' @ (if pathInfo \<noteq> [] then ostream_join ''/'' pathInfo else []))"

definition getClientIp :: "'s request \<Rightarrow> string" where
  "getClientIp r = remoteAddress (env r)"

lemmas request_defs = setSession_def isSessionEmpty_def getClientIp_def

lemma setSession_env [simp]: "env (setSession s r) = env r"
  by (simp add: setSession_def)

lemma userSession_setSession [simp]: "userSession (setSession s r) = s"
  by (simp add: setSession_def)

section \<open>The bytes of a response can be read back\<close>

subsection \<open>A reader of the wire format\<close>

text \<open>The line before the first CR LF and what follows it.\<close>

fun break_crlf :: "string \<Rightarrow> (string \<times> string) option" where
  "break_crlf [] = None"
| "break_crlf (c # s) =
     (if c = CHR 0x0D \<and> s \<noteq> [] \<and> hd s = CHR 0x0A then Some ([], tl s)
      else map_option (\<lambda>(l, r). (c # l, r)) (break_crlf s))"

lemma break_crlf_shorter: "break_crlf s = Some (l, r) \<Longrightarrow> length r < length s"
  by (induction s arbitrary: l) (auto split: if_splits)

text \<open>\<open>name: value\<close>\<close>

definition read_field :: "string \<Rightarrow> (string \<times> string) option" where
  "read_field l = (case find_char CHR '':'' l of
       None \<Rightarrow> None
     | Some i \<Rightarrow> (if starts_with (drop (Suc i) l) '' '' then Some (take i l, drop (i + 2) l) else None))"

text \<open>Fields up to the empty line; the rest is the body.\<close>

function read_fields :: "string \<Rightarrow> ((string \<times> string) list \<times> string) option" where
  "read_fields s = (case break_crlf s of
       None \<Rightarrow> None
     | Some (l, r) \<Rightarrow>
         (if l = [] then Some ([], r)
          else (case read_field l of
                  None \<Rightarrow> None
                | Some f \<Rightarrow> map_option (\<lambda>(fs, b). (f # fs, b)) (read_fields r))))"
  by pat_completeness auto
termination
  by (relation "measure length") (auto dest: break_crlf_shorter)

declare read_fields.simps [simp del]

definition read_response :: "string \<Rightarrow> (string \<times> (string \<times> string) list \<times> string) option" where
  "read_response s = (case break_crlf s of
       None \<Rightarrow> None
     | Some (l, r) \<Rightarrow> map_option (\<lambda>fb. (l, fb)) (read_fields r))"

subsection \<open>What a client asks of a response\<close>

text \<open>The operations of \<open>IResponse\<close> that change it, and a history of them.\<close>

datatype response_op =
    SetStatus code
  | SetContentType string
  | SetHeader string string
  | Push string
  | Clear

fun apply_op :: "response_op \<Rightarrow> response \<Rightarrow> response" where
  "apply_op (SetStatus c) r = setStatus c r"
| "apply_op (SetContentType ct) r = setContentType ct r"
| "apply_op (SetHeader n v) r = setHeader n v r"
| "apply_op (Push b) r = push b r"
| "apply_op Clear r = clear r"

text \<open>The abstract response: a status, fields as pairs, and a body.\<close>

record message =
  m_status :: code
  m_type :: string
  m_fields :: "(string \<times> string) list"
  m_body :: string

definition new_message :: message where
  "new_message = \<lparr>m_status = NotFound, m_type = textPlain, m_fields = [], m_body = []\<rparr>"

fun message_op :: "response_op \<Rightarrow> message \<Rightarrow> message" where
  "message_op (SetStatus c) m = m\<lparr>m_status := c\<rparr>"
| "message_op (SetContentType ct) m = m\<lparr>m_type := ct\<rparr>"
| "message_op (SetHeader n v) m = m\<lparr>m_fields := m_fields m @ [(n, v)]\<rparr>"
| "message_op (Push b) m = m\<lparr>m_body := m_body m @ b\<rparr>"
| "message_op Clear m = m\<lparr>m_body := []\<rparr>"

text \<open>Text without line ends, and a field name: nonempty and without a colon.\<close>

definition clean :: "string \<Rightarrow> bool" where
  "clean s \<longleftrightarrow> CHR 0x0D \<notin> set s"

definition field_name :: "string \<Rightarrow> bool" where
  "field_name s \<longleftrightarrow> clean s \<and> s \<noteq> [] \<and> CHR '':'' \<notin> set s"

fun op_clean :: "response_op \<Rightarrow> bool" where
  "op_clean (SetContentType ct) = clean ct"
| "op_clean (SetHeader n v) = (field_name n \<and> clean v)"
| "op_clean _ = True"

definition field_ok :: "string \<times> string \<Rightarrow> bool" where
  "field_ok f \<longleftrightarrow> field_name (fst f) \<and> clean (snd f)"

text \<open>The representation relation between the buffers and the message.\<close>

definition represents :: "response \<Rightarrow> message \<Rightarrow> bool" where
  "represents r m \<longleftrightarrow>
     status r = m_status m \<and> contentType r = m_type m \<and> clean (m_type m) \<and>
     headerBuffer r = concat (map (\<lambda>(n, v). header n v @ endHeaderLine) (m_fields m)) \<and>
     list_all field_ok (m_fields m) \<and> internalBuffer r = m_body m"

lemma represents_new: "represents new_response new_message"
  by (simp add: represents_def new_response_def new_message_def clean_def content_types)

lemma represents_op:
  "represents r m \<Longrightarrow> op_clean op \<Longrightarrow> represents (apply_op op r) (message_op op m)"
  by (cases op) (auto simp: represents_def response_defs field_ok_def)

lemma represents_ops:
  "represents r m \<Longrightarrow> list_all op_clean ops \<Longrightarrow>
     represents (fold apply_op ops r) (fold message_op ops m)"
  by (induction ops arbitrary: r m) (auto simp: represents_op)

lemma break_crlf_line: "clean l \<Longrightarrow> break_crlf (l @ endHeaderLine @ s) = Some (l, s)"
  by (induction l) (auto simp: clean_def endHeaderLine_def)

lemma find_char_first: "c \<notin> set n \<Longrightarrow> find_char c (n @ c # s) = Some (length n)"
  by (induction n) auto

lemma read_field_header: "field_name n \<Longrightarrow> read_field (header n v) = Some (n, v)"
  by (simp add: read_field_def header_def field_name_def find_char_first starts_with_def)

lemma read_fields_line:
  assumes "field_ok (n, v)"
  shows "read_fields (header n v @ endHeaderLine @ s) =
           map_option (\<lambda>(fs, b). ((n, v) # fs, b)) (read_fields s)"
proof -
  from assms have c: "clean (header n v)" "header n v \<noteq> []" "field_name n"
    by (auto simp: field_ok_def field_name_def clean_def header_def)
  show ?thesis
    by (subst read_fields.simps) (simp add: break_crlf_line [OF c(1)] c read_field_header)
qed

lemma read_fields_all:
  "list_all field_ok fs \<Longrightarrow>
     read_fields (concat (map (\<lambda>(n, v). header n v @ endHeaderLine) fs) @ endHeaderLine @ b) =
       Some (fs, b)"
proof (induction fs)
  case Nil
  have "break_crlf (endHeaderLine @ b) = Some ([], b)"
    using break_crlf_line [of "[]" b] by (simp add: clean_def)
  then show ?case by (subst read_fields.simps) simp
next
  case (Cons f fs)
  then show ?case by (cases f) (simp add: read_fields_line)
qed

lemma read_represented:
  assumes "represents r m"
  shows "read_response (emit r) =
           Some (headerStatus (m_status m), (contentTypeName, m_type m) # m_fields m, m_body m)"
proof -
  let ?fs = "(contentTypeName, m_type m) # m_fields m"
  have ok: "list_all field_ok ?fs"
    using assms by (simp add: represents_def field_ok_def field_name_def clean_def contentTypeName_def)
  have "emit r = headerStatus (m_status m) @ endHeaderLine @
          concat (map (\<lambda>(n, v). header n v @ endHeaderLine) ?fs) @ endHeaderLine @ m_body m"
    using assms by (simp add: represents_def emit_def getHead_def getBody_def)
  moreover have "clean (headerStatus (m_status m))"
    by (simp add: clean_def headerStatus_no_cr)
  ultimately show ?thesis
    by (simp add: read_response_def break_crlf_line read_fields_all [OF ok] del: list.map concat.simps)
qed

text \<open>C7: after any history of operations with header names and values free of CR, the
  bytes written by \<open>operator<<\<close> read back as exactly the status line, the
  \<open>Content-Type\<close> field, the headers in the order they were set and the pushed body,
  whatever bytes the body holds.\<close>

theorem response_reads_back:
  assumes "list_all op_clean ops"
  shows "read_response (emit (fold apply_op ops new_response)) =
    (let m = fold message_op ops new_message
     in Some (headerStatus (m_status m), (contentTypeName, m_type m) # m_fields m, m_body m))"
  using read_represented [OF represents_ops [OF represents_new assms]] by (simp add: Let_def)

theorem response_reads_back_witness:
  "read_response (emit (fold apply_op
      [SetHeader ''Location'' ''/x'', Push [CHR 0x0D, CHR 0x0A], SetStatus OK] new_response)) =
   Some (''HTTP/1.1 200 OK'',
         [(''Content-Type'', ''text/plain; charset=UTF-8''), (''Location'', ''/x'')],
         [CHR 0x0D, CHR 0x0A])"
proof -
  have "headerStatus OK = ''HTTP/1.1 200 OK''"
    by (simp add: headerStatus_def http_version_def dec_int_def dec_nat.simps reasonPhrase_def
        reasonPhraseDict_def)
  with response_reads_back
    [of "[SetHeader ''Location'' ''/x'', Push [CHR 0x0D, CHR 0x0A], SetStatus OK]"]
  show ?thesis
    by (simp add: field_name_def clean_def new_message_def contentTypeName_def textPlain_def)
qed

end
