(* ===== verification/Authorization.thy ===== *)
theory Authorization
  imports Http Session_Config
begin

text \<open>
  \<open>src/service/authorization.hpp\<close> and \<open>pam_authenticate.hpp\<close>: who may issue a request.
  PAM is a parameter (the return code of each call for a user and a password as C
  strings, and its constants), as are OpenSSL's base64 decoder, the clock, the random
  draws and the JSON library. The response and the session store are threaded through
  as the code mutates them.
\<close>

section \<open>PAM\<close>

record pam_api =
  pam_start :: "string \<Rightarrow> string \<Rightarrow> int"
  pam_authenticate :: "string \<Rightarrow> string \<Rightarrow> int"
  pam_acct_mgmt :: "string \<Rightarrow> string \<Rightarrow> int"
  pam_chauthtok :: "string \<Rightarrow> string \<Rightarrow> int"
  pam_end :: "string \<Rightarrow> string \<Rightarrow> int"
  PAM_SUCCESS :: int
  PAM_NEW_AUTHTOK_REQD :: int

text \<open>The calls made, in order; a handle is open from \<open>Start\<close> to \<open>End\<close>.\<close>

datatype pam_call = Start | Authenticate | Acct_mgmt | Chauthtok | End

definition pamAuthenticateUser :: "pam_api \<Rightarrow> string \<Rightarrow> string \<Rightarrow> int \<times> pam_call list" where
  "pamAuthenticateUser p user password =
     (let u = c_str user; pw = c_str password;
          retval = pam_start p u pw
      in if retval \<noteq> PAM_SUCCESS p then (retval, [Start])
         else (let retval = pam_authenticate p u pw
               in if retval \<noteq> PAM_SUCCESS p then (retval, [Start, Authenticate, End])
                  else (let retval = pam_acct_mgmt p u pw
                        in if retval \<noteq> PAM_SUCCESS p
                           then (retval, [Start, Authenticate, Acct_mgmt, End])
                           else (pam_end p u pw, [Start, Authenticate, Acct_mgmt, End]))))"

definition pamUpdatePassword :: "pam_api \<Rightarrow> string \<Rightarrow> string \<Rightarrow> int \<times> pam_call list" where
  "pamUpdatePassword p user password =
     (let u = c_str user; pw = c_str password;
          retval = pam_start p u pw
      in if retval \<noteq> PAM_SUCCESS p then (retval, [Start])
         else (let retval = pam_chauthtok p u pw
               in if retval \<noteq> PAM_SUCCESS p then (retval, [Start, Chauthtok, End])
                  else (pam_end p u pw, [Start, Chauthtok, End])))"

text \<open>
  The conversation function: PAM's messages by their style, and the answers in the array
  it allocates (\<open>None\<close> for a null pointer). \<open>resp\<close> points to one pointer, so \<open>resp[i]\<close> is
  inside the object only for \<open>i = 0\<close>, where it is the array; the behaviour of the
  assignment at a later index is undefined.
\<close>

datatype msg_style = PAM_PROMPT_ECHO_OFF | Other_style

datatype conversation =
    Auth_err
  | Answers "string option list"
  | Undefined

fun conversation_loop :: "string \<Rightarrow> nat \<Rightarrow> msg_style list \<Rightarrow> string option list \<Rightarrow> conversation" where
  "conversation_loop pass i [] resp = Answers resp"
| "conversation_loop pass i (style # msgs) resp =
     (if style \<noteq> PAM_PROMPT_ECHO_OFF then conversation_loop pass (Suc i) msgs resp
      else if i = 0 then conversation_loop pass (Suc i) msgs (resp[0 := Some pass])
      else Undefined)"

definition pamFunctionConversation :: "msg_style list \<Rightarrow> string option \<Rightarrow> conversation" where
  "pamFunctionConversation msgs appdataPtr =
     (case appdataPtr of
        None \<Rightarrow> Auth_err
      | Some appPass \<Rightarrow>
          conversation_loop (c_str appPass) 0 msgs (replicate (length msgs) None))"

section \<open>The parameters of a request's authentication\<close>

record auth_context =
  json_codec :: codec
  rng_draw :: "nat \<Rightarrow> nat option"
  time_now :: int
  pam :: pam_api
  evp_decode :: "string \<Rightarrow> int \<times> string"
  insecure_disable_csrf :: bool

definition xXSRFToken :: string where "xXSRFToken = ''HTTP_X_XSRF_TOKEN''"
definition xAuthToken :: string where "xAuthToken = ''HTTP_X_AUTH_TOKEN''"
definition authBasic :: string where "authBasic = ''Basic ''"
definition authToken :: string where "authToken = ''Token ''"
definition cookieSession :: string where "cookieSession = ''SESSION''"

lemmas auth_names = xXSRFToken_def xAuthToken_def authBasic_def authToken_def cookieSession_def

type_synonym session_request = "user_session request"

text \<open>\<open>SessionStore::getInstance ().loginSessionByToken\<close> on the world.\<close>

definition login_world :: "auth_context \<Rightarrow> string \<Rightarrow> world \<Rightarrow> user_session option \<times> world" where
  "login_world cx token w =
     (let (s, st) = loginSessionByToken (time_now cx) token (store w) in (s, w\<lparr>store := st\<rparr>))"

section \<open>The four ways to a session\<close>

definition performTokenAuth :: "auth_context \<Rightarrow> string \<Rightarrow> world \<Rightarrow> user_session option \<times> world" where
  "performTokenAuth cx auth_header w = login_world cx (drop (length authToken) auth_header) w"

definition performXtokenAuth ::
    "auth_context \<Rightarrow> session_request \<Rightarrow> world \<Rightarrow> user_session option \<times> world" where
  "performXtokenAuth cx request w =
     (case map_of (others (env request)) xAuthToken of
        None \<Rightarrow> (None, w)
      | Some token \<Rightarrow> (if token = [] then (None, w) else login_world cx token w))"

definition performCookieAuth ::
    "auth_context \<Rightarrow> session_request \<Rightarrow> world \<Rightarrow> user_session option \<times> world" where
  "performCookieAuth cx request w =
     (case map_of (cookies (env request)) cookieSession of
        None \<Rightarrow> (None, w)
      | Some sessionValue \<Rightarrow>
          (case login_world cx sessionValue w of
             (None, w1) \<Rightarrow> (None, w1)
           | (Some session, w1) \<Rightarrow>
               (if \<not> insecure_disable_csrf cx \<and> requestMethod (env request) \<noteq> GET
                then (case map_of (others (env request)) xXSRFToken of
                        None \<Rightarrow> (None, w1)
                      | Some csrf \<Rightarrow>
                          (if csrf = [] \<or> csrfToken session = [] then (None, w1)
                           else if length csrf \<noteq> sessionTokenSize then (None, w1)
                           else if \<not> constantTimeStringCompare csrf (csrfToken session) then (None, w1)
                           else (Some session, w1)))
                else (Some session, w1))))"

definition performBasicAuth :: "auth_context \<Rightarrow> session_request \<Rightarrow> user_session option action" where
  "performBasicAuth cx request w =
     (let param = drop (length authBasic) (authorization (env request))
      in case base64Decode (evp_decode cx) param of
           Inl _ \<Rightarrow> (Inr None, w)
         | Inr authData \<Rightarrow>
             (case find_char CHR '':'' authData of
                None \<Rightarrow> (Inr None, w)
              | Some separator \<Rightarrow>
                  (let user = take separator authData
                   in if separator + 1 > length authData then (Inr None, w)
                      else (let pass = drop (separator + 1) authData;
                                pamrc = fst (pamAuthenticateUser (pam cx) user pass);
                                isConfigureSelfOnly = (pamrc = PAM_NEW_AUTHTOK_REQD (pam cx))
                            in if pamrc \<noteq> PAM_SUCCESS (pam cx) \<and> \<not> isConfigureSelfOnly
                               then (Inr None, w)
                               else newBasicAuthSession (json_codec cx) (rng_draw cx) (time_now cx)
                                      user isConfigureSelfOnly (getClientIp request) w))))"

section \<open>The decision\<close>

definition whiteListGetUris :: "string list" where
  "whiteListGetUris = [''/redfish/'', ''/redfish/v1/'', ''/redfish/v1/odata/'']"

definition whiteListPostUris :: "string list" where
  "whiteListPostUris = [''/login/'', ''/redfish/v1/SessionService/Sessions/'']"

definition isOnWhitelist :: "session_request \<Rightarrow> bool" where
  "isOnWhitelist req =
     (let url = getUriPath req;
          isOnWhitelist = (if requestMethod (env req) = GET
                           then list_ex (\<lambda>v. v = url) whiteListGetUris else False)
      in if requestMethod (env req) = POST
         then list_ex (\<lambda>v. v = url) whiteListPostUris else isOnWhitelist)"

text \<open>The attempts in order; the \<open>Authorization\<close> header last.\<close>

definition try_xtoken :: "auth_context \<Rightarrow> auth_methods \<Rightarrow> session_request \<Rightarrow> world \<Rightarrow> session_request \<times> world" where
  "try_xtoken cx cfg request w =
     (if isSessionEmpty request \<and> xtoken cfg
      then (let (s, w1) = performXtokenAuth cx request w in (setSession s request, w1))
      else (request, w))"

definition try_cookie :: "auth_context \<Rightarrow> auth_methods \<Rightarrow> session_request \<Rightarrow> world \<Rightarrow> session_request \<times> world" where
  "try_cookie cx cfg request w =
     (if isSessionEmpty request \<and> cookie cfg
      then (let (s, w1) = performCookieAuth cx request w in (setSession s request, w1))
      else (request, w))"

definition try_header :: "auth_context \<Rightarrow> auth_methods \<Rightarrow> session_request \<Rightarrow> session_request action" where
  "try_header cx cfg request w =
     (if isSessionEmpty request then
        (let authHeader = authorization (env request)
         in if authHeader \<noteq> [] then
              (if starts_with authHeader authToken \<and> sessionTokenAuth cfg
               then (let (s, w1) = performTokenAuth cx authHeader w in (Inr (setSession s request), w1))
               else if starts_with authHeader authBasic \<and> basic cfg
               then and_then (performBasicAuth cx request) (\<lambda>s w1. (Inr (setSession s request), w1)) w
               else (Inr request, w))
            else (Inr request, w))
      else (Inr request, w))"

definition loginPathNext :: string where
  "loginPathNext = ''/#/login?next=''"

definition refuse :: "session_request \<Rightarrow> response \<Rightarrow> response" where
  "refuse request response =
     (if isBrowserRequest request
      then setHeader locationName (loginPathNext @ urlEncode (getUriPath request))
             (setStatus TemporaryRedirect response)
      else (let response1 = setStatus Unauthorized response
            in if userAgent (env request) = []
               then setHeader wwwAuthenticateName authBasic response1 else response1))"

text \<open>The configuration is a reference into the store; the attempts do not change it.\<close>

definition authenticate ::
    "auth_context \<Rightarrow> session_request \<Rightarrow> response \<Rightarrow> world \<Rightarrow>
     bool may_throw \<times> session_request \<times> response \<times> world" where
  "authenticate cx request0 response w0 =
     (if isOnWhitelist request0 then (Inr True, request0, response, w0)
      else (let cfg = authMethodsConfig (store w0);
                (request1, w1) = try_xtoken cx cfg request0 w0;
                (request2, w2) = try_cookie cx cfg request1 w1
            in case try_header cx cfg request2 w2 of
                 (Inl e, w3) \<Rightarrow> (Inl e, request2, response, w3)
               | (Inr request3, w3) \<Rightarrow>
                   (if isSessionEmpty request3
                    then (Inr False, request3, refuse request3 response, w3)
                    else (case commit (json_codec cx) w3 of
                            (Inl e, w4) \<Rightarrow> (Inl e, request3, response, w4)
                          | (Inr _, w4) \<Rightarrow> (Inr True, request3, response, w4)))))"

section \<open>What a credential is\<close>

text \<open>The specification: each way to a session stated on the store the request finds.\<close>

definition valid_xtoken :: "auth_context \<Rightarrow> environment \<Rightarrow> session_store \<Rightarrow> user_session \<Rightarrow> bool" where
  "valid_xtoken cx e st s \<longleftrightarrow> xtoken (authMethodsConfig st) \<and>
     (\<exists>t. map_of (others e) xAuthToken = Some t \<and> login_result (time_now cx) t st = Some s)"

definition csrf_ok :: "auth_context \<Rightarrow> environment \<Rightarrow> user_session \<Rightarrow> bool" where
  "csrf_ok cx e s \<longleftrightarrow> insecure_disable_csrf cx \<or> requestMethod e = GET \<or>
     (map_of (others e) xXSRFToken = Some (csrfToken s) \<and> length (csrfToken s) = 20)"

definition valid_cookie :: "auth_context \<Rightarrow> environment \<Rightarrow> session_store \<Rightarrow> user_session \<Rightarrow> bool" where
  "valid_cookie cx e st s \<longleftrightarrow> cookie (authMethodsConfig st) \<and>
     (\<exists>t. map_of (cookies e) cookieSession = Some t \<and> login_result (time_now cx) t st = Some s) \<and>
     csrf_ok cx e s"

definition valid_token :: "auth_context \<Rightarrow> environment \<Rightarrow> session_store \<Rightarrow> user_session \<Rightarrow> bool" where
  "valid_token cx e st s \<longleftrightarrow> sessionTokenAuth (authMethodsConfig st) \<and>
     (\<exists>t. authorization e = ''Token '' @ t \<and> login_result (time_now cx) t st = Some s)"

definition valid_basic :: "auth_context \<Rightarrow> environment \<Rightarrow> session_store \<Rightarrow> bool" where
  "valid_basic cx e st \<longleftrightarrow> basic (authMethodsConfig st) \<and>
     (\<exists>b user pass. authorization e = ''Basic '' @ b \<and>
        base64Decode (evp_decode cx) b = Inr (user @ CHR '':'' # pass) \<and> CHR '':'' \<notin> set user \<and>
        fst (pamAuthenticateUser (pam cx) user pass) \<in>
          {PAM_SUCCESS (pam cx), PAM_NEW_AUTHTOK_REQD (pam cx)})"

end
