(* ===== verification/Auth_Facts.thy ===== *)
theory Auth_Facts
  imports Authorization Session_Samples
begin

text \<open>
  Who \<open>authenticate\<close> lets through, what a refused client is sent, and the use of PAM.
\<close>

section \<open>Logins at one instant\<close>

text \<open>
  Two stores that answer every login at \<open>now\<close> alike: a failed attempt, or one that was
  refused later, does not change what the next attempt finds.
\<close>

definition same_logins :: "int \<Rightarrow> session_store \<Rightarrow> session_store \<Rightarrow> bool" where
  "same_logins now st st' \<longleftrightarrow>
     um_ok (authTokens st') \<and> (\<forall>t. login_result now t st' = login_result now t st) \<and>
     authMethodsConfig st' = authMethodsConfig st"

lemma same_logins_refl: "um_ok (authTokens st) \<Longrightarrow> same_logins now st st"
  by (simp add: same_logins_def)

lemma same_logins_trans: "same_logins now a b \<Longrightarrow> same_logins now b c \<Longrightarrow> same_logins now a c"
  by (simp add: same_logins_def)

lemma um_ok_timeouts: "um_ok (authTokens st) \<Longrightarrow> um_ok (authTokens (applySessionTimeouts now st))"
  by (simp add: applySessionTimeouts_def um_ok_filter)

lemma um_ok_login: "um_ok (authTokens st) \<Longrightarrow> um_ok (authTokens (snd (loginSessionByToken now t st)))"
  by (simp add: loginSessionByToken_def Let_def um_ok_timeouts um_ok_assign split: option.splits)

lemma due_after_login: "\<not> timeouts_due now (snd (loginSessionByToken now t st))"
  by (simp add: loginSessionByToken_def Let_def applySessionTimeouts_def timeouts_due_def
      split: option.splits)

lemma config_after_login [simp]:
  "authMethodsConfig (snd (loginSessionByToken now t st)) = authMethodsConfig st"
  by (simp add: loginSessionByToken_def Let_def applySessionTimeouts_def split: option.splits)

lemma same_logins_login:
  assumes "um_ok (authTokens st)"
  shows "same_logins now st (snd (loginSessionByToken now t st))"
proof -
  have "login_result now t' (snd (loginSessionByToken now t st)) = login_result now t' st" for t'
    unfolding login_result_def [of now t' "snd (loginSessionByToken now t st)"]
    by (auto simp: login_snd [OF assms] live_def due_after_login login_result_def
        split: option.splits if_splits)
  then show ?thesis by (simp add: same_logins_def um_ok_login [OF assms])
qed

lemma login_world_result:
  assumes "um_ok (authTokens (store w))" "login_world cx t w = (r, w1)"
  shows "r = login_result (time_now cx) t (store w)" "same_logins (time_now cx) (store w) (store w1)"
  using assms login_fst [OF assms(1), of "time_now cx" t] same_logins_login [OF assms(1), of "time_now cx" t]
  by (auto simp: login_world_def split: prod.splits)

section \<open>The attempts\<close>

lemma login_result_length: "login_result now t st = Some s \<Longrightarrow> length t = 20"
  by (auto simp: login_result_def split: option.splits if_splits)

lemma login_result_Nil [simp]: "login_result now [] st = None"
  using login_result_length [of now "[]" st] by (cases "login_result now [] st") auto

lemma xtoken_result:
  assumes "um_ok (authTokens (store w))" "performXtokenAuth cx r w = (res, w1)"
  shows "res = Some s \<longleftrightarrow> (\<exists>t. map_of (others (env r)) xAuthToken = Some t \<and>
           login_result (time_now cx) t (store w) = Some s)"
    and "same_logins (time_now cx) (store w) (store w1)"
  using assms login_world_result [OF assms(1)] same_logins_refl [OF assms(1)]
  by (auto simp: performXtokenAuth_def split: option.splits if_splits)

lemma csrf_check:
  "(csrf \<noteq> [] \<and> csrfToken s \<noteq> [] \<and> length csrf = sessionTokenSize \<and>
    constantTimeStringCompare csrf (csrfToken s)) \<longleftrightarrow> csrf = csrfToken s \<and> length (csrfToken s) = 20"
  by (auto simp: constantTimeStringCompare_def sessionTokenSize_def)

lemma cookie_result:
  assumes "um_ok (authTokens (store w))" "performCookieAuth cx r w = (res, w1)"
  shows "res = Some s \<longleftrightarrow> (\<exists>t. map_of (cookies (env r)) cookieSession = Some t \<and>
           login_result (time_now cx) t (store w) = Some s) \<and> csrf_ok cx (env r) s"
    and "same_logins (time_now cx) (store w) (store w1)"
proof -
  show "res = Some s \<longleftrightarrow> (\<exists>t. map_of (cookies (env r)) cookieSession = Some t \<and>
           login_result (time_now cx) t (store w) = Some s) \<and> csrf_ok cx (env r) s"
  proof (cases "map_of (cookies (env r)) cookieSession")
    case None
    with assms(2) show ?thesis by (auto simp: performCookieAuth_def)
  next
    case (Some v)
    obtain l w' where l: "login_world cx v w = (l, w')" by (cases "login_world cx v w")
    note lr = login_world_result(1) [OF assms(1) l]
    show ?thesis
    proof (cases l)
      case None
      with assms(2) Some l lr show ?thesis by (auto simp: performCookieAuth_def)
    next
      case (Some s')
      with assms(2) \<open>map_of _ _ = Some v\<close> l have
        "res = (if csrf_ok cx (env r) s' then Some s' else None)"
        using csrf_check [of _ s']
        by (auto simp: performCookieAuth_def csrf_ok_def split: option.splits if_splits)
      with Some \<open>map_of _ _ = Some v\<close> lr show ?thesis by (auto split: if_splits)
    qed
  qed
  show "same_logins (time_now cx) (store w) (store w1)"
    using assms login_world_result [OF assms(1)] same_logins_refl [OF assms(1)]
    by (auto simp: performCookieAuth_def split: option.splits if_splits prod.splits)
qed

lemma same_loginsD:
  "same_logins now st st' \<Longrightarrow> um_ok (authTokens st')"
  "same_logins now st st' \<Longrightarrow> login_result now t st' = login_result now t st"
  "same_logins now st st' \<Longrightarrow> authMethodsConfig st' = authMethodsConfig st"
  by (simp_all add: same_logins_def)

lemma try_xtoken_result:
  assumes "um_ok (authTokens (store w))" "try_xtoken cx (authMethodsConfig (store w)) r w = (r1, w1)"
    and "userSession r = None"
  shows "userSession r1 = Some s \<longleftrightarrow> valid_xtoken cx (env r) (store w) s"
    and "same_logins (time_now cx) (store w) (store w1)" and "env r1 = env r"
  using assms xtoken_result [OF assms(1)] same_logins_refl [OF assms(1)]
  by (auto simp: try_xtoken_def isSessionEmpty_def valid_xtoken_def split: prod.splits if_splits)

lemma try_cookie_result:
  assumes "um_ok (authTokens (store w))" "try_cookie cx (authMethodsConfig (store w)) r w = (r1, w1)"
  shows "userSession r1 = Some s \<longleftrightarrow>
      userSession r = Some s \<or> (userSession r = None \<and> valid_cookie cx (env r) (store w) s)"
    and "same_logins (time_now cx) (store w) (store w1)" and "env r1 = env r"
  using assms cookie_result [OF assms(1)] same_logins_refl [OF assms(1)]
  by (auto simp: try_cookie_def isSessionEmpty_def valid_cookie_def split: prod.splits if_splits)

lemma starts_with_iff: "starts_with s p \<longleftrightarrow> (\<exists>t. s = p @ t)"
  by (metis starts_with_append starts_with_imp)

lemma valid_same_logins:
  assumes "same_logins (time_now cx) st st'"
  shows "valid_xtoken cx e st' s = valid_xtoken cx e st s"
    and "valid_cookie cx e st' s = valid_cookie cx e st s"
    and "valid_token cx e st' s = valid_token cx e st s"
    and "valid_basic cx e st' = valid_basic cx e st"
  by (simp_all add: valid_xtoken_def valid_cookie_def valid_token_def valid_basic_def
      same_loginsD [OF assms])

lemma basic_result_Some:
  assumes "performBasicAuth cx r w = (Inr (Some s), w1)" "starts_with (authorization (env r)) authBasic"
    and "basic (authMethodsConfig st)"
  shows "valid_basic cx (env r) st"
proof -
  obtain b where b: "authorization (env r) = ''Basic '' @ b"
    using assms(2) by (auto simp: starts_with_iff authBasic_def)
  from assms(1) b obtain d where d: "base64Decode (evp_decode cx) b = Inr d"
    by (auto simp: performBasicAuth_def authBasic_def split: sum.splits)
  with assms(1) b obtain i where i: "find_char CHR '':'' d = Some i"
    by (auto simp: performBasicAuth_def authBasic_def split: option.splits)
  note d' = find_char_Some [OF i]
  have pam: "fst (pamAuthenticateUser (pam cx) (take i d) (drop (i + 1) d)) \<in>
      {PAM_SUCCESS (pam cx), PAM_NEW_AUTHTOK_REQD (pam cx)}"
    using assms(1) b d i by (auto simp: performBasicAuth_def authBasic_def Let_def split: if_splits)
  have "base64Decode (evp_decode cx) b = Inr (take i d @ CHR '':'' # drop (i + 1) d)"
    using d d' by simp
  with pam b assms(3) d' show ?thesis unfolding valid_basic_def by blast
qed

lemma find_char_split: "c \<notin> set u \<Longrightarrow> find_char c (u @ c # p) = Some (length u)"
  by (rule find_char_first)

lemma basic_result_valid:
  assumes "valid_basic cx (env r) st"
  obtains user so where "performBasicAuth cx r w =
    newBasicAuthSession (json_codec cx) (rng_draw cx) (time_now cx) user so (getClientIp r) w"
proof -
  from assms obtain b user pass where b: "authorization (env r) = ''Basic '' @ b"
    "base64Decode (evp_decode cx) b = Inr (user @ CHR '':'' # pass)" "CHR '':'' \<notin> set user"
    "fst (pamAuthenticateUser (pam cx) user pass) \<in> {PAM_SUCCESS (pam cx), PAM_NEW_AUTHTOK_REQD (pam cx)}"
    by (auto simp: valid_basic_def)
  then have "performBasicAuth cx r w = newBasicAuthSession (json_codec cx) (rng_draw cx) (time_now cx) user
      (fst (pamAuthenticateUser (pam cx) user pass) = PAM_NEW_AUTHTOK_REQD (pam cx)) (getClientIp r) w"
    by (auto simp: performBasicAuth_def authBasic_def find_char_split Let_def)
  then show thesis by (rule that)
qed

lemma not_basic_and_token: "starts_with s authToken \<Longrightarrow> \<not> starts_with s authBasic"
  by (auto simp: starts_with_iff authToken_def authBasic_def)

lemma try_header_sound:
  assumes "um_ok (authTokens (store w))"
    and "try_header cx (authMethodsConfig (store w)) r w = (Inr r1, w1)" "userSession r1 = Some s"
  shows "userSession r = Some s \<or> valid_token cx (env r) (store w) s \<or> valid_basic cx (env r) (store w)"
proof (cases "userSession r")
  case Some
  with assms show ?thesis by (simp add: try_header_def isSessionEmpty_def)
next
  case None
  note res = login_world_result(1) [OF assms(1)]
  show ?thesis
  proof (cases "starts_with (authorization (env r)) authToken \<and> sessionTokenAuth (authMethodsConfig (store w))")
    case True
    then obtain t where t: "authorization (env r) = ''Token '' @ t"
      by (auto simp: starts_with_iff authToken_def)
    with True None assms(2,3) res show ?thesis
      by (auto simp: try_header_def isSessionEmpty_def performTokenAuth_def authToken_def valid_token_def Let_def
          split: prod.splits)
  next
    case False
    with None assms(2,3) have "starts_with (authorization (env r)) authBasic"
      "basic (authMethodsConfig (store w))"
      "\<exists>s' w'. performBasicAuth cx r w = (Inr s', w') \<and> s' = Some s"
      by (auto simp: try_header_def isSessionEmpty_def and_then_def Let_def
          split: if_splits prod.splits sum.splits)
    then show ?thesis using basic_result_Some by blast
  qed
qed

lemma attempts:
  assumes "um_ok (authTokens (store w))" "userSession r = None"
    and "try_xtoken cx (authMethodsConfig (store w)) r w = (r1, w1)"
    and "try_cookie cx (authMethodsConfig (store w)) r1 w1 = (r2, w2)"
  shows "userSession r2 = Some s \<longleftrightarrow> valid_xtoken cx (env r) (store w) s \<or>
      ((\<nexists>s'. valid_xtoken cx (env r) (store w) s') \<and> valid_cookie cx (env r) (store w) s)"
    and "same_logins (time_now cx) (store w) (store w2)" and "env r2 = env r"
proof -
  note x = try_xtoken_result [OF assms(1,3,2)]
  note um1 = same_loginsD(1) [OF x(2)] and cfg = same_loginsD(3) [OF x(2)]
  note c = try_cookie_result [OF um1 assms(4) [folded cfg]]
  show "same_logins (time_now cx) (store w) (store w2)" by (rule same_logins_trans [OF x(2) c(2)])
  show "env r2 = env r" using x(3) c(3) by simp
  have none: "userSession r1 = None \<longleftrightarrow> (\<nexists>s'. valid_xtoken cx (env r) (store w) s')"
    using x(1) by (cases "userSession r1") auto
  show "userSession r2 = Some s \<longleftrightarrow> valid_xtoken cx (env r) (store w) s \<or>
      ((\<nexists>s'. valid_xtoken cx (env r) (store w) s') \<and> valid_cookie cx (env r) (store w) s)"
    using c(1) x(1,3) none valid_same_logins(2) [OF x(2)] by auto
qed

definition credential :: "auth_context \<Rightarrow> environment \<Rightarrow> session_store \<Rightarrow> user_session \<Rightarrow> bool" where
  "credential cx e st s \<longleftrightarrow>
     valid_xtoken cx e st s \<or> valid_cookie cx e st s \<or> valid_token cx e st s \<or> valid_basic cx e st"

lemma authenticate_true_cases:
  assumes "authenticate cx r resp w = (Inr True, r', resp', w')" "\<not> isOnWhitelist r"
  obtains r1 w1 r2 w2 w3 s where
    "try_xtoken cx (authMethodsConfig (store w)) r w = (r1, w1)"
    "try_cookie cx (authMethodsConfig (store w)) r1 w1 = (r2, w2)"
    "try_header cx (authMethodsConfig (store w)) r2 w2 = (Inr r', w3)" "userSession r' = Some s"
  using assms
  by (auto simp: authenticate_def isSessionEmpty_def Let_def split: prod.splits sum.splits if_splits)

lemma authenticate_sound_lemma:
  assumes ok: "um_ok (authTokens (store w))" and none: "userSession r = None"
    and a: "authenticate cx r resp w = (Inr True, r', resp', w')" and nw: "\<not> isOnWhitelist r"
  shows "\<exists>s. userSession r' = Some s \<and> credential cx (env r) (store w) s"
proof -
  from authenticate_true_cases [OF a nw] obtain r1 w1 r2 w2 w3 s where t:
    "try_xtoken cx (authMethodsConfig (store w)) r w = (r1, w1)"
    "try_cookie cx (authMethodsConfig (store w)) r1 w1 = (r2, w2)"
    "try_header cx (authMethodsConfig (store w)) r2 w2 = (Inr r', w3)" "userSession r' = Some s"
    by blast
  note at = attempts [OF ok none t(1,2)]
  note um2 = same_loginsD(1) [OF at(2)] and cfg = same_loginsD(3) [OF at(2)]
  from try_header_sound [OF um2 t(3) [folded cfg] t(4)] at(1,3)
  have "credential cx (env r) (store w) s"
    unfolding credential_def valid_same_logins [OF at(2)] by auto
  with t(4) show ?thesis by blast
qed

section \<open>When nothing fails\<close>

text \<open>Writing never throws and the generator delivers.\<close>

definition never_fails :: "auth_context \<Rightarrow> bool" where
  "never_fails cx \<longleftrightarrow> (\<forall>j. snd (dump (json_codec cx) j) = None) \<and> (\<forall>i. rng_draw cx i \<noteq> None)"

lemma commit_total: "(\<And>j. snd (dump c j) = None) \<Longrightarrow> \<exists>w'. commit c w = (Inr (), w')"
  by (simp add: commit_unfold and_then_def write_result_def)

lemma draw_total: "(\<And>i. draw i \<noteq> None) \<Longrightarrow> draw_chars draw i n \<noteq> None"
proof (induction n arbitrary: i)
  case 0
  then show ?case by simp
next
  case (Suc n)
  from Suc.prems [of i] Suc.IH [OF Suc.prems, of "Suc i"] show ?case by (auto split: option.splits)
qed

lemma basic_session_total:
  assumes "never_fails cx"
  shows "\<exists>s w'. newBasicAuthSession (json_codec cx) (rng_draw cx) now user so ip w = (Inr (Some s), w')"
proof -
  have d: "draw_chars (rng_draw cx) i n \<noteq> None" for i n
    using assms by (intro draw_total) (simp add: never_fails_def)
  obtain a b e where "draw_chars (rng_draw cx) 0 sessionTokenSize = Some a"
    "draw_chars (rng_draw cx) sessionTokenSize sessionTokenSize = Some b"
    "draw_chars (rng_draw cx) (2 * sessionTokenSize) 10 = Some e"
    using d by (metis option.exhaust)
  moreover have "\<exists>w'. commit (json_codec cx) w = (Inr (), w')" for w
    using assms by (intro commit_total) (simp add: never_fails_def)
  then obtain k where "commit (json_codec cx) w = (Inr (), k w)" for w by metis
  ultimately show ?thesis
    by (simp add: newBasicAuthSession_def generateUserSession_def storeAuthToken_def and_then_def Let_def)
qed

lemma try_header_complete:
  assumes "um_ok (authTokens (store w))" and "never_fails cx"
    and "userSession r = None"
    and "valid_token cx (env r) (store w) s \<or> valid_basic cx (env r) (store w)"
  shows "\<exists>r1 w1. try_header cx (authMethodsConfig (store w)) r w = (Inr r1, w1) \<and> userSession r1 \<noteq> None"
  using assms(4)
proof
  assume "valid_token cx (env r) (store w) s"
  then obtain t where t: "authorization (env r) = ''Token '' @ t" "sessionTokenAuth (authMethodsConfig (store w))"
    "login_result (time_now cx) t (store w) = Some s" by (auto simp: valid_token_def)
  obtain l w1 where l: "login_world cx t w = (l, w1)" by (cases "login_world cx t w")
  from login_world_result(1) [OF assms(1) l] t(3) have "l = Some s" by simp
  with t(1,2) l assms(3) show ?thesis
    by (simp add: try_header_def isSessionEmpty_def performTokenAuth_def authToken_def starts_with_def Let_def)
next
  assume v: "valid_basic cx (env r) (store w)"
  then obtain b where b: "authorization (env r) = ''Basic '' @ b" "basic (authMethodsConfig (store w))"
    by (auto simp: valid_basic_def)
  obtain user so where p: "performBasicAuth cx r w = newBasicAuthSession (json_codec cx) (rng_draw cx)
      (time_now cx) user so (getClientIp r) w" using v by (rule basic_result_valid)
  obtain s' w1 where "performBasicAuth cx r w = (Inr (Some s'), w1)"
    unfolding p using basic_session_total [OF assms(2)] by blast
  with b assms(3) show ?thesis
    by (simp add: try_header_def isSessionEmpty_def authToken_def authBasic_def starts_with_def Let_def
        and_then_def)
qed

lemma authenticate_complete_lemma:
  assumes ok: "um_ok (authTokens (store w))" and none: "userSession r = None" and nf: "never_fails cx"
    and c: "credential cx (env r) (store w) s" and nw: "\<not> isOnWhitelist r"
  shows "fst (authenticate cx r resp w) = Inr True"
proof -
  obtain r1 w1 where x: "try_xtoken cx (authMethodsConfig (store w)) r w = (r1, w1)"
    by (cases "try_xtoken cx (authMethodsConfig (store w)) r w")
  obtain r2 w2 where k: "try_cookie cx (authMethodsConfig (store w)) r1 w1 = (r2, w2)"
    by (cases "try_cookie cx (authMethodsConfig (store w)) r1 w1")
  note at = attempts [OF ok none x k]
  note um2 = same_loginsD(1) [OF at(2)] and cfg = same_loginsD(3) [OF at(2)]
  have "\<exists>r3 w3. try_header cx (authMethodsConfig (store w)) r2 w2 = (Inr r3, w3) \<and> userSession r3 \<noteq> None"
  proof (cases "userSession r2")
    case (Some s2)
    then show ?thesis by (simp add: try_header_def isSessionEmpty_def)
  next
    case None
    with at(1) have "\<nexists>s'. valid_xtoken cx (env r) (store w) s'" "\<nexists>s'. valid_cookie cx (env r) (store w) s'"
      by auto
    with c have "valid_token cx (env r2) (store w2) s \<or> valid_basic cx (env r2) (store w2)"
      unfolding at(3) valid_same_logins [OF at(2)] by (auto simp: credential_def)
    from try_header_complete [OF um2 nf None this] show ?thesis unfolding cfg .
  qed
  then obtain r3 w3 where h: "try_header cx (authMethodsConfig (store w)) r2 w2 = (Inr r3, w3)"
    "userSession r3 \<noteq> None" by blast
  have "\<exists>w4. commit (json_codec cx) w3 = (Inr (), w4)"
    using nf by (intro commit_total) (simp add: never_fails_def)
  then obtain w4 where "commit (json_codec cx) w3 = (Inr (), w4)" by blast
  with x k h nw show ?thesis by (auto simp: authenticate_def isSessionEmpty_def)
qed

section \<open>The refusal\<close>

lemma attempts_env:
  "try_xtoken cx cfg r w = (r1, w1) \<Longrightarrow> env r1 = env r"
  "try_cookie cx cfg r w = (r1, w1) \<Longrightarrow> env r1 = env r"
  "try_header cx cfg r w = (Inr r1, w1) \<Longrightarrow> env r1 = env r"
  by (auto simp: try_xtoken_def try_cookie_def try_header_def and_then_def Let_def
      split: if_splits prod.splits sum.splits)

lemma authenticate_false:
  assumes "authenticate cx r resp w = (Inr False, r', resp', w')"
  shows "env r' = env r \<and> resp' = refuse r' resp \<and> userSession r' = None"
  using assms
  by (auto simp: authenticate_def Let_def isSessionEmpty_def dest!: attempts_env
      split: if_splits prod.splits sum.splits)

lemma refuse_env: "env r' = env r \<Longrightarrow> refuse r' resp = refuse r resp"
  by (simp add: refuse_def isBrowserRequest_def getUriPath_def)

section \<open>PAM\<close>

lemma conversation_later:
  "0 < i \<Longrightarrow> conversation_loop pass i msgs resp =
     (if PAM_PROMPT_ECHO_OFF \<in> set msgs then Undefined else Answers resp)"
  by (induction msgs arbitrary: i) auto

text \<open>A PAM handle that was opened is closed exactly once, as the last call.\<close>

lemma pam_handle_closed:
  "count_list (snd (pamAuthenticateUser p u pw)) End =
     (if pam_start p (c_str u) (c_str pw) = PAM_SUCCESS p then 1 else 0)"
  "count_list (snd (pamUpdatePassword p u pw)) End =
     (if pam_start p (c_str u) (c_str pw) = PAM_SUCCESS p then 1 else 0)"
  by (simp_all add: pamAuthenticateUser_def pamUpdatePassword_def Let_def)

section \<open>Concrete inputs\<close>

text \<open>A \<open>POST\<close> with the session cookie and the CSRF token, in a context where all succeeds.\<close>

definition sample_env :: environment where
  "sample_env =
     \<lparr>requestMethod = POST, env_contentType = [], acceptContentTypes = [], pathInfo = [''api''],
      authorization = [], userAgent = [], remoteAddress = ''10.0.0.1'',
      others = [(''HTTP_X_XSRF_TOKEN'', ''abcdefghijabcdefghij'')],
      cookies = [(''SESSION'', sample_token)], postBuffer = []\<rparr>"

definition sample_request :: session_request where
  "sample_request = new_request sample_env"

definition sample_context :: auth_context where
  "sample_context =
     \<lparr>json_codec = \<lparr>parse = \<lambda>_. JDiscarded, dump = \<lambda>_. ([], None)\<rparr>, rng_draw = \<lambda>_. Some 0,
      time_now = 5, pam = \<lparr>pam_start = \<lambda>_ _. 0, pam_authenticate = \<lambda>_ _. 7, pam_acct_mgmt = \<lambda>_ _. 0,
        pam_chauthtok = \<lambda>_ _. 0, pam_end = \<lambda>_ _. 0, PAM_SUCCESS = 0, PAM_NEW_AUTHTOK_REQD = 12\<rparr>,
      evp_decode = \<lambda>_. (0, []), insecure_disable_csrf = False\<rparr>"

definition fresh_sample :: user_session where
  "fresh_sample = sample_session\<lparr>lastUpdated := 5\<rparr>"

lemma sample_request_empty: "userSession sample_request = None"
  by (simp add: sample_request_def new_request_def)

lemma sample_login_result:
  "login_result 5 sample_token (store sample_world) = Some fresh_sample"
  by (simp add: login_result_def sample_world_def sample_session_def fresh_sample_def sample_token_def
      live_def timeouts_due_def new_session_store_def)

lemma sample_valid_cookie:
  "valid_cookie sample_context sample_env (store sample_world) fresh_sample"
proof -
  have "cookie (authMethodsConfig (store sample_world))"
    by (simp add: sample_world_def new_session_store_def new_auth_methods_def)
  moreover have "csrf_ok sample_context sample_env fresh_sample"
    by (simp add: csrf_ok_def sample_env_def fresh_sample_def sample_session_def xXSRFToken_def)
  moreover have "time_now sample_context = 5" by (simp add: sample_context_def)
  ultimately show ?thesis
    by (simp add: valid_cookie_def sample_login_result sample_env_def cookieSession_def)
qed

lemma sample_not_whitelisted: "\<not> isOnWhitelist sample_request"
  by (simp add: isOnWhitelist_def sample_request_def new_request_def sample_env_def getUriPath_def
      ostream_join_def whiteListPostUris_def)

lemma sample_never_fails: "never_fails sample_context"
  by (simp add: never_fails_def sample_context_def)

lemma sample_authenticate:
  obtains r' resp' w' where
    "authenticate sample_context sample_request new_response sample_world = (Inr True, r', resp', w')"
proof -
  have "credential sample_context (env sample_request) (store sample_world) fresh_sample"
    using sample_valid_cookie by (simp add: credential_def sample_request_def new_request_def)
  from authenticate_complete_lemma [OF store_ok_um [OF sample_world_ok] sample_request_empty
      sample_never_fails this sample_not_whitelisted, of new_response]
  show thesis
    using that by (cases "authenticate sample_context sample_request new_response sample_world") auto
qed

section \<open>Properties\<close>

text \<open>C1: a request that \<open>authenticate\<close> lets through is on the whitelist or carries a session
  that one of the enabled methods grants on the store as the request found it: a live
  session under the \<open>X-Auth-Token\<close>; a live session under the \<open>SESSION\<close> cookie with, for
  any method but GET, its 20-character CSRF token in the \<open>X-XSRF-TOKEN\<close> header; a live
  session under an \<open>Authorization: Token\<close>; or basic credentials PAM accepts (a password
  that must be changed included).\<close>

theorem authenticate_sound:
  assumes "store_ok (store w)" and "userSession r = None"
    and "authenticate cx r resp w = (Inr True, r', resp', w')"
  shows "isOnWhitelist r \<or> (\<exists>s. userSession r' = Some s \<and>
    (valid_xtoken cx (env r) (store w) s \<or> valid_cookie cx (env r) (store w) s \<or>
     valid_token cx (env r) (store w) s \<or> valid_basic cx (env r) (store w)))"
  using authenticate_sound_lemma [OF store_ok_um [OF assms(1)] assms(2,3)]
  by (cases "isOnWhitelist r") (auto simp: credential_def)

theorem authenticate_sound_witness:
  "\<exists>r' resp' w' s. authenticate sample_context sample_request new_response sample_world =
      (Inr True, r', resp', w') \<and> userSession r' = Some s \<and>
    (valid_xtoken sample_context sample_env (store sample_world) s \<or>
     valid_cookie sample_context sample_env (store sample_world) s \<or>
     valid_token sample_context sample_env (store sample_world) s \<or>
     valid_basic sample_context sample_env (store sample_world))"
proof -
  obtain r' resp' w' where a:
    "authenticate sample_context sample_request new_response sample_world = (Inr True, r', resp', w')"
    by (rule sample_authenticate)
  from authenticate_sound [OF sample_world_ok sample_request_empty a] sample_not_whitelisted a
  show ?thesis by (auto simp: sample_request_def new_request_def)
qed



text \<open>The answer to a refused request is well formed whatever the request's path and
  headers are: a browser is redirected to the login page with the percent-encoded path
  (which decodes to the path) in the one \<open>Location\<close> header, any other client gets 401,
  with the \<open>WWW-Authenticate\<close> header only if it named no user agent; nothing of the
  request can add a header or a body.\<close>

theorem refused_response:
  assumes "authenticate cx r new_response w = (Inr False, r', resp', w')"
  shows "read_response (emit resp') =
    (if isBrowserRequest r
     then Some (headerStatus TemporaryRedirect,
                [(contentTypeName, textPlain),
                 (locationName, ''/#/login?next='' @ urlEncode (getUriPath r))], [])
     else Some (headerStatus Unauthorized,
                (contentTypeName, textPlain) #
                (if userAgent (env r) = [] then [(wwwAuthenticateName, ''Basic '')] else []), [])) \<and>
    urlDecode (urlEncode (getUriPath r)) = getUriPath r"
proof -
  have resp: "resp' = refuse r new_response"
    using authenticate_false [OF assms] refuse_env by metis
  have cl: "clean (''/#/login?next='' @ urlEncode (getUriPath r))"
    using urlEncode_no_ctrl [of "CHR 0x0D" "getUriPath r"] by (auto simp: clean_def)
  let ?f = "fold message_op [SetStatus TemporaryRedirect,
      SetHeader locationName (''/#/login?next='' @ urlEncode (getUriPath r))] new_message"
  show ?thesis
  proof (cases "isBrowserRequest r")
    case True
    have "represents resp' ?f"
      unfolding resp refuse_def using True cl
        represents_op [OF represents_op [OF represents_new, of "SetStatus TemporaryRedirect"],
          of "SetHeader locationName (''/#/login?next='' @ urlEncode (getUriPath r))"]
      by (simp add: loginPathNext_def field_name_def clean_def locationName_def)
    from read_represented [OF this] True show ?thesis
      by (simp add: urlDecode_urlEncode new_message_def)
  next
    case False
    have ua: "represents (setHeader wwwAuthenticateName ''Basic '' (setStatus Unauthorized new_response))
        (fold message_op [SetStatus Unauthorized, SetHeader wwwAuthenticateName ''Basic ''] new_message)"
      using represents_op [OF represents_op [OF represents_new, of "SetStatus Unauthorized"],
          of "SetHeader wwwAuthenticateName ''Basic ''"]
      by (simp add: field_name_def clean_def wwwAuthenticateName_def)
    have "represents (setStatus Unauthorized new_response) (message_op (SetStatus Unauthorized) new_message)"
      using represents_op [OF represents_new, of "SetStatus Unauthorized"] by simp
    from read_represented [OF this] read_represented [OF ua] False show ?thesis
      by (simp add: resp refuse_def authBasic_def Let_def urlDecode_urlEncode new_message_def)
  qed
qed

theorem refused_response_witness:
  "read_response (emit (fst (snd (snd (authenticate sample_context
      (new_request (sample_env\<lparr>cookies := [], pathInfo := [''a'' @ [CHR 0x0D, CHR 0x0A] @ ''X: y'']\<rparr>))
      new_response sample_world))))) =
   Some (headerStatus Unauthorized,
     [(contentTypeName, textPlain), (wwwAuthenticateName, ''Basic '')], [])"
proof -
  let ?r = "new_request (sample_env\<lparr>cookies := [], pathInfo := [''a'' @ [CHR 0x0D, CHR 0x0A] @ ''X: y'']\<rparr>)"
  obtain v r' resp' w' where a:
    "authenticate sample_context ?r new_response sample_world = (v, r', resp', w')"
    by (cases "authenticate sample_context ?r new_response sample_world")
  then have "v = Inr False"
    by (auto simp: authenticate_def isOnWhitelist_def getUriPath_def ostream_join_def sample_env_def
        new_request_def whiteListPostUris_def try_xtoken_def try_cookie_def try_header_def
        isSessionEmpty_def performXtokenAuth_def performCookieAuth_def setSession_def
        auth_names Let_def split: if_splits)
  with a have "authenticate sample_context ?r new_response sample_world = (Inr False, r', resp', w')"
    by simp
  from refused_response [OF this] a show ?thesis
    by (simp add: isBrowserRequest_def splitToVector_no_delim new_request_def sample_env_def)
qed

text \<open>The PAM conversation answers a hidden prompt with the password (up to its first
  NUL) and anything else with a null pointer as long as only the first message of the
  call is a hidden prompt; a hidden prompt at any later position makes it write outside
  the array.\<close>

theorem conversation_exact:
  "pamFunctionConversation msgs (Some pw) =
     (if PAM_PROMPT_ECHO_OFF \<in> set (tl msgs) then Undefined
      else Answers (case msgs of
             [] \<Rightarrow> []
           | m # ms \<Rightarrow> (if m = PAM_PROMPT_ECHO_OFF then Some (c_str pw) else None) #
                       replicate (length ms) None))"
  by (cases msgs) (simp_all add: pamFunctionConversation_def conversation_later)

end
