(* ===== verification/Router.thy ===== *)
theory Router
  imports Auth_Facts
begin

text \<open>
  \<open>src/core/router.hpp\<close>, \<open>router.cpp\<close>, \<open>connection.hpp\<close> and \<open>connection.cpp\<close>: the
  registration of routes, the search for a request's handler, and the life of a
  connection from its first bytes to its response.
  A handler is what \<open>IRouteHandler\<close> promises: its two methods, acting on the process
  state (the session world and the handlers' own data, of type \<open>'a\<close>). \<open>std::hash\<close> and
  the formatted date are parameters. The request object is shared by the connection and
  its router; after the router exists only the router changes it.
\<close>

section \<open>Routes\<close>

record 'a handler =
  run :: "session_request \<Rightarrow> world \<times> 'a \<Rightarrow> response may_throw \<times> (world \<times> 'a)"
  preHandlers :: "session_request \<Rightarrow> world \<times> 'a \<Rightarrow> bool may_throw \<times> (world \<times> 'a)"

text \<open>The two static tables: builders under the hash of their URI, and rules in order.\<close>

record 'a routes =
  routerHandlers :: "(nat \<times> (string \<Rightarrow> 'a handler)) list"
  dynamicRouterHandlers :: "((string list \<Rightarrow> bool) \<times> (session_request \<Rightarrow> 'a handler)) list"

definition no_routes :: "'a routes" where
  "no_routes = \<lparr>routerHandlers = [], dynamicRouterHandlers = []\<rparr>"

definition registerUri ::
    "(string \<Rightarrow> nat) \<Rightarrow> string \<Rightarrow> (string \<Rightarrow> 'a handler) \<Rightarrow> 'a routes \<Rightarrow> 'a routes may_throw" where
  "registerUri hash pattern builder rs =
     (let uri = toLower pattern;
          hashPattern = hash uri;
          isRegistered = (map_of (routerHandlers rs) hashPattern = None)
      in if \<not> isRegistered
         then Inl (Runtime_error (''The route URI '' @ [CHR 0x27] @ pattern @ [CHR 0x27] @ '' already registered''))
         else Inr (rs\<lparr>routerHandlers := om_emplace hashPattern builder (routerHandlers rs)\<rparr>))"

text \<open>
  \<open>emplace_back (rule, builder).second\<close> is the stored builder, a function object that is
  never empty: the test after it always passes.
\<close>

definition registerDynamicUri ::
    "(string list \<Rightarrow> bool) \<Rightarrow> (session_request \<Rightarrow> 'a handler) \<Rightarrow> 'a routes \<Rightarrow> 'a routes may_throw" where
  "registerDynamicUri rule builder rs =
     (let isRegistered = True
      in if \<not> isRegistered then Inl (Runtime_error ''The dynamic route URI already registered'')
         else Inr (rs\<lparr>dynamicRouterHandlers := dynamicRouterHandlers rs @ [(rule, builder)]\<rparr>))"

section \<open>The router of one request\<close>

record 'a router =
  requestObject :: session_request
  handler :: "'a handler option"

definition new_router :: "session_request \<Rightarrow> 'a router" where
  "new_router r = \<lparr>requestObject = r, handler = None\<rparr>"

text \<open>The search of \<open>preHandler\<close>: the static table first, then the rules in order.\<close>

fun first_dynamic ::
    "((string list \<Rightarrow> bool) \<times> (session_request \<Rightarrow> 'a handler)) list \<Rightarrow> session_request \<Rightarrow> 'a handler option" where
  "first_dynamic [] r = None"
| "first_dynamic ((condition, builder) # rest) r =
     (if condition (pathInfo (env r)) then Some (builder r) else first_dynamic rest r)"

definition find_handler :: "(string \<Rightarrow> nat) \<Rightarrow> 'a routes \<Rightarrow> session_request \<Rightarrow> 'a handler option" where
  "find_handler hash rs r =
     (let uri = toLower (getUriPath r)
      in case map_of (routerHandlers rs) (hash uri) of
           Some builder \<Rightarrow> Some (builder uri)
         | None \<Rightarrow> first_dynamic (dynamicRouterHandlers rs) r)"

definition preHandler ::
    "(string \<Rightarrow> nat) \<Rightarrow> 'a routes \<Rightarrow> 'a router \<Rightarrow> world \<times> 'a \<Rightarrow>
     bool may_throw \<times> 'a router \<times> (world \<times> 'a)" where
  "preHandler hash rs rt s =
     (case (case handler rt of
              None \<Rightarrow> (Inr True, s)
            | Some h \<Rightarrow> preHandlers h (requestObject rt) s) of
        (Inl e, s1) \<Rightarrow> (Inl e, rt, s1)
      | (Inr _, s1) \<Rightarrow>
          (case find_handler hash rs (requestObject rt) of
             Some h \<Rightarrow>
               (let (res, s2) = preHandlers h (requestObject rt) s1
                in (res, rt\<lparr>handler := Some h\<rparr>, s2))
           | None \<Rightarrow> (Inr True, rt, s1)))"

definition setGeneralHeaders :: "string \<Rightarrow> response \<Rightarrow> response" where
  "setGeneralHeaders date response =
     setHeader dateName date
       (setHeader contentLengthName (dec_nat (totalSize response)) response)"

text \<open>\<open>fresh\<close> is the UUID \<open>readData\<close> may have to generate.\<close>

definition process ::
    "auth_context \<Rightarrow> string \<Rightarrow> string \<Rightarrow> 'a router \<Rightarrow> world \<times> 'a \<Rightarrow>
     response may_throw \<times> 'a router \<times> (world \<times> 'a)" where
  "process cx fresh date rt s0 =
     (case readData (json_codec cx) fresh (time_now cx) (fst s0) of
        (Inl e, w1) \<Rightarrow> (Inl e, rt, (w1, snd s0))
      | (Inr _, w1) \<Rightarrow>
     (case authenticate cx (requestObject rt) new_response w1 of
        (Inl e, r, _, w2) \<Rightarrow> (Inl e, rt\<lparr>requestObject := r\<rparr>, (w2, snd s0))
      | (Inr False, r, authResponse, w2) \<Rightarrow>
          (Inr authResponse, rt\<lparr>requestObject := r\<rparr>, (w2, snd s0))
      | (Inr True, r, authResponse, w2) \<Rightarrow>
          (let rt1 = rt\<lparr>requestObject := r\<rparr>
           in case handler rt of
                None \<Rightarrow> (Inr (setStatus NotFound (setGeneralHeaders date authResponse)), rt1, (w2, snd s0))
              | Some h \<Rightarrow>
                  (case run h r (w2, snd s0) of
                     (Inl e, s3) \<Rightarrow> (Inl e, rt1, s3)
                   | (Inr response, s3) \<Rightarrow> (Inr (setGeneralHeaders date response), rt1, s3)))))"

section \<open>The connection\<close>

record 'a connection =
  c_environment :: environment
  c_request :: "session_request option"
  c_router :: "'a router option"
  out :: string

definition new_connection :: "environment \<Rightarrow> 'a connection" where
  "new_connection e = \<lparr>c_environment = e, c_request = None, c_router = None, out = []\<rparr>"

definition inHandler :: "'a connection \<Rightarrow> 'a connection" where
  "inHandler c =
     (case c_request c of
        None \<Rightarrow> c\<lparr>c_request := Some (new_request (c_environment c))\<rparr>
      | Some _ \<Rightarrow> c)"

definition inProcessor ::
    "(string \<Rightarrow> nat) \<Rightarrow> 'a routes \<Rightarrow> 'a connection \<Rightarrow> world \<times> 'a \<Rightarrow>
     bool may_throw \<times> 'a connection \<times> (world \<times> 'a)" where
  "inProcessor hash rs c0 s =
     (let c1 = inHandler c0;
          request = (case c_request c1 of Some r \<Rightarrow> r | None \<Rightarrow> new_request (c_environment c1));
          rt = (case c_router c1 of None \<Rightarrow> new_router request | Some rt \<Rightarrow> rt);
          c2 = c1\<lparr>c_router := Some rt\<rparr>
      in if \<not> validate request then (Inr False, c2, s)
         else (let (res, rt', s') = preHandler hash rs rt s
               in (res, c2\<lparr>c_router := Some rt'\<rparr>, s')))"

definition connection_response ::
    "auth_context \<Rightarrow> string \<Rightarrow> string \<Rightarrow> 'a connection \<Rightarrow> world \<times> 'a \<Rightarrow>
     bool may_throw \<times> 'a connection \<times> (world \<times> 'a)" where
  "connection_response cx fresh date c s =
     (case c_router c of
        None \<Rightarrow> (Inr False, c, s)
      | Some rt \<Rightarrow>
          (case process cx fresh date rt s of
             (Inl e, rt', s') \<Rightarrow> (Inl e, c\<lparr>c_router := Some rt'\<rparr>, s')
           | (Inr response, rt', s') \<Rightarrow>
               (Inr True, c\<lparr>c_router := Some rt', out := out c @ emit response\<rparr>, s')))"

section \<open>Dispatch\<close>

text \<open>The registrations of the start-up, in order.\<close>

fun register_all ::
    "(string \<Rightarrow> nat) \<Rightarrow> (string \<times> (string \<Rightarrow> 'a handler)) list \<Rightarrow> 'a routes \<Rightarrow> 'a routes may_throw" where
  "register_all hash [] rs = Inr rs"
| "register_all hash ((pattern, builder) # regs) rs =
     (case registerUri hash pattern builder rs of
        Inl e \<Rightarrow> Inl e
      | Inr rs' \<Rightarrow> register_all hash regs rs')"

lemma registerUri_Inr:
  "registerUri hash p b rs = Inr rs' \<Longrightarrow>
     map_of (routerHandlers rs) (hash (toLower p)) = None \<and>
     map_of (routerHandlers rs') = (map_of (routerHandlers rs))(hash (toLower p) \<mapsto> b) \<and>
     dynamicRouterHandlers rs' = dynamicRouterHandlers rs"
  by (auto simp: registerUri_def Let_def map_of_om_emplace split: if_splits)

lemma register_all_table:
  "register_all hash regs rs = Inr rs' \<Longrightarrow>
     map_of (routerHandlers rs') = map_of (routerHandlers rs) ++
       map_of (rev (map (\<lambda>(p, b). (hash (toLower p), b)) regs)) \<and>
     distinct (map (\<lambda>(p, b). hash (toLower p)) regs) \<and>
     (\<forall>(p, b) \<in> set regs. map_of (routerHandlers rs) (hash (toLower p)) = None) \<and>
     dynamicRouterHandlers rs' = dynamicRouterHandlers rs"
proof (induction regs arbitrary: rs)
  case Nil
  then show ?case by simp
next
  case (Cons reg regs)
  obtain p b where reg: "reg = (p, b)" by (cases reg)
  from Cons.prems obtain rs1 where 1: "registerUri hash p b rs = Inr rs1"
    "register_all hash regs rs1 = Inr rs'" by (auto simp: reg split: sum.splits)
  note r = registerUri_Inr [OF 1(1)] and IH = Cons.IH [OF 1(2)]
  then have new: "hash (toLower p) \<notin> (\<lambda>(p, b). hash (toLower p)) ` set regs"
    by (force split: if_splits)
  have "map_of (rev (map (\<lambda>(p, b). (hash (toLower p), b)) regs)) (hash (toLower p)) = None"
    using new by (auto simp: map_of_eq_None_iff image_iff)
  with r IH new show ?case
    by (auto simp: reg fun_eq_iff map_add_def split: option.splits if_splits)
qed

lemma register_all_builder:
  assumes "register_all hash regs no_routes = Inr rs" and "(p, b) \<in> set regs"
  shows "map_of (routerHandlers rs) (hash (toLower p)) = Some b"
proof -
  let ?kvs = "map (\<lambda>(p, b). (hash (toLower p), b)) regs"
  from register_all_table [OF assms(1)]
  have m: "map_of (routerHandlers rs) = map_of (rev ?kvs)"
    and d: "distinct (map (\<lambda>(p, b). hash (toLower p)) regs)"
    by (simp_all add: no_routes_def)
  have "map fst ?kvs = map (\<lambda>(p, b). hash (toLower p)) regs" by (auto simp: comp_def)
  with d have "distinct (map fst (rev ?kvs))" by (simp add: rev_map [symmetric] del: map_map)
  moreover have "(hash (toLower p), b) \<in> set (rev ?kvs)" using assms(2) by force
  ultimately show ?thesis using m by simp
qed

lemma first_dynamic_append:
  "first_dynamic (xs @ ys) r =
     (case first_dynamic xs r of Some h \<Rightarrow> Some h | None \<Rightarrow> first_dynamic ys r)"
  by (induction xs) auto

lemma find_dynamic:
  "first_dynamic ds r =
     map_option (\<lambda>(_, builder). builder r) (List.find (\<lambda>(rule, _). rule (pathInfo (env r))) ds)"
  by (induction ds) auto

lemma unregistered_hash:
  assumes "register_all hash regs no_routes = Inr rs" "h \<notin> (\<lambda>(p, b). hash (toLower p)) ` set regs"
  shows "map_of (routerHandlers rs) h = None"
proof -
  have "map_of (rev (map (\<lambda>(p, b). (hash (toLower p), b)) regs)) h = None"
    using assms(2) by (force simp: map_of_eq_None_iff)
  with register_all_table [OF assms(1)] show ?thesis by (simp add: no_routes_def)
qed

section \<open>The response of a handler\<close>

lemma represents_general:
  assumes "represents r m" "clean date"
  shows "represents (setGeneralHeaders date r)
    (m\<lparr>m_fields := m_fields m @
        [(contentLengthName, dec_nat (length (m_body m))), (dateName, date)]\<rparr>)"
proof -
  have "clean (dec_nat n)" for n
    using dec_nat_digits [of "CHR 0x0D" n] by (auto simp: clean_def isdigit_def)
  with assms show ?thesis
    by (simp add: represents_def setGeneralHeaders_def setHeader_def totalSize_def field_ok_def
        field_name_def clean_def contentLengthName_def dateName_def)
qed


section \<open>Concrete inputs\<close>

text \<open>A handler that answers 200 with a body and counts its runs.\<close>

definition counting_handler :: "nat handler" where
  "counting_handler =
     \<lparr>run = (\<lambda>r (w, n). (Inr (push ''hello'' (setStatus OK new_response)), (w, Suc n))),
      preHandlers = (\<lambda>r s. (Inr True, s))\<rparr>"

definition sample_routes :: "nat routes may_throw" where
  "sample_routes = register_all length [(''/api/graphql/'', \<lambda>_. counting_handler)] no_routes"




section \<open>Properties\<close>

text \<open>C8: after a start-up whose registrations all succeed, a request is given to the
  builder registered for its path, letter case aside, with the lower-case path; and a
  path whose hash is that of no registered pattern goes to the first rule, in the order
  of registration, that accepts its segments.\<close>

theorem dispatch:
  assumes "register_all hash regs no_routes = Inr rs"
  shows "((p, b) \<in> set regs \<longrightarrow> toLower (getUriPath r) = toLower p \<longrightarrow>
      find_handler hash (rs\<lparr>dynamicRouterHandlers := ds\<rparr>) r = Some (b (toLower p))) \<and>
    (hash (toLower (getUriPath r)) \<notin> (\<lambda>(p, b). hash (toLower p)) ` set regs \<longrightarrow>
      find_handler hash (rs\<lparr>dynamicRouterHandlers := ds\<rparr>) r =
        map_option (\<lambda>(_, builder). builder r) (List.find (\<lambda>(rule, _). rule (pathInfo (env r))) ds))"
  using register_all_builder [OF assms] unregistered_hash [OF assms]
  by (auto simp: find_handler_def Let_def find_dynamic simp del: option.map)

theorem dispatch_witness:
  "\<exists>rs. sample_routes = Inr rs \<and>
    find_handler length (rs\<lparr>dynamicRouterHandlers := []\<rparr>)
      (new_request (sample_env\<lparr>pathInfo := [''API'', ''GraphQL'']\<rparr>)) = Some counting_handler"
proof -
  obtain rs where rs: "sample_routes = Inr rs"
    by (auto simp: sample_routes_def registerUri_def no_routes_def)
  have path: "toLower (getUriPath (new_request (sample_env\<lparr>pathInfo := [''API'', ''GraphQL'']\<rparr>))) =
      toLower ''/api/graphql/''"
    by (simp add: getUriPath_def new_request_def sample_env_def ostream_join_def toLower_def
        tolower_char_def isupper_def) (code_simp)
  from dispatch [OF rs [unfolded sample_routes_def], of "''/api/graphql/''" "\<lambda>_. counting_handler"
      "new_request (sample_env\<lparr>pathInfo := [''API'', ''GraphQL'']\<rparr>)" "[]"] path
  have "find_handler length (rs\<lparr>dynamicRouterHandlers := []\<rparr>)
      (new_request (sample_env\<lparr>pathInfo := [''API'', ''GraphQL'']\<rparr>)) = Some counting_handler"
    by (metis list.set_intros(1))
  with rs show ?thesis by blast
qed



text \<open>The bytes the connection writes for a request that is let through to a handler
  read back as the handler's status, headers and body, followed by the \<open>Content-Length\<close>
  of exactly that body and the date.\<close>

theorem response_framed:
  assumes "c_router c = Some rt" and "handler rt = Some h" and "clean date"
    and "readData (json_codec cx) fresh (time_now cx) w = (Inr (), w1)"
    and "authenticate cx (requestObject rt) new_response w1 = (Inr True, r, resp0, w2)"
    and "run h r (w2, a) = (Inr resp, s3)" and "represents resp m"
  shows "\<exists>c' bytes. connection_response cx fresh date c (w, a) = (Inr True, c', s3) \<and>
    out c' = out c @ bytes \<and>
    read_response bytes = Some (headerStatus (m_status m),
      (contentTypeName, m_type m) # m_fields m @
        [(contentLengthName, dec_nat (length (m_body m))), (dateName, date)],
      m_body m)"
  using assms read_represented [OF represents_general [OF assms(7,3)]]
  by (simp add: connection_response_def process_def Let_def)

theorem response_framed_witness:
  "\<exists>c' w' bytes. connection_response sample_context [] ''now''
      \<lparr>c_environment = sample_env, c_request = Some sample_request,
       c_router = Some \<lparr>requestObject = sample_request, handler = Some counting_handler\<rparr>, out = []\<rparr>
      (sample_world, 0) = (Inr True, c', (w', 1)) \<and> out c' = bytes \<and>
    read_response bytes = Some (headerStatus OK,
      [(contentTypeName, textPlain), (contentLengthName, ''5''), (dateName, ''now'')], ''hello'')"
proof -
  let ?rt = "\<lparr>requestObject = sample_request, handler = Some counting_handler\<rparr>"
  let ?c = "\<lparr>c_environment = sample_env, c_request = Some sample_request, c_router = Some ?rt, out = []\<rparr>"
  have rd: "readData (json_codec sample_context) [] (time_now sample_context) sample_world =
      (Inr (), sample_world)"
    by (simp add: readData_unfold and_then_def readDataFile_def sample_world_def no_files_def)
  obtain r resp0 w2 where a: "authenticate sample_context (requestObject ?rt) new_response sample_world =
      (Inr True, r, resp0, w2)" using sample_authenticate by auto
  have h: "run counting_handler r (w2, 0) = (Inr (push ''hello'' (setStatus OK new_response)), (w2, 1))"
    by (simp add: counting_handler_def)
  have m: "represents (push ''hello'' (setStatus OK new_response))
      \<lparr>m_status = OK, m_type = textPlain, m_fields = [], m_body = ''hello''\<rparr>"
    by (simp add: represents_def response_defs clean_def textPlain_def)
  have "dec_nat (Suc (Suc (Suc (Suc (Suc 0))))) = ''5''" by (simp add: dec_nat.simps)
  with response_framed [of ?c ?rt counting_handler "''now''", OF _ _ _ rd a h m]
  show ?thesis by (auto simp: clean_def)
qed

end
