(* ===== verification/Serializer.thy ===== *)
theory Serializer
  imports Http Json
begin

unbundle bit_operations_syntax

text \<open>
  \<open>src/core/route/redfish/response.cpp\<close>, lines 169 to 761: the HTML rendering of a JSON
  value for a browser, with its UTF-8 decoder, its escaping through a 512-byte buffer, and
  its integer formatting through a 64-byte one.
  \<open>None\<close> is undefined behaviour: a write outside a buffer, or a signed overflow.
  \<open>nlohmann::detail::to_chars\<close> is a parameter (the characters it leaves in the buffer).
\<close>

section \<open>The UTF-8 decoder\<close>

definition utf8Accept :: nat where "utf8Accept = 0"
definition utf8Reject :: nat where "utf8Reject = 1"

text \<open>The table: the class of every byte, then for each state the next one by class.\<close>

definition utf8d :: "nat list" where
  "utf8d =
     replicate 32 0 @ replicate 32 0 @ replicate 32 0 @ replicate 32 0 @
     (replicate 16 1 @ replicate 16 9) @
     replicate 32 7 @
     (replicate 2 8 @ replicate 30 2) @
     [0xA, 0x3, 0x3, 0x3, 0x3, 0x3, 0x3, 0x3, 0x3, 0x3, 0x3, 0x3, 0x3, 0x4, 0x3, 0x3] @
     [0xB, 0x6, 0x6, 0x6, 0x5, 0x8, 0x8, 0x8, 0x8, 0x8, 0x8, 0x8, 0x8, 0x8, 0x8, 0x8] @
     [0x0, 0x1, 0x2, 0x3, 0x5, 0x8, 0x7, 0x1, 0x1, 0x1, 0x4, 0x6, 0x1, 0x1, 0x1, 0x1] @
     [1, 1, 1, 1, 1, 1, 1, 1, 1, 1, 1, 1, 1, 1, 1, 1, 1, 0, 1, 1, 1, 1, 1, 0, 1, 0, 1, 1, 1, 1, 1, 1] @
     [1, 2, 1, 1, 1, 1, 1, 2, 1, 2, 1, 1, 1, 1, 1, 1, 1, 1, 1, 1, 1, 1, 1, 2, 1, 1, 1, 1, 1, 1, 1, 1] @
     [1, 2, 1, 1, 1, 1, 1, 1, 1, 2, 1, 1, 1, 1, 1, 1, 1, 1, 1, 1, 1, 1, 1, 3, 1, 3, 1, 1, 1, 1, 1, 1] @
     [1, 3, 1, 1, 1, 1, 1, 3, 1, 3, 1, 1, 1, 1, 1, 1, 1, 3, 1, 1, 1, 1, 1, 1, 1, 1, 1, 1, 1, 1, 1, 1]"

text \<open>The state and the code point (32 bits) after a byte.\<close>

definition decode :: "nat \<Rightarrow> 32 word \<Rightarrow> nat \<Rightarrow> nat \<times> 32 word" where
  "decode state codePoint byte =
     (if state > 8 then (state, codePoint)
      else (let type = utf8d ! byte;
                codePoint' = (if state \<noteq> utf8Accept
                              then (of_nat byte AND 0x3f) OR push_bit 6 codePoint
                              else drop_bit type 0xff AND of_nat byte)
            in (utf8d ! (256 + state * 16 + type), codePoint')))"

section \<open>Escaping\<close>

definition stringBufferSize :: nat where
  "stringBufferSize = 512"

text \<open>Assignments \<open>stringBuffer[bytes++] = c\<close>; the buffer is its first \<open>bytes\<close> characters.\<close>

definition put :: "string \<Rightarrow> string \<Rightarrow> string option" where
  "put s buf = (if length buf + length s \<le> stringBufferSize then Some (buf @ s) else None)"

text \<open>\<open>snprintf\<close> of \<open>s\<close> at the end of the buffer writes a NUL behind it.\<close>

definition snprintf :: "string \<Rightarrow> string \<Rightarrow> string option" where
  "snprintf s buf = (if length buf + length s + 1 \<le> stringBufferSize then Some (buf @ s) else None)"

text \<open>\<open>%04x\<close> of a \<open>uint16_t\<close>.\<close>

definition hex4 :: "32 word \<Rightarrow> string" where
  "hex4 w = (let n = unat w mod 2 ^ 16
             in [hex_lower (n div 4096), hex_lower (n div 256 mod 16), hex_lower (n div 16 mod 16),
                 hex_lower (n mod 16)])"

text \<open>The inner switch: what a decoded code point, ended by the character \<open>c\<close>, writes.\<close>

definition put_code_point :: "32 word \<Rightarrow> char \<Rightarrow> string \<Rightarrow> string option" where
  "put_code_point codePoint c buf =
     (if codePoint = 0x08 then put [CHR 0x5C, CHR ''b''] buf
      else if codePoint = 0x09 then put [CHR 0x5C, CHR ''t''] buf
      else if codePoint = 0x0A then put [CHR 0x5C, CHR ''n''] buf
      else if codePoint = 0x0C then put [CHR 0x5C, CHR ''f''] buf
      else if codePoint = 0x0D then put [CHR 0x5C, CHR ''r''] buf
      else if codePoint = 0x22 then put ''&quot;'' buf
      else if codePoint = 0x27 then put ''&apos;'' buf
      else if codePoint = 0x26 then put ''&amp;'' buf
      else if codePoint = 0x3C then put (CHR 0x5C # ''lt;'') buf
      else if codePoint = 0x3E then put (CHR 0x5C # ''gt;'') buf
      else if codePoint \<le> 0x1F \<or> codePoint \<ge> 0x7F then
        (if codePoint \<le> 0xFFFF then snprintf (CHR 0x5C # CHR ''u'' # hex4 codePoint) buf
         else snprintf (CHR 0x5C # CHR ''u'' # hex4 (0xD7C0 + drop_bit 10 codePoint) @
                        CHR 0x5C # CHR ''u'' # hex4 (0xDC00 + (codePoint AND 0x3FF))) buf)
      else put [c] buf)"

text \<open>
  The loop over the bytes that are left. \<open>buf\<close> is the buffer up to \<open>bytes\<close>,
  \<open>bytesAfterLastAccept\<close> and \<open>undumpedChars\<close> are the code's counters. A rejected byte
  after undumped ones is read again (\<open>--i\<close>).
\<close>

function dump_loop ::
    "string \<Rightarrow> nat \<Rightarrow> 32 word \<Rightarrow> string \<Rightarrow> nat \<Rightarrow> nat \<Rightarrow> string \<Rightarrow> string option" where
  "dump_loop out state codePoint buf bytesAfterLastAccept undumpedChars [] =
     (if state = utf8Accept then Some (out @ buf)
      else Some (out @ take bytesAfterLastAccept buf @ CHR 0x5C # ''ufffd''))"
| "dump_loop out state codePoint buf bytesAfterLastAccept undumpedChars (c # str) =
     (let (state', codePoint') = decode state codePoint (of_char c)
      in if state' = utf8Accept then
           (case put_code_point codePoint' c buf of
              None \<Rightarrow> None
            | Some buf1 \<Rightarrow>
                (if stringBufferSize - length buf1 < 13
                 then dump_loop (out @ buf1) state' codePoint' [] 0 0 str
                 else dump_loop out state' codePoint' buf1 (length buf1) 0 str))
         else if state' = utf8Reject then
           (case put (CHR 0x5C # ''ufffd'') (take bytesAfterLastAccept buf) of
              None \<Rightarrow> None
            | Some buf1 \<Rightarrow>
                dump_loop out utf8Accept codePoint' buf1 (length buf1) 0
                  (if undumpedChars > 0 then c # str else str))
         else dump_loop out state' codePoint' buf bytesAfterLastAccept (Suc undumpedChars) str)"
  by pat_completeness auto
termination
  by (relation "measure (\<lambda>(_, _, _, _, _, undumped, str).
        2 * length str + (if undumped > 0 then 1 else 0))") auto

declare dump_loop.simps [simp del]

definition dumpEscaped :: "string \<Rightarrow> string \<Rightarrow> string option" where
  "dumpEscaped out str = dump_loop out utf8Accept 0 [] 0 0 str"

section \<open>Integers\<close>

function countDigits_loop :: "64 word \<Rightarrow> nat \<Rightarrow> nat" where
  "countDigits_loop number nDigits =
     (if number < 10 then nDigits
      else if number < 100 then nDigits + 1
      else if number < 1000 then nDigits + 2
      else if number < 10000 then nDigits + 3
      else countDigits_loop (number div 10000) (nDigits + 4))"
  by pat_completeness auto
termination
  by (relation "measure (\<lambda>(number, _). unat number)")
     (auto simp: unat_div word_less_nat_alt not_less)

declare countDigits_loop.simps [simp del]

definition countDigits :: "64 word \<Rightarrow> nat" where
  "countDigits number = countDigits_loop number 1"

definition digitsTo99 :: "(char \<times> char) list" where
  "digitsTo99 = concat (map (\<lambda>a. map (\<lambda>b. (char_of (48 + a), char_of (48 + b))) [0..<10]) [0..<(10::nat)])"

text \<open>The loop that fills the buffer from \<open>bufferPtr\<close> downwards.\<close>

function fill_pairs :: "64 word \<Rightarrow> nat \<Rightarrow> string \<Rightarrow> 64 word \<times> nat \<times> string" where
  "fill_pairs absValue ptr buf =
     (if absValue \<ge> 100
      then (let digitsIndex = unat (absValue mod 100);
                buf1 = buf[ptr - 1 := snd (digitsTo99 ! digitsIndex)];
                buf2 = buf1[ptr - 2 := fst (digitsTo99 ! digitsIndex)]
            in fill_pairs (absValue div 100) (ptr - 2) buf2)
      else (absValue, ptr, buf))"
  by pat_completeness auto
termination
  by (relation "measure (\<lambda>(absValue, _, _). unat absValue)")
     (auto simp: unat_div word_le_nat_alt)

declare fill_pairs.simps [simp del]

definition numberBufferSize :: nat where
  "numberBufferSize = 64"

text \<open>From the point where \<open>absValue\<close> and \<open>nChars\<close> are known.\<close>

definition dump_digits :: "string \<Rightarrow> 64 word \<Rightarrow> nat \<Rightarrow> string \<Rightarrow> string" where
  "dump_digits out absValue0 nChars numberbuffer =
     (if nChars \<ge> numberBufferSize - 1 then out
      else (let (absValue, ptr, buf) = fill_pairs absValue0 nChars numberbuffer;
                buf' = (if absValue \<ge> 10
                        then (let digitsIndex = unat absValue
                              in buf[ptr - 1 := snd (digitsTo99 ! digitsIndex),
                                     ptr - 2 := fst (digitsTo99 ! digitsIndex)])
                        else buf[ptr - 1 := char_of (48 + unat absValue)])
            in out @ take nChars buf'))"

definition zero_buffer :: string where
  "zero_buffer = replicate numberBufferSize (CHR 0x00)"

definition dumpInteger_uint64 :: "string \<Rightarrow> 64 word \<Rightarrow> string" where
  "dumpInteger_uint64 out number =
     (if number = 0 then out @ ''0''
      else dump_digits out number (countDigits number) zero_buffer)"

text \<open>\<open>0 - number\<close> is an \<open>int64_t\<close> subtraction, which overflows for the least value.\<close>

definition dumpInteger_int64 :: "string \<Rightarrow> 64 word \<Rightarrow> string option" where
  "dumpInteger_int64 out number =
     (if number = 0 then Some (out @ ''0'')
      else if sint number < 0
      then (if sint number = - (2 ^ 63) then None
            else (let absValue = 0 - number
                  in Some (dump_digits out absValue (1 + countDigits absValue)
                            (zero_buffer[0 := CHR ''-'']))))
      else Some (dump_digits out number (countDigits number) zero_buffer))"

section \<open>Floats and values\<close>

text \<open>\<open>std::isfinite\<close> on the IEEE 754 bits.\<close>

definition isfinite_bits :: "64 word \<Rightarrow> bool" where
  "isfinite_bits w \<longleftrightarrow> drop_bit 52 w AND 0x7ff \<noteq> 0x7ff"

definition dumpfloat :: "(64 word \<Rightarrow> string) \<Rightarrow> string \<Rightarrow> 64 word \<Rightarrow> string" where
  "dumpfloat to_chars out number =
     (if \<not> isfinite_bits number then out @ ''null'' else out @ c_str (to_chars number))"

definition is_link :: "string \<Rightarrow> bool" where
  "is_link key \<longleftrightarrow> key = ''@odata.id'' \<or> key = ''@odata.context'' \<or>
     key = ''Members@odata.nextLink'' \<or> key = ''Uri''"

fun is_string :: "json \<Rightarrow> bool" where
  "is_string (JString _) = True" | "is_string _ = False"

text \<open>The key of a member, and the opening of a link with its result whether one is open.\<close>

definition dump_key :: "string \<Rightarrow> string \<Rightarrow> string option" where
  "dump_key out key = map_option (\<lambda>o1. o1 @ ''&quot: '') (dumpEscaped (out @ ''&quot'') key)"

fun dump_anchor :: "string \<Rightarrow> string \<Rightarrow> json \<Rightarrow> (bool \<times> string) option" where
  "dump_anchor out key (JString s) =
     (if is_link key
      then map_option (\<lambda>o1. (True, o1 @ [CHR 0x22] @ ''>''))
             (dumpEscaped (out @ ''<a href='' @ [CHR 0x22]) s)
      else Some (False, out))"
| "dump_anchor out key _ = Some (False, out)"

fun dump_html :: "(64 word \<Rightarrow> string) \<Rightarrow> string \<Rightarrow> json \<Rightarrow> string option"
and dump_members :: "(64 word \<Rightarrow> string) \<Rightarrow> string \<Rightarrow> (string \<times> json) list \<Rightarrow> string option"
and dump_elements :: "(64 word \<Rightarrow> string) \<Rightarrow> string \<Rightarrow> json list \<Rightarrow> string option" where
  "dump_html tc out (JObject m) =
     (if m = [] then Some (out @ ''{}'')
      else map_option (\<lambda>o1. o1 @ ''</div>'' @ ''}'')
             (dump_members tc (out @ ''{'' @ ''<div class=tab>'') m))"
| "dump_html tc out (JArray xs) =
     (if xs = [] then Some (out @ ''[]'')
      else map_option (\<lambda>o1. o1 @ ''</div>'' @ '']'')
             (dump_elements tc (out @ ''['' @ ''<div class=tab>'') xs))"
| "dump_html tc out (JString s) =
     map_option (\<lambda>o1. o1 @ [CHR 0x22]) (dumpEscaped (out @ [CHR 0x22]) s)"
| "dump_html tc out (JBool b) = Some (out @ (if b then ''true'' else ''false''))"
| "dump_html tc out (JInt w) = dumpInteger_int64 out w"
| "dump_html tc out (JUint w) = Some (dumpInteger_uint64 out w)"
| "dump_html tc out (JFloat w) = Some (dumpfloat tc out w)"
| "dump_html tc out JDiscarded = Some (out @ ''<discarded>'')"
| "dump_html tc out JNull = Some (out @ ''null'')"
| "dump_members tc out [] = Some out"
| "dump_members tc out ((key, value) # m) =
     (case dump_key out key of
        None \<Rightarrow> None
      | Some o1 \<Rightarrow>
     (case dump_anchor o1 key value of
        None \<Rightarrow> None
      | Some (inATag, o2) \<Rightarrow>
     (case dump_html tc o2 value of
        None \<Rightarrow> None
      | Some o3 \<Rightarrow>
          dump_members tc
            (o3 @ (if inATag then ''</a>'' else []) @ (if m \<noteq> [] then '','' else []) @ ''<br>'') m)))"
| "dump_elements tc out [] = Some out"
| "dump_elements tc out (x # xs) =
     (case dump_html tc out x of
        None \<Rightarrow> None
      | Some o1 \<Rightarrow> dump_elements tc (if xs \<noteq> [] then o1 @ '',<br>'' else o1) xs)"

end
