(* ===== verification/Serializer_Facts.thy ===== *)
theory Serializer_Facts
  imports Serializer
begin

unbundle bit_operations_syntax

text \<open>
  What the HTML rendering computes: the decoder accepts exactly the UTF-8 encoding of a
  code point it is given, the escaping of well-formed text is that of its code points,
  its buffer and what overflows it, and the decimal numerals.
\<close>

section \<open>The decoder's table\<close>

text \<open>The class of a byte.\<close>

definition byte_class :: "nat \<Rightarrow> nat" where
  "byte_class b =
     (if b < 128 then 0 else if b < 144 then 1 else if b < 160 then 9 else if b < 192 then 7
      else if b < 194 then 8 else if b < 224 then 2 else if b = 224 then 10 else if b < 237 then 3
      else if b = 237 then 4 else if b < 240 then 3 else if b = 240 then 11 else if b < 244 then 6
      else if b = 244 then 5 else 8)"

lemma nth_replicate_append:
  "b < n \<Longrightarrow> (replicate n x @ r) ! b = x"
  "n \<le> b \<Longrightarrow> (replicate n x @ r) ! b = r ! (b - n)"
  by (simp_all add: nth_append)

lemma utf8d_class_low:
  assumes "b < 224"
  shows "utf8d ! b = byte_class b"
proof -
  from assms consider "b < 32" | "32 \<le> b" "b < 64" | "64 \<le> b" "b < 96" | "96 \<le> b" "b < 128"
    | "128 \<le> b" "b < 144" | "144 \<le> b" "b < 160" | "160 \<le> b" "b < 192"
    | "192 \<le> b" "b < 194" | "194 \<le> b" by linarith
  then show ?thesis
    using assms by cases (simp_all add: utf8d_def nth_replicate_append byte_class_def)
qed

lemma utf8d_class_high: "list_all (\<lambda>b. utf8d ! b = byte_class b) [224..<256]"
  by (simp add: utf8d_def byte_class_def nth_append)

lemma utf8d_class: "b < 256 \<Longrightarrow> utf8d ! b = byte_class b"
  using utf8d_class_low [of b] utf8d_class_high [unfolded list_all_iff set_upt, THEN bspec, of b]
  by (cases "b < 224") simp_all

text \<open>The transitions.\<close>

lemma utf8d_states: "drop 256 utf8d =
     [0x0, 0x1, 0x2, 0x3, 0x5, 0x8, 0x7, 0x1, 0x1, 0x1, 0x4, 0x6, 0x1, 0x1, 0x1, 0x1] @
     [1, 1, 1, 1, 1, 1, 1, 1, 1, 1, 1, 1, 1, 1, 1, 1, 1, 0, 1, 1, 1, 1, 1, 0, 1, 0, 1, 1, 1, 1, 1, 1] @
     [1, 2, 1, 1, 1, 1, 1, 2, 1, 2, 1, 1, 1, 1, 1, 1, 1, 1, 1, 1, 1, 1, 1, 2, 1, 1, 1, 1, 1, 1, 1, 1] @
     [1, 2, 1, 1, 1, 1, 1, 1, 1, 2, 1, 1, 1, 1, 1, 1, 1, 1, 1, 1, 1, 1, 1, 3, 1, 3, 1, 1, 1, 1, 1, 1] @
     [1, 3, 1, 1, 1, 1, 1, 3, 1, 3, 1, 1, 1, 1, 1, 1, 1, 3, 1, 1, 1, 1, 1, 1, 1, 1, 1, 1, 1, 1, 1, 1]"
  by (simp add: utf8d_def)

lemma utf8d_length: "length utf8d = 400"
  by (simp add: utf8d_def)

definition next_state :: "nat \<Rightarrow> nat \<Rightarrow> nat" where
  "next_state s t = drop 256 utf8d ! (s * 16 + t)"

lemma utf8d_next: "utf8d ! (256 + s * 16 + t) = next_state s t" if "s \<le> 8" "t < 16"
  using that by (simp add: next_state_def nth_drop utf8d_length add.assoc)

lemma next_state_from_accept:
  "next_state 0 0 = 0" "next_state 0 1 = 1" "next_state 0 2 = 2" "next_state 0 3 = 3"
  "next_state 0 4 = 5" "next_state 0 5 = 8" "next_state 0 6 = 7" "next_state 0 7 = 1"
  "next_state 0 8 = 1" "next_state 0 9 = 1" "next_state 0 10 = 4" "next_state 0 11 = 6"
  by (simp_all add: next_state_def utf8d_states)

text \<open>The continuation bytes: 80..8F (class 1), 90..9F (class 9), A0..BF (class 7).\<close>

lemma next_state_cont:
  "next_state 2 1 = 0" "next_state 2 9 = 0" "next_state 2 7 = 0"
  "next_state 3 1 = 2" "next_state 3 9 = 2" "next_state 3 7 = 2"
  "next_state 4 1 = 1" "next_state 4 9 = 1" "next_state 4 7 = 2"
  "next_state 5 1 = 2" "next_state 5 9 = 2" "next_state 5 7 = 1"
  "next_state 6 1 = 1" "next_state 6 9 = 3" "next_state 6 7 = 3"
  "next_state 7 1 = 3" "next_state 7 9 = 3" "next_state 7 7 = 3"
  "next_state 8 1 = 3" "next_state 8 9 = 1" "next_state 8 7 = 1"
  by (simp_all add: next_state_def utf8d_states)

lemmas next_state_conts = next_state_cont next_state_cont [unfolded One_nat_def]

lemma byte_class_less: "byte_class b < 12"
  by (simp add: byte_class_def)

lemma decode_state:
  "s \<le> 8 \<Longrightarrow> b < 256 \<Longrightarrow> fst (decode s cp b) = next_state s (byte_class b)"
  using utf8d_next [of s "byte_class b"] byte_class_less [of b]
  by (simp add: decode_def Let_def utf8d_class)

section \<open>The code point\<close>

lemma unat_and_mask: "unat (w AND mask n :: 32 word) = unat w mod 2 ^ n"
  unfolding take_bit_eq_mask [symmetric] unfolding unsigned_take_bit_eq
  by (simp add: take_bit_eq_mod)

lemma unat_cont:
  assumes "unat cp < 2 ^ 26"
  shows "unat ((of_nat b AND 0x3f) OR push_bit 6 cp :: 32 word) = b mod 64 + 64 * unat cp"
proof -
  have m: "(0x3f :: 32 word) = mask 6" by (simp add: mask_eq_exp_minus_1)
  have disj: "(of_nat b AND mask 6) AND push_bit 6 cp = (0 :: 32 word)"
    by (rule bit_word_eqI) (auto simp: bit_simps)
  have a: "unat (of_nat b AND mask 6 :: 32 word) = b mod 64"
    by (simp add: unat_and_mask unat_of_nat mod_mod_cancel)
  have p: "unat (push_bit 6 cp) = 64 * unat cp"
    using assms by (simp add: push_bit_eq_mult unat_word_ariths)
  show ?thesis
    unfolding m disjunctive_add_eq_or [OF disj, symmetric]
  proof -
    have "b mod 64 < 64" by simp
    with assms have "b mod 64 + 64 * unat cp < 2 ^ 32" by simp
    with a p show "unat ((of_nat b AND mask 6) + push_bit 6 cp :: 32 word) = b mod 64 + 64 * unat cp"
      by (simp add: unat_plus_if')
  qed
qed

lemma unat_mask_of_nat: "n \<le> 32 \<Longrightarrow> unat (mask n AND of_nat b :: 32 word) = b mod 2 ^ n"
proof -
  assume n: "n \<le> 32"
  have "(2::nat) ^ n dvd 2 ^ 32" using n by (rule le_imp_power_dvd)
  then have "b mod 2 ^ 32 mod 2 ^ n = b mod 2 ^ n" by (rule mod_mod_cancel)
  then show ?thesis by (subst and.commute) (simp add: unat_and_mask unat_of_nat)
qed

text \<open>The first byte: the shift of \<open>0xff\<close> by its class leaves the bits of the code point.\<close>

lemma unat_first:
  "unat (drop_bit t 0xff AND of_nat b :: 32 word) = b mod 2 ^ (8 - t)"
proof -
  have m: "(0xff :: 32 word) = mask 8" by (simp add: mask_eq_exp_minus_1)
  have "drop_bit t (mask 8) = (mask (8 - t) :: 32 word)"
    by (rule bit_word_eqI) (auto simp: bit_simps)
  then show ?thesis
    unfolding m by (simp only:) (rule unat_mask_of_nat, simp)
qed

section \<open>UTF-8\<close>

definition scalar :: "nat \<Rightarrow> bool" where
  "scalar u \<longleftrightarrow> u < 0xD800 \<or> (0xE000 \<le> u \<and> u < 0x110000)"

text \<open>The encoding of a code point.\<close>

definition utf8_bytes :: "nat \<Rightarrow> nat list" where
  "utf8_bytes u =
     (if u < 0x80 then [u]
      else if u < 0x800 then [0xC0 + u div 64, 0x80 + u mod 64]
      else if u < 0x10000 then [0xE0 + u div 4096, 0x80 + u div 64 mod 64, 0x80 + u mod 64]
      else [0xF0 + u div 262144, 0x80 + u div 4096 mod 64, 0x80 + u div 64 mod 64, 0x80 + u mod 64])"

definition utf8 :: "nat \<Rightarrow> string" where
  "utf8 u = map char_of (utf8_bytes u)"

lemma decode_accept:
  assumes "b < 256"
  shows "decode 0 cp b = (next_state 0 (byte_class b), snd (decode 0 cp b))"
    and "unat (snd (decode 0 cp b)) = b mod 2 ^ (8 - byte_class b)"
  using decode_state [of 0 b cp] assms unat_first [of "byte_class b" b]
  by (simp_all add: prod_eq_iff) (simp add: decode_def Let_def utf8Accept_def utf8d_class)

lemma decode_cont:
  assumes "b < 256" "0 < s" "s \<le> 8" "unat cp < 2 ^ 26"
  shows "decode s cp b = (next_state s (byte_class b), snd (decode s cp b))"
    and "unat (snd (decode s cp b)) = b mod 64 + 64 * unat cp"
  using decode_state [of s b cp] assms unat_cont [of cp b]
  by (simp_all add: prod_eq_iff) (simp add: decode_def Let_def utf8Accept_def)

lemma cont_class:
  "x < 64 \<Longrightarrow> byte_class (128 + x) = (if x < 16 then 1 else if x < 32 then 9 else 7)"
  by (simp add: byte_class_def)

lemma byte_class_lead:
  "x < 32 \<Longrightarrow> 2 \<le> x \<Longrightarrow> byte_class (192 + x) = 2"
  "x < 16 \<Longrightarrow> byte_class (224 + x) = (if x = 0 then 10 else if x = 13 then 4 else 3)"
  "x < 5 \<Longrightarrow> byte_class (240 + x) = (if x = 0 then 11 else if x = 4 then 5 else 6)"
  by (auto simp: byte_class_def)

lemma word_eq_of_nat: "unat (w :: 32 word) = n \<Longrightarrow> w = of_nat n"
  by auto

text \<open>Reading the encoding of a code point, byte by byte.\<close>

lemma decode_one:
  assumes "u < 128"
  shows "decode 0 cp u = (0, of_nat u)"
  using decode_accept [of u cp] assms word_eq_of_nat [of "snd (decode 0 cp u)" u]
  by (simp add: byte_class_def next_state_from_accept)

lemma cont_step:
  assumes "x < 64" "2 \<le> s" "s \<le> 8" "unat c0 < 2 ^ 26"
  obtains c1 where
    "decode s c0 (0x80 + x) =
       (next_state s (if x < 16 then 1 else if x < 32 then 9 else 7), c1)" "unat c1 = 64 * unat c0 + x"
proof -
  have m: "(128 + x) mod 64 = x" using mod_mult_self3 [of 2 64 x] assms(1) by simp
  have b: "128 + x < 256" "0 < s" using assms by auto
  note d = decode_cont [OF b(1,2) assms(3,4)]
  show thesis
    by (rule that [of "snd (decode s c0 (0x80 + x))"])
       (use d m cont_class [OF assms(1)] in \<open>simp_all add: prod_eq_iff\<close>)
qed

lemma lead_step:
  assumes "b < 256" "b mod 2 ^ (8 - byte_class b) = v"
  obtains c0 where "decode 0 cp b = (next_state 0 (byte_class b), c0)" "unat c0 = v"
  using decode_accept [OF assms(1), of cp] assms(2) by metis

lemma split64: "u = 4096 * (u div 4096) + 64 * (u div 64 mod 64) + u mod (64 :: nat)"
proof -
  have "u div 64 div 64 = u div 4096" by (simp add: div_mult2_eq [symmetric])
  moreover have "u = 64 * (u div 64) + u mod 64" by simp
  moreover have "u div 64 = 64 * (u div 64 div 64) + u div 64 mod 64" by simp
  ultimately show ?thesis by linarith
qed

lemma split4096:
  "u = 262144 * (u div 262144) + 4096 * (u div 4096 mod 64) + 64 * (u div 64 mod 64) + u mod (64 :: nat)"
proof -
  have "u div 4096 div 64 = u div 262144" by (simp add: div_mult2_eq [symmetric])
  moreover have "u div 4096 = 64 * (u div 4096 div 64) + u div 4096 mod 64" by simp
  ultimately show ?thesis using split64 [of u] by linarith
qed

lemma decode_two:
  assumes "128 \<le> u" "u < 2048"
  obtains c0 where "decode 0 cp (0xC0 + u div 64) = (2, c0)"
    "decode 2 c0 (0x80 + u mod 64) = (0, of_nat u)"
proof -
  have x: "2 \<le> u div 64" "u div 64 < 32" using assms by auto
  have cls: "byte_class (0xC0 + u div 64) = 2" using x by (simp add: byte_class_lead)
  have "(192 + u div 64) mod 64 = u div 64" using mod_mult_self3 [of 3 64 "u div 64"] x by simp
  then obtain c0 where c0: "decode 0 cp (0xC0 + u div 64) = (2, c0)" "unat c0 = u div 64"
    using lead_step [of "0xC0 + u div 64" "u div 64" cp] cls x by (auto simp: next_state_from_accept)
  obtain c1 where c1: "decode 2 c0 (0x80 + u mod 64) = (0, c1)" "unat c1 = 64 * unat c0 + u mod 64"
    by (rule cont_step [of "u mod 64" 2 c0]) (use c0 x in \<open>auto simp: next_state_conts split: if_splits\<close>)
  have "unat c1 = u" using c1(2) c0(2) by simp
  with c1(1) have "decode 2 c0 (0x80 + u mod 64) = (0, of_nat u)" using word_eq_of_nat by auto
  with c0(1) show thesis by (rule that)
qed

lemma decode_three:
  assumes "2048 \<le> u" "u < 65536" "scalar u"
  obtains s c0 c1 where "decode 0 cp (0xE0 + u div 4096) = (s, c0)" "s \<notin> {0, 1}"
    "decode s c0 (0x80 + u div 64 mod 64) = (2, c1)"
    "decode 2 c1 (0x80 + u mod 64) = (0, of_nat u)"
proof -
  define x y where "x = u div 4096" and "y = u div 64 mod 64"
  have u: "u = 4096 * x + 64 * y + u mod 64" unfolding x_def y_def by (rule split64)
  have m: "u mod 64 < 64" by simp
  have x: "x < 16" and y: "y < 64" using assms(2) by (auto simp: x_def y_def)
  have lo: "x = 0 \<Longrightarrow> 32 \<le> y" using u m assms(1) by linarith
  have hi: "x = 13 \<Longrightarrow> y < 32" using u m y assms(3) unfolding scalar_def by linarith
  have cls: "byte_class (0xE0 + x) = (if x = 0 then 10 else if x = 13 then 4 else 3)"
    using x by (simp add: byte_class_lead)
  have "(224 + x) mod 2 ^ (8 - byte_class (0xE0 + x)) = x"
    using x mod_mult_self3 [of 7 32 x] unfolding cls by auto
  then obtain c0 where c0: "decode 0 cp (0xE0 + x) =
      (if x = 0 then 4 else if x = 13 then 5 else 3, c0)" "unat c0 = x"
    using lead_step [of "0xE0 + x" x cp] cls x by (auto simp: next_state_from_accept split: if_splits)
  define s where "s = (if x = 0 then 4 else if x = 13 then 5 else (3::nat))"
  have s: "2 \<le> s" "s \<le> 8" by (auto simp: s_def)
  have "next_state s (if y < 16 then 1 else if y < 32 then 9 else 7) = 2"
    using lo hi by (auto simp: s_def next_state_conts)
  then obtain c1 where c1: "decode s c0 (0x80 + y) = (2, c1)" "unat c1 = 64 * x + y"
    using cont_step [OF y s, of c0] c0(2) x by auto
  obtain c2 where c2: "decode 2 c1 (0x80 + u mod 64) = (0, c2)" "unat c2 = 64 * unat c1 + u mod 64"
    by (rule cont_step [of "u mod 64" 2 c1]) (use c1 x y in \<open>auto simp: next_state_conts split: if_splits\<close>)
  have "unat c2 = u" using c2(2) c1(2) u by simp
  with c2(1) have "decode 2 c1 (0x80 + u mod 64) = (0, of_nat u)" using word_eq_of_nat by auto
  with c0(1) c1(1) show thesis
    using that [of s c0 c1] by (simp add: s_def x_def y_def split: if_splits)
qed

lemma decode_four:
  assumes "65536 \<le> u" "scalar u"
  obtains s c0 c1 c2 where "decode 0 cp (0xF0 + u div 262144) = (s, c0)" "s \<notin> {0, 1}"
    "decode s c0 (0x80 + u div 4096 mod 64) = (3, c1)"
    "decode 3 c1 (0x80 + u div 64 mod 64) = (2, c2)"
    "decode 2 c2 (0x80 + u mod 64) = (0, of_nat u)"
proof -
  define x y z where "x = u div 262144" and "y = u div 4096 mod 64" and "z = u div 64 mod 64"
  have u: "u = 262144 * x + 4096 * y + 64 * z + u mod 64" unfolding x_def y_def z_def by (rule split4096)
  have m: "u mod 64 < 64" by simp
  have x: "x < 5" and y: "y < 64" and z: "z < 64"
    using assms by (auto simp: x_def y_def z_def scalar_def)
  have lo: "x = 0 \<Longrightarrow> 16 \<le> y" using u m z assms(1) by linarith
  have hi: "x = 4 \<Longrightarrow> y < 16" using u m z assms(2) unfolding scalar_def by linarith
  have cls: "byte_class (0xF0 + x) = (if x = 0 then 11 else if x = 4 then 5 else 6)"
    using x by (simp add: byte_class_lead)
  have "(240 + x) mod 2 ^ (8 - byte_class (0xF0 + x)) = x"
    using x mod_mult_self3 [of 60 4 x] unfolding cls by auto
  then obtain c0 where c0: "decode 0 cp (0xF0 + x) =
      (if x = 0 then 6 else if x = 4 then 8 else 7, c0)" "unat c0 = x"
    using lead_step [of "0xF0 + x" x cp] cls x by (auto simp: next_state_from_accept split: if_splits)
  define s where "s = (if x = 0 then 6 else if x = 4 then 8 else (7::nat))"
  have s: "2 \<le> s" "s \<le> 8" by (auto simp: s_def)
  have "next_state s (if y < 16 then 1 else if y < 32 then 9 else 7) = 3"
    using lo hi by (auto simp: s_def next_state_conts)
  then obtain c1 where c1: "decode s c0 (0x80 + y) = (3, c1)" "unat c1 = 64 * x + y"
    using cont_step [OF y s, of c0] c0(2) x by auto
  obtain c2 where c2: "decode 3 c1 (0x80 + z) = (2, c2)" "unat c2 = 64 * unat c1 + z"
    by (rule cont_step [of z 3 c1]) (use c1 x y z in \<open>auto simp: next_state_conts split: if_splits\<close>)
  obtain c3 where c3: "decode 2 c2 (0x80 + u mod 64) = (0, c3)" "unat c3 = 64 * unat c2 + u mod 64"
    by (rule cont_step [of "u mod 64" 2 c2])
       (use c1 c2 x y z in \<open>auto simp: next_state_conts split: if_splits\<close>)
  have "unat c3 = u" using c3(2) c2(2) c1(2) u by simp
  with c3(1) have "decode 2 c2 (0x80 + u mod 64) = (0, of_nat u)" using word_eq_of_nat by auto
  with c0(1) c1(1) c2(1) show thesis
    using that [of s c0 c1 c2] by (simp add: s_def x_def y_def z_def split: if_splits)
qed

section \<open>Escaping of code points\<close>

text \<open>Four hexadecimal digits, and the escape of a code point: the short escapes, the HTML
  entities, \<open>\uXXXX\<close> for control characters and from 7F up (a surrogate pair beyond
  FFFF), and the character itself otherwise.\<close>

definition hex4_nat :: "nat \<Rightarrow> string" where
  "hex4_nat n = map (\<lambda>k. hex_lower (n div 16 ^ k mod 16)) [3, 2, 1, 0]"

definition u_escape :: "nat \<Rightarrow> string" where
  "u_escape n = CHR 0x5C # CHR ''u'' # hex4_nat n"

definition escaped :: "nat \<Rightarrow> string" where
  "escaped u =
     (if u = 0x08 then [CHR 0x5C, CHR ''b'']
      else if u = 0x09 then [CHR 0x5C, CHR ''t'']
      else if u = 0x0A then [CHR 0x5C, CHR ''n'']
      else if u = 0x0C then [CHR 0x5C, CHR ''f'']
      else if u = 0x0D then [CHR 0x5C, CHR ''r'']
      else if u = 0x22 then ''&quot;''
      else if u = 0x27 then ''&apos;''
      else if u = 0x26 then ''&amp;''
      else if u = 0x3C then CHR 0x5C # ''lt;''
      else if u = 0x3E then CHR 0x5C # ''gt;''
      else if u < 0x20 \<or> 0x7F \<le> u then
        (if u < 0x10000 then u_escape u
         else u_escape (0xD800 + (u - 0x10000) div 0x400) @ u_escape (0xDC00 + u mod 0x400))
      else [char_of u])"

lemma hex4_hex4_nat: "unat w < 2 ^ 16 \<Longrightarrow> hex4 w = hex4_nat (unat w)"
  by (simp add: hex4_def hex4_nat_def Let_def)

lemma length_escapes [simp]: "length (hex4_nat n) = 4" "length (u_escape n) = 6"
  by (simp_all add: hex4_nat_def u_escape_def)

lemma length_escaped: "length (escaped u) \<le> 12"
  by (simp add: escaped_def)

lemma small_word:
  assumes "u < 0x110000"
  shows "unat (of_nat u :: 32 word) = u"
  using assms by (simp add: unat_of_nat)

lemma high_surrogate:
  assumes "0x10000 \<le> u" "u < 0x110000"
  shows "unat (0xD7C0 + drop_bit 10 (of_nat u) :: 32 word) = 0xD800 + (u - 0x10000) div 0x400"
proof -
  have d: "unat (drop_bit 10 (of_nat u) :: 32 word) = u div 0x400"
    unfolding unat_drop_bit_eq small_word [OF assms(2)] by (simp add: drop_bit_eq_div)
  have "u div 0x400 < 0x440" using assms by auto
  then have "unat (0xD7C0 + drop_bit 10 (of_nat u) :: 32 word) = 0xD7C0 + u div 0x400"
    using d by (simp add: unat_plus_if')
  moreover have "u div 0x400 = 0x40 + (u - 0x10000) div 0x400"
    using div_mult_self3 [of 1024 64 "u - 0x10000"] assms(1) by simp
  ultimately show ?thesis by simp
qed

lemma low_surrogate:
  assumes "u < 0x110000"
  shows "unat (0xDC00 + (of_nat u AND 0x3FF) :: 32 word) = 0xDC00 + u mod 0x400"
proof -
  have m: "(0x3FF :: 32 word) = mask 10" by (simp add: mask_eq_exp_minus_1)
  have "unat (of_nat u AND mask 10 :: 32 word) = u mod 0x400"
    using assms by (simp add: unat_and_mask unat_of_nat)
  moreover have "u mod 0x400 < 0x400" by simp
  ultimately show ?thesis unfolding m by (simp add: unat_plus_if')
qed

lemma put_code_point_escaped:
  assumes "u < 0x110000" "length buf \<le> 499" "u < 128 \<Longrightarrow> c = char_of u"
  shows "put_code_point (of_nat u) c buf = Some (buf @ escaped u)"
proof -
  define w :: "32 word" where "w = of_nat u"
  have uw: "unat w = u" unfolding w_def by (rule small_word [OF assms(1)])
  note cmp = word_unat_eq_iff word_le_nat_alt uw
  have pair: "\<not> u < 0x10000 \<Longrightarrow>
      CHR 0x5C # CHR ''u'' # hex4 (0xD7C0 + drop_bit 10 w) @ CHR 0x5C # CHR ''u'' # hex4 (0xDC00 + (w AND 0x3FF)) =
      u_escape (0xD800 + (u - 0x10000) div 0x400) @ u_escape (0xDC00 + u mod 0x400)"
    using high_surrogate [of u] low_surrogate [of u] assms(1)
    by (simp add: u_escape_def hex4_hex4_nat w_def less_mult_imp_div_less)
  have one: "u < 0x10000 \<Longrightarrow> CHR 0x5C # CHR ''u'' # hex4 w = u_escape u"
    by (simp add: u_escape_def hex4_hex4_nat uw)
  consider "u < 0x20 \<or> 0x7F \<le> u" "u < 0x10000" "u \<notin> {8, 9, 10, 12, 13}"
    | "u \<ge> 0x10000" | "u \<in> {8, 9, 10, 12, 13, 0x22, 0x27, 0x26, 0x3C, 0x3E}"
    | "0x20 \<le> u" "u < 0x7F" "u \<notin> {0x22, 0x27, 0x26, 0x3C, 0x3E}" by fastforce
  then have "put_code_point w c buf = Some (buf @ escaped u)"
  proof cases
    case 1
    then show ?thesis using one assms(2)
      by (auto simp: put_code_point_def cmp escaped_def snprintf_def stringBufferSize_def)
  next
    case 2
    then show ?thesis using pair assms(2)
      by (simp add: put_code_point_def cmp escaped_def snprintf_def stringBufferSize_def)
  next
    case 3
    then show ?thesis using assms(2)
      by (auto simp: put_code_point_def cmp escaped_def put_def stringBufferSize_def)
  next
    case 4
    then show ?thesis using assms(2,3)
      by (auto simp: put_code_point_def cmp escaped_def put_def stringBufferSize_def)
  qed
  then show ?thesis unfolding w_def .
qed

section \<open>The escaping loop on well-formed text\<close>

lemma accept_step:
  assumes "decode s cp (of_char c) = (0, cp')" "put_code_point cp' c buf = Some (buf @ e)"
  shows "dump_loop out s cp buf l n (c # str) =
     (if 499 < length (buf @ e) then dump_loop (out @ buf @ e) 0 cp' [] 0 0 str
      else dump_loop out 0 cp' (buf @ e) (length (buf @ e)) 0 str)"
  using assms by (simp add: dump_loop.simps(2) utf8Accept_def stringBufferSize_def) auto

lemma more_step:
  assumes "decode s cp (of_char c) = (s', cp')" "s' \<notin> {0, 1}"
  shows "dump_loop out s cp buf l n (c # str) = dump_loop out s' cp' buf l (Suc n) str"
  using assms by (simp add: dump_loop.simps(2) utf8Accept_def utf8Reject_def)

text \<open>One code point: its escape is appended, and the buffer flushed when fewer than 13
  bytes are left.\<close>

lemma code_point_step:
  assumes "scalar u" "length buf \<le> 499"
  shows "\<exists>cp'. dump_loop out 0 cp buf l n (utf8 u @ str) =
     (if 499 < length (buf @ escaped u) then dump_loop (out @ buf @ escaped u) 0 cp' [] 0 0 str
      else dump_loop out 0 cp' (buf @ escaped u) (length (buf @ escaped u)) 0 str)"
proof -
  have u: "u < 0x110000" using assms(1) by (auto simp: scalar_def)
  have put: "put_code_point (of_nat u) c buf = Some (buf @ escaped u)" if "u < 128 \<Longrightarrow> c = char_of u" for c
    using put_code_point_escaped [OF u assms(2)] that by simp
  have ch: "b < 256 \<Longrightarrow> of_char (char_of b) = (b :: nat)" for b by simp
  have cont: "128 + v mod 64 < 256" for v :: nat
    using mod_less_divisor [of 64 v] by simp
  consider "u < 128" | "128 \<le> u" "u < 2048" | "2048 \<le> u" "u < 65536" | "65536 \<le> u" by linarith
  then show ?thesis
  proof cases
    case 1
    then have "utf8 u = [char_of u]" by (simp add: utf8_def utf8_bytes_def)
    moreover have "decode 0 cp (of_char (char_of u :: char)) = (0, of_nat u)"
      using decode_one [OF 1] 1 by (simp add: ch)
    ultimately show ?thesis using accept_step [OF _ put] by (metis append_Cons append_Nil)
  next
    case 2
    then have e: "utf8 u = [char_of (0xC0 + u div 64), char_of (0x80 + u mod 64)]"
      by (simp add: utf8_def utf8_bytes_def)
    obtain c0 where d: "decode 0 cp (0xC0 + u div 64) = (2, c0)"
      "decode 2 c0 (0x80 + u mod 64) = (0, of_nat u)" using decode_two [OF 2] by blast
    have "0xC0 + u div 64 < 256" using 2 by auto
    with d cont [of u] have "decode 0 cp (of_char (char_of (0xC0 + u div 64) :: char)) = (2, c0)"
      "decode 2 c0 (of_char (char_of (0x80 + u mod 64) :: char)) = (0, of_nat u)"
      by (simp_all add: ch)
    note st = more_step [OF this(1)] accept_step [OF this(2) put]
    show ?thesis using 2 unfolding e append_Cons append_Nil by (subst st(1), simp, subst st(2)) auto
  next
    case 3
    then have e: "utf8 u = [char_of (0xE0 + u div 4096), char_of (0x80 + u div 64 mod 64),
        char_of (0x80 + u mod 64)]"
      by (simp add: utf8_def utf8_bytes_def)
    obtain s c0 c1 where d: "decode 0 cp (0xE0 + u div 4096) = (s, c0)" "s \<notin> {0, 1}"
      "decode s c0 (0x80 + u div 64 mod 64) = (2, c1)"
      "decode 2 c1 (0x80 + u mod 64) = (0, of_nat u)" using decode_three [OF 3 assms(1)] by blast
    have "0xE0 + u div 4096 < 256" using 3 by auto
    with d cont [of u] cont [of "u div 64"]
    have "decode 0 cp (of_char (char_of (0xE0 + u div 4096) :: char)) = (s, c0)"
      "decode s c0 (of_char (char_of (0x80 + u div 64 mod 64) :: char)) = (2, c1)"
      "decode 2 c1 (of_char (char_of (0x80 + u mod 64) :: char)) = (0, of_nat u)"
      by (simp_all add: ch)
    note st = more_step [OF this(1) d(2)] more_step [OF this(2)] accept_step [OF this(3) put]
    show ?thesis using 3 unfolding e append_Cons append_Nil
      by (subst st(1), subst st(2), simp, subst st(3)) auto
  next
    case 4
    then have e: "utf8 u = [char_of (0xF0 + u div 262144), char_of (0x80 + u div 4096 mod 64),
        char_of (0x80 + u div 64 mod 64), char_of (0x80 + u mod 64)]"
      by (simp add: utf8_def utf8_bytes_def)
    obtain s c0 c1 c2 where d: "decode 0 cp (0xF0 + u div 262144) = (s, c0)" "s \<notin> {0, 1}"
      "decode s c0 (0x80 + u div 4096 mod 64) = (3, c1)"
      "decode 3 c1 (0x80 + u div 64 mod 64) = (2, c2)"
      "decode 2 c2 (0x80 + u mod 64) = (0, of_nat u)" using decode_four [OF 4 assms(1)] by blast
    have "0xF0 + u div 262144 < 256" using u by auto
    with d cont [of u] cont [of "u div 64"] cont [of "u div 4096"]
    have "decode 0 cp (of_char (char_of (0xF0 + u div 262144) :: char)) = (s, c0)"
      "decode s c0 (of_char (char_of (0x80 + u div 4096 mod 64) :: char)) = (3, c1)"
      "decode 3 c1 (of_char (char_of (0x80 + u div 64 mod 64) :: char)) = (2, c2)"
      "decode 2 c2 (of_char (char_of (0x80 + u mod 64) :: char)) = (0, of_nat u)"
      by (simp_all add: ch)
    note st = more_step [OF this(1) d(2)] more_step [OF this(2)] more_step [OF this(3)]
      accept_step [OF this(4) put]
    show ?thesis using 4 unfolding e append_Cons append_Nil
      by (subst st(1), subst st(2), simp, subst st(3), simp, subst st(4)) auto
  qed
qed

end
