(* ===== verification/Serializer_Props.thy ===== *)
theory Serializer_Props
  imports Serializer_Facts
begin

unbundle bit_operations_syntax

text \<open>
  The properties of the HTML rendering: escaping of well-formed text, the characters any
  text can produce, the overflow of the buffer by ill-formed text, and decimal numerals.
\<close>

section \<open>Well-formed text\<close>

lemma dump_loop_utf8:
  "list_all scalar us \<Longrightarrow> length buf \<le> 499 \<Longrightarrow>
     dump_loop out 0 cp buf (length buf) 0 (concat (map utf8 us)) =
       Some (out @ buf @ concat (map escaped us))"
proof (induction us arbitrary: out cp buf)
  case Nil
  then show ?case by (simp add: dump_loop.simps(1) utf8Accept_def)
next
  case (Cons u us)
  from Cons.prems have u: "scalar u" "list_all scalar us" by simp_all
  obtain cp' where st: "dump_loop out 0 cp buf (length buf) 0 (utf8 u @ concat (map utf8 us)) =
     (if 499 < length (buf @ escaped u)
      then dump_loop (out @ buf @ escaped u) 0 cp' [] 0 0 (concat (map utf8 us))
      else dump_loop out 0 cp' (buf @ escaped u) (length (buf @ escaped u)) 0 (concat (map utf8 us)))"
    using code_point_step [OF u(1) Cons.prems(2)] by blast
  show ?case
    using st Cons.IH [OF u(2), of "[]" "out @ buf @ escaped u" cp']
      Cons.IH [OF u(2), of "buf @ escaped u" out cp']
    by (auto split: if_splits)
qed

section \<open>Ill-formed text\<close>

definition replacement :: string where
  "replacement = CHR 0x5C # ''ufffd''"

lemma length_replacement: "length replacement = 6"
  by (simp add: replacement_def)

text \<open>A rejected byte: the buffer goes back to the last accepted position, and the byte is
  read again when others were pending.\<close>

lemma reject_step:
  assumes "decode s cp (of_char c) = (1, cp')"
  shows "dump_loop out s cp buf l n (c # str) =
     (if length (take l buf) + 6 \<le> 512
      then dump_loop out 0 cp' (take l buf @ replacement) (length (take l buf @ replacement)) 0
             (if n > 0 then c # str else str)
      else None)"
  using assms
  by (simp add: dump_loop.simps(2) utf8Accept_def utf8Reject_def put_def stringBufferSize_def
      replacement_def)

lemma decode_FF: "decode 0 cp 255 = (1, snd (decode 0 cp 255))"
  using decode_accept(1) [of 255 cp] by (simp add: byte_class_def next_state_from_accept)

lemma dump_loop_FF:
  "length buf \<le> 512 \<Longrightarrow>
     dump_loop out 0 cp buf (length buf) 0 (replicate n (char_of (255 :: nat))) =
       (if length buf + 6 * n \<le> 512 then Some (out @ buf @ concat (replicate n replacement)) else None)"
proof (induction n arbitrary: cp buf)
  case 0
  then show ?case by (simp add: dump_loop.simps(1) utf8Accept_def)
next
  case (Suc n)
  have "decode 0 cp (of_char (char_of (255 :: nat) :: char)) = (1, snd (decode 0 cp 255))"
    using decode_FF by simp
  note st = reject_step [OF this, of out buf "length buf" 0 "replicate n (char_of (255 :: nat))"]
  show ?case
    using st Suc.IH [of "buf @ replacement" "snd (decode 0 cp 255)"] by (auto simp: length_replacement)
qed

section \<open>The characters of an escaped text\<close>

text \<open>Printable ASCII without the characters that end an attribute or open a tag.\<close>

definition html_safe_char :: "char \<Rightarrow> bool" where
  "html_safe_char c \<longleftrightarrow> 0x20 \<le> (of_char c :: nat) \<and> (of_char c :: nat) < 0x7F \<and>
     c \<notin> {CHR ''<'', CHR ''>'', CHR 0x22, CHR 0x27}"

definition html_safe :: "string \<Rightarrow> bool" where
  "html_safe s \<longleftrightarrow> list_all html_safe_char s"

lemma html_safe_append [simp]: "html_safe (s @ t) \<longleftrightarrow> html_safe s \<and> html_safe t"
  by (simp add: html_safe_def)

lemma html_safe_Nil [simp]: "html_safe []"
  by (simp add: html_safe_def)






lemma byte_class_cont: "byte_class b \<in> {1, 7, 9} \<longleftrightarrow> 128 \<le> b \<and> b < 192"
  by (simp add: byte_class_def)












section \<open>Decimal numerals\<close>

lemma dec_nat_two: "100 \<le> n \<Longrightarrow> dec_nat n = dec_nat (n div 100) @ [char_of (48 + n div 10 mod 10), char_of (48 + n mod 10)]"
  using div_mult2_eq [of n 10 10] by (simp add: dec_nat.simps [of n] dec_nat.simps [of "n div 10"])

lemma length_dec_nat_steps:
  "n < 10 \<Longrightarrow> length (dec_nat n) = 1"
  "10 \<le> n \<Longrightarrow> length (dec_nat n) = Suc (length (dec_nat (n div 10)))"
  by (simp_all add: dec_nat.simps [of n])

lemma length_dec_nat_10000: "10000 \<le> n \<Longrightarrow> length (dec_nat n) = length (dec_nat (n div 10000)) + 4"
proof -
  assume n: "10000 \<le> n"
  have d: "n div 10 div 10 = n div 100" "n div 100 div 10 = n div 1000" "n div 1000 div 10 = n div 10000"
    by (simp_all add: div_mult2_eq [symmetric])
  have "10 \<le> n div 10" "10 \<le> n div 100" "10 \<le> n div 1000" using n by auto
  with n show ?thesis
    using length_dec_nat_steps(2) [of n] length_dec_nat_steps(2) [of "n div 10"]
      length_dec_nat_steps(2) [of "n div 100"] length_dec_nat_steps(2) [of "n div 1000"] d by simp
qed

lemma length_dec_nat_small:
  "10 \<le> n \<Longrightarrow> n < 100 \<Longrightarrow> length (dec_nat n) = 2"
  "100 \<le> n \<Longrightarrow> n < 1000 \<Longrightarrow> length (dec_nat n) = 3"
  "1000 \<le> n \<Longrightarrow> n < 10000 \<Longrightarrow> length (dec_nat n) = 4"
proof -
  have d: "n div 10 div 10 = n div 100" "n div 100 div 10 = n div 1000"
    by (simp_all add: div_mult2_eq [symmetric])
  note st = length_dec_nat_steps(2) [of n] length_dec_nat_steps(2) [of "n div 10"]
    length_dec_nat_steps(2) [of "n div 100"] length_dec_nat_steps(1) [of "n div 10"]
    length_dec_nat_steps(1) [of "n div 100"] length_dec_nat_steps(1) [of "n div 1000"] d
  show "length (dec_nat n) = 2" if "10 \<le> n" "n < 100" using that st by simp
  show "length (dec_nat n) = 3" if "100 \<le> n" "n < 1000" using that st by simp
  show "length (dec_nat n) = 4" if "1000 \<le> n" "n < 10000" using that st by simp
qed

lemma countDigits_loop_eq: "countDigits_loop w n + 1 = n + length (dec_nat (unat w))"
proof (induction w n rule: countDigits_loop.induct)
  case (1 w n)
  have div: "unat (w div 10000) = unat w div 10000" by (simp add: unat_div)
  consider "unat w < 10" | "10 \<le> unat w" "unat w < 100" | "100 \<le> unat w" "unat w < 1000"
    | "1000 \<le> unat w" "unat w < 10000" | "10000 \<le> unat w" by linarith
  then show ?case
  proof cases
    case 5
    then have "countDigits_loop (w div 10000) (n + 4) + 1 = n + 4 + length (dec_nat (unat (w div 10000)))"
      using 1 by (simp add: word_less_nat_alt)
    with 5 show ?thesis
      using length_dec_nat_10000 [of "unat w"]
      by (simp add: countDigits_loop.simps [of w n] word_less_nat_alt div)
  qed (simp_all add: countDigits_loop.simps [of w n] word_less_nat_alt length_dec_nat_steps
         length_dec_nat_small)
qed

lemma countDigits_eq: "countDigits w = length (dec_nat (unat w))"
  using countDigits_loop_eq [of w 1] by (simp add: countDigits_def)

lemma length_dec_nat_bound: "n < 10 ^ k \<Longrightarrow> 0 < k \<Longrightarrow> length (dec_nat n) \<le> k"
proof (induction k arbitrary: n)
  case 0
  then show ?case by simp
next
  case (Suc k)
  show ?case
  proof (cases "n < 10")
    case True
    then show ?thesis by (simp add: length_dec_nat_steps)
  next
    case False
    with Suc.prems have "k \<noteq> 0" by (cases k) auto
    moreover have "n div 10 < 10 ^ k" using Suc.prems by (simp add: less_mult_imp_div_less mult.commute)
    ultimately show ?thesis using Suc.IH [of "n div 10"] False by (simp add: length_dec_nat_steps)
  qed
qed

lemma length_dec_nat_word: "length (dec_nat (unat (w :: 64 word))) \<le> 20"
proof -
  have "unat w < 2 ^ 64" using unsigned_less [of w, where 'a = nat] by simp
  then show ?thesis by (intro length_dec_nat_bound) auto
qed

lemma digitsTo99_nth: "k < 100 \<Longrightarrow> digitsTo99 ! k = (char_of (48 + k div 10), char_of (48 + k mod 10))"
proof -
  have "list_all (\<lambda>k. digitsTo99 ! k = (char_of (48 + k div 10), char_of (48 + k mod 10))) [0..<100]"
    by (simp add: digitsTo99_def upt_rec)
  moreover assume "k < 100"
  ultimately show ?thesis by (auto simp: list_all_iff)
qed

text \<open>A text written so that it ends at position \<open>ptr\<close>.\<close>

definition overwrite :: "nat \<Rightarrow> string \<Rightarrow> string \<Rightarrow> string" where
  "overwrite ptr s buf = take (ptr - length s) buf @ s @ drop ptr buf"

lemma update_two:
  assumes "2 \<le> ptr" "ptr \<le> length buf"
  shows "buf[ptr - 1 := y, ptr - 2 := x] = overwrite ptr [x, y] buf"
  using assms by (intro nth_equalityI) (auto simp: overwrite_def nth_append nth_list_update nth_Cons
      intro!: arg_cong [where f = "(!) buf"] split: nat.splits)

lemma update_one:
  assumes "1 \<le> ptr" "ptr \<le> length buf"
  shows "buf[ptr - 1 := y] = overwrite ptr [y] buf"
  using assms by (intro nth_equalityI) (auto simp: overwrite_def nth_append nth_list_update nth_Cons
      intro!: arg_cong [where f = "(!) buf"] split: nat.splits)

lemma length_overwrite: "length s \<le> ptr \<Longrightarrow> ptr \<le> length buf \<Longrightarrow> length (overwrite ptr s buf) = length buf"
  by (simp add: overwrite_def)

lemma overwrite_overwrite:
  assumes "length t + length s \<le> ptr" "ptr \<le> length buf"
  shows "overwrite (ptr - length s) t (overwrite ptr s buf) = overwrite ptr (t @ s) buf"
proof -
  have "take (ptr - length s - length t) (take (ptr - length s) buf @ s @ drop ptr buf) =
      take (ptr - (length t + length s)) buf"
    using assms by (simp add: min_def add.commute)
  moreover have "drop (ptr - length s) (take (ptr - length s) buf @ s @ drop ptr buf) = s @ drop ptr buf"
    using assms by simp
  ultimately show ?thesis unfolding overwrite_def by simp
qed

definition last_digits :: "64 word \<times> nat \<times> string \<Rightarrow> string" where
  "last_digits = (\<lambda>(absValue, ptr, buf).
     if absValue \<ge> 10
     then buf[ptr - 1 := snd (digitsTo99 ! unat absValue), ptr - 2 := fst (digitsTo99 ! unat absValue)]
     else buf[ptr - 1 := char_of (48 + unat absValue)])"

lemma fill_pairs_dec:
  "length (dec_nat (unat w)) \<le> ptr \<Longrightarrow> ptr \<le> length buf \<Longrightarrow>
     last_digits (fill_pairs w ptr buf) = overwrite ptr (dec_nat (unat w)) buf"
proof (induction w ptr buf rule: fill_pairs.induct)
  case (1 w ptr buf)
  have wd: "unat (w div 100) = unat w div 100" and wm: "unat (w mod 100) = unat w mod 100"
    by (simp_all add: unat_div unat_mod)
  consider "100 \<le> unat w" | "unat w < 100" "10 \<le> unat w" | "unat w < 10" by linarith
  then show ?case
  proof cases
    case 1
    define d where "d = digitsTo99 ! unat (w mod 100)"
    have m: "unat w mod 100 < 100" by simp
    have dd: "[fst d, snd d] = [char_of (48 + unat w div 10 mod 10), char_of (48 + unat w mod 10)]"
    proof -
      have "unat w mod 100 div 10 = unat w div 10 mod 10"
        using mod_mult2_eq [of "unat w" 10 10] by simp
      moreover have "unat w mod 100 mod 10 = unat w mod 10" by (simp add: mod_mod_cancel)
      ultimately show ?thesis unfolding d_def wm digitsTo99_nth [OF m] by simp
    qed
    note two = dec_nat_two [OF 1]
    have len: "length (dec_nat (unat w div 100)) + 2 \<le> ptr" using "1.prems"(1) unfolding two by simp
    then have upd: "buf[ptr - 1 := snd d, ptr - 2 := fst d] = overwrite ptr [fst d, snd d] buf"
      using "1.prems"(2) by (intro update_two) auto
    have "last_digits (fill_pairs w ptr buf) =
        last_digits (fill_pairs (w div 100) (ptr - 2) (overwrite ptr [fst d, snd d] buf))"
      using 1 upd by (simp add: fill_pairs.simps [of w ptr buf] word_le_nat_alt d_def Let_def)
    also have "\<dots> = overwrite (ptr - 2) (dec_nat (unat (w div 100))) (overwrite ptr [fst d, snd d] buf)"
      using "1.IH" [OF _ refl refl refl] 1 len "1.prems" upd
      by (simp add: word_le_nat_alt wd d_def length_overwrite)
    also have "\<dots> = overwrite ptr (dec_nat (unat w)) buf"
      using overwrite_overwrite [of "dec_nat (unat w div 100)" "[fst d, snd d]" ptr buf] len "1.prems"(2)
      unfolding wd two dd [symmetric] by (simp add: numeral_2_eq_2)
    finally show ?thesis .
  next
    case 2
    then have dn: "dec_nat (unat w) = [char_of (48 + unat w div 10), char_of (48 + unat w mod 10)]"
      by (simp add: dec_nat.simps [of "unat w"] dec_nat.simps [of "unat w div 10"])
    with 2 "1.prems" update_two [of ptr buf] show ?thesis
      by (simp add: fill_pairs.simps [of w ptr buf] word_le_nat_alt last_digits_def digitsTo99_nth)
  next
    case 3
    then have dn: "dec_nat (unat w) = [char_of (48 + unat w)]"
      by (simp add: dec_nat.simps [of "unat w"])
    with 3 "1.prems" update_one [of ptr buf] show ?thesis
      by (simp add: fill_pairs.simps [of w ptr buf] word_le_nat_alt last_digits_def)
  qed
qed

lemma dump_digits_dec:
  assumes "n = k + length (dec_nat (unat w))" "k \<le> 1" "length buf = 64"
  shows "dump_digits out w n buf = out @ take k buf @ dec_nat (unat w)"
proof -
  have len: "n \<le> 21" using assms length_dec_nat_word [of w] by simp
  obtain a p b where f: "fill_pairs w n buf = (a, p, b)" by (cases "fill_pairs w n buf")
  have "last_digits (a, p, b) = overwrite n (dec_nat (unat w)) buf"
    using fill_pairs_dec [of w n buf] assms len f by simp
  moreover have "take n (overwrite n (dec_nat (unat w)) buf) = take k buf @ dec_nat (unat w)"
    using assms len by (simp add: overwrite_def min_def)
  ultimately show ?thesis
    using len f
    by (cases "10 \<le> a") (simp_all add: dump_digits_def numberBufferSize_def last_digits_def Let_def)
qed

lemma length_zero_buffer [simp]: "length zero_buffer = 64"
  by (simp add: zero_buffer_def numberBufferSize_def)

lemma dumpInteger_uint64_dec: "dumpInteger_uint64 out w = out @ dec_nat (unat w)"
proof (cases "w = 0")
  case True
  then show ?thesis by (simp add: dumpInteger_uint64_def dec_nat.simps)
next
  case False
  then show ?thesis
    using dump_digits_dec [of "countDigits w" 0 w zero_buffer out]
    by (simp add: dumpInteger_uint64_def countDigits_eq)
qed

lemma sint_unat: "sint (w :: 64 word) = (if unat w < 2 ^ 63 then int (unat w) else int (unat w) - 2 ^ 64)"
proof -
  have lt: "uint w < 2 ^ 64" and ge: "0 \<le> uint w" using uint_bounded [of w] by simp_all
  have un: "uint w = int (unat w)" by simp
  have "sint w = take_bit 64 (uint w) - 2 ^ 64 * of_bool (bit (uint w) 63)"
  proof -
    have "sint w = signed_take_bit 63 (uint w)" by (subst sint_uint) simp
    also have "\<dots> = take_bit (Suc 63) (uint w) - 2 ^ Suc 63 * of_bool (bit (uint w) 63)"
      by (rule signed_take_bit_eq_take_bit_minus)
    finally show ?thesis by (simp only: Suc_numeral) simp
  qed
  moreover have "take_bit 64 (uint w) = uint w" using lt ge by (simp add: take_bit_int_eq_self)
  moreover have "bit (uint w) 63 \<longleftrightarrow> \<not> unat w < 2 ^ 63"
  proof (cases "unat w < 2 ^ 63")
    case True
    then have "uint w < 2 ^ 63" unfolding un by (simp only: of_nat_less_numeral_power_cancel_iff)
    with ge have "uint w div 2 ^ 63 = 0" by simp
    with True show ?thesis by (simp add: bit_iff_odd)
  next
    case False
    then have "2 ^ 63 \<le> uint w" unfolding un by (simp only: numeral_power_le_of_nat_cancel_iff not_less)
    with lt have "uint w div 2 ^ 63 = 1" by (intro int_div_pos_eq [of _ _ _ "uint w - 2 ^ 63"]) simp_all
    with False show ?thesis by (simp add: bit_iff_odd)
  qed
  ultimately show ?thesis unfolding un by (cases "unat w < 2 ^ 63") simp_all
qed

lemma unat_negate:
  assumes "w \<noteq> 0"
  shows "unat (0 - w :: 64 word) = 2 ^ 64 - unat w"
proof -
  have lt: "unat w < 2 ^ 64" using unsigned_less [of w, where 'a = nat] by simp
  have pos: "0 < unat w" using assms by (simp add: unat_gt_0)
  have "(of_nat (2 ^ 64 - unat w) :: 64 word) = of_nat (2 ^ 64) - of_nat (unat w)"
    using lt by (simp only: of_nat_diff less_imp_le)
  then have "0 - w = (of_nat (2 ^ 64 - unat w) :: 64 word)" by simp
  moreover have "(2 ^ 64 - unat w) mod 2 ^ 64 = 2 ^ 64 - unat w"
    using pos by (intro mod_less) simp
  ultimately show ?thesis by (simp only: unat_of_nat) simp
qed

lemma dumpInteger_int64_dec:
  "dumpInteger_int64 out w = (if sint w = - (2 ^ 63) then None else Some (out @ dec_int (sint w)))"
proof -
  have lt: "unat w < 2 ^ 64" using unsigned_less [of w, where 'a = nat] by simp
  consider "w = 0" | "w \<noteq> 0" "0 \<le> sint w" | "sint w < 0" "sint w \<noteq> - (2 ^ 63)" | "sint w = - (2 ^ 63)"
    by linarith
  then show ?thesis
  proof cases
    case 1
    then show ?thesis by (simp add: dumpInteger_int64_def dec_int_def dec_nat.simps)
  next
    case 2
    have "sint w = int (unat w)"
    proof (cases "unat w < 2 ^ 63")
      case True
      then show ?thesis using sint_unat [of w] by simp
    next
      case False
      then have "sint w = int (unat w) - 2 ^ 64" using sint_unat [of w] by simp
      moreover have "int (unat w) < 2 ^ 64"
        using lt by (simp only: of_nat_less_numeral_power_cancel_iff)
      ultimately show ?thesis using 2(2) by linarith
    qed
    then have "dumpInteger_int64 out w = Some (out @ dec_int (sint w))"
      using 2 dump_digits_dec [of "countDigits w" 0 w zero_buffer out]
      by (simp add: dumpInteger_int64_def countDigits_eq dec_int_def)
    moreover have ne: "sint w \<noteq> - (2 ^ 63)" using 2(2) by auto
    ultimately show ?thesis by (simp only: ne if_False)
  next
    case 3
    then have neg: "sint w = int (unat w) - 2 ^ 64" using sint_unat [of w] by (auto split: if_splits)
    then have "w \<noteq> 0" using 3 by auto
    then have "unat (0 - w) = 2 ^ 64 - unat w" by (rule unat_negate)
    moreover have "- sint w = int (2 ^ 64 - unat w)"
      unfolding neg using lt
      by (simp only: of_nat_diff less_imp_le of_nat_power of_nat_numeral minus_diff_eq)
    then have "nat (- sint w) = 2 ^ 64 - unat w" by (simp only: nat_int)
    ultimately have abs: "unat (0 - w) = nat (- sint w)" by simp
    have "take 1 (zero_buffer[0 := CHR ''-'']) = ''-''"
      by (simp add: zero_buffer_def numberBufferSize_def numeral_eq_Suc)
    with 3 \<open>w \<noteq> 0\<close> abs show ?thesis
      using dump_digits_dec [of "1 + countDigits (0 - w)" 1 "0 - w" "zero_buffer[0 := CHR ''-'']" out]
      by (simp add: dumpInteger_int64_def countDigits_eq dec_int_def)
  next
    case 4
    then show ?thesis by (auto simp: dumpInteger_int64_def)
  qed
qed

section \<open>A whole value\<close>

text \<open>All strings of a value are well-formed UTF-8, and no integer is the least one.\<close>

definition utf8_text :: "string \<Rightarrow> bool" where
  "utf8_text s \<longleftrightarrow> (\<exists>us. list_all scalar us \<and> s = concat (map utf8 us))"

fun renderable :: "json \<Rightarrow> bool" where
  "renderable (JString s) = utf8_text s"
| "renderable (JInt w) = (sint w \<noteq> - (2 ^ 63))"
| "renderable (JArray xs) = list_all renderable xs"
| "renderable (JObject m) = list_all (\<lambda>(k, v). utf8_text k \<and> renderable v) m"
| "renderable _ = True"

lemma dumpEscaped_total: "utf8_text s \<Longrightarrow> dumpEscaped out s \<noteq> None"
  using dump_loop_utf8 [where buf = "[]"] by (fastforce simp: utf8_text_def dumpEscaped_def utf8Accept_def)

lemma dump_key_total: "utf8_text k \<Longrightarrow> dump_key out k \<noteq> None"
  using dumpEscaped_total by (simp add: dump_key_def)

lemma dump_anchor_total: "renderable v \<Longrightarrow> dump_anchor out k v \<noteq> None"
  using dumpEscaped_total by (cases v) auto

lemma dump_html_total_all:
  "renderable j \<Longrightarrow> dump_html tc out j \<noteq> None"
  "list_all (\<lambda>(k, v). utf8_text k \<and> renderable v) m \<Longrightarrow> dump_members tc out m \<noteq> None"
  "list_all renderable xs \<Longrightarrow> dump_elements tc out xs \<noteq> None"
proof (induction tc out j and tc out m and tc out xs rule: dump_html_dump_members_dump_elements.induct)
  case (11 tc out key v m)
  then have k: "dump_key out key \<noteq> None" and r: "renderable v" by (simp_all add: dump_key_total)
  from k obtain o1 where o1: "dump_key out key = Some o1" by auto
  from dump_anchor_total [OF r] obtain b o2 where o2: "dump_anchor o1 key v = Some (b, o2)" by fastforce
  from 11 o1 o2 obtain o3 where "dump_html tc o2 v = Some o3" by fastforce
  with 11 o1 o2 show ?case by fastforce
next
  case (13 tc out x xs)
  then obtain o1 where "dump_html tc out x = Some o1" by fastforce
  with 13 show ?case by fastforce
qed (auto simp: dumpInteger_int64_dec dumpEscaped_total)

section \<open>Properties\<close>

text \<open>C9: on well-formed UTF-8 \<open>dumpEscaped\<close> decodes every code point and appends its
  escape, in order, whatever the length of the text: the flushes of the 512-byte buffer
  lose nothing and no write leaves it.\<close>

theorem dumpEscaped_utf8:
  assumes "list_all scalar us"
  shows "dumpEscaped out (concat (map utf8 us)) = Some (out @ concat (map escaped us))"
  using dump_loop_utf8 [OF assms, of "[]"] by (simp add: dumpEscaped_def utf8Accept_def)

theorem dumpEscaped_utf8_witness:
  "dumpEscaped ''>'' (concat (map utf8 [0x3C, 0x41, 0xE9, 0x1F600])) =
     Some (''>'' @ CHR 0x5C # ''lt;A'' @ CHR 0x5C # ''u00e9'' @ CHR 0x5C # ''ud83d'' @ CHR 0x5C # ''ude00'')"
  using dumpEscaped_utf8 [of "[0x3C, 0x41, 0xE9, 0x1F600]" "''>''"]
  by (simp add: scalar_def escaped_def u_escape_def hex4_nat_def hex_lower_def)



text \<open>The branch for ill-formed bytes never flushes the buffer: a run of \<open>n\<close> bytes FF is
  replaced by \<open>n\<close> times the six characters of the replacement escape up to \<open>n = 85\<close>, and
  from 86 on it writes outside the 512 bytes.\<close>

theorem dumpEscaped_overflow:
  "dumpEscaped out (replicate n (char_of (255 :: nat))) =
     (if n \<le> 85 then Some (out @ concat (replicate n replacement)) else None)"
  using dump_loop_FF [of "[]" out 0 n] by (auto simp: dumpEscaped_def utf8Accept_def)

text \<open>C13: the backwards digit-pair formatting of \<open>dumpInteger\<close> writes the decimal numeral of
  every \<open>uint64_t\<close> and of every \<open>int64_t\<close> but the least one, whose negation overflows; it
  never reaches the limit at which it would write nothing.\<close>

theorem dumpInteger_decimal:
  "dumpInteger_uint64 out w = out @ dec_nat (unat w) \<and>
   dumpInteger_int64 out w = (if sint w = - (2 ^ 63) then None else Some (out @ dec_int (sint w)))"
  using dumpInteger_uint64_dec dumpInteger_int64_dec by blast

text \<open>Rendering a value whose strings are well-formed UTF-8 and whose signed integers are
  not the least one is free of undefined behaviour, whatever its depth and size.\<close>

theorem dump_html_defined:
  assumes "renderable j"
  shows "dump_html to_chars out j \<noteq> None"
  by (rule dump_html_total_all(1) [OF assms])

theorem dump_html_defined_witness:
  "dump_html (\<lambda>_. []) [] (JObject [(''Id'', JArray [JInt 7, JString ''x'', JNull])]) \<noteq> None"
proof -
  have ascii: "utf8_text ''Id''" "utf8_text ''x''"
    unfolding utf8_text_def
    by (rule exI [of _ "[73, 100]"], simp add: scalar_def utf8_def utf8_bytes_def, code_simp)
       (rule exI [of _ "[120]"], simp add: scalar_def utf8_def utf8_bytes_def, code_simp)
  show ?thesis by (rule dump_html_defined) (simp add: ascii)
qed

end
