(* ===== verification/Redfish_Response.thy ===== *)
theory Redfish_Response
  imports Router Serializer
begin

text \<open>
  \<open>src/core/route/redfish/response.hpp\<close> and the first half of \<open>response.cpp\<close>: the Redfish
  response, a response with a JSON payload that is written out when the request's context
  is destroyed, and the context itself as far as the messages use it (the parameters are in
  the theory of the context's entities).
  \<open>payload.dump (2)\<close> is a parameter that may throw (on text that is not UTF-8 the library
  throws \<open>type_error.316\<close>); so is the \<open>to_chars\<close> the serializer calls.
\<close>

record redfish_response =
  base :: response
  payload :: json
  prettyOutput :: bool

text \<open>\<open>nlohmann::json ({})\<close> is the empty object.\<close>

definition new_redfish_response :: "bool \<Rightarrow> redfish_response" where
  "new_redfish_response pretty =
     \<lparr>base = new_response, payload = JObject [], prettyOutput = pretty\<rparr>"

definition messageVersionPrefix :: string where
  "messageVersionPrefix = ''Base.1.8.1.''"

definition messageAnnotation :: string where
  "messageAnnotation = ''@Message.ExtendedInfo''"

definition errorField :: string where
  "errorField = ''error''"

section \<open>Errors\<close>

text \<open>\<open>array.push_back (message)\<close> on a member that is made an array first.\<close>

definition append_info :: "json \<Rightarrow> json \<Rightarrow> json may_throw" where
  "append_info message info =
     json_push_back message (if is_array info then info else JArray [])"

definition generalError :: string where
  "generalError = ''A general error has occurred. See Resolution for information on how to resolve the error.''"

text \<open>The body of \<open>addError\<close> on the reference \<open>error\<close>. Its first branch returns early, with
  \<open>error\<close> as it is, when the message has no \<open>MessageId\<close> or no \<open>Message\<close>.\<close>

definition addError_at :: "json \<Rightarrow> json \<Rightarrow> json may_throw" where
  "addError_at message error =
     (if \<not> is_object error then
        (case json_find ''MessageId'' message of
           None \<Rightarrow> Inr error
         | Some messageId \<Rightarrow>
        (case json_find ''Message'' message of
           None \<Rightarrow> Inr error
         | Some messageField \<Rightarrow>
             json_member messageAnnotation (append_info message)
               (json_object [(''code'', messageId), (''message'', messageField)])))
      else
        (case json_put ''code'' (JString (messageVersionPrefix @ ''GeneralError'')) error of
           Inl e \<Rightarrow> Inl e
         | Inr error1 \<Rightarrow>
        (case json_put ''message'' (JString generalError) error1 of
           Inl e \<Rightarrow> Inl e
         | Inr error2 \<Rightarrow> json_member messageAnnotation (append_info message) error2)))"

text \<open>An exception leaves the payload as it was: only \<open>payload[key]\<close> itself can throw.\<close>

definition with_payload ::
    "(json \<Rightarrow> json may_throw) \<Rightarrow> redfish_response \<Rightarrow> redfish_response may_throw" where
  "with_payload f r = map_sum id (\<lambda>p. r\<lparr>payload := p\<rparr>) (f (payload r))"

definition addError :: "json \<Rightarrow> redfish_response \<Rightarrow> redfish_response may_throw" where
  "addError message = with_payload (json_member errorField (addError_at message))"

definition propertyError :: "string \<Rightarrow> json \<Rightarrow> redfish_response \<Rightarrow> redfish_response may_throw" where
  "propertyError property message =
     with_payload (json_member (property @ messageAnnotation) (append_info message))"

section \<open>Payload\<close>

fun insert_fragment :: "json \<Rightarrow> json \<Rightarrow> json may_throw" where
  "insert_fragment (JArray xs) (JArray ys) = Inr (JArray (ys @ xs))"
| "insert_fragment (JArray xs) _ = Inr (JArray xs)"
| "insert_fragment json _ = Inr json"

text \<open>The debug line dumps the value first, and may throw.\<close>

definition add ::
    "(json \<Rightarrow> string may_throw) \<Rightarrow> string \<Rightarrow> json \<Rightarrow> redfish_response \<Rightarrow> redfish_response may_throw" where
  "add dump2 key json r =
     (case dump2 json of
        Inl e \<Rightarrow> Inl e
      | Inr _ \<Rightarrow> with_payload (json_member key (insert_fragment json)) r)"

definition getJson :: "redfish_response \<Rightarrow> json" where
  "getJson r = payload r"

section \<open>Writing it out\<close>

definition lines_of :: "string list \<Rightarrow> string" where
  "lines_of ls = concat (map (\<lambda>l. l @ [CHR 0x0A]) ls)"

text \<open>An attribute of an HTML element.\<close>

definition attr :: "string \<Rightarrow> string \<Rightarrow> string" where
  "attr name v = name @ ''='' @ [CHR 0x22] @ v @ [CHR 0x22]"

definition html_head :: string where
  "html_head = lines_of
     [''<html>'',
      ''<head>'',
      ''<title>Redfish API</title>'',
      ''<link '' @ attr ''href'' ''/redfish.css'' @ '' '' @ attr ''rel'' ''stylesheet'' @ ''>'',
      ''</head>'',
      ''<body>'',
      ''<div '' @ attr ''class'' ''container'' @ ''>'',
      ''<img '' @ attr ''src'' ''/DMTF_Redfish_logo_2017.svg'' @ '' '' @ attr ''alt'' ''redfish'' @ '' '' @
        attr ''height'' ''406px'' @ '' '' @ attr ''width'' ''576px'' @ ''>'',
      ''<div '' @ attr ''class'' ''content'' @ ''>'']"

definition html_footer :: string where
  "html_footer = lines_of [''</div>'', ''</div>'', ''</body>'', ''</html>'']"

text \<open>What an operation comes to: undefined behaviour, an exception, or its result.\<close>

datatype 'a outcome = Undefined | Throws cpp_exn | Returns 'a

definition prettyPrintRedfish ::
    "(64 word \<Rightarrow> string) \<Rightarrow> redfish_response \<Rightarrow> redfish_response outcome" where
  "prettyPrintRedfish tc r =
     (case dump_html tc [] (payload r) of
        None \<Rightarrow> Undefined
      | Some respData \<Rightarrow>
          Returns (r\<lparr>base := setContentType textHtml
                       (push html_footer (push respData (push html_head (base r))))\<rparr>))"

definition flash ::
    "(json \<Rightarrow> string may_throw) \<Rightarrow> (64 word \<Rightarrow> string) \<Rightarrow> redfish_response \<Rightarrow> redfish_response outcome" where
  "flash dump2 tc r0 =
     (let r = r0\<lparr>base := clear (base r0)\<rparr>
      in if prettyOutput r then prettyPrintRedfish tc r
         else (case dump2 (payload r) of
                 Inl e \<Rightarrow> Throws e
               | Inr s \<Rightarrow> Returns (r\<lparr>base := push s (base r)\<rparr>)))"

section \<open>The context\<close>

record redfish_context =
  ctx_request :: session_request
  ctx_response :: redfish_response
  anchor :: string

definition initAnchor :: "string \<Rightarrow> string" where
  "initAnchor uri =
     (if uri \<noteq> [] \<and> last uri = CHR ''/'' then take (length uri - 1) uri @ ''#'' else uri @ ''#'')"

definition new_context :: "session_request \<Rightarrow> redfish_context" where
  "new_context request =
     \<lparr>ctx_request = request, ctx_response = new_redfish_response (isBrowserRequest request),
      anchor = initAnchor (getUriPath request)\<rparr>"

text \<open>The copy constructor: a fresh response for the same request.\<close>

definition copy_context :: "redfish_context \<Rightarrow> redfish_context" where
  "copy_context other =
     other\<lparr>ctx_response := new_redfish_response (isBrowserRequest (ctx_request other))\<rparr>"

definition getAnchorPath :: "redfish_context \<Rightarrow> string" where
  "getAnchorPath ctx = anchor ctx"

definition addAnchorSegment :: "string \<Rightarrow> redfish_context \<Rightarrow> redfish_context" where
  "addAnchorSegment segment ctx = ctx\<lparr>anchor := anchor ctx @ ''/'' @ segment\<rparr>"

definition encodeUriSegment :: "string \<Rightarrow> string" where
  "encodeUriSegment s = replace_char (CHR '' '') (CHR ''_'') s"

definition decodeUriSegment :: "string \<Rightarrow> string" where
  "decodeUriSegment s = replace_char (CHR ''_'') (CHR '' '') s"

text \<open>
  The destructor flushes the response. A destructor does not let an exception out:
  \<open>std::terminate\<close> ends the process.
\<close>

datatype 'a ended = Undefined_end | Terminates | Ends 'a

definition destroy_context ::
    "(json \<Rightarrow> string may_throw) \<Rightarrow> (64 word \<Rightarrow> string) \<Rightarrow> redfish_context \<Rightarrow> redfish_response ended" where
  "destroy_context dump2 tc ctx =
     (case flash dump2 tc (ctx_response ctx) of
        Undefined \<Rightarrow> Undefined_end
      | Throws _ \<Rightarrow> Terminates
      | Returns r \<Rightarrow> Ends r)"

section \<open>Reporting an error\<close>

lemma append_info_Inr:
  "append_info m (JArray ms) = Inr (JArray (ms @ [m]))"
  "append_info m JNull = Inr (JArray [m])"
  by (simp_all add: append_info_def)

lemma append_info_total: "\<exists>xs. append_info m x = Inr (JArray (xs @ [m]))"
  by (cases x) (simp_all add: append_info_def)

text \<open>On an object an error can always be reported, whatever stands under its keys.\<close>

lemma addError_at_last:
  assumes "json_find ''MessageId'' m = Some i" and "json_find ''Message'' m = Some t"
  shows "\<exists>e xs. addError_at m x = Inr e \<and> json_find messageAnnotation e = Some (JArray (xs @ [m]))"
proof -
  have step: "\<exists>e xs. json_member messageAnnotation (append_info m) j = Inr e \<and>
      json_find messageAnnotation e = Some (JArray (xs @ [m]))" if "is_object j" for j
  proof -
    from append_info_total obtain xs where "append_info m (member_or_null messageAnnotation j) = Inr (JArray (xs @ [m]))"
      by blast
    from json_member_on_object [OF that refl, where f = "append_info m", OF this] show ?thesis by auto
  qed
  show ?thesis
  proof (cases "is_object x")
    case True
    then obtain kvs where "x = JObject kvs" by (rule is_objectE)
    with step show ?thesis by (simp add: addError_at_def)
  next
    case False
    with assms step [of "json_object [(''code'', i), (''message'', t)]"] show ?thesis
      by (simp add: addError_at_def json_object_def)
  qed
qed

lemma addError_on_object:
  assumes "is_object (payload r)" and "json_find ''MessageId'' m = Some i" and "json_find ''Message'' m = Some t"
  shows "\<exists>r' e xs. addError m r = Inr r' \<and> base r' = base r \<and> is_object (payload r') \<and>
    prettyOutput r' = prettyOutput r \<and> json_find errorField (payload r') = Some e \<and>
    json_find messageAnnotation e = Some (JArray (xs @ [m]))"
proof -
  from addError_at_last [OF assms(2,3)] obtain e xs where
    e: "addError_at m (member_or_null errorField (payload r)) = Inr e"
      "json_find messageAnnotation e = Some (JArray (xs @ [m]))" by blast
  from json_member_on_object [OF assms(1) refl, where f = "addError_at m", OF e(1)] e(2) show ?thesis
    by (force simp: addError_def with_payload_def)
qed

end
