(* ===== verification/Error_Messages.thy ===== *)
theory Error_Messages
  imports Redfish_Response
begin

text \<open>
  \<open>src/core/route/redfish/error_messages.cpp\<close>: for every message of the registry the code
  supports, the JSON value it builds (\<open><name>_message\<close>, the file's static functions) and the
  function that answers a request with it. \<open>error_call\<close> names the calls, so that a lemma
  can speak of all of them.
\<close>

section \<open>Messages\<close>

definition message_object :: "string \<Rightarrow> string \<Rightarrow> string list \<Rightarrow> string \<Rightarrow> string \<Rightarrow> json" where
  "message_object messageId message args severity resolution = json_object
     [(''@odata.type'', JString ''#Message.v1_1_1.Message''),
      (''MessageId'', JString messageId),
      (''Message'', JString message),
      (''MessageArgs'', JArray (map JString args)),
      (''MessageSeverity'', JString severity),
      (''Resolution'', JString resolution)]"

definition resourceInUse_message :: "json" where
  "resourceInUse_message = message_object
     ''Base.1.8.1.ResourceInUse''
     (''The change to the requested resource failed because the resource is in use or in transition.'')
     [] ''Warning''
     ''Remove the condition and resubmit the request if the operation failed.''"

definition malformedJSON_message :: "json" where
  "malformedJSON_message = message_object
     ''Base.1.8.1.MalformedJSON''
     (''The request body submitted was malformed JSON and could not be parsed by the receiving service.'')
     [] ''Critical''
     ''Ensure that the request body is valid JSON and resubmit the request.''"

definition resourceMissingAtURI_message :: "string \<Rightarrow> json" where
  "resourceMissingAtURI_message arg1 = message_object
     ''Base.1.8.1.ResourceMissingAtURI''
     (''The resource at the URI '' @ arg1 @ '' was not found.'')
     [arg1] ''Critical''
     ''Place a valid resource at the URI or correct the URI and resubmit the request.''"

definition actionParameterValueFormatError_message :: "string \<Rightarrow> string \<Rightarrow> string \<Rightarrow> json" where
  "actionParameterValueFormatError_message arg1 arg2 arg3 = message_object
     ''Base.1.8.1.ActionParameterValueFormatError''
     (''The value '' @ arg1 @ '' for the parameter '' @ arg2 @ '' in the action '' @ arg3 @ '' is of a different format than the parameter can accept.'')
     [arg1, arg2, arg3] ''Warning''
     ''Correct the value for the parameter in the request body and resubmit the request if the operation failed.''"

definition methodNotAllowed_message :: "string \<Rightarrow> json" where
  "methodNotAllowed_message resource = message_object
     ''Base.1.8.1.MethodNotAllowed''
     (''The requested method is not allowed for the resource '' @ [CHR 0x27] @ resource @ [CHR 0x27])
     [] ''Critical''
     ''Resubmit the request.  If the problem persists, consider resetting the service.''"

definition internalError_message :: "json" where
  "internalError_message = message_object
     ''Base.1.8.1.InternalError''
     (''The request failed due to an internal service error.  The service is still operational.'')
     [] ''Critical''
     ''Resubmit the request.  If the problem persists, consider resetting the service.''"

definition unrecognizedRequestBody_message :: "json" where
  "unrecognizedRequestBody_message = message_object
     ''Base.1.8.1.UnrecognizedRequestBody''
     (''The service detected a malformed request body that it was unable to interpret.'')
     [] ''Warning''
     ''Correct the request body and resubmit the request if it failed.''"

definition resourceAtUriUnauthorized_message :: "string \<Rightarrow> string \<Rightarrow> json" where
  "resourceAtUriUnauthorized_message arg1 arg2 = message_object
     ''Base.1.8.1.ResourceAtUriUnauthorized''
     (''While accessing the resource at '' @ arg1 @ '', the service received an authorization error '' @ arg2 @ ''.'')
     [arg1, arg2] ''Critical''
     ''Ensure that the appropriate access is provided for the service in order for it to access the URI.''"

definition actionParameterUnknown_message :: "string \<Rightarrow> string \<Rightarrow> json" where
  "actionParameterUnknown_message arg1 arg2 = message_object
     ''Base.1.8.1.ActionParameterUnknown''
     (''The action '' @ arg1 @ '' was submitted with the invalid parameter '' @ arg2 @ ''.'')
     [arg1, arg2] ''Warning''
     ''Correct the invalid parameter and resubmit the request if the operation failed.''"

definition resourceCannotBeDeleted_message :: "json" where
  "resourceCannotBeDeleted_message = message_object
     ''Base.1.8.1.ResourceCannotBeDeleted''
     (''The delete request failed because the resource requested cannot be deleted.'')
     [] ''Critical''
     ''Do not attempt to delete a non-deletable resource.''"

definition propertyDuplicate_message :: "string \<Rightarrow> json" where
  "propertyDuplicate_message arg1 = message_object
     ''Base.1.8.1.PropertyDuplicate''
     (''The property '' @ arg1 @ '' was duplicated in the request.'')
     [arg1] ''Warning''
     ''Remove the duplicate property from the request body and resubmit the request if the operation failed.''"

definition serviceTemporarilyUnavailable_message :: "string \<Rightarrow> json" where
  "serviceTemporarilyUnavailable_message arg1 = message_object
     ''Base.1.8.1.ServiceTemporarilyUnavailable''
     (''The service is temporarily unavailable.  Retry in '' @ arg1 @ '' seconds.'')
     [arg1] ''Critical''
     ''Wait for the indicated retry duration and retry the operation.''"

definition resourceAlreadyExists_message :: "string \<Rightarrow> string \<Rightarrow> string \<Rightarrow> json" where
  "resourceAlreadyExists_message arg1 arg2 arg3 = message_object
     ''Base.1.8.1.ResourceAlreadyExists''
     (''The requested resource of type '' @ arg1 @ '' with the property '' @ arg2 @ '' with the value '' @ arg3 @ '' already exists.'')
     [arg1, arg2, arg3] ''Critical''
     ''Do not repeat the create operation as the resource has already been created.''"

definition accountForSessionNoLongerExists_message :: "json" where
  "accountForSessionNoLongerExists_message = message_object
     ''Base.1.8.1.AccountForSessionNoLongerExists''
     (''The account for the current session has been removed, thus the current session has been removed as well.'')
     [] ''OK''
     ''Attempt to connect with a valid account.''"

definition createFailedMissingReqProperties_message :: "string \<Rightarrow> json" where
  "createFailedMissingReqProperties_message arg1 = message_object
     ''Base.1.8.1.CreateFailedMissingReqProperties''
     (''The create operation failed because the required property '' @ arg1 @ '' was missing from the request.'')
     [arg1] ''Critical''
     ''Correct the body to include the required property with a valid value and resubmit the request if the operation failed.''"

definition propertyValueFormatError_message :: "string \<Rightarrow> string \<Rightarrow> json" where
  "propertyValueFormatError_message arg1 arg2 = message_object
     ''Base.1.8.1.PropertyValueFormatError''
     (''The value '' @ arg1 @ '' for the property '' @ arg2 @ '' is of a different format than the property can accept.'')
     [arg1, arg2] ''Warning''
     ''Correct the value for the property in the request body and resubmit the request if the operation failed.''"

definition propertyValueNotInList_message :: "string \<Rightarrow> string \<Rightarrow> json" where
  "propertyValueNotInList_message arg1 arg2 = message_object
     ''Base.1.8.1.PropertyValueNotInList''
     (''The value '' @ arg1 @ '' for the property '' @ arg2 @ '' is not in the list of acceptable values.'')
     [arg1, arg2] ''Warning''
     ''Choose a value from the enumeration list that the implementation can support and resubmit the request if the operation failed.''"

definition resourceAtUriInUnknownFormat_message :: "string \<Rightarrow> json" where
  "resourceAtUriInUnknownFormat_message arg1 = message_object
     ''Base.1.8.1.ResourceAtUriInUnknownFormat''
     (''The resource at '' @ arg1 @ '' is in a format not recognized by the service.'')
     [arg1] ''Critical''
     ''Place an image or resource or file that is recognized by the service at the URI.''"

definition serviceInUnknownState_message :: "json" where
  "serviceInUnknownState_message = message_object
     ''Base.1.8.1.ServiceInUnknownState''
     (''The operation failed because the service is in an unknown state and can no longer take incoming requests.'')
     [] ''Critical''
     ''Restart the service and resubmit the request if the operation failed.''"

definition eventSubscriptionLimitExceeded_message :: "json" where
  "eventSubscriptionLimitExceeded_message = message_object
     ''Base.1.8.1.EventSubscriptionLimitExceeded''
     (''The event subscription failed due to the number of simultaneous subscriptions exceeding the limit of the implementation.'')
     [] ''Critical''
     ''Reduce the number of other subscriptions before trying to establish the event subscription or increase the limit of simultaneous subscriptions (if supported).''"

definition resourceNotFound_message :: "string \<Rightarrow> string \<Rightarrow> json" where
  "resourceNotFound_message arg1 arg2 = message_object
     ''Base.1.8.1.ResourceNotFound''
     (''The requested resource of type '' @ arg1 @ '' named '' @ arg2 @ '' was not found.'')
     [arg1, arg2] ''Critical''
     ''Provide a valid resource identifier and resubmit the request.''"

definition uriNotFound_message :: "string \<Rightarrow> json" where
  "uriNotFound_message arg1 = message_object
     ''Base.1.8.1.ResourceNotFound''
     (''The requested resource on the URL '' @ arg1 @ '' was not found.'')
     [arg1] ''Critical''
     ''Provide a valid resource URI and resubmit the request.''"

section \<open>Answers\<close>

text \<open>\<open>setStatus\<close> and then the error, on the response of the context.\<close>

definition respond ::
    "code \<Rightarrow> (redfish_response \<Rightarrow> redfish_response may_throw) \<Rightarrow>
     redfish_context \<Rightarrow> redfish_context may_throw" where
  "respond st add_message ctx =
     map_sum id (\<lambda>r. ctx\<lparr>ctx_response := r\<rparr>)
       (add_message (ctx_response ctx\<lparr>base := setStatus st (base (ctx_response ctx))\<rparr>))"

definition resourceInUse :: "redfish_context \<Rightarrow> redfish_context may_throw" where
  "resourceInUse ctx =
     respond ServiceUnavailable (addError resourceInUse_message) ctx"

definition malformedJSON :: "redfish_context \<Rightarrow> redfish_context may_throw" where
  "malformedJSON ctx =
     respond BadRequest (addError malformedJSON_message) ctx"

definition resourceMissingAtURI :: "string \<Rightarrow> redfish_context \<Rightarrow> redfish_context may_throw" where
  "resourceMissingAtURI arg1 ctx =
     respond BadRequest (addError (resourceMissingAtURI_message arg1)) ctx"

definition actionParameterValueFormatError :: "string \<Rightarrow> string \<Rightarrow> string \<Rightarrow> redfish_context \<Rightarrow> redfish_context may_throw" where
  "actionParameterValueFormatError arg1 arg2 arg3 ctx =
     respond BadRequest (addError (actionParameterValueFormatError_message arg1 arg2 arg3)) ctx"

definition methodNotAllowed :: "redfish_context \<Rightarrow> redfish_context may_throw" where
  "methodNotAllowed ctx =
     respond MethodNotAllowed (addError (methodNotAllowed_message (getUriPath (ctx_request ctx)))) ctx"

definition internalError :: "redfish_context \<Rightarrow> redfish_context may_throw" where
  "internalError ctx =
     respond InternalServerError (addError internalError_message) ctx"

definition internalError_property :: "string \<Rightarrow> redfish_context \<Rightarrow> redfish_context may_throw" where
  "internalError_property property ctx =
     respond InternalServerError (propertyError property internalError_message) ctx"

definition unrecognizedRequestBody :: "redfish_context \<Rightarrow> redfish_context may_throw" where
  "unrecognizedRequestBody ctx =
     respond BadRequest (addError unrecognizedRequestBody_message) ctx"

definition resourceAtUriUnauthorized :: "string \<Rightarrow> string \<Rightarrow> redfish_context \<Rightarrow> redfish_context may_throw" where
  "resourceAtUriUnauthorized arg1 arg2 ctx =
     respond Unauthorized (addError (resourceAtUriUnauthorized_message arg1 arg2)) ctx"

definition actionParameterUnknown :: "string \<Rightarrow> string \<Rightarrow> redfish_context \<Rightarrow> redfish_context may_throw" where
  "actionParameterUnknown arg1 arg2 ctx =
     respond BadRequest (addError (actionParameterUnknown_message arg1 arg2)) ctx"

definition resourceCannotBeDeleted :: "redfish_context \<Rightarrow> redfish_context may_throw" where
  "resourceCannotBeDeleted ctx =
     respond Forbidden (addError resourceCannotBeDeleted_message) ctx"

definition propertyDuplicate :: "string \<Rightarrow> redfish_context \<Rightarrow> redfish_context may_throw" where
  "propertyDuplicate arg1 ctx =
     respond BadRequest (propertyError arg1 (propertyDuplicate_message arg1)) ctx"

definition serviceTemporarilyUnavailable :: "string \<Rightarrow> redfish_context \<Rightarrow> redfish_context may_throw" where
  "serviceTemporarilyUnavailable arg1 ctx =
     respond ServiceUnavailable (addError (serviceTemporarilyUnavailable_message arg1)) (ctx\<lparr>ctx_response := ctx_response ctx
          \<lparr>base := setHeader ''Retry-After'' arg1 (base (ctx_response ctx))\<rparr>\<rparr>)"

definition resourceAlreadyExists :: "string \<Rightarrow> string \<Rightarrow> string \<Rightarrow> redfish_context \<Rightarrow> redfish_context may_throw" where
  "resourceAlreadyExists type property value ctx =
     respond BadRequest (propertyError property (resourceAlreadyExists_message type property value)) ctx"

definition accountForSessionNoLongerExists :: "redfish_context \<Rightarrow> redfish_context may_throw" where
  "accountForSessionNoLongerExists ctx =
     respond Forbidden (addError accountForSessionNoLongerExists_message) ctx"

definition createFailedMissingReqProperties :: "string \<Rightarrow> redfish_context \<Rightarrow> redfish_context may_throw" where
  "createFailedMissingReqProperties property ctx =
     respond BadRequest (propertyError property (createFailedMissingReqProperties_message property)) ctx"

definition propertyValueFormatError :: "string \<Rightarrow> string \<Rightarrow> redfish_context \<Rightarrow> redfish_context may_throw" where
  "propertyValueFormatError value property ctx =
     respond BadRequest (propertyError property (propertyValueFormatError_message value property)) ctx"

definition propertyValueNotInList :: "string \<Rightarrow> string \<Rightarrow> redfish_context \<Rightarrow> redfish_context may_throw" where
  "propertyValueNotInList value property ctx =
     respond BadRequest (propertyError property (propertyValueFormatError_message value property)) ctx"

definition resourceAtUriInUnknownFormat :: "string \<Rightarrow> redfish_context \<Rightarrow> redfish_context may_throw" where
  "resourceAtUriInUnknownFormat uri ctx =
     respond BadRequest (addError (resourceAtUriInUnknownFormat_message uri)) ctx"

definition serviceInUnknownState :: "redfish_context \<Rightarrow> redfish_context may_throw" where
  "serviceInUnknownState ctx =
     respond ServiceUnavailable (addError serviceInUnknownState_message) ctx"

definition eventSubscriptionLimitExceeded :: "redfish_context \<Rightarrow> redfish_context may_throw" where
  "eventSubscriptionLimitExceeded ctx =
     respond ServiceUnavailable (addError eventSubscriptionLimitExceeded_message) ctx"

definition resourceNotFound :: "string \<Rightarrow> string \<Rightarrow> redfish_context \<Rightarrow> redfish_context may_throw" where
  "resourceNotFound arg1 arg2 ctx =
     respond NotFound (addError (resourceNotFound_message arg1 arg2)) ctx"

definition uriNotFound :: "redfish_context \<Rightarrow> redfish_context may_throw" where
  "uriNotFound ctx =
     respond NotFound (addError (uriNotFound_message (getUriPath (ctx_request ctx)))) ctx"

section \<open>All of them\<close>

datatype error_call =
    Call_resourceInUse
  | Call_malformedJSON
  | Call_resourceMissingAtURI string
  | Call_actionParameterValueFormatError string string string
  | Call_methodNotAllowed
  | Call_internalError
  | Call_internalError_property string
  | Call_unrecognizedRequestBody
  | Call_resourceAtUriUnauthorized string string
  | Call_actionParameterUnknown string string
  | Call_resourceCannotBeDeleted
  | Call_propertyDuplicate string
  | Call_serviceTemporarilyUnavailable string
  | Call_resourceAlreadyExists string string string
  | Call_accountForSessionNoLongerExists
  | Call_createFailedMissingReqProperties string
  | Call_propertyValueFormatError string string
  | Call_propertyValueNotInList string string
  | Call_resourceAtUriInUnknownFormat string
  | Call_serviceInUnknownState
  | Call_eventSubscriptionLimitExceeded
  | Call_resourceNotFound string string
  | Call_uriNotFound

fun answer :: "error_call \<Rightarrow> redfish_context \<Rightarrow> redfish_context may_throw" where
  "answer Call_resourceInUse = resourceInUse"
| "answer Call_malformedJSON = malformedJSON"
| "answer (Call_resourceMissingAtURI arg1) = resourceMissingAtURI arg1"
| "answer (Call_actionParameterValueFormatError arg1 arg2 arg3) = actionParameterValueFormatError arg1 arg2 arg3"
| "answer Call_methodNotAllowed = methodNotAllowed"
| "answer Call_internalError = internalError"
| "answer (Call_internalError_property property) = internalError_property property"
| "answer Call_unrecognizedRequestBody = unrecognizedRequestBody"
| "answer (Call_resourceAtUriUnauthorized arg1 arg2) = resourceAtUriUnauthorized arg1 arg2"
| "answer (Call_actionParameterUnknown arg1 arg2) = actionParameterUnknown arg1 arg2"
| "answer Call_resourceCannotBeDeleted = resourceCannotBeDeleted"
| "answer (Call_propertyDuplicate arg1) = propertyDuplicate arg1"
| "answer (Call_serviceTemporarilyUnavailable arg1) = serviceTemporarilyUnavailable arg1"
| "answer (Call_resourceAlreadyExists type property value) = resourceAlreadyExists type property value"
| "answer Call_accountForSessionNoLongerExists = accountForSessionNoLongerExists"
| "answer (Call_createFailedMissingReqProperties property) = createFailedMissingReqProperties property"
| "answer (Call_propertyValueFormatError value property) = propertyValueFormatError value property"
| "answer (Call_propertyValueNotInList value property) = propertyValueNotInList value property"
| "answer (Call_resourceAtUriInUnknownFormat uri) = resourceAtUriInUnknownFormat uri"
| "answer Call_serviceInUnknownState = serviceInUnknownState"
| "answer Call_eventSubscriptionLimitExceeded = eventSubscriptionLimitExceeded"
| "answer (Call_resourceNotFound arg1 arg2) = resourceNotFound arg1 arg2"
| "answer Call_uriNotFound = uriNotFound"

end
