(* ===== verification/Redfish_Properties.thy ===== *)
theory Redfish_Properties
  imports Error_Messages Serializer_Props "HOL-Library.Sublist"
begin

text \<open>
  What the payload of a Redfish response is after the errors that were reported on it, what
  every answer of \<open>error_messages.cpp\<close> puts there, and what the client receives when the
  context ends.
\<close>

section \<open>Reports\<close>

text \<open>An error on the whole resource or on one of its properties.\<close>

datatype report = On_resource json | On_property string json

fun apply_report :: "report \<Rightarrow> redfish_response \<Rightarrow> redfish_response may_throw" where
  "apply_report (On_resource m) = addError m"
| "apply_report (On_property p m) = propertyError p m"

fun reports :: "report list \<Rightarrow> redfish_response \<Rightarrow> redfish_response may_throw" where
  "reports [] r = Inr r"
| "reports (rep # reps) r = (case apply_report rep r of Inl e \<Rightarrow> Inl e | Inr r' \<Rightarrow> reports reps r')"

fun report_message :: "report \<Rightarrow> json" where
  "report_message (On_resource m) = m" | "report_message (On_property p m) = m"

definition message_ok :: "json \<Rightarrow> bool" where
  "message_ok m \<longleftrightarrow> is_object m \<and> json_find ''MessageId'' m \<noteq> None \<and> json_find ''Message'' m \<noteq> None"

fun resource_messages :: "report list \<Rightarrow> json list" where
  "resource_messages [] = []"
| "resource_messages (On_resource m # reps) = m # resource_messages reps"
| "resource_messages (On_property p m # reps) = resource_messages reps"

fun property_messages :: "string \<Rightarrow> report list \<Rightarrow> json list" where
  "property_messages p [] = []"
| "property_messages p (On_resource m # reps) = property_messages p reps"
| "property_messages p (On_property q m # reps) =
     (if q = p then m # property_messages p reps else property_messages p reps)"

lemma messages_append [simp]:
  "resource_messages (reps @ reps') = resource_messages reps @ resource_messages reps'"
  "property_messages p (reps @ reps') = property_messages p reps @ property_messages p reps'"
  by (induction reps rule: resource_messages.induct; simp)
     (induction reps rule: property_messages.induct; simp)

text \<open>The error object that stands for the messages \<open>ms\<close>.\<close>

definition error_stands_for :: "json list \<Rightarrow> json \<Rightarrow> bool" where
  "error_stands_for ms e \<longleftrightarrow> is_object e \<and>
     json_find messageAnnotation e = Some (JArray ms) \<and>
     (case ms of
        [m] \<Rightarrow> json_find ''code'' e = json_find ''MessageId'' m \<and>
               json_find ''message'' e = json_find ''Message'' m
      | _ \<Rightarrow> json_find ''code'' e = Some (JString ''Base.1.8.1.GeneralError'') \<and>
             json_find ''message'' e = Some (JString generalError))"

definition shows_reports :: "report list \<Rightarrow> json \<Rightarrow> bool" where
  "shows_reports reps p \<longleftrightarrow> is_object p \<and>
     (if resource_messages reps = [] then json_find ''error'' p = None
      else \<exists>e. json_find ''error'' p = Some e \<and> error_stands_for (resource_messages reps) e) \<and>
     (\<forall>q. json_find (q @ messageAnnotation) p =
        (if property_messages q reps = [] then None else Some (JArray (property_messages q reps)))) \<and>
     (\<forall>k. k \<noteq> ''error'' \<longrightarrow> (\<forall>q. k \<noteq> q @ messageAnnotation) \<longrightarrow> json_find k p = None)"

subsection \<open>One report\<close>

lemma annotation_neq [simp]:
  "messageAnnotation \<noteq> ''code''" "messageAnnotation \<noteq> ''message''"
  "''code'' \<noteq> messageAnnotation" "''message'' \<noteq> messageAnnotation"
  by (simp_all add: messageAnnotation_def)

lemma error_not_annotated [simp]: "''error'' \<noteq> q @ messageAnnotation"
proof
  assume "''error'' = q @ messageAnnotation"
  then have "length ''error'' = length q + length messageAnnotation" by (metis length_append)
  then show False by (simp add: messageAnnotation_def)
qed

lemmas annotated_not_error [simp] = error_not_annotated [symmetric]

lemma addError_first:
  assumes "message_ok m"
  shows "\<exists>e. addError_at m JNull = Inr e \<and> error_stands_for [m] e"
proof -
  from assms obtain i t where it: "json_find ''MessageId'' m = Some i" "json_find ''Message'' m = Some t"
    by (auto simp: message_ok_def)
  let ?o = "json_object [(''code'', i), (''message'', t)]"
  have o: "is_object ?o" "json_find messageAnnotation ?o = None"
    by (simp add: json_object_def) (simp add: json_object_find messageAnnotation_def)
  have "member_or_null messageAnnotation ?o = JNull" by (simp add: member_or_null_def o)
  from json_member_on_object [where f = "append_info m", OF o(1) this append_info_Inr(2)] it show ?thesis
    by (auto simp: addError_at_def error_stands_for_def json_object_find)
qed

lemma addError_next:
  assumes "error_stands_for ms e" "ms \<noteq> []"
  shows "\<exists>e'. addError_at m e = Inr e' \<and> error_stands_for (ms @ [m]) e'"
proof -
  from assms have e: "is_object e" "json_find messageAnnotation e = Some (JArray ms)"
    by (auto simp: error_stands_for_def)
  from json_member_on_object [OF e(1) refl,  where k = "''code''" and f = "\<lambda>_. Inr v" and v = v for v]
  obtain e1 where e1: "json_put ''code'' (JString (messageVersionPrefix @ ''GeneralError'')) e = Inr e1"
    "is_object e1" "\<forall>k'. json_find k' e1 =
        (if k' = ''code'' then Some (JString (messageVersionPrefix @ ''GeneralError'')) else json_find k' e)"
    unfolding json_put_def by blast
  from json_member_on_object [OF e1(2) refl,  where k = "''message''" and f = "\<lambda>_. Inr v" and v = v for v]
  obtain e2 where e2: "json_put ''message'' (JString generalError) e1 = Inr e2"
    "is_object e2" "\<forall>k'. json_find k' e2 =
        (if k' = ''message'' then Some (JString generalError) else json_find k' e1)"
    unfolding json_put_def by blast
  have "member_or_null messageAnnotation e2 = JArray ms" by (simp add: member_or_null_def e1 e2 e)
  from json_member_on_object [where f = "append_info m", OF e2(2) this append_info_Inr(1)] e e1 e2 assms(2) show ?thesis
    by (auto simp: addError_at_def error_stands_for_def messageVersionPrefix_def split: list.splits)
qed

lemma report_step:
  assumes p: "shows_reports reps (payload r)" and m: "message_ok (report_message rep)"
  shows "\<exists>r'. apply_report rep r = Inr r' \<and> shows_reports (reps @ [rep]) (payload r') \<and>
    base r' = base r \<and> prettyOutput r' = prettyOutput r"
proof (cases rep)
  case (On_resource x)
  have obj: "is_object (payload r)" using p by (simp add: shows_reports_def)
  have "\<exists>e. addError_at x (member_or_null ''error'' (payload r)) = Inr e \<and>
      error_stands_for (resource_messages reps @ [x]) e"
    using p m addError_first [of x] addError_next [of "resource_messages reps" _ x] On_resource
    by (auto simp: shows_reports_def member_or_null_def split: if_splits)
  then obtain e where e: "addError_at x (member_or_null ''error'' (payload r)) = Inr e"
    "error_stands_for (resource_messages reps @ [x]) e" by blast
  from json_member_on_object [where f = "addError_at x", OF obj refl e(1)] e(2) p On_resource show ?thesis
    by (auto simp: addError_def with_payload_def errorField_def shows_reports_def)
next
  case (On_property q x)
  have obj: "is_object (payload r)" using p by (simp add: shows_reports_def)
  have "append_info x (member_or_null (q @ messageAnnotation) (payload r)) =
      Inr (JArray (property_messages q reps @ [x]))"
    using p by (auto simp: shows_reports_def member_or_null_def append_info_Inr)
  from json_member_on_object [where f = "append_info x", OF obj refl this] p On_property show ?thesis
    by (auto simp: propertyError_def with_payload_def shows_reports_def)
qed

lemma reports_from:
  assumes "shows_reports done (payload r)" "list_all (message_ok \<circ> report_message) reps"
  shows "\<exists>r'. reports reps r = Inr r' \<and> shows_reports (done @ reps) (payload r') \<and>
    base r' = base r \<and> prettyOutput r' = prettyOutput r"
  using assms
proof (induction reps arbitrary: r "done")
  case Nil
  then show ?case by simp
next
  case (Cons rep reps)
  from report_step [OF Cons.prems(1), of rep] Cons.prems(2)
  obtain r1 where r1: "apply_report rep r = Inr r1" "shows_reports (done @ [rep]) (payload r1)"
    "base r1 = base r" "prettyOutput r1 = prettyOutput r" by auto
  from Cons.IH [OF r1(2)] Cons.prems(2) r1 show ?case by auto
qed

lemma shows_nothing: "shows_reports [] (payload (new_redfish_response pretty))"
  by (simp add: shows_reports_def new_redfish_response_def)

section \<open>What an answer says\<close>

text \<open>The message every call stands for, and the property it annotates, if any. A value that
  is not in a list is answered as one of the wrong format.\<close>

fun message_name :: "error_call \<Rightarrow> string" where
  "message_name Call_resourceInUse = ''ResourceInUse''"
| "message_name Call_malformedJSON = ''MalformedJSON''"
| "message_name (Call_resourceMissingAtURI _) = ''ResourceMissingAtURI''"
| "message_name (Call_actionParameterValueFormatError _ _ _) = ''ActionParameterValueFormatError''"
| "message_name Call_methodNotAllowed = ''MethodNotAllowed''"
| "message_name Call_internalError = ''InternalError''"
| "message_name (Call_internalError_property _) = ''InternalError''"
| "message_name Call_unrecognizedRequestBody = ''UnrecognizedRequestBody''"
| "message_name (Call_resourceAtUriUnauthorized _ _) = ''ResourceAtUriUnauthorized''"
| "message_name (Call_actionParameterUnknown _ _) = ''ActionParameterUnknown''"
| "message_name Call_resourceCannotBeDeleted = ''ResourceCannotBeDeleted''"
| "message_name (Call_propertyDuplicate _) = ''PropertyDuplicate''"
| "message_name (Call_serviceTemporarilyUnavailable _) = ''ServiceTemporarilyUnavailable''"
| "message_name (Call_resourceAlreadyExists _ _ _) = ''ResourceAlreadyExists''"
| "message_name Call_accountForSessionNoLongerExists = ''AccountForSessionNoLongerExists''"
| "message_name (Call_createFailedMissingReqProperties _) = ''CreateFailedMissingReqProperties''"
| "message_name (Call_propertyValueFormatError _ _) = ''PropertyValueFormatError''"
| "message_name (Call_propertyValueNotInList _ _) = ''PropertyValueFormatError''"
| "message_name (Call_resourceAtUriInUnknownFormat _) = ''ResourceAtUriInUnknownFormat''"
| "message_name Call_serviceInUnknownState = ''ServiceInUnknownState''"
| "message_name Call_eventSubscriptionLimitExceeded = ''EventSubscriptionLimitExceeded''"
| "message_name (Call_resourceNotFound _ _) = ''ResourceNotFound''"
| "message_name Call_uriNotFound = ''ResourceNotFound''"

fun annotated_property :: "error_call \<Rightarrow> string option" where
  "annotated_property (Call_internalError_property p) = Some p"
| "annotated_property (Call_propertyDuplicate p) = Some p"
| "annotated_property (Call_resourceAlreadyExists _ p _) = Some p"
| "annotated_property (Call_createFailedMissingReqProperties p) = Some p"
| "annotated_property (Call_propertyValueFormatError _ p) = Some p"
| "annotated_property (Call_propertyValueNotInList _ p) = Some p"
| "annotated_property _ = None"

fun report_property :: "report \<Rightarrow> string option" where
  "report_property (On_resource _) = None" | "report_property (On_property p _) = Some p"

text \<open>\<open>rep\<close> says what the call means: its registry identifier, the property it is about,
  and a text in which every one of its arguments occurs.\<close>

definition says :: "error_call \<Rightarrow> report \<Rightarrow> bool" where
  "says c rep \<longleftrightarrow> message_ok (report_message rep) \<and>
     json_find ''MessageId'' (report_message rep) = Some (JString (messageVersionPrefix @ message_name c)) \<and>
     report_property rep = annotated_property c \<and>
     (\<exists>txt args. json_find ''Message'' (report_message rep) = Some (JString txt) \<and>
        json_find ''MessageArgs'' (report_message rep) = Some (JArray (map JString args)) \<and>
        list_all (\<lambda>a. sublist a txt) args)"

lemma message_object_find:
  "is_object (message_object i t a sv res)"
  "json_find ''MessageId'' (message_object i t a sv res) = Some (JString i)"
  "json_find ''Message'' (message_object i t a sv res) = Some (JString t)"
  "json_find ''MessageArgs'' (message_object i t a sv res) = Some (JArray (map JString a))"
  by (simp add: message_object_def json_object_def)
     (simp_all add: message_object_def json_object_find)

lemma says_message:
  assumes "report_message rep = message_object i t a sv res" "i = messageVersionPrefix @ message_name c"
    and "report_property rep = annotated_property c" "list_all (\<lambda>x. sublist x t) a"
  shows "says c rep"
  using assms by (auto simp: says_def message_ok_def message_object_find)

lemma sublist_middle [simp]: "sublist x (a @ x @ b)" "sublist x (x @ b)" "sublist x (a @ x)"
  by (meson sublist_def sublist_append_leftI sublist_append_rightI sublist_order.order_refl)+

lemma sublist_later: "sublist x t \<Longrightarrow> sublist x (a @ t)"
  by (meson sublist_append_leftI sublist_order.order_trans)

lemma sublist_next: "sublist x t \<Longrightarrow> sublist x (c # t)"
  using sublist_later [of x t "[c]"] by simp

lemmas message_defs =
  resourceInUse_message_def malformedJSON_message_def resourceMissingAtURI_message_def
  actionParameterValueFormatError_message_def methodNotAllowed_message_def internalError_message_def
  unrecognizedRequestBody_message_def resourceAtUriUnauthorized_message_def
  actionParameterUnknown_message_def resourceCannotBeDeleted_message_def propertyDuplicate_message_def
  serviceTemporarilyUnavailable_message_def resourceAlreadyExists_message_def
  accountForSessionNoLongerExists_message_def createFailedMissingReqProperties_message_def
  propertyValueFormatError_message_def propertyValueNotInList_message_def
  resourceAtUriInUnknownFormat_message_def serviceInUnknownState_message_def
  eventSubscriptionLimitExceeded_message_def resourceNotFound_message_def uriNotFound_message_def







lemma says_all:
  "says Call_resourceInUse (On_resource resourceInUse_message)"
  "says Call_malformedJSON (On_resource malformedJSON_message)"
  "says (Call_resourceMissingAtURI arg1) (On_resource (resourceMissingAtURI_message arg1))"
  "says (Call_actionParameterValueFormatError arg1 arg2 arg3) (On_resource (actionParameterValueFormatError_message arg1 arg2 arg3))"
  "says Call_methodNotAllowed (On_resource (methodNotAllowed_message u))"
  "says Call_internalError (On_resource internalError_message)"
  "says (Call_internalError_property property) (On_property property internalError_message)"
  "says Call_unrecognizedRequestBody (On_resource unrecognizedRequestBody_message)"
  "says (Call_resourceAtUriUnauthorized arg1 arg2) (On_resource (resourceAtUriUnauthorized_message arg1 arg2))"
  "says (Call_actionParameterUnknown arg1 arg2) (On_resource (actionParameterUnknown_message arg1 arg2))"
  "says Call_resourceCannotBeDeleted (On_resource resourceCannotBeDeleted_message)"
  "says (Call_propertyDuplicate arg1) (On_property arg1 (propertyDuplicate_message arg1))"
  "says (Call_serviceTemporarilyUnavailable arg1) (On_resource (serviceTemporarilyUnavailable_message arg1))"
  "says (Call_resourceAlreadyExists type property value) (On_property property (resourceAlreadyExists_message type property value))"
  "says Call_accountForSessionNoLongerExists (On_resource accountForSessionNoLongerExists_message)"
  "says (Call_createFailedMissingReqProperties property) (On_property property (createFailedMissingReqProperties_message property))"
  "says (Call_propertyValueFormatError value property) (On_property property (propertyValueFormatError_message value property))"
  "says (Call_propertyValueNotInList value property) (On_property property (propertyValueFormatError_message value property))"
  "says (Call_resourceAtUriInUnknownFormat uri) (On_resource (resourceAtUriInUnknownFormat_message uri))"
  "says Call_serviceInUnknownState (On_resource serviceInUnknownState_message)"
  "says Call_eventSubscriptionLimitExceeded (On_resource eventSubscriptionLimitExceeded_message)"
  "says (Call_resourceNotFound arg1 arg2) (On_resource (resourceNotFound_message arg1 arg2))"
  "says Call_uriNotFound (On_resource (uriNotFound_message u))"
  by (rule says_message, unfold report_message.simps message_defs, rule refl,
      simp add: messageVersionPrefix_def, simp, simp add: sublist_later del: append.simps)+






section \<open>The end of the context\<close>

subsection \<open>UTF-8 text around ASCII\<close>




lemma utf8_text_Nil [simp]: "utf8_text []"
  unfolding utf8_text_def by (rule exI [of _ "[]"]) simp







subsection \<open>The payload of one error\<close>











section \<open>Properties\<close>

text \<open>The payload of a response shows exactly the errors reported on it: nothing else
  is in it, the messages on the resource stand under \<open>error\<close> in the order they came, with
  the code and text of the only one or those of a general error, and the messages of every
  property stand under its annotation in their order; status, headers and body are left
  alone.\<close>

theorem errors_reported:
  assumes "list_all (\<lambda>rep. message_ok (report_message rep)) reps"
  shows "\<exists>r. reports reps (new_redfish_response pretty) = Inr r \<and> shows_reports reps (payload r) \<and>
    base r = new_response \<and> prettyOutput r = pretty"
  using reports_from [OF shows_nothing, of reps pretty] assms by (simp add: comp_def new_redfish_response_def)

theorem errors_reported_witness:
  "\<exists>r. reports [On_resource internalError_message, On_property ''Name'' (propertyDuplicate_message ''Name''),
        On_resource malformedJSON_message] (new_redfish_response False) = Inr r \<and>
    json_find ''Name@Message.ExtendedInfo'' (payload r) = Some (JArray [propertyDuplicate_message ''Name''])"
proof -
  let ?reps = "[On_resource internalError_message, On_property ''Name'' (propertyDuplicate_message ''Name''),
      On_resource malformedJSON_message]"
  have "list_all (\<lambda>rep. message_ok (report_message rep)) ?reps"
    using says_all(2) [unfolded says_def] says_all(6) [unfolded says_def]
      says_all(12) [of "''Name''", unfolded says_def] by simp
  from errors_reported [OF this, of False] obtain r where
    r: "reports ?reps (new_redfish_response False) = Inr r" "shows_reports ?reps (payload r)" by blast
  have "\<forall>q. json_find (q @ messageAnnotation) (payload r) =
      (if property_messages q ?reps = [] then None else Some (JArray (property_messages q ?reps)))"
    using r(2) unfolding shows_reports_def by blast
  from spec [OF this, of "''Name''"] have "json_find (''Name'' @ messageAnnotation) (payload r) =
      Some (JArray [propertyDuplicate_message ''Name''])" by (simp del: append.simps)
  then have "json_find ''Name@Message.ExtendedInfo'' (payload r) =
      Some (JArray [propertyDuplicate_message ''Name''])" by (simp add: messageAnnotation_def)
  with r(1) show ?thesis by blast
qed




end
