(* ===== verification/Field.thy ===== *)
theory Field
  imports Containers
begin

text \<open>
  \<open>src/core/entity/entity_interface.hpp\<close> and the class \<open>BaseEntity::EntityMember\<close> of
  \<open>entity.hpp\<close>: the value of a field, the field of an instance (which may have no value),
  and the comparisons conditions are made of.
  A \<open>double\<close> is its bit pattern; \<open>int\<close> and \<open>int32_t\<close> are one type.
\<close>

section \<open>Values\<close>

datatype field_value =
    Associations "(string \<times> string \<times> string) list"
  | Strings "string list"
  | Doubles "64 word list"
  | Ints "32 word list"
  | FString string
  | FInt64 "64 word"
  | FUint64 "64 word"
  | FDouble "64 word"
  | FInt32 "32 word"
  | FUint32 "32 word"
  | FInt16 "16 word"
  | FUint16 "16 word"
  | FUint8 "8 word"
  | FBool bool
  | FNull

text \<open>The alternatives of the variant, to ask for by \<open>std::holds_alternative<T>\<close>.\<close>

datatype value_type =
    T_associations | T_strings | T_doubles | T_ints | T_string | T_int64 | T_uint64 | T_double
  | T_int32 | T_uint32 | T_int16 | T_uint16 | T_uint8 | T_bool | T_null

fun type_of :: "field_value \<Rightarrow> value_type" where
  "type_of (Associations _) = T_associations"
| "type_of (Strings _) = T_strings"
| "type_of (Doubles _) = T_doubles"
| "type_of (Ints _) = T_ints"
| "type_of (FString _) = T_string"
| "type_of (FInt64 _) = T_int64"
| "type_of (FUint64 _) = T_uint64"
| "type_of (FDouble _) = T_double"
| "type_of (FInt32 _) = T_int32"
| "type_of (FUint32 _) = T_uint32"
| "type_of (FInt16 _) = T_int16"
| "type_of (FUint16 _) = T_uint16"
| "type_of (FUint8 _) = T_uint8"
| "type_of (FBool _) = T_bool"
| "type_of FNull = T_null"

definition holds_alternative :: "value_type \<Rightarrow> field_value \<Rightarrow> bool" where
  "holds_alternative t v \<longleftrightarrow> type_of v = t"

text \<open>\<open>==\<close> of two \<open>double\<close>s by their IEEE 754 bits: no NaN equals anything, the two zeros
  are equal.\<close>

definition is_nan :: "64 word \<Rightarrow> bool" where
  "is_nan w \<longleftrightarrow> unat w mod 2 ^ 63 > 0x7ff0000000000000"

definition double_eq :: "64 word \<Rightarrow> 64 word \<Rightarrow> bool" where
  "double_eq a b \<longleftrightarrow> \<not> is_nan a \<and> \<not> is_nan b \<and>
     (a = b \<or> unat a mod 2 ^ 63 = 0 \<and> unat b mod 2 ^ 63 = 0)"

text \<open>\<open>==\<close> of two variants.\<close>

fun value_eq :: "field_value \<Rightarrow> field_value \<Rightarrow> bool" where
  "value_eq (FDouble a) (FDouble b) = double_eq a b"
| "value_eq (Doubles as) (Doubles bs) = list_all2 double_eq as bs"
| "value_eq a b = (a = b)"

section \<open>Fields\<close>

text \<open>\<open>EntityMember::StaticInstance\<close>: the optional value.\<close>

type_synonym field = "field_value option"

definition fieldValueNotAvailable :: string where
  "fieldValueNotAvailable = ''N/A''"

definition isNull :: "field \<Rightarrow> bool" where
  "isNull f \<longleftrightarrow> f = None \<or> f = Some FNull"

definition getValue :: "field \<Rightarrow> field_value" where
  "getValue f = (if \<not> isNull f then the f else FString fieldValueNotAvailable)"

definition setValue :: "field_value \<Rightarrow> field \<Rightarrow> field" where
  "setValue v f = Some v"

definition getStringValue :: "field \<Rightarrow> string" where
  "getStringValue f =
     (if \<not> holds_alternative T_string (getValue f) \<or> isNull f then fieldValueNotAvailable
      else (case getValue f of FString s \<Rightarrow> s | _ \<Rightarrow> []))"

definition getIntValue :: "field \<Rightarrow> 32 word" where
  "getIntValue f =
     (if \<not> holds_alternative T_int32 (getValue f) \<or> isNull f then 0
      else (case getValue f of FInt32 n \<Rightarrow> n | _ \<Rightarrow> 0))"

definition getFloatValue :: "field \<Rightarrow> 64 word" where
  "getFloatValue f =
     (if \<not> holds_alternative T_double (getValue f) \<or> isNull f then 0
      else (case getValue f of FDouble d \<Rightarrow> d | _ \<Rightarrow> 0))"

definition getBoolValue :: "field \<Rightarrow> bool" where
  "getBoolValue f =
     (if \<not> holds_alternative T_bool (getValue f) \<or> isNull f then False
      else (case getValue f of FBool b \<Rightarrow> b | _ \<Rightarrow> False))"

definition getType :: "field \<Rightarrow> string" where
  "getType f =
     (if isNull f then ''Null''
      else (case type_of (getValue f) of
              T_string \<Rightarrow> ''String''
            | T_int32 \<Rightarrow> ''Integer''
            | T_double \<Rightarrow> ''Double''
            | T_bool \<Rightarrow> ''Boolean''
            | _ \<Rightarrow> ''Unknown''))"

section \<open>Comparisons\<close>

text \<open>
  \<open>Equal<T>\<close> on the field a pointer points to; \<open>None\<close> is the null pointer. For an
  enumeration \<open>T\<close> the alternative is \<open>int\<close>. Nothing in its \<open>try\<close> throws.
\<close>

definition Equal :: "value_type \<Rightarrow> field option \<Rightarrow> field_value \<Rightarrow> bool" where
  "Equal t instance v =
     (case instance of
        None \<Rightarrow> False
      | Some f \<Rightarrow>
          (let left = getValue f
           in if holds_alternative t left \<and> holds_alternative t v then value_eq left v else False))"

definition NonEqual :: "value_type \<Rightarrow> field option \<Rightarrow> field_value \<Rightarrow> bool" where
  "NonEqual t instance v \<longleftrightarrow> \<not> Equal t instance v"

lemma value_eq_refl: "(\<And>d. v = FDouble d \<Longrightarrow> \<not> is_nan d) \<Longrightarrow> (\<And>ds. v = Doubles ds \<Longrightarrow> list_all (\<lambda>d. \<not> is_nan d) ds) \<Longrightarrow> value_eq v v"
  by (cases v) (auto simp: double_eq_def list_all2_same list_all_iff)

lemma isNull_simps [simp]:
  "isNull None" "isNull (Some FNull)" "v \<noteq> FNull \<Longrightarrow> \<not> isNull (Some v)"
  by (simp_all add: isNull_def)

lemma getValue_simps [simp]:
  "getValue None = FString fieldValueNotAvailable"
  "getValue (Some FNull) = FString fieldValueNotAvailable"
  "v \<noteq> FNull \<Longrightarrow> getValue (Some v) = v"
  by (simp_all add: getValue_def)

lemma getValue_not_null: "getValue f \<noteq> FNull"
  by (auto simp: getValue_def isNull_def)

lemma Equal_string: "Equal T_string (Some f) (FString s) \<longleftrightarrow> getValue f = FString s"
  by (cases "getValue f") (auto simp: Equal_def holds_alternative_def Let_def)

end
