(* ===== verification/Entity_Instance.thy ===== *)
theory Entity_Instance
  imports Field
begin

text \<open>
  The instances of entities: \<open>BaseEntity::StaticInstance\<close> and \<open>BaseEntity::Condition\<close> of
  \<open>src/core/entity/entity.{hpp,cpp}\<close>, and the \<open>DBusInstance\<close> of \<open>dbus_query.{hpp,cpp}\<close> as
  far as it holds data: construction, filling from properties, initialisation.
  A reply of D-Bus is a parameter, as are the formatters, default values and static fields
  an entity's query declares. \<open>complexInstances\<close> is left out: only
  \<open>captureDBusAssociations\<close> fills it, which is never called (see \<open>resolveDBusVariant\<close>).
\<close>

section \<open>Instances\<close>

type_synonym formatter = "string \<Rightarrow> field_value \<Rightarrow> field_value may_throw"

text \<open>\<open>DBusPropertySetters\<close>: property and member, with the formatters; validators are
  declared but nothing calls them.\<close>

type_synonym setters = "((string \<times> string) \<times> formatter list) list"

type_synonym endpoint_map = "(string, setters) omap"

record dbus_part =
  serviceName :: string
  objectPath :: string
  initialized_state :: bool
  targetProperties :: endpoint_map
  dbusQuery :: nat

text \<open>An instance; with a \<open>dbus_part\<close> it is a \<open>DBusInstance\<close>.\<close>

record entity_instance =
  identity :: string
  memberInstances :: "(string, field) omap"
  dbus :: "dbus_part option"

definition new_static_instance :: "string \<Rightarrow> entity_instance" where
  "new_static_instance ident = \<lparr>identity = ident, memberInstances = [], dbus = None\<rparr>"

definition hasField :: "string \<Rightarrow> entity_instance \<Rightarrow> bool" where
  "hasField name i \<longleftrightarrow> map_of (memberInstances i) name \<noteq> None"

text \<open>A missing field is the shared \<open>notAvailable\<close> one, which has no value.\<close>

definition getField :: "string \<Rightarrow> entity_instance \<Rightarrow> field" where
  "getField name i = (case map_of (memberInstances i) name of None \<Rightarrow> None | Some f \<Rightarrow> f)"

definition getMemberNames :: "entity_instance \<Rightarrow> string list" where
  "getMemberNames i = map fst (memberInstances i)"

definition supplement :: "string \<Rightarrow> field_value \<Rightarrow> entity_instance \<Rightarrow> entity_instance may_throw" where
  "supplement member v i =
     (case map_of (memberInstances i) member of
        Some _ \<Rightarrow> Inl (Logic_error (''The requested member '' @ [CHR 0x27] @ member @ [CHR 0x27] @
                      '' is already registried.''))
      | None \<Rightarrow> Inr (i\<lparr>memberInstances := om_emplace member (Some v) (memberInstances i)\<rparr>))"

definition supplementOrUpdate_value ::
    "string \<Rightarrow> field_value \<Rightarrow> entity_instance \<Rightarrow> entity_instance may_throw" where
  "supplementOrUpdate_value name v i =
     (if hasField name i
      then Inr (i\<lparr>memberInstances := om_assign name (setValue v (getField name i)) (memberInstances i)\<rparr>)
      else supplement name v i)"

text \<open>The loop over the other instance's members; a \<open>DBusInstance\<close> skips the meta fields.\<close>

fun supplement_from ::
    "entity_instance \<Rightarrow> string list \<Rightarrow> entity_instance \<Rightarrow> entity_instance may_throw" where
  "supplement_from d [] i = Inr i"
| "supplement_from d (name # names) i =
     (if dbus i \<noteq> None \<and> starts_with name ''__meta_'' then supplement_from d names i
      else (case supplementOrUpdate_value name (getValue (getField name d)) i of
              Inl e \<Rightarrow> Inl e
            | Inr i' \<Rightarrow> supplement_from d names i'))"

definition supplementOrUpdate :: "entity_instance \<Rightarrow> entity_instance \<Rightarrow> entity_instance may_throw" where
  "supplementOrUpdate d i = supplement_from d (getMemberNames d) i"

text \<open>\<open>targetProperties.merge\<close> moves the interfaces that are new from the other instance.\<close>

definition mergeInternalMetadata :: "entity_instance \<Rightarrow> entity_instance \<Rightarrow> entity_instance \<times> entity_instance" where
  "mergeInternalMetadata d i =
     (case (dbus i, dbus d) of
        (Some di, Some dd) \<Rightarrow>
          (i\<lparr>dbus := Some (di\<lparr>targetProperties :=
               om.emplace_all (targetProperties dd) (targetProperties di)\<rparr>)\<rparr>,
           d\<lparr>dbus := Some (dd\<lparr>targetProperties :=
               filter (\<lambda>(iface, _). map_of (targetProperties di) iface \<noteq> None) (targetProperties dd)\<rparr>)\<rparr>)
      | _ \<Rightarrow> (i, d))"

text \<open>\<open>std::hash<std::string>\<close> is a parameter.\<close>

definition dbus_hash :: "(string \<Rightarrow> 64 word) \<Rightarrow> string \<Rightarrow> string \<Rightarrow> 64 word" where
  "dbus_hash hash service path = xor (hash path) (push_bit 1 (hash service))"

definition getHash :: "(string \<Rightarrow> 64 word) \<Rightarrow> entity_instance \<Rightarrow> 64 word" where
  "getHash hash i =
     (case dbus i of
        None \<Rightarrow> hash (identity i)
      | Some d \<Rightarrow> dbus_hash hash (serviceName d) (objectPath d))"

section \<open>Conditions\<close>

definition dummyField :: string where
  "dummyField = ''_''"

text \<open>A rule compares the field a pointer points to (null for the dummy) with a value.\<close>

type_synonym compare = "field option \<Rightarrow> field_value \<Rightarrow> bool"

type_synonym condition = "((string \<times> field_value) \<times> compare) list"

definition addRule :: "string \<Rightarrow> field_value \<Rightarrow> compare \<Rightarrow> condition \<Rightarrow> condition" where
  "addRule member v cmp rules = rules @ [((member, v), cmp)]"

definition addRule_custom :: "string \<Rightarrow> (field option \<Rightarrow> bool) \<Rightarrow> condition \<Rightarrow> condition" where
  "addRule_custom member cmp rules = rules @ [((member, FNull), \<lambda>f _. cmp f)]"

definition condition_value :: "string \<Rightarrow> field_value \<Rightarrow> compare \<Rightarrow> condition" where
  "condition_value member v cmp = addRule member v cmp []"

definition condition_custom :: "string \<Rightarrow> (field option \<Rightarrow> bool) \<Rightarrow> condition" where
  "condition_custom member cmp = addRule_custom member cmp []"

definition condition_plain :: "string \<Rightarrow> compare \<Rightarrow> condition" where
  "condition_plain member cmp = addRule_custom member (\<lambda>f. cmp f FNull) []"

definition buildEqual :: "string \<Rightarrow> field_value \<Rightarrow> condition" where
  "buildEqual member v = condition_value member v (Equal (type_of v))"

definition buildNonEqual :: "string \<Rightarrow> field_value \<Rightarrow> condition" where
  "buildNonEqual member v = condition_value member v (NonEqual (type_of v))"

text \<open>\<open>fieldValueCompare\<close>: every rule is asked, the results are combined with \<open>&=\<close>.\<close>

definition fieldValueCompare :: "condition \<Rightarrow> entity_instance \<Rightarrow> bool" where
  "fieldValueCompare rules i =
     fold (\<lambda>((member, v), cmp) result.
             result \<and> cmp (if dummyField \<noteq> member then Some (getField member i) else None) v)
       rules True"

text \<open>A condition is held by a pointer, which may be null.\<close>

definition checkCondition :: "condition option \<Rightarrow> entity_instance \<Rightarrow> bool" where
  "checkCondition c i = (case c of None \<Rightarrow> True | Some rules \<Rightarrow> fieldValueCompare rules i)"

section \<open>D-Bus instances\<close>

definition metaObjectPath :: string where "metaObjectPath = ''__meta_field__object_path''"
definition metaObjectService :: string where "metaObjectService = ''__meta_field__object_service''"

text \<open>The constructor; an exception of \<open>supplement\<close> is logged and swallowed.\<close>

definition new_dbus_instance ::
    "string \<Rightarrow> string \<Rightarrow> endpoint_map \<Rightarrow> nat \<Rightarrow> bool \<Rightarrow> entity_instance" where
  "new_dbus_instance service path props query st =
     (let i = \<lparr>identity = service @ path, memberInstances = [],
               dbus = Some \<lparr>serviceName = service, objectPath = path, initialized_state = st,
                            targetProperties = props, dbusQuery = query\<rparr>\<rparr>
      in case supplement metaObjectPath (FString path) i of
           Inl _ \<Rightarrow> i
         | Inr i1 \<Rightarrow> (case supplement metaObjectService (FString service) i1 of
                        Inl _ \<Rightarrow> i1 | Inr i2 \<Rightarrow> i2))"

text \<open>What an instance asks of its query.\<close>

record query_ops =
  searchProperties :: endpoint_map
  staticFields :: "entity_instance \<Rightarrow> unit may_throw \<times> entity_instance"
  defaultFields :: "(string \<times> (entity_instance \<Rightarrow> field_value may_throw)) list"

type_synonym queries = "nat \<Rightarrow> query_ops option"

text \<open>\<open>getFormatters\<close>: the formatters of the first setter of the property, whatever the
  interface it belongs to.\<close>

fun find_setter :: "string \<Rightarrow> setters \<Rightarrow> formatter list option" where
  "find_setter property [] = None"
| "find_setter property (((p, m), formatters) # ss) =
     (if p \<noteq> property then find_setter property ss else Some formatters)"

fun find_formatters :: "string \<Rightarrow> endpoint_map \<Rightarrow> formatter list option" where
  "find_formatters property [] = None"
| "find_formatters property ((iface, ss) # eps) =
     (case find_setter property ss of
        Some formatters \<Rightarrow> Some formatters
      | None \<Rightarrow> find_formatters property eps)"

definition getFormatters :: "string \<Rightarrow> query_ops \<Rightarrow> formatter list may_throw" where
  "getFormatters property q =
     (case find_formatters property (searchProperties q) of
        Some formatters \<Rightarrow> Inr formatters
      | None \<Rightarrow> Inl (Runtime_error ''Query failure: casters should be initialized an each setter''))"

fun format_all :: "string \<Rightarrow> formatter list \<Rightarrow> field_value \<Rightarrow> field_value may_throw" where
  "format_all property [] v = Inr v"
| "format_all property (f # fs) v =
     (case f property v of Inl e \<Rightarrow> Inl e | Inr v' \<Rightarrow> format_all property fs v')"

definition processFormatters :: "string \<Rightarrow> field_value \<Rightarrow> query_ops \<Rightarrow> field_value may_throw" where
  "processFormatters property v q =
     (case getFormatters property q of
        Inl e \<Rightarrow> Inl e
      | Inr formatters \<Rightarrow> format_all property formatters v)"

text \<open>
  \<open>resolveDBusVariant\<close>: every alternative of the D-Bus variant, associations included, can
  construct a \<open>FieldType\<close>, so the first branch of its \<open>if constexpr\<close> is always the one
  compiled; \<open>captureDBusAssociations\<close> and the exception behind it are never reached.
\<close>

definition resolveDBusVariant :: "string \<Rightarrow> field_value \<Rightarrow> entity_instance \<Rightarrow> entity_instance may_throw" where
  "resolveDBusVariant memberName v i = supplementOrUpdate_value memberName v i"

definition dbusPropertySetters :: "string \<Rightarrow> entity_instance \<Rightarrow> setters" where
  "dbusPropertySetters iface i =
     (case dbus i of
        None \<Rightarrow> []
      | Some d \<Rightarrow> (case map_of (targetProperties d) iface of None \<Rightarrow> [] | Some ss \<Rightarrow> ss))"

text \<open>The loop over the setters; what was set before an exception stays.\<close>

fun fill_setters ::
    "query_ops \<Rightarrow> (string \<times> field_value) list \<Rightarrow> setters \<Rightarrow> entity_instance \<Rightarrow>
     unit may_throw \<times> entity_instance" where
  "fill_setters q properties [] i = (Inr (), i)"
| "fill_setters q properties (((property, member), formatters) # ss) i =
     (case map_of properties property of
        None \<Rightarrow> fill_setters q properties ss i
      | Some v \<Rightarrow>
     (case processFormatters property v q of
        Inl e \<Rightarrow> (Inl e, i)
      | Inr v' \<Rightarrow>
     (case resolveDBusVariant member v' i of
        Inl e \<Rightarrow> (Inl e, i)
      | Inr i' \<Rightarrow> fill_setters q properties ss i')))"

definition instance_query :: "queries \<Rightarrow> entity_instance \<Rightarrow> query_ops option" where
  "instance_query qs i = (case dbus i of None \<Rightarrow> None | Some d \<Rightarrow> qs (dbusQuery d))"

definition fillMembers ::
    "queries \<Rightarrow> string \<Rightarrow> (string \<times> field_value) list \<Rightarrow> entity_instance \<Rightarrow>
     bool may_throw \<times> entity_instance" where
  "fillMembers qs iface properties i =
     (case (dbusPropertySetters iface i, instance_query qs i) of
        ([], _) \<Rightarrow> (Inr False, i)
      | (_, None) \<Rightarrow> (Inr False, i)
      | (ss, Some q) \<Rightarrow>
          (case fill_setters q properties ss i of
             (Inl e, i') \<Rightarrow> (Inl e, i')
           | (Inr _, i') \<Rightarrow> (Inr True, i')))"

definition set_state :: "bool \<Rightarrow> entity_instance \<Rightarrow> entity_instance" where
  "set_state st i = i\<lparr>dbus := map_option (\<lambda>d. d\<lparr>initialized_state := st\<rparr>) (dbus i)\<rparr>"

text \<open>\<open>GetAll\<close>: what the service answers for an interface; \<open>None\<close> is an sdbusplus exception.\<close>

type_synonym get_all = "string \<Rightarrow> string \<Rightarrow> string \<Rightarrow> (string \<times> field_value) list option"

definition queryProperties ::
    "get_all \<Rightarrow> string \<Rightarrow> entity_instance \<Rightarrow> (string \<times> field_value) list may_throw" where
  "queryProperties bus iface i =
     (case dbus i of
        None \<Rightarrow> Inr []
      | Some d \<Rightarrow> (case bus (serviceName d) (objectPath d) iface of
                     None \<Rightarrow> Inl (Runtime_error ''Failed to query properties'')
                   | Some properties \<Rightarrow> Inr properties))"

fun is_runtime_error :: "cpp_exn \<Rightarrow> bool" where
  "is_runtime_error (Runtime_error _) = True"
| "is_runtime_error (Entity_exception _) = True"
| "is_runtime_error _ = False"

text \<open>The loop of \<open>initialize\<close> over the interfaces, with \<open>hasError\<close>.\<close>

fun initialize_loop ::
    "queries \<Rightarrow> get_all \<Rightarrow> string list \<Rightarrow> bool \<Rightarrow> entity_instance \<Rightarrow> bool may_throw \<times> entity_instance" where
  "initialize_loop qs bus [] hasError i = (Inr hasError, i)"
| "initialize_loop qs bus (iface # ifaces) hasError i =
     (let (r, i') = (case queryProperties bus iface i of
                       Inl e \<Rightarrow> (Inl e, i)
                     | Inr properties \<Rightarrow> fillMembers qs iface properties i)
      in case r of
           Inr _ \<Rightarrow> initialize_loop qs bus ifaces hasError i'
         | Inl e \<Rightarrow> (if is_runtime_error e then initialize_loop qs bus ifaces True i' else (Inl e, i')))"

definition initialize_instance :: "queries \<Rightarrow> get_all \<Rightarrow> entity_instance \<Rightarrow> unit may_throw \<times> entity_instance" where
  "initialize_instance qs bus i0 =
     (let i1 = set_state False i0;
          ifaces = (case dbus i1 of None \<Rightarrow> [] | Some d \<Rightarrow> map fst (targetProperties d))
      in case initialize_loop qs bus ifaces False i1 of
           (Inl e, i2) \<Rightarrow> (Inl e, i2)
         | (Inr hasError, i2) \<Rightarrow>
             (case (case instance_query qs i2 of Some q \<Rightarrow> staticFields q i2 | None \<Rightarrow> (Inr (), i2)) of
                (Inl e, i3) \<Rightarrow> (Inl e, i3)
              | (Inr _, i3) \<Rightarrow> (Inr (), if \<not> hasError then set_state True i3 else i3)))"

text \<open>\<open>verifyState\<close>; a \<open>StaticInstance\<close> has nothing to verify.\<close>

definition verifyState :: "queries \<Rightarrow> get_all \<Rightarrow> entity_instance \<Rightarrow> unit may_throw \<times> entity_instance" where
  "verifyState qs bus i =
     (case dbus i of
        None \<Rightarrow> (Inr (), i)
      | Some d \<Rightarrow> (if \<not> initialized_state d then initialize_instance qs bus i else (Inr (), i)))"

fun default_loop ::
    "(string \<times> (entity_instance \<Rightarrow> field_value may_throw)) list \<Rightarrow> entity_instance \<Rightarrow>
     unit may_throw \<times> entity_instance" where
  "default_loop [] i = (Inr (), i)"
| "default_loop ((name, setter) # ds) i =
     (case setter i of
        Inl e \<Rightarrow> (Inl e, i)
      | Inr v \<Rightarrow>
     (case supplementOrUpdate_value name v i of
        Inl e \<Rightarrow> (Inl e, i)
      | Inr i' \<Rightarrow> default_loop ds i'))"

definition initDefaultFieldsValue :: "queries \<Rightarrow> entity_instance \<Rightarrow> unit may_throw \<times> entity_instance" where
  "initDefaultFieldsValue qs i =
     (case instance_query qs i of
        None \<Rightarrow> (Inr (), i)
      | Some q \<Rightarrow> default_loop (defaultFields q) i)"

end
