(* ===== verification/Entity.thy ===== *)
theory Entity
  imports Entity_Instance
begin

text \<open>
  \<open>src/core/entity/entity.{hpp,cpp}\<close> and \<open>entity_manager.cpp\<close>: entities with their members,
  instances, relations and supplement providers, the three ways they are populated, and the
  manager's dictionary.
  Entities refer to each other by pointers: an \<open>entity_world\<close> holds them under addresses.
  Providers are entities too and call each other's operations, so these recurse along the
  providers; they get the depth of that recursion as fuel, and \<open>None\<close> says that it was not
  enough. What a query's \<open>process\<close> returns is a parameter, as is the clock.
\<close>

section \<open>State\<close>

record entity_member =
  member_name :: string
  member_instance :: field

text \<open>A link rule gets the provider's instance and changes the target's.\<close>

type_synonym link_rule = "entity_instance \<Rightarrow> entity_instance \<Rightarrow> unit may_throw \<times> entity_instance"

record relation =
  source :: nat
  destination :: nat
  conditionBuildRules :: "(string \<times> string \<times> compare) list"

text \<open>The populating behaviours with their state: \<open>CachedSource\<close> with \<open>initialized\<close>, \<open>hasErrors\<close>
  and \<open>cachingInProgress\<close>, \<open>ShortTimeCachedSource\<close> with its lifetime in seconds and its
  time point in nanoseconds, and \<open>LazySource\<close>.\<close>

datatype source_state =
    CachedSource (src_initialized: bool) (hasErrors: bool) (cachingInProgress: bool)
  | ShortTimeCachedSource (timeToCacheInSec: int) (cacheTimePoint: int)
  | LazySource

record entity =
  entity_name :: string
  members :: "(string, entity_member) omap"
  instances :: "(64 word, entity_instance) omap"
  relations :: "relation list"
  providers :: "(nat \<times> link_rule) list"
  entity_queries :: "nat list"
  source_of :: source_state

text \<open>\<open>subscribers\<close>: who observes a query's failures; \<open>observers\<close>: the pairs of query and
  entity registered for the D-Bus signals that create and remove instances.\<close>

record entity_world =
  entities :: "nat \<Rightarrow> entity"
  subscribers :: "(nat \<times> nat) list"
  observers :: "(nat \<times> nat) list"
  dictionary :: "(string, nat) omap"

text \<open>What the operations use of the outside: the string hash, the queries and what they
  return (with whether a failure event was raised on the way), the D-Bus replies, and the
  clock in nanoseconds.\<close>

record entity_env =
  hash_of :: "string \<Rightarrow> 64 word"
  queries_of :: queries
  get_all_of :: get_all
  query_fields :: "nat \<Rightarrow> string list"
  query_process :: "nat \<Rightarrow> bool \<times> entity_instance list may_throw"
  now_of :: int

type_synonym 'a act = "entity_world \<Rightarrow> ('a may_throw \<times> entity_world) option"

definition ret :: "'a \<Rightarrow> 'a act" where
  "ret v w = Some (Inr v, w)"

definition throw :: "cpp_exn \<Rightarrow> 'a act" where
  "throw e w = Some (Inl e, w)"

definition bind_act :: "'a act \<Rightarrow> ('a \<Rightarrow> 'b act) \<Rightarrow> 'b act" where
  "bind_act m f w =
     (case m w of
        None \<Rightarrow> None
      | Some (Inl e, w') \<Rightarrow> Some (Inl e, w')
      | Some (Inr v, w') \<Rightarrow> f v w')"

primrec for_each :: "'a list \<Rightarrow> ('a \<Rightarrow> unit act) \<Rightarrow> unit act" where
  "for_each [] f = ret ()"
| "for_each (x # xs) f = bind_act (f x) (\<lambda>_. for_each xs f)"

definition upd_entity :: "nat \<Rightarrow> (entity \<Rightarrow> entity) \<Rightarrow> entity_world \<Rightarrow> entity_world" where
  "upd_entity e f w = w\<lparr>entities := (entities w)(e := f (entities w e))\<rparr>"

definition modify :: "nat \<Rightarrow> (entity \<Rightarrow> entity) \<Rightarrow> unit act" where
  "modify e f w = Some (Inr (), upd_entity e f w)"

section \<open>Members\<close>

definition addMember :: "entity_member \<Rightarrow> entity \<Rightarrow> bool \<times> entity" where
  "addMember m e =
     (map_of (members e) (member_name m) = None, e\<lparr>members := om_emplace (member_name m) m (members e)\<rparr>)"

definition createMember :: "string \<Rightarrow> entity \<Rightarrow> bool \<times> entity" where
  "createMember name = addMember \<lparr>member_name = name, member_instance = Some (FString fieldValueNotAvailable)\<rparr>"

definition hasMember :: "string \<Rightarrow> entity \<Rightarrow> bool" where
  "hasMember name e \<longleftrightarrow> map_of (members e) name \<noteq> None"

text \<open>\<open>BaseEntity::BaseEntity\<close>\<close>

definition new_entity ::
    "string \<Rightarrow> relation list \<Rightarrow> (nat \<times> link_rule) list \<Rightarrow> nat list \<Rightarrow> source_state \<Rightarrow> entity" where
  "new_entity name rels provs qs src =
     snd (createMember metaObjectService (snd (createMember metaObjectPath
       \<lparr>entity_name = name, members = [], instances = [], relations = rels, providers = provs,
        entity_queries = qs, source_of = src\<rparr>)))"

text \<open>\<open>getMember\<close>: the providers are asked in order for a member the entity does not have.\<close>

fun first_member :: "(nat \<Rightarrow> entity_member act) \<Rightarrow> nat list \<Rightarrow> string \<Rightarrow> entity_member act" where
  "first_member ask [] name =
     throw (Entity_exception (''The object Member <'' @ name @ ''> not found''))"
| "first_member ask (p # ps) name =
     (\<lambda>w. case ask p w of
            None \<Rightarrow> None
          | Some (Inl _, w') \<Rightarrow> first_member ask ps name w'
          | Some (Inr m, w') \<Rightarrow> Some (Inr m, w'))"

primrec getMember :: "nat \<Rightarrow> nat \<Rightarrow> string \<Rightarrow> entity_member act" where
  "getMember 0 = (\<lambda>e name w. None)"
| "getMember (Suc n) = (\<lambda>e name w.
     (case map_of (members (entities w e)) name of
        Some m \<Rightarrow> ret m w
      | None \<Rightarrow> first_member (\<lambda>p. getMember n p name) (map fst (providers (entities w e))) name w))"

section \<open>Instances\<close>

definition getInstance :: "64 word \<Rightarrow> entity \<Rightarrow> entity_instance option" where
  "getInstance h e = map_of (instances e) h"

definition setInstances :: "entity_env \<Rightarrow> entity_instance list \<Rightarrow> entity \<Rightarrow> entity" where
  "setInstances env is e =
     e\<lparr>instances := fold (\<lambda>i. om_assign (getHash (hash_of env) i) i) is (instances e)\<rparr>"

text \<open>\<open>mergeInstance\<close>; its result is the instance that is in the table then.\<close>

definition mergeInstance :: "entity_env \<Rightarrow> entity_instance \<Rightarrow> entity \<Rightarrow> entity_instance may_throw \<times> entity" where
  "mergeInstance env i e =
     (let h = getHash (hash_of env) i
      in case map_of (instances e) h of
           None \<Rightarrow> (Inr i, e\<lparr>instances := om_assign h i (instances e)\<rparr>)
         | Some found \<Rightarrow>
             (case supplementOrUpdate i found of
                Inl ex \<Rightarrow> (Inl ex, e)
              | Inr found1 \<Rightarrow>
                  (let found2 = fst (mergeInternalMetadata i found1)
                   in (Inr found2, e\<lparr>instances := om_assign h found2 (instances e)\<rparr>))))"

definition removeInstance :: "64 word \<Rightarrow> entity \<Rightarrow> entity" where
  "removeInstance h e = e\<lparr>instances := om_erase h (instances e)\<rparr>"

text \<open>\<open>resetCache\<close>\<close>

primrec resetCache :: "nat \<Rightarrow> nat \<Rightarrow> unit act" where
  "resetCache 0 = (\<lambda>e w. None)"
| "resetCache (Suc n) = (\<lambda>e.
     bind_act (modify e (\<lambda>x. x\<lparr>instances := []\<rparr>))
       (\<lambda>_ w. for_each (map fst (providers (entities w e))) (resetCache n) w))"

text \<open>The object of the instance \<open>h\<close> of \<open>e\<close> is changed in place; an exception keeps what was
  changed before it.\<close>

definition on_instance ::
    "nat \<Rightarrow> 64 word \<Rightarrow> (entity_instance \<Rightarrow> unit may_throw \<times> entity_instance) \<Rightarrow> unit act" where
  "on_instance e h f w =
     (case map_of (instances (entities w e)) h of
        None \<Rightarrow> ret () w
      | Some i \<Rightarrow> (let (r, i') = f i
                   in Some (r, upd_entity e (\<lambda>x. x\<lparr>instances := om_assign h i' (instances x)\<rparr>) w)))"

text \<open>The loop over the conditions, left at the first that fails.\<close>

fun conditions_pass :: "condition option list \<Rightarrow> entity_instance \<Rightarrow> bool" where
  "conditions_pass [] i = True"
| "conditions_pass (c # cs) i = (if checkCondition c i then conditions_pass cs i else False)"

text \<open>\<open>supplementInstance\<close> of a provider whose instances are \<open>is\<close>.\<close>

definition supplementInstance ::
    "nat \<Rightarrow> 64 word \<Rightarrow> link_rule \<Rightarrow> entity_instance list \<Rightarrow> unit act" where
  "supplementInstance e h rule is = for_each is (\<lambda>s. on_instance e h (rule s))"

text \<open>One instance of the snapshot: defaults, state, providers, conditions. (\<open>getComplex\<close> is
  empty, so the inner loop sees the instance alone.)\<close>

definition visit_instance ::
    "entity_env \<Rightarrow> (nat \<Rightarrow> entity_instance list act) \<Rightarrow> nat \<Rightarrow> condition option list \<Rightarrow> 64 word \<Rightarrow>
     entity_instance option act" where
  "visit_instance env get e conds h =
     bind_act (on_instance e h (initDefaultFieldsValue (queries_of env))) (\<lambda>_.
     bind_act (on_instance e h (verifyState (queries_of env) (get_all_of env))) (\<lambda>_.
     bind_act (\<lambda>w. for_each (providers (entities w e))
                 (\<lambda>(p, rule). bind_act (get p) (supplementInstance e h rule)) w) (\<lambda>_ w.
       ret (case map_of (instances (entities w e)) h of
              None \<Rightarrow> None
            | Some i \<Rightarrow> (if conditions_pass conds i then Some i else None)) w)))"

primrec visit_all :: "(64 word \<Rightarrow> entity_instance option act) \<Rightarrow> 64 word list \<Rightarrow> entity_instance list act" where
  "visit_all visit [] = ret []"
| "visit_all visit (h # hs) =
     bind_act (visit h) (\<lambda>r. bind_act (visit_all visit hs) (\<lambda>rs.
       ret (case r of None \<Rightarrow> rs | Some i \<Rightarrow> i # rs)))"

primrec getInstances ::
    "nat \<Rightarrow> entity_env \<Rightarrow> nat \<Rightarrow> condition option list \<Rightarrow> entity_instance list act" where
  "getInstances 0 = (\<lambda>env e conds w. None)"
| "getInstances (Suc n) = (\<lambda>env e conds w.
     visit_all (visit_instance env (\<lambda>p. getInstances n env p []) e conds)
       (map fst (instances (entities w e))) w)"

section \<open>Relations\<close>

text \<open>\<open>Relation::getConditions\<close> for the source instance with a hash; a rule is skipped when the
  source entity has no such instance (any more).\<close>

definition rule_condition ::
    "nat \<Rightarrow> relation \<Rightarrow> 64 word \<Rightarrow> string \<times> string \<times> compare \<Rightarrow> condition option list act" where
  "rule_condition n r h = (\<lambda>(memberSource, memberDest, cmp) w.
     (if memberSource = dummyField then ret [Some (condition_plain memberDest cmp)] w
      else bind_act (getMember n (source r) memberSource) (\<lambda>m w.
             (case getInstance h (entities w (source r)) of
                None \<Rightarrow> ret [] w
              | Some i \<Rightarrow>
                  ret [Some (condition_value memberDest (getValue (getField (member_name m) i)) cmp)] w)) w))"

primrec collect :: "('x \<Rightarrow> 'a list act) \<Rightarrow> 'x list \<Rightarrow> 'a list act" where
  "collect f [] = ret []"
| "collect f (x # xs) = bind_act (f x) (\<lambda>ys. bind_act (collect f xs) (\<lambda>zs. ret (ys @ zs)))"

definition getConditions :: "nat \<Rightarrow> relation \<Rightarrow> 64 word \<Rightarrow> condition option list act" where
  "getConditions n r h = collect (rule_condition n r h) (conditionBuildRules r)"

definition getRelatedInstances ::
    "nat \<Rightarrow> entity_env \<Rightarrow> relation option \<Rightarrow> condition option list \<Rightarrow> bool \<Rightarrow> entity_instance \<Rightarrow>
     entity_instance list act" where
  "getRelatedInstances n env rel conds skipEmpty i =
     (case rel of
        None \<Rightarrow> ret []
      | Some r \<Rightarrow> bind_act (getConditions n r (getHash (hash_of env) i)) (\<lambda>rc.
          (let relConditions = rc @ conds
           in if skipEmpty \<and> relConditions = [] then ret []
              else getInstances n env (destination r) relConditions)))"

definition getRelation :: "string \<Rightarrow> nat \<Rightarrow> entity_world \<Rightarrow> relation option" where
  "getRelation name e w =
     List.find (\<lambda>r. entity_name (entities w (destination r)) = name) (relations (entities w e))"

section \<open>Populating\<close>

text \<open>\<open>configure (query)\<close>: a lazy entity does not register; a cached one also subscribes to the
  failures of all its queries. Queries that are not D-Bus queries have no \<open>configure\<close> and no
  events.\<close>

definition is_dbus_query :: "entity_env \<Rightarrow> nat \<Rightarrow> bool" where
  "is_dbus_query env q \<longleftrightarrow> queries_of env q \<noteq> None"

definition register_observers :: "entity_env \<Rightarrow> nat \<Rightarrow> nat \<Rightarrow> entity_world \<Rightarrow> entity_world" where
  "register_observers env e q w =
     (if is_dbus_query env q then w\<lparr>observers := observers w @ [(q, e)]\<rparr> else w)"

definition configureQueryEvents :: "entity_env \<Rightarrow> nat \<Rightarrow> entity_world \<Rightarrow> entity_world" where
  "configureQueryEvents env e w =
     w\<lparr>subscribers := subscribers w @
         map (\<lambda>q. (q, e)) (filter (is_dbus_query env) (entity_queries (entities w e)))\<rparr>"

definition configure_query :: "entity_env \<Rightarrow> nat \<Rightarrow> nat \<Rightarrow> unit act" where
  "configure_query env e q w =
     (case source_of (entities w e) of
        CachedSource _ _ _ \<Rightarrow> ret () (configureQueryEvents env e (register_observers env e q w))
      | ShortTimeCachedSource _ _ \<Rightarrow> ret () (register_observers env e q w)
      | LazySource \<Rightarrow> ret () w)"

fun invalidate :: "source_state \<Rightarrow> source_state" where
  "invalidate (CachedSource i _ c) = CachedSource i True c" | "invalidate s = s"

text \<open>\<open>raiseError\<close>: the event \<open>hasFailures\<close> to every subscriber of the query.\<close>

definition raise_failures :: "nat \<Rightarrow> entity_world \<Rightarrow> entity_world" where
  "raise_failures q w =
     fold (\<lambda>e. upd_entity e (\<lambda>x. x\<lparr>source_of := invalidate (source_of x)\<rparr>))
       (map snd (filter (\<lambda>(q', _). q' = q) (subscribers w))) w"

definition process_query :: "entity_env \<Rightarrow> nat \<Rightarrow> nat \<Rightarrow> unit act" where
  "process_query env e q = bind_act (configure_query env e q) (\<lambda>_ w.
     (let (raised, result) = query_process env q;
          w1 = (if raised then raise_failures q w else w)
      in case result of
           Inl ex \<Rightarrow> Some (Inl ex, w1)
         | Inr is \<Rightarrow> Some (Inr (), upd_entity e (setInstances env is) w1)))"

text \<open>\<open>catch (SdBusError&)\<close>\<close>

definition catch_sdbus :: "unit act \<Rightarrow> unit act" where
  "catch_sdbus m w =
     (case m w of Some (Inl (Sdbus_error _), w') \<Rightarrow> Some (Inr (), w') | r \<Rightarrow> r)"

primrec processQueries :: "nat \<Rightarrow> entity_env \<Rightarrow> nat \<Rightarrow> unit act" where
  "processQueries 0 = (\<lambda>env e w. None)"
| "processQueries (Suc n) = (\<lambda>env e. catch_sdbus (\<lambda>w0.
     bind_act (for_each (map fst (providers (entities w0 e))) (processQueries n env))
       (\<lambda>_ w. for_each (entity_queries (entities w e)) (process_query env e) w) w0))"

definition set_source :: "nat \<Rightarrow> (source_state \<Rightarrow> source_state) \<Rightarrow> unit act" where
  "set_source e f = modify e (\<lambda>x. x\<lparr>source_of := f (source_of x)\<rparr>)"

definition isCacheExpiried :: "int \<Rightarrow> int \<Rightarrow> int \<Rightarrow> bool" where
  "isCacheExpiried ttl point now \<longleftrightarrow> (point + ttl * 10 ^ 9) div 10 ^ 9 < now div 10 ^ 9"

definition refill :: "nat \<Rightarrow> entity_env \<Rightarrow> nat \<Rightarrow> unit act" where
  "refill n env e = bind_act (resetCache n e) (\<lambda>_. processQueries n env e)"

definition populate :: "nat \<Rightarrow> entity_env \<Rightarrow> nat \<Rightarrow> unit act" where
  "populate n env e w =
     (case source_of (entities w e) of
        CachedSource i h c \<Rightarrow>
          (if \<not> c \<and> (\<not> i \<or> h)
           then bind_act (set_source e (\<lambda>_. CachedSource i False True)) (\<lambda>_.
                bind_act (refill n env e) (\<lambda>_.
                set_source e (\<lambda>s. CachedSource (src_initialized s \<or> \<not> hasErrors s) (hasErrors s) False))) w
           else ret () w)
      | ShortTimeCachedSource ttl point \<Rightarrow>
          (if isCacheExpiried ttl point (now_of env)
           then bind_act (refill n env e) (\<lambda>_. set_source e (\<lambda>_. ShortTimeCachedSource ttl (now_of env))) w
           else ret () w)
      | LazySource \<Rightarrow> refill n env e w)"

text \<open>\<open>initialize\<close>\<close>

primrec initialize_entity :: "nat \<Rightarrow> entity_env \<Rightarrow> nat \<Rightarrow> unit act" where
  "initialize_entity 0 = (\<lambda>env e w. None)"
| "initialize_entity (Suc n) = (\<lambda>env e.
     bind_act (resetCache (Suc n) e) (\<lambda>_.
     bind_act (modify e (\<lambda>x. fold (\<lambda>name y. snd (createMember name y))
                 (concat (map (query_fields env) (entity_queries x))) x)) (\<lambda>_ w.
       for_each (map fst (providers (entities w e))) (initialize_entity n env) w)))"

section \<open>The manager\<close>

definition addEntity :: "nat \<Rightarrow> nat act" where
  "addEntity e w =
     (let name = entity_name (entities w e)
      in case map_of (dictionary w) name of
           Some _ \<Rightarrow> throw (Entity_exception (''The name of object already registered. Object name is '' @ name)) w
         | None \<Rightarrow> ret e (w\<lparr>dictionary := om_emplace name e (dictionary w)\<rparr>))"

definition getEntity :: "nat \<Rightarrow> entity_env \<Rightarrow> string \<Rightarrow> nat act" where
  "getEntity n env name w =
     (case map_of (dictionary w) name of
        None \<Rightarrow> throw (Entity_exception (''The Object <'' @ name @ ''> not found'')) w
      | Some e \<Rightarrow> bind_act (populate n env e) (\<lambda>_. ret e) w)"

definition configure :: "nat \<Rightarrow> entity_env \<Rightarrow> unit act" where
  "configure n env w = for_each (map snd (dictionary w)) (initialize_entity n env) w"

definition update :: "nat \<Rightarrow> entity_env \<Rightarrow> unit act" where
  "update n env w = for_each (map snd (dictionary w)) (populate n env) w"

section \<open>Names and single objects\<close>

text \<open>\<open>NamedEntity::getName\<close> of the name \<open>__cxa_demangle\<close> gives a class (\<open>None\<close> is a failure): what is
  behind the last colon.\<close>

definition NamedEntity_getName :: "string option \<Rightarrow> string may_throw" where
  "NamedEntity_getName className =
     (case className of
        None \<Rightarrow> Inl (Runtime_error (''Can'' @ [CHR 0x27] @ ''t acquire entityName by symbols''))
      | Some en \<Rightarrow> Inr (case rfind_char (CHR '':'') en of None \<Rightarrow> en | Some pos \<Rightarrow> drop (pos + 1) en))"

text \<open>\<open>Entity::isNull\<close> and \<open>Entity::get\<close>: the first instance, or one without fields.\<close>

definition entity_isNull :: "nat \<Rightarrow> entity_env \<Rightarrow> nat \<Rightarrow> bool act" where
  "entity_isNull n env e = bind_act (getInstances n env e []) (\<lambda>is. ret (length is = 0))"

definition entity_get :: "nat \<Rightarrow> entity_env \<Rightarrow> nat \<Rightarrow> entity_instance act" where
  "entity_get n env e = bind_act (getInstances n env e []) (\<lambda>is.
     ret (case is of [] \<Rightarrow> new_static_instance fieldValueNotAvailable | i # _ \<Rightarrow> i))"

text \<open>A relation with its rules.\<close>

definition new_relation :: "nat \<Rightarrow> nat \<Rightarrow> relation" where
  "new_relation src dest = \<lparr>source = src, destination = dest, conditionBuildRules = []\<rparr>"

definition addConditionBuildRules :: "(string \<times> string \<times> compare) list \<Rightarrow> relation \<Rightarrow> relation" where
  "addConditionBuildRules rules r = r\<lparr>conditionBuildRules := conditionBuildRules r @ rules\<rparr>"

definition Relation_build :: "nat \<Rightarrow> nat \<Rightarrow> (string \<times> string \<times> compare) list \<Rightarrow> relation" where
  "Relation_build src dest rules = addConditionBuildRules rules (new_relation src dest)"

end
