(* ===== verification/Entity_Facts.thy ===== *)
theory Entity_Facts
  imports Entity
begin

text \<open>
  Laws of the instances' fields, the table of an entity, what \<open>getInstances\<close> returns, and
  what populating leaves alone.
\<close>

section \<open>Fields of an instance\<close>

definition instance_ok :: "entity_instance \<Rightarrow> bool" where
  "instance_ok i \<longleftrightarrow> om_ok (memberInstances i)"

lemma supplementOrUpdate_value_eq:
  "supplementOrUpdate_value name v i =
     Inr (i\<lparr>memberInstances := om_assign name (Some v) (memberInstances i)\<rparr>)"
  by (auto simp: supplementOrUpdate_value_def supplement_def hasField_def setValue_def om_emplace_def)

lemma getField_update [simp]:
  "getField m (i\<lparr>memberInstances := om_assign name f (memberInstances i)\<rparr>) =
     (if m = name then f else getField m i)"
  by (simp add: getField_def map_of_om_assign)

lemma hasField_update [simp]:
  "hasField m (i\<lparr>memberInstances := om_assign name f (memberInstances i)\<rparr>) \<longleftrightarrow> m = name \<or> hasField m i"
  by (simp add: hasField_def map_of_om_assign)

text \<open>Which members an instance takes over from another one.\<close>

definition takes_over :: "entity_instance \<Rightarrow> string \<Rightarrow> bool" where
  "takes_over i name \<longleftrightarrow> \<not> (dbus i \<noteq> None \<and> starts_with name ''__meta_'')"

lemma supplement_from_Inr:
  "\<exists>i'. supplement_from d names i = Inr i' \<and> identity i' = identity i \<and> dbus i' = dbus i \<and>
     (instance_ok i \<longrightarrow> instance_ok i') \<and>
     (\<forall>m. getField m i' = (if m \<in> set names \<and> takes_over i m then Some (getValue (getField m d)) else getField m i))"
proof (induction names arbitrary: i)
  case Nil
  then show ?case by simp
next
  case (Cons name names)
  show ?case
  proof (cases "takes_over i name")
    case False
    with Cons.IH [of i] show ?thesis by (auto simp: takes_over_def)
  next
    case True
    let ?i = "i\<lparr>memberInstances := om_assign name (Some (getValue (getField name d))) (memberInstances i)\<rparr>"
    have "takes_over ?i m = takes_over i m" for m by (simp add: takes_over_def)
    moreover have "instance_ok i \<longrightarrow> instance_ok ?i" by (simp add: instance_ok_def om_ok_assign)
    ultimately show ?thesis
      using Cons.IH [of ?i] True by (auto simp: takes_over_def supplementOrUpdate_value_eq)
  qed
qed

lemma supplementOrUpdate_Inr:
  "\<exists>i'. supplementOrUpdate d i = Inr i' \<and> identity i' = identity i \<and> dbus i' = dbus i \<and>
     (instance_ok i \<longrightarrow> instance_ok i') \<and>
     (\<forall>m. getField m i' = (if hasField m d \<and> takes_over i m then Some (getValue (getField m d)) else getField m i))"
proof -
  have "m \<in> set (getMemberNames d) \<longleftrightarrow> hasField m d" for m
    by (auto simp: getMemberNames_def hasField_def dest: map_of_SomeD weak_map_of_SomeI)
       (metis map_of_eq_None_iff not_None_eq list.set_map)
  with supplement_from_Inr [of d "getMemberNames d" i] show ?thesis
    by (simp add: supplementOrUpdate_def)
qed

lemma getHash_cong: "identity i' = identity i \<Longrightarrow> dbus i' = dbus i \<Longrightarrow> getHash h i' = getHash h i"
  by (simp add: getHash_def split: option.splits)

lemma fieldValueCompare_all:
  "fieldValueCompare rules i \<longleftrightarrow>
     (\<forall>((member, v), cmp) \<in> set rules. cmp (if dummyField \<noteq> member then Some (getField member i) else None) v)"
proof -
  let ?f = "\<lambda>((member, v), cmp) result.
             result \<and> cmp (if dummyField \<noteq> member then Some (getField member i) else None) v"
  have "fold ?f rules b \<longleftrightarrow> b \<and>
      (\<forall>((member, v), cmp) \<in> set rules. cmp (if dummyField \<noteq> member then Some (getField member i) else None) v)" for b
    by (induction rules arbitrary: b) auto
  then show ?thesis by (simp add: fieldValueCompare_def)
qed

lemma conditions_pass_all: "conditions_pass cs i \<longleftrightarrow> (\<forall>c \<in> set cs. checkCondition c i)"
  by (induction cs) auto

lemma check_buildEqual:
  "member \<noteq> dummyField \<Longrightarrow>
   checkCondition (Some (buildEqual member (FString s))) i \<longleftrightarrow> getValue (getField member i) = FString s"
  by (simp add: checkCondition_def buildEqual_def condition_value_def addRule_def fieldValueCompare_all Equal_string)

section \<open>The table of an entity\<close>

text \<open>Every instance stands under its hash.\<close>

definition table_ok :: "entity_env \<Rightarrow> entity \<Rightarrow> bool" where
  "table_ok env e \<longleftrightarrow> om_ok (instances e) \<and> (\<forall>(h, i) \<in> set (instances e). h = getHash (hash_of env) i)"

lemma table_ok_reset [wf_intros]: "table_ok env (e\<lparr>instances := []\<rparr>)"
  by (simp add: table_ok_def)

lemma table_ok_assign [wf_intros]:
  "table_ok env e \<Longrightarrow> h = getHash (hash_of env) i \<Longrightarrow>
     table_ok env (e\<lparr>instances := om_assign h i (instances e)\<rparr>)"
  by (auto simp: table_ok_def om_ok_assign dest!: om_assign_elem)

lemma table_ok_set [wf_intros]: "table_ok env e \<Longrightarrow> table_ok env (setInstances env is e)"
proof (induction "is" arbitrary: e)
  case (Cons i ins)
  have "setInstances env (i # ins) e =
      setInstances env ins (e\<lparr>instances := om_assign (getHash (hash_of env) i) i (instances e)\<rparr>)"
    by (simp add: setInstances_def)
  with Cons show ?case by (simp add: table_ok_assign)
qed (simp add: setInstances_def)

lemma table_ok_remove [wf_intros]: "table_ok env e \<Longrightarrow> table_ok env (removeInstance h e)"
  by (auto simp: table_ok_def removeInstance_def om_ok_erase) (auto simp: om_erase_def)

lemma merge_hash: "getHash h (fst (mergeInternalMetadata d i)) = getHash h i"
  by (auto simp: mergeInternalMetadata_def getHash_def split: option.splits)

lemma table_ok_merge [wf_intros]: "table_ok env e \<Longrightarrow> table_ok env (snd (mergeInstance env i e))"
proof -
  assume ok: "table_ok env e"
  have found: "getHash (hash_of env) j = getHash (hash_of env) i"
    if "map_of (instances e) (getHash (hash_of env) i) = Some j" for j
    using ok map_of_SomeD [OF that] by (auto simp: table_ok_def)
  show ?thesis
  proof (cases "map_of (instances e) (getHash (hash_of env) i)")
    case None
    with ok show ?thesis by (simp add: mergeInstance_def Let_def table_ok_assign)
  next
    case (Some j)
    obtain j' where j': "supplementOrUpdate i j = Inr j'" "identity j' = identity j" "dbus j' = dbus j"
      using supplementOrUpdate_Inr [of i j] by blast
    have "getHash (hash_of env) (fst (mergeInternalMetadata i j')) = getHash (hash_of env) i"
      using found [OF Some] getHash_cong [OF j'(2,3)] by (simp add: merge_hash)
    with ok Some j'(1) show ?thesis
      by (simp add: mergeInstance_def Let_def table_ok_assign)
  qed
qed

lemma om_assign_same: "om_ok m \<Longrightarrow> map_of m k = Some v \<Longrightarrow> om_assign k v m = m"
proof (induction m)
  case (Cons kv m)
  obtain k' v' where kv: "kv = (k', v')" by (cases kv)
  show ?case
  proof (cases "k = k'")
    case False
    with Cons.prems kv have "(k, v) \<in> set m" by (auto dest: map_of_SomeD)
    with Cons.prems kv have "k' < k" by (auto simp: om_ok_Cons)
    with Cons kv False show ?thesis by (auto simp: om_ok_Cons)
  qed (use Cons.prems kv in auto)
qed simp

lemma om_assign_assign: "om_assign k v (om_assign k v' m) = om_assign k v m"
  by (induction m) auto

section \<open>What \<open>getInstances\<close> returns\<close>

lemma om_assign_middle: "om_ok (xs @ (k, v) # ys) \<Longrightarrow> om_assign k v' (xs @ (k, v) # ys) = xs @ (k, v') # ys"
proof (induction xs)
  case (Cons x xs)
  then have "fst x < k" by (simp add: om_ok_Cons)
  with Cons show ?case by (cases x) (auto simp: om_ok_Cons)
qed simp

text \<open>The world in which \<open>e\<close> has the table \<open>m\<close>.\<close>

definition with_table :: "nat \<Rightarrow> (64 word, entity_instance) omap \<Rightarrow> entity_world \<Rightarrow> entity_world" where
  "with_table e m w = upd_entity e (\<lambda>x. x\<lparr>instances := m\<rparr>) w"

lemma with_table_simps [simp]:
  "instances (entities (with_table e m w) e) = m"
  "p \<noteq> e \<Longrightarrow> entities (with_table e m w) p = entities w p"
  "providers (entities (with_table e m w) p) = providers (entities w p)"
  "with_table e m' (with_table e m w) = with_table e m' w"
  by (simp_all add: with_table_def upd_entity_def)

lemma with_table_same [simp]: "with_table e (instances (entities w e)) w = w"
  by (simp add: with_table_def upd_entity_def)

lemma on_instance_step:
  assumes "om_ok (xs @ (h, i) # ys)" "f i = (r, i')"
  shows "on_instance e h f (with_table e (xs @ (h, i) # ys) w) = Some (r, with_table e (xs @ (h, i') # ys) w)"
proof -
  have m: "map_of (xs @ (h, i) # ys) h = Some i"
    using om_ok_distinct [OF assms(1)] by (force simp: map_add_def dest: map_of_SomeD split: option.splits)
  then show ?thesis
    using assms om_assign_middle [OF assms(1)]
    by (simp add: on_instance_def) (simp add: with_table_def upd_entity_def)
qed

lemma om_ok_keys: "map fst m = map fst m' \<Longrightarrow> om_ok m \<longleftrightarrow> om_ok m'"
  by (simp add: om_ok_def)

text \<open>Nothing to initialise and nothing to verify.\<close>

definition settled :: "entity_env \<Rightarrow> entity_instance \<Rightarrow> bool" where
  "settled env i \<longleftrightarrow> initDefaultFieldsValue (queries_of env) i = (Inr (), i) \<and>
     verifyState (queries_of env) (get_all_of env) i = (Inr (), i)"

definition table_settled :: "entity_env \<Rightarrow> entity \<Rightarrow> bool" where
  "table_settled env x \<longleftrightarrow> om_ok (instances x) \<and> list_all (settled env \<circ> snd) (instances x)"

definition never_throws :: "link_rule \<Rightarrow> bool" where
  "never_throws rule \<longleftrightarrow> (\<forall>s i. fst (rule s i) = Inr ())"

text \<open>An instance after all instances of all providers have been linked to it, in order.\<close>

definition linked :: "link_rule \<Rightarrow> entity_instance list \<Rightarrow> entity_instance \<Rightarrow> entity_instance" where
  "linked rule is i = fold (\<lambda>s i. snd (rule s i)) is i"

definition supplemented :: "entity_world \<Rightarrow> (nat \<times> link_rule) list \<Rightarrow> entity_instance \<Rightarrow> entity_instance" where
  "supplemented w ps i = fold (\<lambda>(p, rule). linked rule (map snd (instances (entities w p)))) ps i"

lemma bind_ret [simp]: "bind_act (ret v) f = f v"
  by (simp add: fun_eq_iff bind_act_def ret_def)

lemma bind_Some [simp]: "m w = Some (Inr v, w') \<Longrightarrow> bind_act m f w = f v w'"
  by (simp add: bind_act_def)

lemma supplementInstance_linked:
  assumes "never_throws rule" "om_ok (xs @ (h, i) # ys)"
  shows "supplementInstance e h rule is (with_table e (xs @ (h, i) # ys) w) =
    Some (Inr (), with_table e (xs @ (h, linked rule is i) # ys) w)"
  using assms(2)
proof (induction "is" arbitrary: i)
  case Nil
  then show ?case by (simp add: supplementInstance_def ret_def linked_def)
next
  case (Cons s ss)
  have r: "rule s i = (Inr (), snd (rule s i))"
    using assms(1) by (metis never_throws_def prod.collapse)
  have ok: "om_ok (xs @ (h, snd (rule s i)) # ys)"
    using Cons.prems by (simp add: om_ok_def)
  from on_instance_step [where f = "rule s", OF Cons.prems r, of e w] Cons.IH [OF ok] show ?case
    by (simp add: supplementInstance_def linked_def)
qed

lemma providers_supplement:
  assumes "\<And>p rule. (p, rule) \<in> set ps \<Longrightarrow> p \<noteq> e \<and> never_throws rule \<and>
      (\<forall>m. get p (with_table e m w) = Some (Inr (map snd (instances (entities w p))), with_table e m w))"
    and "om_ok (xs @ (h, i) # ys)"
  shows "for_each ps (\<lambda>(p, rule). bind_act (get p) (supplementInstance e h rule))
      (with_table e (xs @ (h, i) # ys) w) =
    Some (Inr (), with_table e (xs @ (h, supplemented w ps i) # ys) w)"
  using assms
proof (induction ps arbitrary: i)
  case Nil
  then show ?case by (simp add: ret_def supplemented_def)
next
  case (Cons pr ps)
  obtain p rule where pr: "pr = (p, rule)" by (cases pr)
  let ?j = "linked rule (map snd (instances (entities w p))) i"
  have p: "get p (with_table e m w) = Some (Inr (map snd (instances (entities w p))), with_table e m w)"
    and r: "never_throws rule" for m using Cons.prems(1) [of p rule] by (auto simp: pr)
  have ok: "om_ok (xs @ (h, ?j) # ys)" using Cons.prems(2) by (simp add: om_ok_def)
  have rest: "p' \<noteq> e \<and> never_throws rule' \<and>
      (\<forall>m. get p' (with_table e m w) = Some (Inr (map snd (instances (entities w p'))), with_table e m w))"
    if "(p', rule') \<in> set ps" for p' rule' by (rule Cons.prems(1)) (simp add: that)
  have "for_each (pr # ps) (\<lambda>(p, rule). bind_act (get p) (supplementInstance e h rule))
        (with_table e (xs @ (h, i) # ys) w) =
      for_each ps (\<lambda>(p, rule). bind_act (get p) (supplementInstance e h rule))
        (with_table e (xs @ (h, ?j) # ys) w)"
    by (simp add: pr bind_act_def p supplementInstance_linked [OF r Cons.prems(2)])
  also have "\<dots> = Some (Inr (), with_table e (xs @ (h, supplemented w ps ?j) # ys) w)"
    by (rule Cons.IH [OF rest ok])
  finally show ?case by (simp add: pr supplemented_def)
qed

text \<open>The providers of an entity are ready: they are other entities without providers of their
  own, with settled instances, and their link rules do not throw.\<close>

definition providers_ready :: "entity_env \<Rightarrow> entity_world \<Rightarrow> nat \<Rightarrow> bool" where
  "providers_ready env w e \<longleftrightarrow>
     list_all (\<lambda>(p, rule). p \<noteq> e \<and> never_throws rule \<and> providers (entities w p) = [] \<and>
       table_settled env (entities w p)) (providers (entities w e))"

lemma visit_supplemented:
  assumes "\<And>p rule. (p, rule) \<in> set (providers (entities w e)) \<Longrightarrow> p \<noteq> e \<and> never_throws rule \<and>
      (\<forall>m. get p (with_table e m w) = Some (Inr (map snd (instances (entities w p))), with_table e m w))"
    and ok: "om_ok (xs @ (h, i) # ys)" and "settled env i"
  shows "visit_instance env get e conds h (with_table e (xs @ (h, i) # ys) w) =
    Some (Inr (let j = supplemented w (providers (entities w e)) i in if conditions_pass conds j then Some j else None),
      with_table e (xs @ (h, supplemented w (providers (entities w e)) i) # ys) w)"
proof -
  let ?w = "\<lambda>i. with_table e (xs @ (h, i) # ys) w" and ?j = "supplemented w (providers (entities w e)) i"
  from assms(3) have s: "on_instance e h (initDefaultFieldsValue (queries_of env)) (?w i) = Some (Inr (), ?w i)"
    "on_instance e h (verifyState (queries_of env) (get_all_of env)) (?w i) = Some (Inr (), ?w i)"
    by (auto simp: settled_def intro!: on_instance_step ok)
  have "map_of (xs @ (h, ?j) # ys) h = Some ?j"
    using om_ok_distinct [OF ok] by (force simp: map_add_def dest: map_of_SomeD split: option.splits)
  with s providers_supplement [OF assms(1,2)] show ?thesis
    by (simp add: visit_instance_def Let_def ret_def)
qed

lemma visit_all_supplemented:
  assumes "\<And>p rule. (p, rule) \<in> set (providers (entities w e)) \<Longrightarrow> p \<noteq> e \<and> never_throws rule \<and>
      (\<forall>m. get p (with_table e m w) = Some (Inr (map snd (instances (entities w p))), with_table e m w))"
    and "om_ok (xs @ ys)" "list_all (settled env \<circ> snd) ys"
  shows "visit_all (visit_instance env get e conds) (map fst ys) (with_table e (xs @ ys) w) =
    Some (Inr (filter (conditions_pass conds) (map (supplemented w (providers (entities w e)) \<circ> snd) ys)),
      with_table e (xs @ map (\<lambda>(h, i). (h, supplemented w (providers (entities w e)) i)) ys) w)"
  using assms(2,3)
proof (induction ys arbitrary: xs)
  case Nil
  then show ?case by (simp add: ret_def)
next
  case (Cons hi ys)
  obtain h i where hi: "hi = (h, i)" by (cases hi)
  let ?j = "supplemented w (providers (entities w e)) i"
  have ok: "om_ok ((xs @ [(h, ?j)]) @ ys)" using Cons.prems(1) by (simp add: hi om_ok_def)
  have "om_ok (xs @ (h, i) # ys)" "settled env i" using Cons.prems by (simp_all add: hi)
  from visit_supplemented [OF assms(1) this, of conds] Cons.IH [OF ok] Cons.prems(2) show ?case
    by (simp add: hi bind_act_def Let_def ret_def)
qed

lemma getInstances_plain:
  assumes "providers (entities w p) = []" "table_settled env (entities w p)"
  shows "getInstances (Suc n) env p conds w =
    Some (Inr (filter (conditions_pass conds) (map snd (instances (entities w p)))), w)"
proof -
  let ?m = "instances (entities w p)"
  have "supplemented w [] = id" by (auto simp: supplemented_def)
  then have j: "map (\<lambda>(h, i). (h, supplemented w (providers (entities w p)) i)) ?m = ?m"
    by (simp add: assms(1) case_prod_unfold)
  from visit_all_supplemented [where xs = "[]" and ys = ?m and w = w and e = p and env = env and conds = conds
      and get = "\<lambda>p. getInstances n env p []"] assms
  show ?thesis by (simp add: table_settled_def j \<open>supplemented w [] = id\<close> del: id_apply) (simp add: assms(1))
qed

lemma getInstances_supplemented:
  assumes "table_settled env (entities w e)" "providers_ready env w e"
  shows "getInstances (Suc (Suc n)) env e conds w =
    Some (Inr (filter (conditions_pass conds)
        (map (supplemented w (providers (entities w e)) \<circ> snd) (instances (entities w e)))),
      with_table e (map (\<lambda>(h, i). (h, supplemented w (providers (entities w e)) i)) (instances (entities w e))) w)"
proof -
  have "p \<noteq> e \<and> never_throws rule \<and>
      (\<forall>m. getInstances (Suc n) env p [] (with_table e m w) =
        Some (Inr (map snd (instances (entities w p))), with_table e m w))"
    if "(p, rule) \<in> set (providers (entities w e))" for p rule
  proof -
    from assms(2) that have p: "p \<noteq> e" "never_throws rule" "providers (entities w p) = []"
      "table_settled env (entities w p)" by (auto simp: providers_ready_def list_all_iff)
    then show ?thesis using getInstances_plain [of "with_table e m w" p env n "[]" for m] by simp
  qed
  note visit = visit_all_supplemented [where xs = "[]" and get = "\<lambda>p. getInstances (Suc n) env p []", OF this]
  have "getInstances (Suc (Suc n)) env e conds w =
      visit_all (visit_instance env (\<lambda>p. getInstances (Suc n) env p []) e conds)
        (map fst (instances (entities w e))) (with_table e ([] @ instances (entities w e)) w)"
    by (subst getInstances.simps(2)) (simp del: getInstances.simps)
  with visit [of "instances (entities w e)" env conds] assms(1) show ?thesis
    by (simp add: table_settled_def del: getInstances.simps)
qed

end
