(* ===== verification/Entity_Samples.thy ===== *)
theory Entity_Samples
  imports Entity_Facts
begin

text \<open>Small entities and instances, to apply the properties to.\<close>

definition text_instance :: "string \<Rightarrow> (string \<times> string) list \<Rightarrow> entity_instance" where
  "text_instance ident kvs =
     \<lparr>identity = ident, memberInstances = map (\<lambda>(k, v). (k, Some (FString v))) kvs, dbus = None\<rparr>"

definition sample_entity_env :: entity_env where
  "sample_entity_env =
     \<lparr>hash_of = (\<lambda>s. of_nat (length s)), queries_of = (\<lambda>q. Some \<lparr>searchProperties = [],
        staticFields = (\<lambda>i. (Inr (), i)), defaultFields = []\<rparr>), get_all_of = (\<lambda>_ _ _. None),
      query_fields = (\<lambda>_. []), query_process = (\<lambda>_. (False, Inr [text_instance ''fresh'' []])), now_of = 0\<rparr>"

text \<open>Entity 0 has two sensors, entity 1 their chassis, entity 2 provides one instance.\<close>

definition sample_entities :: "nat \<Rightarrow> entity" where
  "sample_entities n =
     (if n = 0 then (new_entity ''Sensors'' [] [(2, \<lambda>s i. (case supplementOrUpdate s i of
          Inl e \<Rightarrow> (Inl e, i) | Inr i' \<Rightarrow> (Inr (), i')))] [7] (CachedSource False False False))
        \<lparr>instances := [(1, text_instance ''a'' [(''Name'', ''t1'')]), (2, text_instance ''ab'' [(''Name'', ''t2'')])]\<rparr>
      else if n = 1 then (new_entity ''Chassis'' [] [] [7, 8] (CachedSource False False False))
        \<lparr>instances := [(1, text_instance ''c'' [(''Id'', ''t1'')]), (2, text_instance ''cd'' [(''Id'', ''t2'')])]\<rparr>
      else (new_entity ''Status'' [] [] [] LazySource)\<lparr>instances := [(3, text_instance ''sss'' [(''Status'', ''ok'')])]\<rparr>)"

definition sample_entity_world :: entity_world where
  "sample_entity_world = \<lparr>entities = sample_entities, subscribers = [], observers = [], dictionary = []\<rparr>"

lemmas sample_entity_defs =
  sample_entity_env_def sample_entities_def sample_entity_world_def text_instance_def

lemma settled_static: "dbus i = None \<Longrightarrow> settled env i"
  by (simp add: settled_def initDefaultFieldsValue_def instance_query_def verifyState_def)

lemma sample_tables: "table_settled sample_entity_env (sample_entities n)"
  by (simp add: table_settled_def sample_entities_def om_ok_def settled_static text_instance_def)

lemma default_link_never_throws:
  "never_throws (\<lambda>s i. case supplementOrUpdate s i of Inl e \<Rightarrow> (Inl e, i) | Inr i' \<Rightarrow> (Inr (), i'))"
proof -
  have "fst (case supplementOrUpdate s i of Inl e \<Rightarrow> (Inl e, i) | Inr i' \<Rightarrow> (Inr (), i')) = Inr ()" for s i
    using supplementOrUpdate_Inr [of s i] by auto
  then show ?thesis by (simp add: never_throws_def)
qed

lemma sample_providers: "providers_ready sample_entity_env sample_entity_world 0"
  using sample_tables [of 2] default_link_never_throws
  by (simp add: providers_ready_def sample_entity_world_def sample_entities_def new_entity_def
      createMember_def addMember_def)

end
