(* ===== verification/Entity_Properties.thy ===== *)
theory Entity_Properties
  imports Entity_Samples
begin

text \<open>
  Related instances, and what becomes of an entity's cache over the calls that populate it.
\<close>

section \<open>Relations\<close>





section \<open>What the calls preserve\<close>

text \<open>\<open>R\<close> holds between the worlds before and after \<open>m\<close>, however it ends.\<close>

definition relates :: "(entity_world \<Rightarrow> entity_world \<Rightarrow> bool) \<Rightarrow> 'a act \<Rightarrow> bool" where
  "relates R m \<longleftrightarrow> (\<forall>w r w'. m w = Some (r, w') \<longrightarrow> R w w')"

lemma relates_world: "(\<And>w. relates R (m w)) \<Longrightarrow> relates R (\<lambda>w. m w w)"
  by (simp add: relates_def)

lemma relates_catch: "relates R m \<Longrightarrow> relates R (catch_sdbus m)"
  by (auto simp: relates_def catch_sdbus_def split: option.splits prod.splits sum.splits cpp_exn.splits)

text \<open>What is shared by two worlds, as a preorder: the operations on entities keep it when their parts
  do.\<close>

locale world_frame =
  fixes R :: "entity_world \<Rightarrow> entity_world \<Rightarrow> bool"
  assumes world_refl: "R w w" and world_trans: "R a b \<Longrightarrow> R b c \<Longrightarrow> R a c"
begin

lemma keep_ret: "relates R (ret v)"
  by (simp add: relates_def ret_def world_refl)

lemma keep_bind: "relates R m \<Longrightarrow> (\<And>v. relates R (f v)) \<Longrightarrow> relates R (bind_act m f)"
  by (auto simp: relates_def bind_act_def split: option.splits sum.splits prod.splits) (metis world_trans)

lemma keep_each: "(\<And>x. relates R (f x)) \<Longrightarrow> relates R (for_each xs f)"
  by (induction xs) (auto intro: keep_ret keep_bind)

lemma keep_providers: "(\<And>e. relates R (f e)) \<Longrightarrow> relates R (\<lambda>w. for_each (map fst (providers (entities w e))) f w)"
  by (rule relates_world [where m = "\<lambda>v. for_each (map fst (providers (entities v e))) f"]) (rule keep_each)

lemma keep_reset:
  assumes "\<And>e. relates R (modify e (\<lambda>x. x\<lparr>instances := []\<rparr>))"
  shows "relates R (resetCache n e)"
  by (induction n arbitrary: e)
     (simp_all add: relates_def [of _ "\<lambda>w. None"] keep_bind keep_providers assms)

lemma keep_processQueries:
  assumes "\<And>e q. relates R (process_query env e q)"
  shows "relates R (processQueries n env e)"
proof (induction n arbitrary: e)
  case 0
  then show ?case by (simp add: relates_def)
next
  case (Suc n)
  let ?qs = "\<lambda>v. for_each (entity_queries (entities v e)) (process_query env e)"
  let ?ps = "\<lambda>v. bind_act (for_each (map fst (providers (entities v e))) (processQueries n env)) (\<lambda>_ w. ?qs w w)"
  have "relates R (\<lambda>w. ?qs w w)"
    by (rule relates_world [where m = ?qs]) (rule keep_each [OF assms])
  then have "relates R (?ps v)" for v by (intro keep_bind keep_each Suc.IH)
  then have "relates R (\<lambda>w. ?ps w w)" by (rule relates_world [where m = ?ps])
  then show ?case unfolding processQueries.simps by (rule relates_catch)
qed

lemma keep_refill:
  assumes "\<And>e. relates R (modify e (\<lambda>x. x\<lparr>instances := []\<rparr>))" "\<And>e q. relates R (process_query env e q)"
  shows "relates R (refill n env e)"
  unfolding refill_def using assms by (intro keep_bind keep_reset keep_processQueries)

lemma keep_populate:
  assumes "\<And>e. relates R (modify e (\<lambda>x. x\<lparr>instances := []\<rparr>))" "\<And>e q. relates R (process_query env e q)"
    and "\<And>e f. relates R (set_source e f)"
  shows "relates R (populate n env e)"
proof -
  have fills: "relates R (bind_act (set_source e f) (\<lambda>_. bind_act (refill n env e) (\<lambda>_. set_source e g)))"
    "relates R (bind_act (refill n env e) (\<lambda>_. set_source e g))" "relates R (refill n env e)" for f g
    using assms by (simp_all add: keep_bind keep_refill)
  show ?thesis
    unfolding relates_def
  proof (intro allI impI)
    fix w r w' assume p: "populate n env e w = Some (r, w')"
    show "R w w'"
    proof (cases "source_of (entities w e)")
      case (CachedSource i h c)
      with p fills(1) [of "\<lambda>_. CachedSource i False True"] world_refl show ?thesis
        by (simp add: populate_def relates_def ret_def split: if_splits)
    next
      case (ShortTimeCachedSource ttl point)
      with p fills(2) world_refl show ?thesis by (simp add: populate_def relates_def ret_def split: if_splits)
    next
      case LazySource
      with p fills(3) show ?thesis by (simp add: populate_def relates_def)
    qed
  qed
qed

end

section \<open>Populating a cached entity\<close>

text \<open>Up to failure events the state of every source is the same.\<close>

definition same_but_errors :: "source_state \<Rightarrow> source_state \<Rightarrow> bool" where
  "same_but_errors s s' \<longleftrightarrow> s' = s \<or> s' = invalidate s"

lemma invalidate_idem [simp]: "invalidate (invalidate s) = invalidate s"
  by (cases s) auto

definition sources_kept :: "entity_world \<Rightarrow> entity_world \<Rightarrow> bool" where
  "sources_kept w w' \<longleftrightarrow> (\<forall>e. same_but_errors (source_of (entities w e)) (source_of (entities w' e)))"

definition sources_same :: "entity_world \<Rightarrow> entity_world \<Rightarrow> bool" where
  "sources_same w w' \<longleftrightarrow> (\<forall>e. source_of (entities w' e) = source_of (entities w e))"

lemma same_but_errors_trans:
  "same_but_errors a b \<Longrightarrow> same_but_errors b c \<Longrightarrow> same_but_errors a c"
  by (auto simp: same_but_errors_def)

interpretation kept: world_frame sources_kept
  by unfold_locales
    (simp add: sources_kept_def same_but_errors_def, auto simp: sources_kept_def intro: same_but_errors_trans)


lemma sources_same_kept: "sources_same w w' \<Longrightarrow> sources_kept w w'"
  by (simp add: sources_same_def sources_kept_def same_but_errors_def)

lemma relates_mono: "relates R m \<Longrightarrow> (\<And>w w'. R w w' \<Longrightarrow> R' w w') \<Longrightarrow> relates R' m"
  by (auto simp: relates_def)

lemma relates_modify:
  "(\<And>x. source_of (f x) = source_of x) \<Longrightarrow> relates sources_same (modify e f)"
  by (auto simp: relates_def modify_def upd_entity_def sources_same_def)

lemma relates_empty: "relates sources_same (modify e (\<lambda>x. x\<lparr>instances := []\<rparr>))"
  by (simp add: relates_modify)

lemma raise_failures_kept: "sources_kept w (raise_failures q w)"
proof -
  have "sources_kept w (fold (\<lambda>e. upd_entity e (\<lambda>x. x\<lparr>source_of := invalidate (source_of x)\<rparr>)) es w)" for es
  proof (induction es arbitrary: w)
    case Nil
    then show ?case by (simp add: sources_kept_def same_but_errors_def)
  next
    case (Cons e es)
    have "sources_kept w (upd_entity e (\<lambda>x. x\<lparr>source_of := invalidate (source_of x)\<rparr>) w)"
      by (simp add: sources_kept_def same_but_errors_def upd_entity_def)
    with Cons.IH show ?case by (auto intro: kept.world_trans)
  qed
  then show ?thesis by (simp add: raise_failures_def)
qed

lemma relates_configure: "relates sources_same (configure_query env e q)"
  by (auto simp: relates_def configure_query_def ret_def sources_same_def configureQueryEvents_def
      register_observers_def split: source_state.splits)

lemma source_setInstances [simp]: "source_of (setInstances env is x) = source_of x"
  by (simp add: setInstances_def)

lemma sources_kept_set:
  "sources_kept w w' \<Longrightarrow> sources_kept w (upd_entity e (setInstances env is) w')"
  by (simp add: sources_kept_def upd_entity_def)

lemma relates_process_query: "relates sources_kept (process_query env e q)"
proof -
  have "relates sources_kept (\<lambda>w. let (raised, result) = query_process env q;
          w1 = (if raised then raise_failures q w else w)
      in case result of
           Inl ex \<Rightarrow> Some (Inl ex, w1)
         | Inr is \<Rightarrow> Some (Inr (), upd_entity e (setInstances env is) w1))"
    using raise_failures_kept kept.world_refl
    by (auto simp: relates_def Let_def intro!: sources_kept_set split: prod.splits sum.splits)
  then show ?thesis
    unfolding process_query_def
    by (intro kept.keep_bind relates_mono [OF relates_configure sources_same_kept]) auto
qed

lemma relates_refill: "relates sources_kept (refill n env e)"
  by (intro kept.keep_refill relates_process_query relates_mono [OF relates_empty sources_same_kept])




subsection \<open>One call and the next\<close>

lemma populate_cached:
  assumes "source_of (entities w e) = CachedSource i h False" "\<not> i \<or> h"
  shows "populate n env e w =
    (case refill n env e (upd_entity e (\<lambda>x. x\<lparr>source_of := CachedSource i False True\<rparr>) w) of
       None \<Rightarrow> None
     | Some (Inl ex, w1) \<Rightarrow> Some (Inl ex, w1)
     | Some (Inr _, w1) \<Rightarrow>
         Some (Inr (), upd_entity e (\<lambda>x. x\<lparr>source_of := CachedSource
           (src_initialized (source_of x) \<or> \<not> hasErrors (source_of x)) (hasErrors (source_of x)) False\<rparr>) w1))"
  using assms by (auto simp: populate_def bind_act_def set_source_def modify_def split: option.splits sum.splits)

lemma populate_idle:
  "source_of (entities w e) = CachedSource i h c \<Longrightarrow> c \<or> i \<and> \<not> h \<Longrightarrow> populate n env e w = Some (Inr (), w)"
  by (auto simp: populate_def ret_def)


lemma populate_throws:
  assumes "source_of (entities w e) = CachedSource i h c" "populate n env e w = Some (Inl ex, w1)"
  shows "\<exists>i' h'. source_of (entities w1 e) = CachedSource i' h' True"
proof -
  let ?w = "upd_entity e (\<lambda>x. x\<lparr>source_of := CachedSource i False True\<rparr>) w"
  have busy: "\<not> (c \<or> i \<and> \<not> h)"
    by (rule notI, drule populate_idle [OF assms(1), of n env]) (use assms(2) in simp)
  then have "populate n env e w = (case refill n env e ?w of
       None \<Rightarrow> None
     | Some (Inl ex, w1) \<Rightarrow> Some (Inl ex, w1)
     | Some (Inr _, w1) \<Rightarrow>
         Some (Inr (), upd_entity e (\<lambda>x. x\<lparr>source_of := CachedSource
           (src_initialized (source_of x) \<or> \<not> hasErrors (source_of x)) (hasErrors (source_of x)) False\<rparr>) w1))"
    using assms(1) by (intro populate_cached) auto
  with assms(2) have "refill n env e ?w = Some (Inl ex, w1)"
    by (auto split: option.splits sum.splits prod.splits)
  with relates_refill [of n env e] have "sources_kept ?w w1" by (auto simp: relates_def)
  then have "same_but_errors (CachedSource i False True) (source_of (entities w1 e))"
    by (auto simp: sources_kept_def upd_entity_def dest: spec [of _ e])
  then show ?thesis by (auto simp: same_but_errors_def)
qed


text \<open>Every query a cached entity processes subscribes it to all its queries once more.\<close>

definition all_answer :: "entity_env \<Rightarrow> bool" where
  "all_answer env \<longleftrightarrow> (\<forall>q. \<exists>is. snd (query_process env q) = Inr is)"

definition cached_with :: "entity_env \<Rightarrow> nat \<Rightarrow> nat list \<Rightarrow> entity_world \<Rightarrow> bool" where
  "cached_with env e qs w \<longleftrightarrow> entity_queries (entities w e) = qs \<and> list_all (is_dbus_query env) qs \<and>
     (\<exists>i h c. source_of (entities w e) = CachedSource i h c)"

lemma raise_failures_simps [simp]:
  "subscribers (raise_failures q w) = subscribers w"
  "entity_queries (entities (raise_failures q w) e) = entity_queries (entities w e)"
proof -
  have "subscribers (fold (\<lambda>e. upd_entity e (\<lambda>x. x\<lparr>source_of := invalidate (source_of x)\<rparr>)) es w) = subscribers w \<and>
      entity_queries (entities (fold (\<lambda>e. upd_entity e (\<lambda>x. x\<lparr>source_of := invalidate (source_of x)\<rparr>)) es w) e) =
      entity_queries (entities w e)" for es
    by (induction es arbitrary: w) (auto simp: upd_entity_def)
  then show "subscribers (raise_failures q w) = subscribers w"
    "entity_queries (entities (raise_failures q w) e) = entity_queries (entities w e)"
    by (simp_all add: raise_failures_def)
qed

lemma process_query_subscribes:
  assumes "cached_with env e qs w" "all_answer env"
  shows "\<exists>w'. process_query env e q w = Some (Inr (), w') \<and> cached_with env e qs w' \<and>
    length (subscribers w') = length (subscribers w) + length qs"
proof -
  obtain raised "is" where q: "query_process env q = (raised, Inr is)"
    using assms(2) unfolding all_answer_def by (metis prod.collapse)
  let ?w = "configureQueryEvents env e (register_observers env e q w)"
  have c: "configure_query env e q w = Some (Inr (), ?w)"
    using assms(1) by (auto simp: cached_with_def configure_query_def ret_def)
  have w: "cached_with env e qs ?w" "length (subscribers ?w) = length (subscribers w) + length qs"
    using assms(1) by (auto simp: cached_with_def configureQueryEvents_def register_observers_def filter_id_conv list_all_iff)
  have "cached_with env e qs (raise_failures q ?w)"
  proof -
    have "same_but_errors (source_of (entities ?w e)) (source_of (entities (raise_failures q ?w) e))"
      using raise_failures_kept by (auto simp: sources_kept_def)
    with w(1) show ?thesis by (auto simp: cached_with_def same_but_errors_def)
  qed
  then have w1: "cached_with env e qs (if raised then raise_failures q ?w else ?w)"
    "subscribers (if raised then raise_failures q ?w else ?w) = subscribers ?w" using w(1) by simp_all
  have set: "cached_with env e qs (upd_entity e (setInstances env is) v) = cached_with env e qs v"
    "subscribers (upd_entity e (setInstances env is) v) = subscribers v" for v
    by (simp_all add: cached_with_def upd_entity_def setInstances_def)
  have "process_query env e q w =
      Some (Inr (), upd_entity e (setInstances env is) (if raised then raise_failures q ?w else ?w))"
    using c by (simp add: process_query_def bind_act_def q)
  with w1 w(2) show ?thesis by (cases raised) (simp_all add: set)
qed

lemma for_each_subscribes:
  assumes "cached_with env e qs w" "all_answer env"
  shows "\<exists>w'. for_each qs' (process_query env e) w = Some (Inr (), w') \<and> cached_with env e qs w' \<and>
    length (subscribers w') = length (subscribers w) + length qs' * length qs"
  using assms(1)
proof (induction qs' arbitrary: w)
  case Nil
  then show ?case by (simp add: ret_def)
next
  case (Cons q qs')
  from process_query_subscribes [OF Cons.prems assms(2), of q] obtain w1 where
    "process_query env e q w = Some (Inr (), w1)" "cached_with env e qs w1"
    "length (subscribers w1) = length (subscribers w) + length qs" by blast
  with Cons.IH [of w1] show ?case by auto
qed

lemma populate_subscribes:
  assumes "cached_with env e qs w" "all_answer env" "providers (entities w e) = []"
    and "source_of (entities w e) = CachedSource i h False" "\<not> i \<or> h"
  shows "\<exists>w'. populate (Suc n) env e w = Some (Inr (), w') \<and>
    length (subscribers w') = length (subscribers w) + length qs * length qs"
proof -
  let ?w = "upd_entity e (\<lambda>x. x\<lparr>source_of := CachedSource i False True, instances := []\<rparr>) w"
  have w: "cached_with env e qs ?w" using assms(1) by (auto simp: cached_with_def upd_entity_def)
  from for_each_subscribes [OF w assms(2), of qs] obtain w' where
    w': "for_each qs (process_query env e) ?w = Some (Inr (), w')"
    "length (subscribers w') = length (subscribers ?w) + length qs * length qs" by blast
  have "refill (Suc n) env e (upd_entity e (\<lambda>x. x\<lparr>source_of := CachedSource i False True\<rparr>) w) = Some (Inr (), w')"
    using assms(1,3) w'(1)
    by (simp add: refill_def bind_act_def modify_def upd_entity_def catch_sdbus_def ret_def cached_with_def)
  with w'(2) show ?thesis by (simp add: populate_cached [OF assms(4,5)]) (simp add: upd_entity_def)
qed

section \<open>The table over a run\<close>

text \<open>What happens to an entity's table: it is filled, merged into, emptied, and an instance is
  changed in place, which leaves its identity, service and path.\<close>

inductive table_step :: "entity_env \<Rightarrow> entity \<Rightarrow> entity \<Rightarrow> bool" for env where
  set: "table_step env e (setInstances env is e)"
| merge: "table_step env e (snd (mergeInstance env i e))"
| remove: "table_step env e (removeInstance h e)"
| reset: "table_step env e (e\<lparr>instances := []\<rparr>)"
| in_place: "map_of (instances e) h = Some i \<Longrightarrow> getHash (hash_of env) i' = getHash (hash_of env) i \<Longrightarrow>
    table_step env e (e\<lparr>instances := om_assign h i' (instances e)\<rparr>)"

lemma table_step_ok: "table_step env e e' \<Longrightarrow> table_ok env e \<Longrightarrow> table_ok env e'"
proof (induction rule: table_step.induct)
  case (in_place e h i i')
  then have "h = getHash (hash_of env) i'" by (auto simp: table_ok_def dest: map_of_SomeD)
  with in_place show ?case by (simp add: table_ok_assign)
qed (simp_all add: wf_intros)

lemma table_ok_new: "table_ok env (new_entity name rels provs qs src)"
  by (simp add: table_ok_def new_entity_def createMember_def addMember_def)

lemma table_steps_ok: "(table_step env)\<^sup>*\<^sup>* e e' \<Longrightarrow> table_ok env e \<Longrightarrow> table_ok env e'"
  by (induction rule: rtranclp_induct) (auto intro: table_step_ok)

section \<open>Properties\<close>





text \<open>C17: whatever is stored into, merged into, removed from and emptied out of an entity's
  table, and however instances change in place, every instance stands under its own hash,
  so no two instances of one service and path are in it.\<close>

theorem instances_under_their_hash:
  assumes "(table_step env)\<^sup>*\<^sup>* (new_entity name rels provs qs src) e"
    and "getInstance h e = Some i" and "getInstance h' e = Some i'"
  shows "getHash (hash_of env) i = h \<and> (getHash (hash_of env) i' = getHash (hash_of env) i \<longrightarrow> i' = i)"
proof -
  have key: "k = getHash (hash_of env) j" if "getInstance k e = Some j" for k j
    using table_steps_ok [OF assms(1) table_ok_new] map_of_SomeD [OF that [unfolded getInstance_def]]
    by (auto simp: table_ok_def)
  from key [OF assms(2)] key [OF assms(3)] assms(2,3) show ?thesis by auto
qed

theorem instances_under_their_hash_witness:
  "getHash (hash_of sample_entity_env) (text_instance ''a'' []) = 1"
proof -
  let ?e = "new_entity ''X'' [] [] [] LazySource" and ?i = "text_instance ''a'' []"
  have step: "(table_step sample_entity_env)\<^sup>*\<^sup>* ?e (setInstances sample_entity_env [?i] ?e)"
    by (rule r_into_rtranclp) (rule table_step.set)
  have "getInstance 1 (setInstances sample_entity_env [?i] ?e) = Some ?i"
    by (simp add: getInstance_def setInstances_def sample_entity_env_def getHash_def text_instance_def
        map_of_om_assign)
  from instances_under_their_hash [OF step this this] show ?thesis by simp
qed

text \<open>Merging an instance into the one with its hash gives that one every field of the
  other (a \<open>DBusInstance\<close> keeps its own meta fields) and changes no other instance; a field
  without a value arrives as the text N/A.\<close>

theorem merge_updates_fields:
  assumes "getInstance (getHash (hash_of env) i) e = Some old"
  shows "\<exists>new e'. mergeInstance env i e = (Inr new, e') \<and>
    getInstance (getHash (hash_of env) i) e' = Some new \<and>
    (\<forall>m. getField m new =
       (if hasField m i \<and> (dbus old = None \<or> \<not> starts_with m ''__meta_'')
        then Some (if isNull (getField m i) then FString ''N/A'' else getValue (getField m i))
        else getField m old)) \<and>
    (\<forall>h'. h' \<noteq> getHash (hash_of env) i \<longrightarrow> getInstance h' e' = getInstance h' e)"
proof -
  obtain j where j: "supplementOrUpdate i old = Inr j"
    "\<forall>m. getField m j = (if hasField m i \<and> takes_over old m then Some (getValue (getField m i)) else getField m old)"
    using supplementOrUpdate_Inr [of i old] by blast
  have na: "getValue f = (if isNull f then FString ''N/A'' else getValue f)" for f
    by (simp add: getValue_def fieldValueNotAvailable_def)
  have "getField m (fst (mergeInternalMetadata i j)) = getField m j" for m
    by (simp add: mergeInternalMetadata_def getField_def split: option.splits)
  with j assms na show ?thesis
    by (auto simp: mergeInstance_def Let_def getInstance_def map_of_om_assign takes_over_def)
qed

theorem merge_updates_fields_witness:
  "\<exists>new e'. mergeInstance sample_entity_env \<lparr>identity = ''b'', memberInstances = [(''Name'', Some FNull)], dbus = None\<rparr>
      (sample_entities 0) = (Inr new, e') \<and> getField ''Name'' new = Some (FString ''N/A'')"
proof -
  let ?i = "\<lparr>identity = ''b'', memberInstances = [(''Name'', Some FNull)], dbus = None\<rparr> :: entity_instance"
  have "getInstance (getHash (hash_of sample_entity_env) ?i) (sample_entities 0) =
      Some (text_instance ''a'' [(''Name'', ''t1'')])"
    by (simp add: getInstance_def getHash_def sample_entity_env_def sample_entities_def)
  from merge_updates_fields [OF this] show ?thesis
    by (force simp: hasField_def getField_def text_instance_def)
qed



text \<open>When filling a cached entity ends with an exception, \<open>cachingInProgress\<close> stays set
  and no later call fills it: every one returns at once and leaves the world as it is.\<close>

theorem cached_exception_sticks:
  assumes "source_of (entities w e) = CachedSource i h c" and "populate n env e w = Some (Inl ex, w1)"
  shows "populate n' env' e w1 = Some (Inr (), w1)"
  using populate_throws [OF assms] populate_idle [of w1 e _ _ True] by auto

theorem cached_exception_sticks_witness:
  "\<exists>w1. populate 1 (sample_entity_env\<lparr>query_process := \<lambda>_. (False, Inl (Runtime_error ''x''))\<rparr>) 1 sample_entity_world =
       Some (Inl (Runtime_error ''x''), w1) \<and>
     populate 1 sample_entity_env 1 w1 = Some (Inr (), w1)"
proof -
  let ?env = "sample_entity_env\<lparr>query_process := \<lambda>_. (False, Inl (Runtime_error ''x''))\<rparr>"
  have src: "source_of (entities sample_entity_world 1) = CachedSource False False False"
    by (simp add: sample_entity_defs new_entity_def createMember_def addMember_def)
  have "\<exists>w1. populate 1 ?env 1 sample_entity_world = Some (Inl (Runtime_error ''x''), w1)"
    by (subst populate_cached [OF src], simp)
       (simp add: refill_def bind_act_def modify_def upd_entity_def ret_def
        catch_sdbus_def process_query_def configure_query_def sample_entity_world_def sample_entities_def
        new_entity_def createMember_def addMember_def)
  then obtain w1 where w1: "populate 1 ?env 1 sample_entity_world = Some (Inl (Runtime_error ''x''), w1)" by blast
  from cached_exception_sticks [OF src w1, of 1 sample_entity_env] w1 show ?thesis by blast
qed

text \<open>Each time a cached entity with \<open>k\<close> D-Bus queries is filled, \<open>k * k\<close> subscriptions
  are added to the ones it has, so their number grows with every invalidation.\<close>

theorem populate_adds_subscriptions:
  assumes "entity_queries (entities w e) = qs" and "list_all (is_dbus_query env) qs"
    and "source_of (entities w e) = CachedSource i h False" and "\<not> i \<or> h"
    and "providers (entities w e) = []" and "all_answer env"
  shows "\<exists>w'. populate (Suc n) env e w = Some (Inr (), w') \<and>
    length (subscribers w') = length (subscribers w) + length qs * length qs"
  by (rule populate_subscribes [OF _ assms(6,5,3,4)]) (use assms in \<open>auto simp: cached_with_def\<close>)

theorem populate_adds_subscriptions_witness:
  "\<exists>w'. populate 1 sample_entity_env 1 sample_entity_world = Some (Inr (), w') \<and> length (subscribers w') = 4"
proof -
  have "entity_queries (entities sample_entity_world 1) = [7, 8]" "list_all (is_dbus_query sample_entity_env) [7, 8]"
    "source_of (entities sample_entity_world 1) = CachedSource False False False"
    "providers (entities sample_entity_world 1) = []" "all_answer sample_entity_env"
    by (simp_all add: is_dbus_query_def all_answer_def sample_entity_defs new_entity_def createMember_def addMember_def)
  from populate_adds_subscriptions [OF this(1-3) _ this(4,5), of 0]
  have "\<exists>w'. populate 1 sample_entity_env 1 sample_entity_world = Some (Inr (), w') \<and>
      length (subscribers w') = length (subscribers sample_entity_world) + length [7 :: nat, 8] * length [7 :: nat, 8]"
    by (simp only: One_nat_def simp_thms)
  moreover have "subscribers sample_entity_world = []" by (simp add: sample_entity_world_def)
  ultimately show ?thesis by (simp add: eval_nat_numeral)
qed

end
