(* ===== verification/Redfish_Context.thy ===== *)
theory Redfish_Context
  imports Error_Messages Entity
begin

text \<open>
  The part of \<open>RedfishContext\<close> (\<open>src/core/route/redfish/response.hpp\<close>) that leads to the
  entities: the parameter the URI resolved last, the table of all of them, and the search for
  instances that depends on it. A program of a node runs on a \<open>node_state\<close>, the context
  together with the entities; it is out of fuel (\<open>None\<close>), undefined, ended by
  \<open>std::terminate\<close>, or ends with a value or an exception.
\<close>

section \<open>State and programs\<close>

text \<open>A \<open>ParameterCtx\<close> whose two pointers are set, \<open>None\<close> the default one.\<close>

type_synonym parameter_ctx = "(entity_instance \<times> nat) option"

record node_state =
  node_ctx :: redfish_context
  parameterCtx :: parameter_ctx
  parameters :: "(string, parameter_ctx) omap"
  node_world :: entity_world

text \<open>What the nodes use of the outside: that of the entities with the fuel for their
  providers, \<open>dump (2)\<close>, \<open>to_chars\<close>, and the order of JSON values (a \<open>std::sort\<close> by it leaves
  values that are not told apart by it in any order).\<close>

record node_env =
  entity_env_of :: entity_env
  entity_fuel :: nat
  dump_of :: "json \<Rightarrow> string may_throw"
  to_chars_of :: "64 word \<Rightarrow> string"
  json_less_of :: "json \<Rightarrow> json \<Rightarrow> bool"

type_synonym 'a node_prog = "node_state \<Rightarrow> ('a may_throw \<times> node_state) ended option"

definition nret :: "'a \<Rightarrow> 'a node_prog" where
  "nret v s = Some (Ends (Inr v, s))"

definition nthrow :: "cpp_exn \<Rightarrow> 'a node_prog" where
  "nthrow e s = Some (Ends (Inl e, s))"

definition nundefined :: "'a node_prog" where
  "nundefined s = Some Undefined_end"

text \<open>What happens behind a program that ended in some way.\<close>

definition at_end ::
    "('a may_throw \<times> node_state \<Rightarrow> ('b may_throw \<times> node_state) ended option) \<Rightarrow>
     ('a may_throw \<times> node_state) ended option \<Rightarrow> ('b may_throw \<times> node_state) ended option" where
  "at_end k r =
     (case r of
        None \<Rightarrow> None
      | Some Undefined_end \<Rightarrow> Some Undefined_end
      | Some Terminates \<Rightarrow> Some Terminates
      | Some (Ends x) \<Rightarrow> k x)"

definition nbind :: "'a node_prog \<Rightarrow> ('a \<Rightarrow> 'b node_prog) \<Rightarrow> 'b node_prog" where
  "nbind m f s = at_end (\<lambda>(r, s'). case r of Inl e \<Rightarrow> nthrow e s' | Inr v \<Rightarrow> f v s') (m s)"

text \<open>\<open>try ... catch\<close> with the handler for the exceptions that pass the test.\<close>

definition ncatch :: "'a node_prog \<Rightarrow> (cpp_exn \<Rightarrow> bool) \<Rightarrow> 'a node_prog \<Rightarrow> 'a node_prog" where
  "ncatch m test h s =
     at_end (\<lambda>(r, s'). case r of Inl e \<Rightarrow> (if test e then h s' else nthrow e s') | Inr v \<Rightarrow> nret v s') (m s)"

primrec nfor :: "'x list \<Rightarrow> ('x \<Rightarrow> unit node_prog) \<Rightarrow> unit node_prog" where
  "nfor [] f = nret ()"
| "nfor (x # xs) f = nbind (f x) (\<lambda>_. nfor xs f)"

primrec nmap :: "('x \<Rightarrow> 'y node_prog) \<Rightarrow> 'x list \<Rightarrow> 'y list node_prog" where
  "nmap f [] = nret []"
| "nmap f (x # xs) = nbind (f x) (\<lambda>y. nbind (nmap f xs) (\<lambda>ys. nret (y # ys)))"

text \<open>An operation of the entities.\<close>

definition on_world :: "'a act \<Rightarrow> 'a node_prog" where
  "on_world m s =
     (case m (node_world s) of
        None \<Rightarrow> None
      | Some (r, w) \<Rightarrow> Some (Ends (r, s\<lparr>node_world := w\<rparr>)))"

text \<open>A message or a payload put into the response; when it throws the response stays.\<close>

definition on_ctx :: "(redfish_context \<Rightarrow> redfish_context may_throw) \<Rightarrow> unit node_prog" where
  "on_ctx f s =
     (case f (node_ctx s) of
        Inl e \<Rightarrow> nthrow e s
      | Inr c \<Rightarrow> nret () (s\<lparr>node_ctx := c\<rparr>))"

definition add_payload :: "node_env \<Rightarrow> string \<Rightarrow> json \<Rightarrow> unit node_prog" where
  "add_payload ne key j =
     on_ctx (\<lambda>c. map_sum id (\<lambda>r. c\<lparr>ctx_response := r\<rparr>) (add (dump_of ne) key j (ctx_response c)))"

definition set_status :: "code \<Rightarrow> unit node_prog" where
  "set_status st =
     on_ctx (\<lambda>c. Inr (c\<lparr>ctx_response := ctx_response c\<lparr>base := setStatus st (base (ctx_response c))\<rparr>\<rparr>))"

definition path_of :: "node_state \<Rightarrow> string list" where
  "path_of s = pathInfo (env (ctx_request (node_ctx s)))"

section \<open>Instances and parameters\<close>

text \<open>\<open>getInstances (entity, conditions)\<close>\<close>

definition ctx_getInstances ::
    "node_env \<Rightarrow> nat \<Rightarrow> condition option list \<Rightarrow> entity_instance list node_prog" where
  "ctx_getInstances ne e conditions s =
     (let plain = on_world (getInstances (entity_fuel ne) (entity_env_of ne) e conditions)
      in case parameterCtx s of
           None \<Rightarrow> plain s
         | Some (i, p) \<Rightarrow>
             (let w = node_world s;
                  relation = getRelation (entity_name (entities w e)) p w;
                  isSameEntity = (entity_name (entities w p) = entity_name (entities w e))
              in if isSameEntity \<and> relation = None
                 then nret (if conditions_pass conditions i then [i] else []) s
                 else case relation of
                        Some r \<Rightarrow>
                          nbind (on_world (getRelatedInstances (entity_fuel ne) (entity_env_of ne)
                                   (Some r) conditions False i))
                            (\<lambda>is. nret (if is = [] \<and> isSameEntity then [i] else is)) s
                      | None \<Rightarrow> plain s))"

text \<open>\<open>getInstances<TEntity>\<close>, the entity being looked up by its name.\<close>

definition named_getInstances ::
    "node_env \<Rightarrow> string \<Rightarrow> condition option list \<Rightarrow> entity_instance list node_prog" where
  "named_getInstances ne name conditions =
     nbind (on_world (getEntity (entity_fuel ne) (entity_env_of ne) name))
       (\<lambda>e. ctx_getInstances ne e conditions)"

definition verifyParameter ::
    "node_env \<Rightarrow> string \<Rightarrow> condition option list \<Rightarrow> string \<Rightarrow> bool node_prog" where
  "verifyParameter ne name conditions paramValue =
     nbind (on_world (getEntity (entity_fuel ne) (entity_env_of ne) name)) (\<lambda>e.
     nbind (named_getInstances ne name conditions) (\<lambda>is s.
       (case is of
          [] \<Rightarrow> nret False s
        | i # _ \<Rightarrow>
            nret True (s\<lparr>parameterCtx := Some (i, e),
                         parameters := om_assign paramValue (Some (i, e)) (parameters s)\<rparr>))))"

text \<open>\<open>parameters.at (name).getInstance ()\<close>; the pointer may be null.\<close>

definition getParameterInstance :: "string \<Rightarrow> entity_instance option node_prog" where
  "getParameterInstance name s =
     (case map_of (parameters s) name of
        None \<Rightarrow> nthrow Out_of_range s
      | Some p \<Rightarrow> nret (map_option fst p) s)"

text \<open>The copy of a context, with the program that runs on it and its destruction, behind
  which the old context is back.\<close>

definition with_mock_context :: "node_env \<Rightarrow> string option \<Rightarrow> 'a node_prog \<Rightarrow> 'a node_prog" where
  "with_mock_context ne segment m s =
     (let c = copy_context (node_ctx s);
          mock = (case segment of None \<Rightarrow> c | Some seg \<Rightarrow> addAnchorSegment seg c)
      in at_end (\<lambda>(r, s').
           (case destroy_context (dump_of ne) (to_chars_of ne) (node_ctx s') of
              Undefined_end \<Rightarrow> Some Undefined_end
            | Terminates \<Rightarrow> Some Terminates
            | Ends _ \<Rightarrow>
                Some (Ends (r, s'\<lparr>node_ctx := node_ctx s, parameterCtx := parameterCtx s,
                                  parameters := parameters s\<rparr>))))
         (m (s\<lparr>node_ctx := mock\<rparr>)))"

section \<open>Laws\<close>

text \<open>How a program that ended goes on, for the proofs about nodes.\<close>

named_theorems node_prog

lemma at_end_simps [simp]:
  "at_end k None = None" "at_end k (Some Undefined_end) = Some Undefined_end"
  "at_end k (Some Terminates) = Some Terminates" "at_end k (Some (Ends x)) = k x"
  by (simp_all add: at_end_def)

lemma nbind_simps [node_prog]:
  "nbind (nret v) f s = f v s"
  "nbind (nthrow e) f s = Some (Ends (Inl e, s))"
  "m s = Some (Ends (Inr v, s')) \<Longrightarrow> nbind m f s = f v s'"
  "m s = Some (Ends (Inl e, s')) \<Longrightarrow> nbind m f s = Some (Ends (Inl e, s'))"
  by (simp_all add: nbind_def nret_def nthrow_def)

lemma nbind_nret: "m s = nret v s' \<Longrightarrow> nbind m f s = f v s'"
  by (simp add: nbind_def nret_def)

lemma nbind_ended:
  assumes "nbind m f s = Some (Ends (r, s'))"
  shows "(\<exists>e. m s = Some (Ends (Inl e, s')) \<and> r = Inl e) \<or>
         (\<exists>v s1. m s = Some (Ends (Inr v, s1)) \<and> f v s1 = Some (Ends (r, s')))"
  using assms
  by (auto simp: nbind_def at_end_def nthrow_def split: option.splits ended.splits sum.splits)

end
