(* ===== verification/Redfish_Node.thy ===== *)
theory Redfish_Node
  imports Redfish_Context
begin

text \<open>
  \<open>src/core/route/redfish/node.hpp\<close>, first part, with \<open>router.hpp\<close> and \<open>redfish_root.hpp\<close>:
  the tree of nodes, the resolution of a URI to a node, the methods of a node, and the
  handler of a Redfish request.
  The nodes themselves are generated from \<open>tools/redfish-gen\<close>: a \<open>node\<close> has what their
  templates give a class, that is the prefix, the segment or parameter, the methods and the
  list of child classes.
\<close>

section \<open>Nodes\<close>

text \<open>A parameter matches one literal (\<open>node.dynamic.static.mako\<close>), or a field of the
  instances of an entity that pass some more conditions (\<open>node.dynamic.entity.mako\<close>).\<close>

datatype node_parameter =
    Static_value string
  | Entity_value (param_entity: string) (parameterField: string)
      (param_conditions: "condition option list") (parameterValue: string)

datatype node_segment = Segment string | Parameter node_parameter

record node_methods =
  methodHead :: "unit node_prog"
  methodGet :: "unit node_prog"
  methodPost :: "unit node_prog"
  methodPut :: "unit node_prog"
  methodDelete :: "unit node_prog"
  methodOptions :: "unit node_prog"

datatype node =
  Node (uriPrefix: "string list option") (own_segment: node_segment) (node_methods: node_methods)
    (node_childs: "node list")

section \<open>Segments\<close>

text \<open>\<open>getConditions (ctx, value)\<close> of a node with a parameter.\<close>

definition parameter_conditions :: "node_parameter \<Rightarrow> string \<Rightarrow> condition option list" where
  "parameter_conditions p v =
     (case p of
        Static_value _ \<Rightarrow> []
      | Entity_value _ field conditions _ \<Rightarrow>
          Some (buildEqual field (FString (decodeUriSegment v))) # conditions)"

definition matchParameter :: "node_env \<Rightarrow> node_parameter \<Rightarrow> string \<Rightarrow> bool node_prog" where
  "matchParameter ne p v =
     (case p of
        Static_value literal \<Rightarrow> nret (v = literal)
      | Entity_value name _ _ value \<Rightarrow> verifyParameter ne name (parameter_conditions p v) value)"

text \<open>The loop over \<open>TNode::uriPrefix\<close> from a depth on: whether all segments are the path's.\<close>

fun prefix_matches :: "string list \<Rightarrow> string list \<Rightarrow> nat \<Rightarrow> bool" where
  "prefix_matches [] path index = True"
| "prefix_matches (prefix # prefixes) path index =
     (if length path \<le> index then False
      else if path ! index \<noteq> prefix then False
      else prefix_matches prefixes path (Suc index))"

text \<open>\<open>verifyStaticSegments\<close> with the depth it leaves behind.\<close>

definition verifyStaticSegments :: "string list \<Rightarrow> string list \<Rightarrow> nat \<Rightarrow> bool \<times> nat" where
  "verifyStaticSegments prefixes path depth =
     (if length path \<le> depth then (False, depth)
      else if \<not> prefix_matches prefixes path depth then (False, depth)
      else (let depth' = depth + length prefixes in (depth' < length path, depth')))"

text \<open>\<open>validateSegment\<close>: the depth is a reference and comes back changed.\<close>

definition validateSegment :: "node_env \<Rightarrow> node \<Rightarrow> nat \<Rightarrow> (bool \<times> nat) node_prog" where
  "validateSegment ne n depth s =
     (let path = path_of s
      in if length path \<le> depth then nret (False, depth) s
         else
           (let (ok, depth1) = (case uriPrefix n of
                                  None \<Rightarrow> (True, depth)
                                | Some prefixes \<Rightarrow> verifyStaticSegments prefixes path depth)
            in if \<not> ok then nret (False, depth1) s
               else case own_segment n of
                      Parameter p \<Rightarrow> nbind (matchParameter ne p (path ! depth1)) (\<lambda>b. nret (b, depth1)) s
                    | Segment seg \<Rightarrow> nret (path ! depth1 = seg, depth1) s))"

definition matchEntirePattern :: "nat \<Rightarrow> node_state \<Rightarrow> bool" where
  "matchEntirePattern depth s \<longleftrightarrow> Suc depth = length (path_of s)"

section \<open>Resolution\<close>

text \<open>The node of a URI; \<open>None\<close> is \<open>NodeNotFound\<close>. A child that is not the right one leaves
  its depth to the next.\<close>

function (sequential) uriResolver :: "node_env \<Rightarrow> node \<Rightarrow> nat \<Rightarrow> node option node_prog"
  and nextChildResolver :: "node_env \<Rightarrow> node list \<Rightarrow> nat \<Rightarrow> node option node_prog" where
  "uriResolver ne n depth =
     nbind (validateSegment ne n depth) (\<lambda>(ok, depth1) s.
       if ok \<and> matchEntirePattern depth1 s then nret (Some n) s
       else if node_childs n = [] then nret None s
       else nextChildResolver ne (node_childs n) (Suc depth1) s)"
| "nextChildResolver ne [] depth = nret None"
| "nextChildResolver ne (c # cs) depth =
     nbind (validateSegment ne c depth) (\<lambda>(ok, depth1) s.
       if ok then (if matchEntirePattern depth1 s then nret (Some c) s else uriResolver ne c depth1 s)
       else nextChildResolver ne cs depth1 s)"
  by pat_completeness auto

text \<open>The recursion follows the tree: it ends for every path.\<close>

lemma size_node_childs: "Suc (2 * size_list size (node_childs n)) < 2 * size n"
  by (cases n) simp

termination uriResolver
  by (relation "measure (case_sum (\<lambda>(ne, n, depth). 2 * size n) (\<lambda>(ne, ns, depth). Suc (2 * size_list size ns)))")
     (use size_node_childs in auto)

section \<open>Methods\<close>

definition not_allowed :: "unit node_prog" where
  "not_allowed = on_ctx methodNotAllowed"

text \<open>The virtual methods as \<open>Node\<close> defines them, with what \<open>methodGet\<close> runs.\<close>

definition default_methods :: "unit node_prog \<Rightarrow> node_methods" where
  "default_methods get = \<lparr>methodHead = not_allowed, methodGet = get, methodPost = not_allowed,
     methodPut = not_allowed, methodDelete = not_allowed, methodOptions = not_allowed\<rparr>"

definition process_node :: "node \<Rightarrow> unit node_prog" where
  "process_node n s =
     (case requestMethod (env (ctx_request (node_ctx s))) of
        HEAD \<Rightarrow> methodHead (node_methods n) s
      | GET \<Rightarrow> methodGet (node_methods n) s
      | POST \<Rightarrow> methodPost (node_methods n) s
      | PUT \<Rightarrow> methodPut (node_methods n) s
      | DELETE \<Rightarrow> methodDelete (node_methods n) s
      | OPTIONS \<Rightarrow> methodOptions (node_methods n) s
      | _ \<Rightarrow> not_allowed s)"

text \<open>\<open>NodeNotFound::process\<close> for no node.\<close>

definition process_resolved :: "node option \<Rightarrow> unit node_prog" where
  "process_resolved n = (case n of None \<Rightarrow> on_ctx uriNotFound | Some n \<Rightarrow> process_node n)"

section \<open>The handler\<close>

text \<open>The context is new, and destroyed when \<open>run\<close> returns or throws.\<close>

definition run_context :: "session_request \<Rightarrow> entity_world \<Rightarrow> node_state" where
  "run_context request w =
     \<lparr>node_ctx = (let c = new_context request
                   in c\<lparr>ctx_response := ctx_response c\<lparr>base :=
                        setContentType applicationJson (setStatus BadRequest (base (ctx_response c)))\<rparr>\<rparr>),
      parameterCtx = None, parameters = [], node_world = w\<rparr>"

definition redfish_body :: "node_env \<Rightarrow> node \<Rightarrow> unit node_prog" where
  "redfish_body ne root =
     ncatch (nbind (uriResolver ne root 0) process_resolved) (\<lambda>_. True) (on_ctx internalError)"

definition run_redfish ::
    "node_env \<Rightarrow> node \<Rightarrow> session_request \<Rightarrow> entity_world \<Rightarrow>
     (redfish_response may_throw \<times> entity_world) ended option" where
  "run_redfish ne root request w =
     (case redfish_body ne root (run_context request w) of
        None \<Rightarrow> None
      | Some Undefined_end \<Rightarrow> Some Undefined_end
      | Some Terminates \<Rightarrow> Some Terminates
      | Some (Ends (r, s)) \<Rightarrow>
          (case destroy_context (dump_of ne) (to_chars_of ne) (node_ctx s) of
             Undefined_end \<Rightarrow> Some Undefined_end
           | Terminates \<Rightarrow> Some Terminates
           | Ends response \<Rightarrow> Some (Ends (map_sum id (\<lambda>_. response) r, node_world s))))"

text \<open>\<open>RedfishRootNode\<close>: its segment, and its \<open>methodGet\<close> around the inherited one.\<close>

definition root_segment :: string where
  "root_segment = ''redfish''"

definition root_methodGet :: "unit node_prog \<Rightarrow> unit node_prog" where
  "root_methodGet getters =
     ncatch (nbind (set_status OK) (\<lambda>_. getters)) (\<lambda>_. True) (on_ctx internalError)"

definition searchRouteHandler :: "string list \<Rightarrow> bool" where
  "searchRouteHandler segments \<longleftrightarrow> segments \<noteq> [] \<and> segments ! 0 = root_segment"

section \<open>A node with a parameter\<close>

text \<open>\<open>ParameterizedNode\<close>: its value is the last segment; \<open>back ()\<close> of an empty path is
  undefined.\<close>

definition parameter_value :: "string node_prog" where
  "parameter_value s = (if path_of s = [] then nundefined s else nret (last (path_of s)) s)"

definition getParameterValue :: "string node_prog" where
  "getParameterValue = nbind parameter_value (\<lambda>v. nret (decodeUriSegment v))"

definition getTargetInstance :: "node_env \<Rightarrow> node_parameter \<Rightarrow> entity_instance node_prog" where
  "getTargetInstance ne p =
     nbind parameter_value (\<lambda>v.
     nbind (named_getInstances ne (param_entity p) (parameter_conditions p v)) (\<lambda>is.
       case is of
         [] \<Rightarrow> nthrow (Runtime_error ''No instance found for requested node'')
       | i # _ \<Rightarrow> nret i))"

text \<open>\<open>getAllSegmentValues\<close>; it does not compile for a node with a static parameter.\<close>

definition getAllSegmentValues :: "node_env \<Rightarrow> node \<Rightarrow> string list node_prog" where
  "getAllSegmentValues ne n =
     (case own_segment n of
        Segment seg \<Rightarrow> nret [seg]
      | Parameter (Static_value _) \<Rightarrow> nundefined
      | Parameter (Entity_value name field conditions _) \<Rightarrow>
          nbind (named_getInstances ne name conditions)
            (\<lambda>is. nret (map (\<lambda>i. encodeUriSegment (getStringValue (getField field i))) is)))"

text \<open>\<open>IStaticSegments::prefix\<close>\<close>

definition prefixed :: "string list \<Rightarrow> string \<Rightarrow> string" where
  "prefixed prefixes segment = concat (map (\<lambda>p. p @ ''/'') prefixes) @ segment"

end
