(* ===== verification/Field_Json.thy ===== *)
theory Field_Json
  imports Json Field
begin

text \<open>
  The value of a field as \<open>nlohmann::json\<close>: what its constructors make of the alternatives of
  the variant \<open>IInstance::FieldType\<close>, for the handlers that put it into a response.
\<close>

text \<open>A field's value as JSON.\<close>

fun field_json :: "field_value \<Rightarrow> json" where
  "field_json (Associations as) = JArray (map (\<lambda>(a, b, c). JArray [JString a, JString b, JString c]) as)"
| "field_json (Strings ss) = JArray (map JString ss)"
| "field_json (Doubles ds) = JArray (map JFloat ds)"
| "field_json (Ints is) = JArray (map (\<lambda>n. JInt (scast n)) is)"
| "field_json (FString s) = JString s"
| "field_json (FInt64 n) = JInt n"
| "field_json (FUint64 n) = JUint n"
| "field_json (FDouble d) = JFloat d"
| "field_json (FInt32 n) = JInt (scast n)"
| "field_json (FUint32 n) = JUint (ucast n)"
| "field_json (FInt16 n) = JInt (scast n)"
| "field_json (FUint16 n) = JUint (ucast n)"
| "field_json (FUint8 n) = JUint (ucast n)"
| "field_json (FBool b) = JBool b"
| "field_json FNull = JNull"

end
