(* ===== verification/Redfish_Getters.thy ===== *)
theory Redfish_Getters
  imports Redfish_Node Field_Json
begin

text \<open>
  \<open>src/core/route/redfish/node.hpp\<close>, second part: the actions that fill the payload of a
  response. An action is what \<open>IAction\<close> promises, \<open>process\<close> and \<open>getFieldName\<close>; what a generated
  class overrides (\<open>childs\<close>, \<open>getConditions\<close>, \<open>getParameterConditions\<close>, the cast of an
  enumeration) is an argument of the action's definition.
\<close>

record node_action =
  act_process :: "unit node_prog"
  getFieldName :: "string may_throw"

definition nameFieldODataID :: string where "nameFieldODataID = ''@odata.id''"
definition nameFieldODataCount :: string where "nameFieldODataCount = ''@odata.count''"
definition oemFieldName :: string where "oemFieldName = ''Oem''"

text \<open>The elements of a payload; a missing member of a constant value is undefined.\<close>

definition const_member :: "string \<Rightarrow> json \<Rightarrow> json node_prog" where
  "const_member key j =
     (case j of
        JObject m \<Rightarrow> (case map_of m key of Some v \<Rightarrow> nret v | None \<Rightarrow> nundefined)
      | _ \<Rightarrow> nthrow (Json_type_error 305))"

definition payload_now :: "json node_prog" where
  "payload_now s = nret (getJson (ctx_response (node_ctx s))) s"

definition internal_error :: "string may_throw \<Rightarrow> unit node_prog" where
  "internal_error field =
     (case field of Inl e \<Rightarrow> nthrow e | Inr f \<Rightarrow> on_ctx (internalError_property f))"

section \<open>Values\<close>

text \<open>\<open>FieldGetter\<close> of a value, or of what a function gives.\<close>

definition field_getter :: "node_env \<Rightarrow> string \<Rightarrow> json node_prog \<Rightarrow> node_action" where
  "field_getter ne field v = \<lparr>act_process = nbind v (add_payload ne field), getFieldName = Inr field\<rparr>"

definition string_getter :: "node_env \<Rightarrow> string \<Rightarrow> string \<Rightarrow> node_action" where
  "string_getter ne field v = field_getter ne field (nret (JString v))"

text \<open>\<open>EnumGetter\<close> with its \<open>castEnumToString\<close>.\<close>

definition enum_getter :: "node_env \<Rightarrow> (32 word \<Rightarrow> string may_throw) \<Rightarrow> string \<Rightarrow> 32 word \<Rightarrow> node_action" where
  "enum_getter ne cast field v =
     \<lparr>act_process = ncatch
        (case cast v of Inl e \<Rightarrow> nthrow e | Inr s \<Rightarrow> add_payload ne field (JString s))
        (\<lambda>_. True) (add_payload ne field JNull),
      getFieldName = Inr field\<rparr>"

section \<open>Objects and collections\<close>

text \<open>\<open>ObjectGetter\<close>. The copied context is destroyed behind \<open>add\<close>; it makes no difference
  that it is here destroyed before.\<close>

definition object_getter :: "node_env \<Rightarrow> string \<Rightarrow> node_action list node_prog \<Rightarrow> node_action" where
  "object_getter ne field childs =
     \<lparr>act_process =
        nbind (with_mock_context ne (Some field)
                 (nbind childs (\<lambda>as. nbind (nfor as act_process) (\<lambda>_. payload_now))))
          (\<lambda>result. if \<not> json_empty result then add_payload ne field result else nret ()),
      getFieldName = Inr field\<rparr>"

text \<open>\<open>std::sort\<close> by the order of JSON values.\<close>

fun insert_json :: "(json \<Rightarrow> json \<Rightarrow> bool) \<Rightarrow> json \<Rightarrow> json list \<Rightarrow> json list" where
  "insert_json lt x [] = [x]"
| "insert_json lt x (y # ys) = (if lt y x then y # insert_json lt x ys else x # y # ys)"

definition sort_json :: "(json \<Rightarrow> json \<Rightarrow> bool) \<Rightarrow> json list \<Rightarrow> json list" where
  "sort_json lt xs = foldr (insert_json lt) xs []"

definition collection_item :: "node_env \<Rightarrow> node_action \<Rightarrow> json node_prog" where
  "collection_item ne a =
     with_mock_context ne None
       (nbind (act_process a) (\<lambda>_. nbind payload_now (\<lambda>payload.
          case getFieldName a of Inl e \<Rightarrow> nthrow e | Inr f \<Rightarrow> const_member f payload)))"

definition static_collection_getter :: "node_env \<Rightarrow> string \<Rightarrow> node_action list node_prog \<Rightarrow> node_action" where
  "static_collection_getter ne field childs =
     \<lparr>act_process =
        nbind (with_mock_context ne (Some field) (nbind childs (nmap (collection_item ne))))
          (\<lambda>array. add_payload ne field (JArray (sort_json (json_less_of ne) array))),
      getFieldName = Inr field\<rparr>"

definition collection_size_annotation :: "node_env \<Rightarrow> string \<Rightarrow> node_action" where
  "collection_size_annotation ne field =
     \<lparr>act_process = nbind payload_now (\<lambda>payload. nbind (const_member field payload) (\<lambda>items.
        case items of
          JArray xs \<Rightarrow> add_payload ne (field @ nameFieldODataCount) (JUint (of_nat (length xs)))
        | _ \<Rightarrow> nthrow (Runtime_error ''Can't get collection size of none array type''))),
      getFieldName = Inr (field @ nameFieldODataCount)\<rparr>"

section \<open>Entities\<close>

definition entity_getter :: "node_action list node_prog \<Rightarrow> node_action" where
  "entity_getter childs =
     \<lparr>act_process = nbind childs (\<lambda>as. nfor as act_process),
      getFieldName = Inl (Runtime_error ''Not implemented'')\<rparr>"

definition lookup_entity :: "node_env \<Rightarrow> string \<Rightarrow> nat node_prog" where
  "lookup_entity ne name = on_world (getEntity (entity_fuel ne) (entity_env_of ne) name)"

text \<open>\<open>EntityGetter<TEntity>::getInstances<TSource>\<close>; the two entities by their names.\<close>

definition entity_instances ::
    "node_env \<Rightarrow> string \<Rightarrow> string \<Rightarrow> entity_instance option \<Rightarrow> condition option list \<Rightarrow>
     entity_instance list node_prog" where
  "entity_instances ne name source_name parent conditions =
     (let all = nbind (lookup_entity ne name)
                  (\<lambda>e. on_world (getInstances (entity_fuel ne) (entity_env_of ne) e conditions))
      in case parent of
           None \<Rightarrow> all
         | Some p \<Rightarrow>
             (if name = source_name then nret [p]
              else nbind (lookup_entity ne source_name) (\<lambda>pe.
                   nbind (lookup_entity ne name) (\<lambda>e s.
                     case getRelation (entity_name (entities (node_world s) e)) pe (node_world s) of
                       Some r \<Rightarrow> on_world (getRelatedInstances (entity_fuel ne) (entity_env_of ne)
                                             (Some r) conditions False p) s
                     | None \<Rightarrow> all s))))"

text \<open>The value visitor of \<open>ScalarFieldGetter\<close> leaves an empty string out.\<close>

definition scalar_visitor :: "node_env \<Rightarrow> string \<Rightarrow> field_value \<Rightarrow> unit node_prog" where
  "scalar_visitor ne field v = (if v = FString [] then nret () else add_payload ne field (field_json v))"

text \<open>The \<open>try\<close> of the field getters: whether it returned early.\<close>

definition visit_member ::
    "node_env \<Rightarrow> string \<Rightarrow> string \<Rightarrow> entity_instance option \<Rightarrow> (field_value \<Rightarrow> unit node_prog) \<Rightarrow>
     bool node_prog" where
  "visit_member ne name sourceField i visitor =
     nbind (lookup_entity ne name) (\<lambda>e.
     nbind (on_world (getMember (entity_fuel ne) e sourceField)) (\<lambda>member.
       case i of
         None \<Rightarrow> nret False
       | Some i \<Rightarrow>
           (let f = getField (member_name member) i
            in if isNull f then nret False else nbind (visitor (getValue f)) (\<lambda>_. nret True))))"

definition scalar_field_getter ::
    "node_env \<Rightarrow> string \<Rightarrow> string \<Rightarrow> string \<Rightarrow> entity_instance option \<Rightarrow> node_action" where
  "scalar_field_getter ne name field sourceField i =
     \<lparr>act_process =
        nbind (ncatch (visit_member ne name sourceField i (scalar_visitor ne field)) is_runtime_error
                 (nbind (internal_error (Inr field)) (\<lambda>_. nret False)))
          (\<lambda>returned. if returned then nret () else scalar_visitor ne field FNull),
      getFieldName = Inr field\<rparr>"

definition enum_visitor ::
    "node_env \<Rightarrow> (32 word \<Rightarrow> string may_throw) \<Rightarrow> string \<Rightarrow> string \<Rightarrow> field_value \<Rightarrow> unit node_prog" where
  "enum_visitor ne cast field sourceField v =
     (case v of
        FInt32 n \<Rightarrow> act_process (enum_getter ne cast field n)
      | FNull \<Rightarrow> add_payload ne field JNull
      | _ \<Rightarrow> nthrow (Runtime_error (''Unknown field type: '' @ sourceField)))"

definition enum_field_getter ::
    "node_env \<Rightarrow> (32 word \<Rightarrow> string may_throw) \<Rightarrow> string \<Rightarrow> string \<Rightarrow> string \<Rightarrow>
     entity_instance option \<Rightarrow> node_action" where
  "enum_field_getter ne cast name field sourceField i =
     \<lparr>act_process =
        nbind (ncatch (visit_member ne name sourceField i (enum_visitor ne cast field sourceField)) (\<lambda>_. True)
                 (nbind (internal_error (Inr field)) (\<lambda>_. nret False)))
          (\<lambda>returned. if returned then nret () else enum_visitor ne cast field sourceField FNull),
      getFieldName = Inr field\<rparr>"

text \<open>The elements of a list that a getter for elements of a type takes; any other value has none.\<close>

definition list_elements :: "value_type \<Rightarrow> field_value \<Rightarrow> field_value list" where
  "list_elements t v =
     (case v of
        Strings ss \<Rightarrow> if t = T_string then map FString ss else []
      | Doubles ds \<Rightarrow> if t = T_double then map FDouble ds else []
      | Ints is \<Rightarrow> if t = T_int32 then map FInt32 is else []
      | _ \<Rightarrow> [])"

text \<open>\<open>ListFieldGetter\<close>; nothing in its \<open>try\<close> throws, and its instance is never null.\<close>

definition list_field_getter ::
    "node_env \<Rightarrow> value_type \<Rightarrow> (string \<Rightarrow> field_value \<Rightarrow> node_action) \<Rightarrow> string \<Rightarrow> string \<Rightarrow>
     entity_instance \<Rightarrow> node_action" where
  "list_field_getter ne t sub field sourceField i =
     static_collection_getter ne field
       (nret (map (sub field) (list_elements t (getValue (getField sourceField i)))))"

text \<open>\<open>addGetter\<close> makes a getter for the first instance, or reports the field.\<close>

definition addGetter ::
    "entity_instance list node_prog \<Rightarrow> string \<Rightarrow> (entity_instance \<Rightarrow> node_action) \<Rightarrow> node_action list \<Rightarrow>
     node_action list node_prog" where
  "addGetter get field mk handlers =
     nbind get (\<lambda>is.
       case is of
         [] \<Rightarrow> nbind (internal_error (Inr field)) (\<lambda>_. nret handlers)
       | i # _ \<Rightarrow> nret (handlers @ [mk i]))"

text \<open>\<open>CollectionGetter\<close> with the fragment made for an index and an instance.\<close>

definition collection_getter ::
    "node_env \<Rightarrow> (string \<Rightarrow> entity_instance \<Rightarrow> node_action) \<Rightarrow> string \<Rightarrow> string \<Rightarrow> string \<Rightarrow>
     entity_instance option \<Rightarrow> condition option list \<Rightarrow> node_action" where
  "collection_getter ne fragment field name source_name parent conditions =
     static_collection_getter ne field
       (nbind (entity_instances ne name source_name parent conditions)
          (\<lambda>is. nret (map (\<lambda>(n, i). fragment (dec_nat n) i) (enumerate 0 is))))"

section \<open>Links\<close>

text \<open>A parameter of a template: entity, member, conditions, and the instance when it is known.\<close>

record link_parameter =
  link_entity :: nat
  link_member :: string
  link_conditions :: "condition option list"
  link_instance :: "entity_instance option"

type_synonym resolved = "(string, entity_instance \<times> nat) omap"

text \<open>\<open>std::string::find\<close>\<close>

fun find_text :: "string \<Rightarrow> string \<Rightarrow> nat option" where
  "find_text pattern [] = (if pattern = [] then Some 0 else None)"
| "find_text pattern (c # s) =
     (if take (length pattern) (c # s) = pattern then Some 0
      else map_option Suc (find_text pattern s))"

definition formatTemplate :: "string \<Rightarrow> string \<Rightarrow> string \<Rightarrow> string may_throw" where
  "formatTemplate tmpl param v =
     (case find_text param tmpl of
        None \<Rightarrow> Inl (Runtime_error ''Defined parameter not found in the specfifed template'')
      | Some pos \<Rightarrow> Inr (take pos tmpl @ v @ drop (pos + length param) tmpl))"

fun resolve_instances ::
    "string \<Rightarrow> string \<Rightarrow> link_parameter \<Rightarrow> entity_instance list \<Rightarrow> resolved \<Rightarrow> resolved may_throw" where
  "resolve_instances tmpl braced p [] current = Inr current"
| "resolve_instances tmpl braced p (i # is) current =
     (case formatTemplate tmpl braced (encodeUriSegment (getStringValue (getField (link_member p) i))) of
        Inl e \<Rightarrow> Inl e
      | Inr formatted \<Rightarrow>
          resolve_instances tmpl braced p is (om_emplace formatted (i, link_entity p) current))"

definition resolveParameter ::
    "string \<Rightarrow> string \<Rightarrow> link_parameter \<Rightarrow> entity_instance list \<Rightarrow> resolved node_prog" where
  "resolveParameter tmpl param p is =
     (case resolve_instances tmpl (''{'' @ param @ ''}'') p is [] of
        Inl e \<Rightarrow> nthrow e
      | Inr r \<Rightarrow> nret r)"

text \<open>The instances for a parameter: the first one's come from the context, a later one's from
  the relation of the entity resolved before.\<close>

definition first_instances :: "node_env \<Rightarrow> link_parameter \<Rightarrow> entity_instance list node_prog" where
  "first_instances ne p =
     (case link_instance p of
        Some i \<Rightarrow> nret [i]
      | None \<Rightarrow> ctx_getInstances ne (link_entity p) (link_conditions p))"

definition later_instances ::
    "node_env \<Rightarrow> link_parameter \<Rightarrow> entity_instance \<times> nat \<Rightarrow> entity_instance list node_prog" where
  "later_instances ne p context s =
     (case link_instance p of
        Some i \<Rightarrow> nret [i] s
      | None \<Rightarrow>
          (case getRelation (entity_name (entities (node_world s) (link_entity p))) (snd context) (node_world s) of
             None \<Rightarrow> on_world (getInstances (entity_fuel ne) (entity_env_of ne) (link_entity p) (link_conditions p)) s
           | Some r \<Rightarrow> on_world (getRelatedInstances (entity_fuel ne) (entity_env_of ne) (Some r)
                                   (link_conditions p) False (fst context)) s))"

primrec merge_templates ::
    "node_env \<Rightarrow> string \<Rightarrow> link_parameter \<Rightarrow> resolved \<Rightarrow> resolved \<Rightarrow> resolved node_prog" where
  "merge_templates ne param p [] current = nret current"
| "merge_templates ne param p (tc # tcs) current =
     nbind (later_instances ne p (snd tc)) (\<lambda>is.
     nbind (resolveParameter (fst tc) param p is) (\<lambda>r.
       merge_templates ne param p tcs (om.emplace_all r current)))"

text \<open>The loop over the parameters. No template left counts as the first round.\<close>

primrec resolve_loop ::
    "node_env \<Rightarrow> string \<Rightarrow> (string \<times> link_parameter) list \<Rightarrow> resolved \<Rightarrow> string list node_prog" where
  "resolve_loop ne uriTmpl [] partial = nret (map fst partial)"
| "resolve_loop ne uriTmpl (x # xs) partial =
     (if partial = [] then
        nbind (first_instances ne (snd x)) (\<lambda>is.
        nbind (resolveParameter uriTmpl (fst x) (snd x) is) (\<lambda>current.
          if current = [] then nret [] else resolve_loop ne uriTmpl xs current))
      else
        nbind (merge_templates ne (fst x) (snd x) partial []) (\<lambda>current.
          resolve_loop ne uriTmpl xs current))"

definition resolveTemplate ::
    "node_env \<Rightarrow> string \<Rightarrow> (string, link_parameter) omap \<Rightarrow> string list node_prog" where
  "resolveTemplate ne uriTmpl resolvers =
     (if resolvers = [] then nret [uriTmpl] else resolve_loop ne uriTmpl resolvers [])"

definition link_object_getter ::
    "node_env \<Rightarrow> string \<Rightarrow> string \<Rightarrow> (string, link_parameter) omap node_prog \<Rightarrow> node_action" where
  "link_object_getter ne field uriTmpl params =
     object_getter ne field
       (nbind params (\<lambda>resolvers. nbind (resolveTemplate ne uriTmpl resolvers) (\<lambda>uris.
          case uris of
            [] \<Rightarrow> nbind (internal_error (Inr field)) (\<lambda>_. nret [])
          | uri # _ \<Rightarrow> nret [string_getter ne nameFieldODataID uri])))"

definition link_ref_object :: "node_env \<Rightarrow> string \<Rightarrow> node_action" where
  "link_ref_object ne uri =
     object_getter ne nameFieldODataID (nret [string_getter ne nameFieldODataID uri])"

definition link_collection_getter ::
    "node_env \<Rightarrow> string \<Rightarrow> string \<Rightarrow> (string, link_parameter) omap node_prog \<Rightarrow> node_action" where
  "link_collection_getter ne field uriTmpl params =
     static_collection_getter ne field
       (nbind params (\<lambda>resolvers. nbind (resolveTemplate ne uriTmpl resolvers) (\<lambda>uris.
          nret (map (link_ref_object ne) uris))))"

definition links_getter :: "node_env \<Rightarrow> string \<Rightarrow> node_action list \<Rightarrow> node_action" where
  "links_getter ne field links = object_getter ne field (nret links)"

definition oem_getter :: "node_env \<Rightarrow> entity_instance option \<Rightarrow> (entity_instance option \<Rightarrow> node_action) list \<Rightarrow> node_action" where
  "oem_getter ne i childs = object_getter ne oemFieldName (nret (map (\<lambda>c. c i) childs))"

text \<open>\<open>IdReference\<close>; its URI goes through a C string.\<close>

definition id_reference :: "node_env \<Rightarrow> string \<Rightarrow> string \<Rightarrow> node_action" where
  "id_reference ne name segment =
     object_getter ne name
       (\<lambda>s. nret [string_getter ne nameFieldODataID
                    (c_str (getUriPath (ctx_request (node_ctx s)) @ segment))] s)"

definition addReference :: "node_env \<Rightarrow> string \<Rightarrow> node \<Rightarrow> node_action list node_prog" where
  "addReference ne field n =
     nbind (getAllSegmentValues ne n) (\<lambda>segments.
       nret (map (\<lambda>segment. id_reference ne field
                    (case uriPrefix n of None \<Rightarrow> segment | Some ps \<Rightarrow> prefixed ps segment)) segments))"

definition list_references :: "node_env \<Rightarrow> string \<Rightarrow> node list \<Rightarrow> node_action" where
  "list_references ne field ns =
     static_collection_getter ne field
       (nbind (nmap (addReference ne field) ns) (\<lambda>ass. nret (concat ass)))"

section \<open>The fields of a node\<close>

text \<open>\<open>Node::methodGet\<close>, the one of a generated node, and that of the root.\<close>

definition base_methodGet :: "node_action list \<Rightarrow> unit node_prog" where
  "base_methodGet getters = nfor getters act_process"

definition generated_methodGet :: "node_action list \<Rightarrow> unit node_prog" where
  "generated_methodGet getters = nbind (set_status OK) (\<lambda>_. base_methodGet getters)"

definition redfish_root :: "node_env \<Rightarrow> node \<Rightarrow> node" where
  "redfish_root ne v1 =
     Node None (Segment root_segment)
       (default_methods (root_methodGet (base_methodGet [string_getter ne ''v1'' ''/redfish/v1/'']))) [v1]"

definition getOdataId :: "string node_prog" where
  "getOdataId s = nret (getUriPath (ctx_request (node_ctx s))) s"

end
