(* ===== verification/Redfish_Node_Facts.thy ===== *)
theory Redfish_Node_Facts
  imports Redfish_Getters
begin

text \<open>
  The resolution of URIs against a walk along the tree: what a path leads to when every
  node is entered by its words (prefix and segment).
\<close>

section \<open>A walk along the tree\<close>

definition literal :: "node_segment \<Rightarrow> bool" where
  "literal seg \<longleftrightarrow> (case seg of Segment _ \<Rightarrow> True | Parameter (Static_value _) \<Rightarrow> True | _ \<Rightarrow> False)"

definition word_of :: "node_segment \<Rightarrow> string" where
  "word_of seg = (case seg of Segment t \<Rightarrow> t | Parameter (Static_value t) \<Rightarrow> t | Parameter p \<Rightarrow> parameterValue p)"

definition words :: "node \<Rightarrow> string list" where
  "words n = (case uriPrefix n of None \<Rightarrow> [] | Some ps \<Rightarrow> ps) @ [word_of (own_segment n)]"

function (sequential) follow :: "node \<Rightarrow> string list \<Rightarrow> node option"
  and follow_childs :: "node list \<Rightarrow> string list \<Rightarrow> node option" where
  "follow n path = (if path = [] then Some n else follow_childs (node_childs n) path)"
| "follow_childs [] path = None"
| "follow_childs (c # cs) path =
     (if take (length (words c)) path = words c then follow c (drop (length (words c)) path)
      else follow_childs cs path)"
  by pat_completeness auto

termination follow
  by (relation "measure (case_sum (\<lambda>(n, path). 2 * size n) (\<lambda>(ns, path). Suc (2 * size_list size ns)))")
     (use size_node_childs in auto)

text \<open>Trees of literals in which a node with a prefix is the last of its siblings, and the
  prefix does not start with the node's own word.\<close>

definition placed :: "node \<Rightarrow> node list \<Rightarrow> bool" where
  "placed n later \<longleftrightarrow>
     (case uriPrefix n of
        None \<Rightarrow> True
      | Some ps \<Rightarrow> later = [] \<and> ps \<noteq> [] \<and> hd ps \<noteq> word_of (own_segment n))"

function (sequential) literal_tree :: "node \<Rightarrow> bool" and literal_trees :: "node list \<Rightarrow> bool" where
  "literal_tree n \<longleftrightarrow> literal (own_segment n) \<and> literal_trees (node_childs n)"
| "literal_trees [] \<longleftrightarrow> True"
| "literal_trees (c # cs) \<longleftrightarrow> placed c cs \<and> literal_tree c \<and> literal_trees cs"
  by pat_completeness auto

termination literal_tree
  by (relation "measure (case_sum (\<lambda>n. 2 * size n) (\<lambda>ns. Suc (2 * size_list size ns)))")
     (use size_node_childs in auto)

declare follow.simps [simp del] literal_tree.simps [simp del] uriResolver.simps [simp del]

section \<open>Segments\<close>

lemma literal_matchParameter:
  "literal (Parameter p) \<Longrightarrow> matchParameter ne p v = nret (v = word_of (Parameter p))"
  by (auto simp: literal_def matchParameter_def word_of_def split: node_parameter.splits)

lemma literal_segment:
  fixes d :: nat
  assumes "literal seg"
  shows "(case seg of Segment t \<Rightarrow> nret (x = t, d) s | Parameter p \<Rightarrow> nbind (matchParameter ne p x) (\<lambda>b. nret (b, d)) s) =
    nret (x = word_of seg, d) s"
  using assms by (cases seg) (simp_all add: literal_matchParameter node_prog, simp add: word_of_def)

lemma prefix_matches_take: "prefix_matches ps path d \<longleftrightarrow> take (length ps) (drop d path) = ps"
proof (induction ps arbitrary: d)
  case Nil
  then show ?case by simp
next
  case (Cons p ps)
  show ?case
  proof (cases "d < length path")
    case True
    then have "drop d path = path ! d # drop (Suc d) path" by (rule Cons_nth_drop_Suc [symmetric])
    with True Cons.IH [of "Suc d"] show ?thesis by auto
  qed simp
qed

lemma take_snoc: "take (Suc (length ps)) xs = ps @ [w] \<longleftrightarrow>
    take (length ps) xs = ps \<and> length ps < length xs \<and> xs ! length ps = w"
  by (cases "length ps < length xs") (auto simp: take_Suc_conv_app_nth)

text \<open>A literal node's segment is valid when the path goes on with its words; the depth is then
  that of the last word.\<close>

lemma validate_literal:
  assumes "literal (own_segment n)"
  shows "\<exists>d1. validateSegment ne n d s = nret (take (length (words n)) (drop d (path_of s)) = words n, d1) s \<and>
    (take (length (words n)) (drop d (path_of s)) = words n \<longrightarrow> Suc d1 = d + length (words n)) \<and>
    (uriPrefix n = None \<longrightarrow> d1 = d)"
proof (cases "uriPrefix n")
  case None
  with literal_segment [OF assms] show ?thesis
    by (auto simp: validateSegment_def Let_def words_def take_snoc [of "[]", simplified]
        nth_append hd_drop_conv_nth)
next
  case (Some ps)
  let ?p = "path_of s"
  have w: "take (length (words n)) (drop d ?p) = words n \<longleftrightarrow>
      take (length ps) (drop d ?p) = ps \<and> d + length ps < length ?p \<and> ?p ! (d + length ps) = word_of (own_segment n)"
    using Some by (auto simp: words_def take_snoc)
  with Some literal_segment [OF assms] show ?thesis
    by (cases "length ?p \<le> d")
       (auto simp: validateSegment_def verifyStaticSegments_def Let_def prefix_matches_take words_def)
qed

section \<open>Resolution\<close>

text \<open>Behind its own words a node is not entered a second time, so its children are asked.\<close>

lemma again_at_word:
  assumes "literal (own_segment n)" "placed n later" "path_of s ! d = word_of (own_segment n)"
    and "Suc d < length (path_of s)"
  shows "uriResolver ne n d s =
    (if node_childs n = [] then nret None s else nextChildResolver ne (node_childs n) (Suc d) s)"
proof (cases "uriPrefix n")
  case None
  with literal_segment [OF assms(1)] assms(3,4)
  have "validateSegment ne n d s = nret (True, d) s"
    by (simp add: validateSegment_def Let_def)
  then show ?thesis
    using assms(4) by (simp add: uriResolver.simps nbind_nret matchEntirePattern_def)
next
  case (Some ps)
  with assms(2) obtain q qs where "ps = q # qs" "q \<noteq> word_of (own_segment n)"
    by (cases ps) (auto simp: placed_def)
  with Some assms(3,4) have "validateSegment ne n d s = nret (False, d) s"
    by (simp add: validateSegment_def verifyStaticSegments_def Let_def)
  then show ?thesis
    by (simp add: uriResolver.simps nbind_nret)
qed

text \<open>The list of siblings from a depth on, and the children of a node.\<close>

lemma words_at:
  assumes "take (length (words n)) (drop d path) = words n"
  shows "d + length (words n) \<le> length path" "Suc d1 = d + length (words n) \<Longrightarrow> path ! d1 = word_of (own_segment n)"
proof -
  obtain ps where w: "words n = ps @ [word_of (own_segment n)]" by (simp add: words_def)
  with assms have "length ps < length (drop d path)" "drop d path ! length ps = word_of (own_segment n)"
    by (auto simp: take_snoc)
  with w show "d + length (words n) \<le> length path"
    "Suc d1 = d + length (words n) \<Longrightarrow> path ! d1 = word_of (own_segment n)" by auto
qed

lemma follow_no_childs: "node_childs n = [] \<Longrightarrow> path \<noteq> [] \<Longrightarrow> follow n path = None"
  by (simp add: follow.simps)

lemma resolve_literal_trees:
  "literal_tree n \<Longrightarrow>
     nextChildResolver ne (node_childs n) d s = nret (follow_childs (node_childs n) (drop d (path_of s))) s"
  "literal_trees cs \<Longrightarrow> nextChildResolver ne cs d s = nret (follow_childs cs (drop d (path_of s))) s"
proof (induction n and cs arbitrary: d and d rule: literal_tree_literal_trees.induct)
  case (1 n)
  then show ?case by (simp add: literal_tree.simps)
next
  case 2
  show ?case by simp
next
  case (3 c cs)
  let ?p = "path_of s"
  from "3.prems" have c: "literal (own_segment c)" "placed c cs" "literal_tree c" "literal_trees cs"
    by (simp_all add: literal_tree.simps)
  from validate_literal [OF c(1), of ne d s] obtain d1 where
    v: "validateSegment ne c d s = nret (take (length (words c)) (drop d ?p) = words c, d1) s"
    and d1: "take (length (words c)) (drop d ?p) = words c \<longrightarrow> Suc d1 = d + length (words c)"
    and plain: "uriPrefix c = None \<longrightarrow> d1 = d" by (elim exE conjE) (rule that)
  show ?case
  proof (cases "take (length (words c)) (drop d ?p) = words c")
    case True
    note entered = True
    with d1 have len: "Suc d1 \<le> length ?p" "?p ! d1 = word_of (own_segment c)"
      and rest: "drop (length (words c)) (drop d ?p) = drop (Suc d1) ?p"
      using words_at [OF True] by (auto simp: add.commute)
    show ?thesis
    proof (cases "Suc d1 = length ?p")
      case True
      with v entered rest show ?thesis by (simp add: nbind_nret matchEntirePattern_def follow.simps)
    next
      case False
      with len have "Suc d1 < length ?p" by simp
      with v entered rest again_at_word [OF c(1,2) len(2)] "3.IH"(1) [OF c(3)] False show ?thesis
        by (simp add: nbind_nret matchEntirePattern_def follow.simps [of c])
    qed
  next
    case False
    have "cs = [] \<or> d1 = d" using c(2) plain by (cases "uriPrefix c") (auto simp: placed_def)
    with v False "3.IH"(2) [OF c(4)] show ?thesis by (auto simp: nbind_nret)
  qed
qed

end
