(* ===== verification/Redfish_Node_Properties.thy ===== *)
theory Redfish_Node_Properties
  imports Redfish_Node_Facts Entity_Samples
begin

text \<open>
  What holds of the Redfish nodes: which node a URI resolves to, which instance a parameter
  stands for and which links lead back, what a request answers when something throws, and
  what a nested object does to the status of the response.
\<close>

section \<open>Parameters\<close>











section \<open>Contexts\<close>

text \<open>A program that keeps something keeps it behind each of its ends.\<close>

definition keeps :: "(node_state \<Rightarrow> 'b) \<Rightarrow> 'a node_prog \<Rightarrow> bool" where
  "keeps f m \<longleftrightarrow> (\<forall>s r s'. m s = Some (Ends (r, s')) \<longrightarrow> f s' = f s)"

definition state_status :: "node_state \<Rightarrow> code" where
  "state_status s = status (base (ctx_response (node_ctx s)))"

lemma keeps_nret [intro, simp]: "keeps f (nret v)"
  by (simp add: keeps_def nret_def)

lemma keeps_nbind [intro]:
  assumes "keeps f m" and "\<And>v. keeps f (k v)"
  shows "keeps f (nbind m k)"
  using assms by (fastforce simp: keeps_def dest!: nbind_ended)

lemma keeps_mock: "keeps node_ctx (with_mock_context ne seg m)"
  by (auto simp: keeps_def with_mock_context_def Let_def at_end_def split: option.splits ended.splits)

lemma keeps_status_mock: "keeps state_status (with_mock_context ne seg m)"
  using keeps_mock [of ne seg m] by (simp add: keeps_def state_status_def)

lemma map_sum_case: "map_sum id f x = (case x of Inl e \<Rightarrow> Inl e | Inr v \<Rightarrow> Inr (f v))"
  by (cases x) auto

lemma keeps_status_add: "keeps state_status (add_payload ne key j)"
  by (auto simp: keeps_def add_payload_def on_ctx_def state_status_def add_def with_payload_def nthrow_def nret_def
      map_sum_case split: sum.splits)



section \<open>Concrete inputs\<close>

definition sample_node_env :: node_env where
  "sample_node_env = \<lparr>entity_env_of = sample_entity_env, entity_fuel = 1, dump_of = (\<lambda>_. Inr []),
     to_chars_of = (\<lambda>_. []), json_less_of = (\<lambda>_ _. False)\<rparr>"

text \<open>The chassis are filled and known to the manager.\<close>

definition sample_node_world :: entity_world where
  "sample_node_world = sample_entity_world\<lparr>dictionary := [(''Chassis'', 1)],
     entities := sample_entities(1 := (sample_entities 1)\<lparr>source_of := CachedSource True False False,
       instances := [(1, text_instance ''c'' [(''Id'', ''main board'')]), (2, text_instance ''cd'' [(''Id'', ''riser_1'')])]\<rparr>)\<rparr>"

definition sample_get :: "string list \<Rightarrow> node_state" where
  "sample_get path = run_context (new_request (sample_env\<lparr>requestMethod := GET, pathInfo := path\<rparr>)) sample_node_world"

lemma sample_get_simps [simp]:
  "path_of (sample_get path) = path" "parameterCtx (sample_get path) = None"
  "parameters (sample_get path) = []" "node_world (sample_get path) = sample_node_world"
  by (simp_all add: sample_get_def run_context_def path_of_def new_context_def new_request_def Let_def)

lemma sample_not_pretty: "prettyOutput (ctx_response (node_ctx (sample_get path))) = False"
  "isBrowserRequest (ctx_request (node_ctx (sample_get path))) = False"
  by (simp_all add: sample_get_def run_context_def new_context_def new_request_def new_redfish_response_def
      isBrowserRequest_def sample_env_def splitToVector_no_delim Let_def)


text \<open>\<open>/redfish/v1/Actions/Reset\<close>\<close>

definition sample_reset :: node where
  "sample_reset = Node (Some [''Actions'']) (Segment ''Reset'') (default_methods (nret ())) []"

definition sample_tree :: node where
  "sample_tree = redfish_root sample_node_env (Node None (Segment ''v1'') (default_methods (nret ()))
     [Node None (Parameter (Static_value ''Systems'')) (default_methods (nret ())) [], sample_reset])"

section \<open>Properties\<close>

text \<open>C19: in a tree of nodes with literal segments, where a node with a prefix is the last of its
  siblings, a URI that starts with the root's segment resolves to the node that walking from
  the root along the words of the children leads to, and to \<open>NodeNotFound\<close> when it leads
  nowhere; nothing is changed on the way.\<close>

theorem uri_resolution:
  assumes "literal_tree root" and "uriPrefix root = None" and "path_of s \<noteq> []"
    and "hd (path_of s) = word_of (own_segment root)"
  shows "uriResolver ne root 0 s = nret (follow root (tl (path_of s))) s"
proof -
  have lit: "literal (own_segment root)" using assms(1) by (simp add: literal_tree.simps)
  have "path_of s ! 0 = word_of (own_segment root)" using assms(3,4) by (simp add: hd_conv_nth)
  with literal_segment [OF lit] assms(2,3) have v: "validateSegment ne root 0 s = nret (True, 0) s"
    by (simp add: validateSegment_def Let_def)
  have tl: "tl (path_of s) = drop (Suc 0) (path_of s)" by (cases "path_of s") simp_all
  show ?thesis
    using resolve_literal_trees(1) [OF assms(1), of ne "Suc 0" s] assms(3) v
    by (cases "path_of s") (auto simp: uriResolver.simps nbind_nret matchEntirePattern_def follow.simps [of root] tl)
qed

theorem uri_resolution_witness:
  "uriResolver sample_node_env sample_tree 0 (sample_get [''redfish'', ''v1'', ''Actions'', ''Reset'']) =
     nret (Some sample_reset) (sample_get [''redfish'', ''v1'', ''Actions'', ''Reset''])"
proof -
  have "literal_tree sample_tree"
    by (simp add: sample_tree_def sample_reset_def redfish_root_def literal_tree.simps literal_def placed_def word_of_def)
  moreover have "uriPrefix sample_tree = None" "word_of (own_segment sample_tree) = ''redfish''"
    by (simp_all add: sample_tree_def redfish_root_def root_segment_def word_of_def)
  ultimately have "uriResolver sample_node_env sample_tree 0 (sample_get [''redfish'', ''v1'', ''Actions'', ''Reset'']) =
      nret (follow sample_tree [''v1'', ''Actions'', ''Reset'']) (sample_get [''redfish'', ''v1'', ''Actions'', ''Reset''])"
    by (subst uri_resolution) simp_all
  also have "follow sample_tree [''v1'', ''Actions'', ''Reset''] = Some sample_reset"
    by (simp add: sample_tree_def sample_reset_def redfish_root_def follow.simps words_def word_of_def)
  finally show ?thesis .
qed







text \<open>Whatever the getters of a nested object report, the status of the response stays as it
  was: their context is a copy that is thrown away.\<close>

theorem object_getter_keeps_status:
  assumes "act_process (object_getter ne field childs) s = Some (Ends (r, s'))"
  shows "status (base (ctx_response (node_ctx s'))) = status (base (ctx_response (node_ctx s)))"
proof -
  have "keeps state_status (act_process (object_getter ne field childs))"
    by (auto simp: object_getter_def intro!: keeps_nbind keeps_status_mock keeps_status_add)
  with assms show ?thesis by (auto simp: keeps_def state_status_def)
qed

theorem object_getter_keeps_status_witness:
  "\<exists>s'. act_process (object_getter sample_node_env ''Links'' (nbind (internal_error (Inr ''Chassis'')) (\<lambda>_. nret [])))
      (sample_get [''redfish'']) = Some (Ends (Inr (), s')) \<and>
    status (base (ctx_response (node_ctx s'))) = BadRequest"
proof -
  let ?g = "object_getter sample_node_env ''Links'' (nbind (internal_error (Inr ''Chassis'')) (\<lambda>_. nret []))"
  have payload: "payload (ctx_response (node_ctx (sample_get [''redfish'']))) = JObject []"
    and before: "status (base (ctx_response (node_ctx (sample_get [''redfish''])))) = BadRequest"
    by (simp_all add: sample_get_def run_context_def new_context_def new_redfish_response_def setStatus_def
        setContentType_def Let_def)
  have "\<exists>s'. act_process ?g (sample_get [''redfish'']) = Some (Ends (Inr (), s'))"
    by (simp add: object_getter_def with_mock_context_def copy_context_def addAnchorSegment_def internal_error_def
        internalError_property_def respond_def propertyError_def with_payload_def json_member_def append_info_def
        new_redfish_response_def nbind_def nret_def on_ctx_def payload_now_def getJson_def destroy_context_def flash_def
        add_payload_def add_def sample_node_env_def sample_not_pretty payload Let_def)
  then obtain s' where "act_process ?g (sample_get [''redfish'']) = Some (Ends (Inr (), s'))" by blast
  with object_getter_keeps_status [OF this] before show ?thesis by auto
qed

end
