(* ===== verification/Dbus_Connect.thy ===== *)
theory Dbus_Connect
  imports Containers
begin

text \<open>
  The dictionary of service names of \<open>src/core/connect/dbus_connect.cpp\<close>: from the unique
  name of a connection, which signals carry, to the well-known name of its service.
  What the bus lists is a parameter, for every time it is asked.
\<close>

type_synonym service_names = "(string, string) omap"

text \<open>One answer of the bus: the acquired names (\<open>None\<close> is an exception), and the owner of a
  name (\<open>None\<close> is an exception, which is logged).\<close>

record bus_names =
  list_names_acquired :: "string list option"
  get_name_owner :: "string \<Rightarrow> string option"

definition setServiceName :: "string \<Rightarrow> string \<Rightarrow> service_names \<Rightarrow> service_names" where
  "setServiceName uniqueName wellKnownName d = om_assign uniqueName wellKnownName d"

text \<open>\<open>starts_with (":")\<close>\<close>

definition is_unique_name :: "string \<Rightarrow> bool" where
  "is_unique_name name \<longleftrightarrow> starts_with name '':''"

fun update_names :: "(string \<Rightarrow> string option) \<Rightarrow> string list \<Rightarrow> service_names \<Rightarrow> service_names" where
  "update_names owner [] d = d"
| "update_names owner (name # names) d =
     (if is_unique_name name then update_names owner names d
      else case owner name of
             None \<Rightarrow> update_names owner names d
           | Some uniqueName \<Rightarrow> update_names owner names (setServiceName uniqueName name d))"

definition updateWellKnownServiceNameDict :: "bus_names \<Rightarrow> service_names \<Rightarrow> service_names may_throw" where
  "updateWellKnownServiceNameDict bus d =
     (case list_names_acquired bus of
        None \<Rightarrow> Inl (Sdbus_error ''ListNames'')
      | Some names \<Rightarrow> Inr (update_names (get_name_owner bus) names d))"

text \<open>The handler of \<open>NameOwnerChanged\<close>; \<open>None\<close> is a message that cannot be read.\<close>

definition nameOwnerChanged :: "(string \<times> string \<times> string) option \<Rightarrow> service_names \<Rightarrow> service_names" where
  "nameOwnerChanged message d =
     (case message of
        None \<Rightarrow> d
      | Some (name, oldOwner, newOwner) \<Rightarrow>
          (if is_unique_name name then d
           else setServiceName (if newOwner \<noteq> [] then newOwner else oldOwner) name d))"

text \<open>The loop of \<open>getWellKnownServiceName\<close> from a number of tries on. The test of the number
  comes before the dictionary is looked at again.\<close>

function wait_for_name :: "(nat \<Rightarrow> bus_names) \<Rightarrow> string \<Rightarrow> nat \<Rightarrow> service_names \<Rightarrow> string may_throw \<times> service_names" where
  "wait_for_name bus uniqueName tryCount d =
     (case map_of d uniqueName of
        Some name \<Rightarrow> (Inr name, d)
      | None \<Rightarrow>
          (case updateWellKnownServiceNameDict (bus tryCount) d of
             Inl e \<Rightarrow> (Inl e, d)
           | Inr d' \<Rightarrow>
               (if tryCount > 15
                then (Inl (Runtime_error (''Required service '' @ [CHR 0x27] @ uniqueName @ [CHR 0x27] @
                        '' not provided by DBus'')), d')
                else wait_for_name bus uniqueName (Suc tryCount) d')))"
  by pat_completeness auto

termination
  by (relation "measure (\<lambda>(bus, uniqueName, tryCount, d). 16 - tryCount)") auto

definition getWellKnownServiceName ::
    "(nat \<Rightarrow> bus_names) \<Rightarrow> string \<Rightarrow> service_names \<Rightarrow> string may_throw \<times> service_names" where
  "getWellKnownServiceName bus uniqueName d = wait_for_name bus uniqueName 0 d"

declare wait_for_name.simps [simp del]

section \<open>The connection\<close>

text \<open>\<open>dbusConnect\<close> and \<open>sdbusConnect\<close> as whether they point to something, the watchers the
  initialization creates, and the dictionary.\<close>

datatype watcher = Name_owner_changed | Interfaces_added | Interfaces_removed

record bus_link =
  bus_opened :: bool
  sdbus_made :: bool
  global_watchers :: "watcher list"
  serviceNamesDict :: service_names

definition new_DBusConnect :: bus_link where
  "new_DBusConnect = \<lparr>bus_opened = False, sdbus_made = False, global_watchers = [], serviceNamesDict = []\<rparr>"

definition getConnect :: "bus_link \<Rightarrow> unit may_throw" where
  "getConnect b = (if \<not> sdbus_made b then Inl (Runtime_error ''The DBus connection was lost'') else Inr ())"

definition disconnect :: "bus_link \<Rightarrow> bool \<times> bus_link" where
  "disconnect b = (bus_opened b, b\<lparr>sdbus_made := False\<rparr>)"

text \<open>The watcher of the names is a static variable: made once.\<close>

definition initServiceNamesWatcher :: "bus_link \<Rightarrow> bus_link" where
  "initServiceNamesWatcher b =
     (if Name_owner_changed \<in> set (global_watchers b) then b
      else b\<lparr>global_watchers := global_watchers b @ [Name_owner_changed]\<rparr>)"

definition configureObjectManagingHandlers :: "bus_link \<Rightarrow> bus_link" where
  "configureObjectManagingHandlers b =
     b\<lparr>global_watchers := global_watchers b @ [Interfaces_added, Interfaces_removed]\<rparr>"

definition initSdBusConnection :: "bus_names \<Rightarrow> bus_link \<Rightarrow> unit may_throw \<times> bus_link" where
  "initSdBusConnection bus b =
     (if \<not> bus_opened b then (Inl (Logic_error ''The dbus connection is not initialized''), b)
      else if sdbus_made b then (Inl (Logic_error ''The SDBus connection already initialized''), b)
      else (let b1 = b\<lparr>sdbus_made := True\<rparr>
            in case updateWellKnownServiceNameDict bus (serviceNamesDict b1) of
                 Inl e \<Rightarrow> (Inl e, b1)
               | Inr d \<Rightarrow> (Inr (), configureObjectManagingHandlers (initServiceNamesWatcher (b1\<lparr>serviceNamesDict := d\<rparr>)))))"

text \<open>\<open>SystemDBusConnect::connect\<close>, with what \<open>sd_bus_open_system\<close> returns and the text of an error.\<close>

definition connect :: "int \<Rightarrow> (int \<Rightarrow> string) \<Rightarrow> bus_names \<Rightarrow> bus_link \<Rightarrow> unit may_throw \<times> bus_link" where
  "connect code strerror bus b =
     (if code < 0 then (Inl (Runtime_error (''Can'' @ [CHR 0x27] @ ''t establish dbus connection: '' @ strerror (- code))), b)
      else initSdBusConnection bus (b\<lparr>bus_opened := True\<rparr>))"

section \<open>The observing thread\<close>

text \<open>One turn of \<open>process\<close>: the bus was served, or sdbusplus threw and left an \<open>errno\<close>.\<close>

datatype bus_turn = Served | Threw (errno: int)

datatype observer_end = Observes | Finished | Exited

definition EIO :: int where "EIO = 5"
definition EBADMSG :: int where "EBADMSG = 74"

text \<open>The turns so far, each with what \<open>alive\<close> was before it.\<close>

fun observe :: "(bool \<times> bus_turn) list \<Rightarrow> observer_end" where
  "observe [] = Observes"
| "observe ((alive, turn) # turns) =
     (if \<not> alive then Finished
      else (case turn of
              Served \<Rightarrow> observe turns
            | Threw e \<Rightarrow> (if e = - EIO \<or> e = - EBADMSG then Exited else observe turns)))"

text \<open>\<open>errno\<close> is never negative, so a corrupt connection does not end the program.\<close>

lemma observe_never_exits: "list_all (\<lambda>(_, turn). case turn of Served \<Rightarrow> True | Threw e \<Rightarrow> 0 \<le> e) turns \<Longrightarrow> observe turns \<noteq> Exited"
  by (induction turns rule: observe.induct) (auto simp: EIO_def EBADMSG_def split: bus_turn.splits)

end
