(* ===== verification/Dbus_Query.thy ===== *)
theory Dbus_Query
  imports Entity_Facts Dbus_Connect Utils
begin

text \<open>
  \<open>src/core/entity/dbus_query.{hpp,cpp}\<close> without the instances' data (which are in the theory
  of the instances), and \<open>proxy_query.hpp\<close>: the kinds of queries with their criteria, how
  they make instances, the watchers of properties, and the handlers of the signals that an
  object appeared or went away. Replies of D-Bus are parameters.
  An instance that nothing holds any more is destroyed, which marks its hash for the clean-up
  of the watchers.
\<close>

section \<open>Queries and criteria\<close>

record endpoint_criteria =
  crit_path :: string
  crit_interfaces :: "string list"
  crit_depth :: int
  crit_service :: "string option"

datatype dbus_query =
    FindObject endpoint_criteria
  | GetObject string string "string list"
  | IntrospectService string
  | ViaMethodCall

text \<open>\<open>std::set_difference\<close>: both lists are taken to be sorted; what it does when they are not
  is what its two moving positions give.\<close>

fun set_difference :: "string list \<Rightarrow> string list \<Rightarrow> string list" where
  "set_difference [] ys = []"
| "set_difference (x # xs) [] = x # xs"
| "set_difference (x # xs) (y # ys) =
     (if x < y then x # set_difference xs (y # ys)
      else if y < x then set_difference (x # xs) ys
      else set_difference xs ys)"

subsection \<open>\<open>checkCriteria (path, service)\<close>\<close>

definition FindObject_takes_object :: "endpoint_criteria \<Rightarrow> string \<Rightarrow> string option \<Rightarrow> bool" where
  "FindObject_takes_object c path service =
     (if service \<noteq> None \<and> crit_service c \<noteq> None \<and> service \<noteq> crit_service c then False
      else if \<not> starts_with path (crit_path c) then False
      else True)"

definition GetObject_takes_object :: "string \<Rightarrow> string \<Rightarrow> string \<Rightarrow> string option \<Rightarrow> bool" where
  "GetObject_takes_object svc obj path service =
     (if service \<noteq> Some svc then False
      else if obj \<noteq> path then False
      else True)"

definition IntrospectService_takes_object :: "string \<Rightarrow> string \<Rightarrow> string option \<Rightarrow> bool" where
  "IntrospectService_takes_object svc path service = (if service \<noteq> Some svc then False else True)"

definition ViaMethodCall_takes_object :: "string \<Rightarrow> string option \<Rightarrow> bool" where
  "ViaMethodCall_takes_object path service = False"

fun checkCriteria_object :: "dbus_query \<Rightarrow> string \<Rightarrow> string option \<Rightarrow> bool" where
  "checkCriteria_object (FindObject c) = FindObject_takes_object c"
| "checkCriteria_object (GetObject svc obj _) = GetObject_takes_object svc obj"
| "checkCriteria_object (IntrospectService svc) = IntrospectService_takes_object svc"
| "checkCriteria_object ViaMethodCall = ViaMethodCall_takes_object"

subsection \<open>\<open>checkCriteria (path, interfaces, service)\<close>\<close>

definition FindObject_takes :: "endpoint_criteria \<Rightarrow> string \<Rightarrow> string list \<Rightarrow> string option \<Rightarrow> bool" where
  "FindObject_takes c path interfaces service =
     (if \<not> FindObject_takes_object c path service then False
      else if crit_depth c > 0 \<and> countExtraSegmentsOfPath (crit_path c) path > crit_depth c then False
      else if \<not> list_ex (\<lambda>i. list_ex (\<lambda>ci. i = ci) (crit_interfaces c)) interfaces then False
      else True)"

definition some_difference :: "string list \<Rightarrow> string list \<Rightarrow> bool" where
  "some_difference declared input = (length (set_difference declared input) \<noteq> length declared)"

definition GetObject_takes :: "string \<Rightarrow> string \<Rightarrow> string list \<Rightarrow> string \<Rightarrow> string list \<Rightarrow> string option \<Rightarrow> bool" where
  "GetObject_takes svc obj search path interfaces service =
     (if \<not> GetObject_takes_object svc obj path service then False
      else some_difference search interfaces)"

text \<open>The interfaces of the endpoints the query declares.\<close>

definition IntrospectService_takes :: "endpoint_map \<Rightarrow> string \<Rightarrow> string \<Rightarrow> string list \<Rightarrow> string option \<Rightarrow> bool" where
  "IntrospectService_takes eps svc path interfaces service =
     (let activeInterfaces = map fst eps
      in if \<not> IntrospectService_takes_object svc path service then False
         else some_difference activeInterfaces interfaces)"

definition ViaMethodCall_takes :: "string \<Rightarrow> string list \<Rightarrow> string option \<Rightarrow> bool" where
  "ViaMethodCall_takes path interfaces service = False"

fun checkCriteria :: "endpoint_map \<Rightarrow> dbus_query \<Rightarrow> string \<Rightarrow> string list \<Rightarrow> string option \<Rightarrow> bool" where
  "checkCriteria eps (FindObject c) = FindObject_takes c"
| "checkCriteria eps (GetObject svc obj search) = GetObject_takes svc obj search"
| "checkCriteria eps (IntrospectService svc) = IntrospectService_takes eps svc"
| "checkCriteria eps ViaMethodCall = ViaMethodCall_takes"

lemmas takes_object_defs = FindObject_takes_object_def GetObject_takes_object_def
  IntrospectService_takes_object_def ViaMethodCall_takes_object_def

lemmas takes_defs = FindObject_takes_def GetObject_takes_def IntrospectService_takes_def ViaMethodCall_takes_def

declare takes_object_defs [simp] takes_defs [simp]

definition getFields :: "query_ops \<Rightarrow> string list" where
  "getFields q = concat (map (\<lambda>(_, ss). map (\<lambda>((_, member), _). member) ss) (searchProperties q))"

section \<open>Watchers\<close>

text \<open>The static members of \<open>DBusInstance\<close>: the watchers (of the object path and an interface)
  under the hashes of their instances, and the hashes of destroyed instances.\<close>

record signal_state =
  entity_part :: entity_world
  listeners :: "(64 word, (string \<times> string) list) omap"
  toCleanupInstances :: "64 word list"

definition markInstanceIsUnavailable :: "64 word \<Rightarrow> signal_state \<Rightarrow> signal_state" where
  "markInstanceIsUnavailable h st = st\<lparr>toCleanupInstances := toCleanupInstances st @ [h]\<rparr>"

definition cleanupInstacesWatchers :: "signal_state \<Rightarrow> signal_state" where
  "cleanupInstacesWatchers st =
     st\<lparr>listeners := fold om_erase (toCleanupInstances st) (listeners st), toCleanupInstances := []\<rparr>"

definition add_listener :: "64 word \<Rightarrow> string \<times> string \<Rightarrow> signal_state \<Rightarrow> signal_state" where
  "add_listener h watcher st =
     st\<lparr>listeners := om_assign h ((case map_of (listeners st) h of None \<Rightarrow> [] | Some ws \<Rightarrow> ws) @ [watcher])
                      (listeners st)\<rparr>"

definition bindListeners :: "(string \<Rightarrow> 64 word) \<Rightarrow> entity_instance \<Rightarrow> signal_state \<Rightarrow> signal_state" where
  "bindListeners hash i st =
     (case dbus i of
        None \<Rightarrow> st
      | Some d \<Rightarrow> fold (\<lambda>(iface, _). add_listener (getHash hash i) (objectPath d, iface)) (targetProperties d) st)"

text \<open>The handler of \<open>PropertiesChanged\<close> on the instance it watches: what it has read of the
  message (nothing when that threw), then the static fields.\<close>

definition propertiesChanged ::
    "queries \<Rightarrow> string \<times> (string \<times> field_value) list \<Rightarrow> entity_instance \<Rightarrow> unit may_throw \<times> entity_instance" where
  "propertiesChanged qs message i =
     (case fillMembers qs (fst message) (snd message) i of
        (Inl e, i1) \<Rightarrow> (Inl e, i1)
      | (Inr _, i1) \<Rightarrow> (case instance_query qs i1 of None \<Rightarrow> (Inr (), i1) | Some q \<Rightarrow> staticFields q i1))"

section \<open>Making instances\<close>

text \<open>The loop of \<open>createInstance\<close> over the interfaces.\<close>

definition declared_endpoints :: "endpoint_map \<Rightarrow> string list \<Rightarrow> endpoint_map" where
  "declared_endpoints eps interfaces =
     fold (\<lambda>iface m. case map_of eps iface of None \<Rightarrow> m | Some ss \<Rightarrow> om_emplace iface ss m) interfaces []"

definition query_endpoints :: "queries \<Rightarrow> nat \<Rightarrow> endpoint_map" where
  "query_endpoints qs q = (case qs q of None \<Rightarrow> [] | Some ops \<Rightarrow> searchProperties ops)"

definition createInstance ::
    "queries \<Rightarrow> get_all \<Rightarrow> nat \<Rightarrow> string \<Rightarrow> string \<Rightarrow> string list \<Rightarrow> entity_instance may_throw" where
  "createInstance qs bus q service path interfaces =
     (case initialize_instance qs bus
             (new_dbus_instance service path (declared_endpoints (query_endpoints qs q) interfaces) q False) of
        (Inl e, _) \<Rightarrow> Inl e
      | (Inr _, i) \<Rightarrow> Inr i)"

text \<open>What \<open>process\<close> asks of the bus: \<open>GetSubTree\<close>, \<open>GetManagedObjects\<close>, \<open>GetObject\<close>; \<open>None\<close>
  is an exception of sdbusplus.\<close>

record query_bus =
  get_sub_tree :: "string \<Rightarrow> int \<Rightarrow> string list \<Rightarrow> (string \<times> (string \<times> string list) list) list option"
  get_managed_objects :: "string \<Rightarrow> (string \<times> (string \<times> (string \<times> field_value) list) list) list option"
  get_object :: "string \<Rightarrow> string list \<Rightarrow> (string \<times> string list) list option"
  properties_of :: get_all
  well_known_name :: "string \<Rightarrow> string may_throw"
  method_instances :: "entity_instance list may_throw option"

text \<open>The instances are made one after the other; what is bound stays when one throws.\<close>

primrec make_all ::
    "(string \<Rightarrow> 64 word) \<Rightarrow> ('x \<Rightarrow> entity_instance may_throw) \<Rightarrow> 'x list \<Rightarrow> signal_state \<Rightarrow>
     entity_instance list may_throw \<times> signal_state" where
  "make_all hash f [] st = (Inr [], st)"
| "make_all hash f (x # xs) st =
     (case f x of
        Inl e \<Rightarrow> (Inl e, st)
      | Inr i \<Rightarrow>
          (case make_all hash f xs (bindListeners hash i st) of
             (Inl e, st') \<Rightarrow> (Inl e, st')
           | (Inr is, st') \<Rightarrow> (Inr (i # is), st')))"

text \<open>The endpoints \<open>FindObject\<close> makes instances of, those of another service left out.\<close>

definition found_endpoints ::
    "endpoint_criteria \<Rightarrow> (string \<times> (string \<times> string list) list) list \<Rightarrow> (string \<times> string \<times> string list) list" where
  "found_endpoints c response =
     concat (map (\<lambda>(path, services).
       map (\<lambda>(service, interfaces). (service, path, interfaces))
         (filter (\<lambda>(service, _). \<not> (crit_service c \<noteq> None \<and> crit_service c \<noteq> Some service)) services)) response)"

primrec fill_all ::
    "queries \<Rightarrow> (string \<times> (string \<times> field_value) list) list \<Rightarrow> entity_instance \<Rightarrow>
     unit may_throw \<times> entity_instance" where
  "fill_all qs [] i = (Inr (), i)"
| "fill_all qs (x # xs) i =
     (case fillMembers qs (fst x) (snd x) i of
        (Inl e, i') \<Rightarrow> (Inl e, i')
      | (Inr _, i') \<Rightarrow> fill_all qs xs i')"

definition introspected_instance ::
    "queries \<Rightarrow> nat \<Rightarrow> string \<Rightarrow> string \<times> (string \<times> (string \<times> field_value) list) list \<Rightarrow>
     entity_instance may_throw" where
  "introspected_instance qs q service x =
     (case fill_all qs (snd x) (new_dbus_instance service (fst x) (query_endpoints qs q) q True) of
        (Inl e, _) \<Rightarrow> Inl e
      | (Inr _, i) \<Rightarrow>
          (case (case qs q of None \<Rightarrow> (Inr (), i) | Some ops \<Rightarrow> staticFields ops i) of
             (Inl e, _) \<Rightarrow> Inl e
           | (Inr _, i') \<Rightarrow> Inr i'))"

text \<open>\<open>process\<close> of each kind of query: whether it raised \<open>hasFailures\<close>, and the instances.\<close>

definition FindObject_process ::
    "(string \<Rightarrow> 64 word) \<Rightarrow> queries \<Rightarrow> query_bus \<Rightarrow> nat \<Rightarrow> endpoint_criteria \<Rightarrow> signal_state \<Rightarrow>
     bool \<times> entity_instance list may_throw \<times> signal_state" where
  "FindObject_process hash qs bus q c st =
     (let response = get_sub_tree bus (crit_path c) (crit_depth c) (crit_interfaces c)
      in (response = None,
          make_all hash (\<lambda>(service, path, interfaces).
              createInstance qs (properties_of bus) q service path interfaces)
            (case response of None \<Rightarrow> [] | Some r \<Rightarrow> found_endpoints c r) st))"

definition GetObject_process ::
    "(string \<Rightarrow> 64 word) \<Rightarrow> queries \<Rightarrow> query_bus \<Rightarrow> nat \<Rightarrow> string \<Rightarrow> string \<Rightarrow> string list \<Rightarrow> signal_state \<Rightarrow>
     bool \<times> entity_instance list may_throw \<times> signal_state" where
  "GetObject_process hash qs bus q svc obj search st =
     (False, make_all hash (\<lambda>_. createInstance qs (properties_of bus) q svc obj search) [()] st)"

definition IntrospectService_process ::
    "(string \<Rightarrow> 64 word) \<Rightarrow> queries \<Rightarrow> query_bus \<Rightarrow> nat \<Rightarrow> string \<Rightarrow> signal_state \<Rightarrow>
     bool \<times> entity_instance list may_throw \<times> signal_state" where
  "IntrospectService_process hash qs bus q svc st =
     (let response = get_managed_objects bus svc
      in (response = None,
          make_all hash (introspected_instance qs q svc)
            (case response of None \<Rightarrow> [] | Some r \<Rightarrow> r) st))"

definition ViaMethodCall_process ::
    "query_bus \<Rightarrow> signal_state \<Rightarrow> bool \<times> entity_instance list may_throw \<times> signal_state" where
  "ViaMethodCall_process bus st =
     (case method_instances bus of
        None \<Rightarrow> (True, Inr [], st)
      | Some r \<Rightarrow> (False, r, st))"

definition process_dbus_query ::
    "(string \<Rightarrow> 64 word) \<Rightarrow> queries \<Rightarrow> query_bus \<Rightarrow> nat \<Rightarrow> dbus_query \<Rightarrow> signal_state \<Rightarrow>
     bool \<times> entity_instance list may_throw \<times> signal_state" where
  "process_dbus_query hash qs bus q kind st =
     (case kind of
        FindObject c \<Rightarrow> FindObject_process hash qs bus q c st
      | GetObject svc obj search \<Rightarrow> GetObject_process hash qs bus q svc obj search st
      | IntrospectService svc \<Rightarrow> IntrospectService_process hash qs bus q svc st
      | ViaMethodCall \<Rightarrow> ViaMethodCall_process bus st)"

definition introspectDBusObjectInterfaces ::
    "query_bus \<Rightarrow> string \<Rightarrow> string \<Rightarrow> string list \<Rightarrow> string list" where
  "introspectDBusObjectInterfaces bus service path search =
     (case get_object bus path search of
        None \<Rightarrow> []
      | Some response \<Rightarrow>
          (case List.find (\<lambda>(svc, _). svc = service) response of None \<Rightarrow> [] | Some (_, ifaces) \<Rightarrow> ifaces))"

section \<open>Signals\<close>

text \<open>The handlers of a query that an entity registered with: their result, and the state. A
  \<open>std::runtime_error\<close> becomes \<open>False\<close>.\<close>

definition handled :: "bool may_throw \<times> signal_state \<Rightarrow> bool may_throw \<times> signal_state" where
  "handled r = (case fst r of
                  Inl e \<Rightarrow> (if is_runtime_error e then (Inr False, snd r) else r)
                | Inr _ \<Rightarrow> r)"

definition set_entity :: "nat \<Rightarrow> (entity \<Rightarrow> entity) \<Rightarrow> signal_state \<Rightarrow> signal_state" where
  "set_entity e f st = st\<lparr>entity_part := upd_entity e f (entity_part st)\<rparr>"

text \<open>A new instance meets the entity: it is merged in when there is none of its hash;
  otherwise its endpoints go to the one there, which is read again when it is next asked for,
  and the new one is destroyed.\<close>

definition take_in :: "entity_env \<Rightarrow> nat \<Rightarrow> entity_instance \<Rightarrow> signal_state \<Rightarrow> bool may_throw \<times> signal_state" where
  "take_in env e new st =
     (let h = getHash (hash_of env) new
      in case getInstance h (entities (entity_part st) e) of
           None \<Rightarrow>
             (let st1 = bindListeners (hash_of env) new st;
                  (r, x) = mergeInstance env new (entities (entity_part st1) e)
              in (map_sum id (\<lambda>_. True) r, set_entity e (\<lambda>_. x) st1))
         | Some old \<Rightarrow>
             (Inr True, markInstanceIsUnavailable h
                (set_entity e (\<lambda>x. x\<lparr>instances :=
                   om_assign h (set_state False (fst (mergeInternalMetadata new old))) (instances x)\<rparr>) st)))"

definition objectCreated ::
    "entity_env \<Rightarrow> query_bus \<Rightarrow> (nat \<Rightarrow> dbus_query) \<Rightarrow> nat \<times> nat \<Rightarrow> string \<Rightarrow>
     (string \<times> (string \<times> field_value) list) list \<Rightarrow> string \<Rightarrow> signal_state \<Rightarrow> bool may_throw \<times> signal_state" where
  "objectCreated env bus kinds qe path interfacesAdded sender st =
     (let (q, e) = qe; eps = query_endpoints (queries_of env) q
      in handled
        (case well_known_name bus sender of
           Inl ex \<Rightarrow> (Inl ex, st)
         | Inr service \<Rightarrow>
             (if \<not> checkCriteria_object (kinds q) path (Some service) then (Inr True, st)
              else
                (let interfaces = introspectDBusObjectInterfaces bus service path (map fst interfacesAdded)
                 in if \<not> checkCriteria eps (kinds q) path interfaces (Some service) then (Inr True, st)
                    else case createInstance (queries_of env) (properties_of bus) q service path interfaces of
                           Inl ex \<Rightarrow> (Inl ex, markInstanceIsUnavailable (dbus_hash (hash_of env) service path) st)
                         | Inr new \<Rightarrow> take_in env e new st))))"

definition objectRemoved ::
    "entity_env \<Rightarrow> query_bus \<Rightarrow> (nat \<Rightarrow> dbus_query) \<Rightarrow> nat \<times> nat \<Rightarrow> string \<Rightarrow> string list \<Rightarrow> string \<Rightarrow>
     signal_state \<Rightarrow> bool may_throw \<times> signal_state" where
  "objectRemoved env bus kinds qe path removedInterfaces sender st =
     (let (q, e) = qe; eps = query_endpoints (queries_of env) q
      in handled
        (case well_known_name bus sender of
           Inl ex \<Rightarrow> (Inl ex, st)
         | Inr service \<Rightarrow>
             (let h = dbus_hash (hash_of env) service path
              in if \<not> checkCriteria eps (kinds q) path removedInterfaces (Some service) then (Inr True, st)
                 else (Inr True,
                       (if getInstance h (entities (entity_part st) e) = None then st
                        else markInstanceIsUnavailable h (set_entity e (removeInstance h) st))))))"

text \<open>\<open>processGlobalSignal\<close> with a message that was read, or not. Its test whether the handlers
  are those for new objects compares a reference type with a value type and always fails, so
  every handler is called at once.\<close>

primrec call_handlers ::
    "('h \<Rightarrow> signal_state \<Rightarrow> bool may_throw \<times> signal_state) \<Rightarrow> 'h list \<Rightarrow> bool \<Rightarrow> signal_state \<Rightarrow>
     bool may_throw \<times> signal_state" where
  "call_handlers call [] any st = (Inr any, st)"
| "call_handlers call (h # hs) any st =
     (case call h st of
        (Inl e, st') \<Rightarrow> (Inl e, st')
      | (Inr b, st') \<Rightarrow> call_handlers call hs (if b then True else any) st')"

definition processGlobalSignal ::
    "('m \<Rightarrow> 'h \<Rightarrow> signal_state \<Rightarrow> bool may_throw \<times> signal_state) \<Rightarrow> 'h list \<Rightarrow> 'm option \<Rightarrow> signal_state \<Rightarrow>
     bool may_throw \<times> signal_state" where
  "processGlobalSignal call handlers message st =
     (case message of
        None \<Rightarrow> (Inr False, st)
      | Some m \<Rightarrow> call_handlers (call m) handlers False st)"

definition processObjectCreate ::
    "entity_env \<Rightarrow> query_bus \<Rightarrow> (nat \<Rightarrow> dbus_query) \<Rightarrow>
     (string \<times> (string \<times> (string \<times> field_value) list) list \<times> string) option \<Rightarrow> signal_state \<Rightarrow>
     bool may_throw \<times> signal_state" where
  "processObjectCreate env bus kinds message st =
     processGlobalSignal (\<lambda>(path, interfaces, sender) qe. objectCreated env bus kinds qe path interfaces sender)
       (observers (entity_part st)) message st"

definition processObjectRemove ::
    "entity_env \<Rightarrow> query_bus \<Rightarrow> (nat \<Rightarrow> dbus_query) \<Rightarrow> (string \<times> string list \<times> string) option \<Rightarrow> signal_state \<Rightarrow>
     bool may_throw \<times> signal_state" where
  "processObjectRemove env bus kinds message st =
     processGlobalSignal (\<lambda>(path, interfaces, sender) qe. objectRemoved env bus kinds qe path interfaces sender)
       (observers (entity_part st)) message st"

section \<open>Proxy queries\<close>

text \<open>\<open>ProxyQuery\<close> of a provider.\<close>

definition process_proxy :: "nat \<Rightarrow> entity_env \<Rightarrow> nat \<Rightarrow> entity_instance list act" where
  "process_proxy n env provider =
     bind_act (populate n env provider) (\<lambda>_. getInstances n env provider [])"

definition proxy_fields :: "entity \<Rightarrow> string list" where
  "proxy_fields provider = map fst (members provider)"

end
