(* ===== verification/Dbus_Properties.thy ===== *)
theory Dbus_Properties
  imports Dbus_Query Entity_Samples
begin

text \<open>
  What holds of the D-Bus side: how long a service's name is waited for, which objects a
  query takes, what the signals make of an entity's instances, and what becomes of the
  watchers of properties.
\<close>

section \<open>Names of services\<close>

primrec names_after :: "(nat \<Rightarrow> bus_names) \<Rightarrow> nat \<Rightarrow> service_names \<Rightarrow> service_names" where
  "names_after bus 0 d = d"
| "names_after bus (Suc k) d =
     (case updateWellKnownServiceNameDict (bus k) (names_after bus k d) of Inl _ \<Rightarrow> names_after bus k d | Inr d' \<Rightarrow> d')"

definition name_missing :: "string \<Rightarrow> cpp_exn" where
  "name_missing u = Runtime_error (''Required service '' @ [CHR 0x27] @ u @ [CHR 0x27] @ '' not provided by DBus'')"

lemma wait_for_name_from:
  assumes "\<forall>k. list_names_acquired (bus k) \<noteq> None" and "k \<le> 16"
  shows "wait_for_name bus u k (names_after bus k d) =
    (case List.find (\<lambda>j. map_of (names_after bus j d) u \<noteq> None) [k..<17] of
       Some j \<Rightarrow> (Inr (the (map_of (names_after bus j d) u)), names_after bus j d)
     | None \<Rightarrow> (Inl (name_missing u), names_after bus 17 d))"
  using assms(2)
proof (induction "16 - k" arbitrary: k)
  case 0
  then have k: "k = 16" by simp
  obtain d' where d': "updateWellKnownServiceNameDict (bus 16) (names_after bus 16 d) = Inr d'"
    using assms(1) by (fastforce simp: updateWellKnownServiceNameDict_def split: option.splits)
  have seventeen: "names_after bus 17 d = d'"
    using d' by (simp add: eval_nat_numeral)
  show ?case
    unfolding k using d' seventeen
    by (subst wait_for_name.simps) (auto simp: name_missing_def upt_conv_Cons split: option.splits)
next
  case (Suc m)
  then have k: "k < 16" "m = 16 - Suc k" by simp_all
  obtain d' where "updateWellKnownServiceNameDict (bus k) (names_after bus k d) = Inr d'"
    using assms(1) by (fastforce simp: updateWellKnownServiceNameDict_def split: option.splits)
  with Suc.hyps(1) [OF k(2)] k show ?case
    by (subst wait_for_name.simps) (auto simp: upt_conv_Cons split: option.splits)
qed

section \<open>Criteria\<close>

lemma set_difference_sorted:
  assumes "sorted_wrt (<) xs" and "sorted_wrt (<) ys"
  shows "set_difference xs ys = filter (\<lambda>x. x \<notin> set ys) xs"
  using assms
proof (induction xs ys rule: set_difference.induct)
  case (3 x xs y ys)
  consider "x < y" | "y < x" | "x = y" by (rule linorder_cases)
  then show ?case
  proof cases
    case 1
    with "3.prems" have "x \<notin> set (y # ys)" by auto
    with 1 3 show ?thesis by auto
  next
    case 2
    with "3.prems" have "y \<notin> set (x # xs)" by auto
    with 2 3 show ?thesis by (auto intro!: filter_cong)
  next
    case 3
    with "3.prems" have "x \<notin> set xs" by auto
    with 3 "3.IH"(3) "3.prems" show ?thesis by (auto intro!: filter_cong)
  qed
qed simp_all

lemma some_difference_sorted:
  assumes "sorted_wrt (<) xs" and "sorted_wrt (<) ys"
  shows "some_difference xs ys \<longleftrightarrow> set xs \<inter> set ys \<noteq> {}"
proof -
  have "length (filter P xs) = length xs \<longleftrightarrow> (\<forall>x \<in> set xs. P x)" for P
    by (metis filter_True filter_id_conv length_filter_less less_irrefl)
  then show ?thesis
    by (auto simp: some_difference_def set_difference_sorted [OF assms])
qed

section \<open>Watchers\<close>

lemma map_of_om_erase: "map_of (om_erase k m) = (map_of m)(k := None)"
  by (simp add: om_erase_def map_of_filter_key)

lemma map_of_erase_all: "map_of (fold om_erase hs m) h = (if h \<in> set hs then None else map_of m h)"
  by (induction hs arbitrary: m) (simp_all add: map_of_om_erase)

lemma listeners_cleaned:
  "map_of (listeners (cleanupInstacesWatchers st)) h =
     (if h \<in> set (toCleanupInstances st) then None else map_of (listeners st) h)"
  by (simp add: cleanupInstacesWatchers_def map_of_erase_all)

definition watched :: "64 word \<Rightarrow> signal_state \<Rightarrow> (string \<times> string) list" where
  "watched h st = (case map_of (listeners st) h of None \<Rightarrow> [] | Some ws \<Rightarrow> ws)"

lemma watched_add: "watched h (add_listener h w st) = watched h st @ [w]"
  by (simp add: watched_def add_listener_def map_of_om_assign)

lemma add_listener_simps [simp]:
  "entity_part (add_listener h w st) = entity_part st"
  "toCleanupInstances (add_listener h w st) = toCleanupInstances st"
  by (simp_all add: add_listener_def)

lemma bind_entity [simp]:
  "entity_part (bindListeners hash i st) = entity_part st"
  "toCleanupInstances (bindListeners hash i st) = toCleanupInstances st"
proof -
  have "entity_part (fold (\<lambda>(iface, _). add_listener h (p, iface)) eps st) = entity_part st \<and>
      toCleanupInstances (fold (\<lambda>(iface, _). add_listener h (p, iface)) eps st) = toCleanupInstances st"
    for h p and eps :: endpoint_map
    by (induction eps arbitrary: st) auto
  then show "entity_part (bindListeners hash i st) = entity_part st"
    "toCleanupInstances (bindListeners hash i st) = toCleanupInstances st"
    by (simp_all add: bindListeners_def split: option.splits)
qed

lemma watched_bind:
  "dbus i = Some d \<Longrightarrow> watched (getHash hash i) (bindListeners hash i st) =
     watched (getHash hash i) st @ map (\<lambda>(iface, _). (objectPath d, iface)) (targetProperties d)"
proof -
  have "watched h (fold (\<lambda>(iface, _). add_listener h (p, iface)) eps st) =
      watched h st @ map (\<lambda>(iface, _). (p, iface)) eps" for h p and eps :: endpoint_map
    by (induction eps arbitrary: st) (auto simp: watched_add)
  then show "dbus i = Some d \<Longrightarrow> ?thesis" by (simp add: bindListeners_def)
qed

section \<open>Searching\<close>







section \<open>Signals\<close>

text \<open>A query takes an object that appeared: service, object and interfaces meet its criteria
  and an instance was made of it.\<close>

definition taken ::
    "entity_env \<Rightarrow> query_bus \<Rightarrow> (nat \<Rightarrow> dbus_query) \<Rightarrow> nat \<Rightarrow> string \<Rightarrow> string \<Rightarrow> string list \<Rightarrow> entity_instance \<Rightarrow> bool" where
  "taken env bus kinds q svc path added new \<longleftrightarrow>
     (let interfaces = introspectDBusObjectInterfaces bus svc path added
      in checkCriteria_object (kinds q) path (Some svc) \<and>
         checkCriteria (query_endpoints (queries_of env) q) (kinds q) path interfaces (Some svc) \<and>
         createInstance (queries_of env) (properties_of bus) q svc path interfaces = Inr new)"

lemma objectCreated_taken:
  assumes "well_known_name bus sender = Inr svc" and "taken env bus kinds q svc path (map fst added) new"
  shows "objectCreated env bus kinds (q, e) path added sender st = handled (take_in env e new st)"
  using assms by (simp add: objectCreated_def taken_def Let_def)

lemma upd_entity_same [simp]: "entities (upd_entity e f w) e = f (entities w e)"
  by (simp add: upd_entity_def)

lemma take_in_known:
  assumes "getInstance (getHash (hash_of env) new) (entities (entity_part st) e) = Some old"
  shows "\<exists>st'. take_in env e new st = (Inr True, st') \<and>
    getInstance (getHash (hash_of env) new) (entities (entity_part st') e) =
      Some (set_state False (fst (mergeInternalMetadata new old))) \<and>
    getHash (hash_of env) new \<in> set (toCleanupInstances st')"
  using assms
  by (simp add: take_in_def Let_def markInstanceIsUnavailable_def set_entity_def getInstance_def map_of_om_assign)

lemma take_in_new:
  assumes "getInstance (getHash (hash_of env) new) (entities (entity_part st) e) = None"
  shows "take_in env e new st = (Inr True, set_entity e (\<lambda>x. x\<lparr>instances :=
      om_assign (getHash (hash_of env) new) new (instances x)\<rparr>) (bindListeners (hash_of env) new st))"
  using assms
  by (simp add: take_in_def Let_def mergeInstance_def getInstance_def set_entity_def upd_entity_def)

section \<open>Concrete inputs\<close>

definition sample_dbus_env :: entity_env where
  "sample_dbus_env = sample_entity_env\<lparr>queries_of := \<lambda>q. Some \<lparr>searchProperties = [(''i'', [])],
     staticFields = (\<lambda>i. (Inr (), i)), defaultFields = []\<rparr>, get_all_of := \<lambda>_ _ _. Some []\<rparr>"

definition sample_bus :: query_bus where
  "sample_bus = \<lparr>get_sub_tree = \<lambda>_ _ _. None, get_managed_objects = \<lambda>_. None,
     get_object = \<lambda>_ _. Some [(''s'', [''i''])], properties_of = \<lambda>_ _ _. Some [],
     well_known_name = \<lambda>_. Inr ''s'', method_instances = None\<rparr>"

definition sample_kinds :: "nat \<Rightarrow> dbus_query" where
  "sample_kinds _ = FindObject \<lparr>crit_path = ''/o'', crit_interfaces = [''i''], crit_depth = 0, crit_service = None\<rparr>"

definition sample_new :: entity_instance where
  "sample_new = new_dbus_instance ''s'' ''/o/a'' [(''i'', [])] 7 True"

definition sample_signal_state :: signal_state where
  "sample_signal_state = \<lparr>entity_part = sample_entity_world, listeners = [], toCleanupInstances = []\<rparr>"

lemma sample_taken: "taken sample_dbus_env sample_bus sample_kinds 7 ''s'' ''/o/a'' [''i''] sample_new"
  by (simp add: taken_def introspectDBusObjectInterfaces_def sample_bus_def sample_kinds_def sample_dbus_env_def
      createInstance_def query_endpoints_def declared_endpoints_def initialize_instance_def new_dbus_instance_def
      set_state_def queryProperties_def fillMembers_def dbusPropertySetters_def instance_query_def sample_new_def
      supplement_def metaObjectPath_def metaObjectService_def map_of_om_emplace starts_with_def Let_def om_emplace_def)

lemma sample_new_dbus: "dbus sample_new = Some \<lparr>serviceName = ''s'', objectPath = ''/o/a'',
    initialized_state = True, targetProperties = [(''i'', [])], dbusQuery = 7\<rparr>"
  by (simp add: sample_new_def new_dbus_instance_def supplement_def om_emplace_def metaObjectPath_def
      metaObjectService_def)

section \<open>Properties\<close>

text \<open>C26: waiting for the well-known name of a connection ends: the bus is asked at most seventeen
  times. The name is the one that is known first, without asking or after one of the first
  sixteen answers; when the seventeenth answer brings it, an error is returned all the same.\<close>

theorem waiting_for_name_ends:
  assumes "\<forall>k. list_names_acquired (bus k) \<noteq> None"
  shows "getWellKnownServiceName bus u d =
    (case List.find (\<lambda>j. map_of (names_after bus j d) u \<noteq> None) [0..<17] of
       Some j \<Rightarrow> (Inr (the (map_of (names_after bus j d) u)), names_after bus j d)
     | None \<Rightarrow> (Inl (name_missing u), names_after bus 17 d))"
  using wait_for_name_from [OF assms, of 0] by (simp add: getWellKnownServiceName_def)

theorem waiting_for_name_ends_witness:
  "getWellKnownServiceName (\<lambda>_. \<lparr>list_names_acquired = Some [''a.b''], get_name_owner = \<lambda>_. Some '':1.5''\<rparr>) '':1.5'' [] =
     (Inr ''a.b'', [('':1.5'', ''a.b'')])"
proof -
  let ?bus = "\<lambda>_ :: nat. \<lparr>list_names_acquired = Some [''a.b''], get_name_owner = \<lambda>_. Some '':1.5''\<rparr>"
  have "names_after ?bus 0 [] = []" "names_after ?bus 1 [] = [('':1.5'', ''a.b'')]"
    by (simp_all add: updateWellKnownServiceNameDict_def is_unique_name_def starts_with_def setServiceName_def)
  with waiting_for_name_ends [of ?bus "'':1.5''" "[]"] show ?thesis
    by (simp add: upt_conv_Cons)
qed

text \<open>C25: a query for one object takes exactly that object of that service, when it has one of
  the interfaces the query looks for; the lists of interfaces have to be sorted for this.\<close>

theorem get_object_criteria:
  assumes "sorted_wrt (<) search" and "sorted_wrt (<) interfaces"
  shows "checkCriteria eps (GetObject svc obj search) path interfaces service \<longleftrightarrow>
    service = Some svc \<and> path = obj \<and> set search \<inter> set interfaces \<noteq> {}"
  using some_difference_sorted [OF assms] by auto

theorem get_object_criteria_witness:
  "checkCriteria [] (GetObject ''s'' ''/o'' [''a'', ''c'']) ''/o'' [''b'', ''c''] (Some ''s'') \<and>
   \<not> checkCriteria [] (GetObject ''s'' ''/o'' [''a'']) ''/o'' [''b'', ''a''] (Some ''s'')"
proof -
  have "checkCriteria [] (GetObject ''s'' ''/o'' [''a'', ''c'']) ''/o'' [''b'', ''c''] (Some ''s'')"
    by (subst get_object_criteria) auto
  moreover have "\<not> checkCriteria [] (GetObject ''s'' ''/o'' [''a'']) ''/o'' [''b'', ''a''] (Some ''s'')"
    by (simp add: some_difference_def)
  ultimately show ?thesis by simp
qed

text \<open>C24: the signals keep an entity's table in step with the bus. When an object appears that a
  query of the entity takes and the entity has no instance of it, the new instance is in the
  table under its hash and all its interfaces are watched; when an object goes away that
  meets the criteria, its instance is no longer there. All other instances stay.\<close>

theorem signals_update_table:
  assumes "well_known_name bus sender = Inr svc"
  shows "(taken env bus kinds q svc path (map fst added) new \<and> dbus new = Some d \<and>
      getInstance (getHash (hash_of env) new) (entities (entity_part st) e) = None \<longrightarrow>
      (\<exists>st'. objectCreated env bus kinds (q, e) path added sender st = (Inr True, st') \<and>
        (\<forall>h. getInstance h (entities (entity_part st') e) =
           (if h = getHash (hash_of env) new then Some new else getInstance h (entities (entity_part st) e))) \<and>
        (\<forall>iface \<in> set (map fst (targetProperties d)). (objectPath d, iface) \<in> set (watched (getHash (hash_of env) new) st')))) \<and>
    (checkCriteria (query_endpoints (queries_of env) q) (kinds q) path removed (Some svc) \<longrightarrow>
      (\<exists>st'. objectRemoved env bus kinds (q, e) path removed sender st = (Inr True, st') \<and>
        (\<forall>h. getInstance h (entities (entity_part st') e) =
           (if h = dbus_hash (hash_of env) svc path then None else getInstance h (entities (entity_part st) e)))))"
    (is "?created \<and> ?removed")
proof
  show ?created
  proof (intro impI, elim conjE)
    assume t: "taken env bus kinds q svc path (map fst added) new" and d: "dbus new = Some d"
      and n: "getInstance (getHash (hash_of env) new) (entities (entity_part st) e) = None"
    have "set (map (\<lambda>(iface, _). (objectPath d, iface)) (targetProperties d)) \<subseteq>
        set (watched (getHash (hash_of env) new) (bindListeners (hash_of env) new st))"
      by (simp add: watched_bind [OF d])
    then have w: "\<forall>iface \<in> set (map fst (targetProperties d)).
        (objectPath d, iface) \<in> set (watched (getHash (hash_of env) new) (bindListeners (hash_of env) new st))"
      by force
    have "watched h (set_entity e f st1) = watched h st1" for h f st1
      by (simp add: watched_def set_entity_def)
    with w show "\<exists>st'. objectCreated env bus kinds (q, e) path added sender st = (Inr True, st') \<and>
        (\<forall>h. getInstance h (entities (entity_part st') e) =
           (if h = getHash (hash_of env) new then Some new else getInstance h (entities (entity_part st) e))) \<and>
        (\<forall>iface \<in> set (map fst (targetProperties d)). (objectPath d, iface) \<in> set (watched (getHash (hash_of env) new) st'))"
      by (simp add: objectCreated_taken [OF assms t] take_in_new [OF n] handled_def)
         (simp add: set_entity_def getInstance_def map_of_om_assign)
  qed
  show ?removed
    using assms
    by (auto simp: objectRemoved_def Let_def handled_def getInstance_def removeInstance_def set_entity_def
        markInstanceIsUnavailable_def map_of_om_erase)
qed

theorem signals_update_table_witness:
  "\<exists>st'. objectCreated sample_dbus_env sample_bus sample_kinds (7, 1) ''/o/a'' [(''i'', [])] '':1.1'' sample_signal_state =
       (Inr True, st') \<and>
     getInstance (getHash (hash_of sample_dbus_env) sample_new) (entities (entity_part st') 1) = Some sample_new"
proof -
  have name: "well_known_name sample_bus '':1.1'' = Inr ''s''" by (simp add: sample_bus_def)
  have "getInstance (getHash (hash_of sample_dbus_env) sample_new) (entities (entity_part sample_signal_state) 1) = None"
    by (simp add: getHash_def sample_new_dbus dbus_hash_def getInstance_def sample_signal_state_def sample_dbus_env_def
        sample_entity_defs new_entity_def createMember_def addMember_def push_bit_eq_mult)
  with sample_taken sample_new_dbus have
    "taken sample_dbus_env sample_bus sample_kinds 7 ''s'' ''/o/a'' (map fst [(''i'', [] :: (string \<times> field_value) list)]) sample_new \<and>
     dbus sample_new = Some \<lparr>serviceName = ''s'', objectPath = ''/o/a'',
       initialized_state = True, targetProperties = [(''i'', [])], dbusQuery = 7\<rparr> \<and>
     getInstance (getHash (hash_of sample_dbus_env) sample_new) (entities (entity_part sample_signal_state) 1) = None"
    by simp
  from mp [OF conjunct1 [OF signals_update_table [OF name]] this] show ?thesis by (elim exE conjE) auto
qed



text \<open>When the signal is about an object the entity already has, its instance stays in the
  table, but at the next clean-up all watchers of its properties are gone: the hash of the
  thrown away new instance is that of the one that stays.\<close>

theorem known_object_unwatched:
  assumes "well_known_name bus sender = Inr svc" and "taken env bus kinds q svc path (map fst added) new"
    and "getInstance (getHash (hash_of env) new) (entities (entity_part st) e) \<noteq> None"
  shows "\<exists>st'. objectCreated env bus kinds (q, e) path added sender st = (Inr True, st') \<and>
    getInstance (getHash (hash_of env) new) (entities (entity_part st') e) \<noteq> None \<and>
    watched (getHash (hash_of env) new) (cleanupInstacesWatchers st') = []"
proof -
  from assms(3) obtain old where "getInstance (getHash (hash_of env) new) (entities (entity_part st) e) = Some old"
    by blast
  from take_in_known [OF this] show ?thesis
    by (auto simp: objectCreated_taken [OF assms(1,2)] handled_def watched_def listeners_cleaned)
qed

theorem known_object_unwatched_witness:
  "\<exists>st'. objectCreated sample_dbus_env sample_bus sample_kinds (7, 1) ''/o/a'' [(''i'', [])] '':1.1''
       (set_entity 1 (\<lambda>x. x\<lparr>instances := [(getHash (hash_of sample_dbus_env) sample_new, sample_new)]\<rparr>) sample_signal_state) =
       (Inr True, st') \<and>
     watched (getHash (hash_of sample_dbus_env) sample_new) (cleanupInstacesWatchers st') = []"
proof -
  have name: "well_known_name sample_bus '':1.1'' = Inr ''s''" by (simp add: sample_bus_def)
  have t: "taken sample_dbus_env sample_bus sample_kinds 7 ''s'' ''/o/a'' (map fst [(''i'', [] :: (string \<times> field_value) list)]) sample_new"
    using sample_taken by simp
  let ?st = "set_entity 1 (\<lambda>x. x\<lparr>instances := [(getHash (hash_of sample_dbus_env) sample_new, sample_new)]\<rparr>) sample_signal_state"
  have "getInstance (getHash (hash_of sample_dbus_env) sample_new) (entities (entity_part ?st) 1) \<noteq> None"
    by (simp add: set_entity_def getInstance_def)
  from known_object_unwatched [OF name t this] show ?thesis by blast
qed

end
