(* ===== verification/Formatters.thy ===== *)
theory Formatters
  imports Entity_Instance Utils
begin

text \<open>
  \<open>src/formatters.hpp\<close>: the formatters of D-Bus properties that several devices share. A
  formatter takes the property's name and its value. The text of a floating-point number
  (\<open>std::to_string\<close>) and of a date are parameters.
\<close>

definition invalid_type :: "string \<Rightarrow> cpp_exn" where
  "invalid_type member = Runtime_error (''The member '' @ [CHR 0x27] @ member @ [CHR 0x27] @ '' has invalid type'')"

text \<open>\<open>formatValueFromDict\<close> for a dictionary whose keys have a type; an enumerator is its number.\<close>

definition formatValueFromDict ::
    "value_type \<Rightarrow> (field_value \<times> field_value) list \<Rightarrow> field_value \<Rightarrow> formatter" where
  "formatValueFromDict t dict defaultValue property v =
     (if type_of v = t
      then Inr (case map_of dict v of Some r \<Rightarrow> r | None \<Rightarrow> defaultValue)
      else Inl (invalid_type property))"

text \<open>A dictionary from texts to enumerators.\<close>

definition enum_dict :: "(string \<times> nat) list \<Rightarrow> (field_value \<times> field_value) list" where
  "enum_dict kvs = map (\<lambda>(k, n). (FString k, FInt32 (of_nat n))) kvs"

definition format_enum :: "(string \<times> nat) list \<Rightarrow> nat \<Rightarrow> formatter" where
  "format_enum kvs dflt = formatValueFromDict T_string (enum_dict kvs) (FInt32 (of_nat dflt))"

text \<open>\<open>DBusEnumFormatter\<close>: both exceptions of its \<open>try\<close> are caught.\<close>

definition DBusEnumFormatter :: formatter where
  "DBusEnumFormatter property v =
     Inr (case v of
            FString protocol \<Rightarrow>
              (case rfind_char CHR ''.'' protocol of
                 None \<Rightarrow> FString fieldValueNotAvailable
               | Some lastSegmenPos \<Rightarrow> FString (drop (lastSegmenPos + 1) protocol))
          | _ \<Rightarrow> FString fieldValueNotAvailable)"

text \<open>\<open>std::stoul (s, nullptr, 16)\<close>: space, a sign, a prefix, and at least one digit; a minus sign
  negates in 64 bits.\<close>

definition hex_digit :: "char \<Rightarrow> nat option" where
  "hex_digit c =
     (let n = (of_char c :: nat)
      in if 48 \<le> n \<and> n \<le> 57 then Some (n - 48)
         else if 65 \<le> n \<and> n \<le> 70 then Some (n - 55)
         else if 97 \<le> n \<and> n \<le> 102 then Some (n - 87)
         else None)"

fun hex_digits :: "string \<Rightarrow> nat \<Rightarrow> nat" where
  "hex_digits [] n = n"
| "hex_digits (c # s) n = (case hex_digit c of None \<Rightarrow> n | Some d \<Rightarrow> hex_digits s (16 * n + d))"

definition drop_prefix :: "string \<Rightarrow> string" where
  "drop_prefix s =
     (case s of
        z # x # d # _ \<Rightarrow>
          (if z = CHR ''0'' \<and> (x = CHR ''x'' \<or> x = CHR ''X'') \<and> hex_digit d \<noteq> None then drop 2 s else s)
      | _ \<Rightarrow> s)"

definition stoul16 :: "string \<Rightarrow> 64 word may_throw" where
  "stoul16 text =
     (let s = dropWhile isspace text;
          negative = (s \<noteq> [] \<and> hd s = CHR ''-'');
          digits = drop_prefix (if s \<noteq> [] \<and> (hd s = CHR ''-'' \<or> hd s = CHR ''+'') then tl s else s);
          n = hex_digits digits 0
      in if digits = [] \<or> hex_digit (hd digits) = None then Inl (Invalid_argument ''stoul'')
         else if n \<ge> 2 ^ 64 then Inl Out_of_range
         else Inr (if negative then - of_nat n else of_nat n))"

text \<open>\<open>StrHexToNumberFormatter<uint64_t>\<close>; both exceptions are logic errors.\<close>

definition StrHexToNumberFormatter :: formatter where
  "StrHexToNumberFormatter property v =
     Inr (FUint64
            (case v of
               FString strValue \<Rightarrow> (case stoul16 strValue of Inl _ \<Rightarrow> 0 | Inr numValue \<Rightarrow> numValue)
             | _ \<Rightarrow> 0))"

text \<open>\<open>NumberToStringFormatter\<close>. For a value that is no number it returns a null pointer, from
  which the variant can only make a string; that constructor throws.\<close>

definition NumberToStringFormatter :: "(64 word \<Rightarrow> string) \<Rightarrow> formatter" where
  "NumberToStringFormatter float_text property v =
     (case v of
        FInt64 n \<Rightarrow> Inr (FString (dec_int (sint n)))
      | FUint64 n \<Rightarrow> Inr (FString (dec_nat (unat n)))
      | FDouble d \<Rightarrow> Inr (FString (float_text d))
      | FInt32 n \<Rightarrow> Inr (FString (dec_int (sint n)))
      | FUint32 n \<Rightarrow> Inr (FString (dec_nat (unat n)))
      | FInt16 n \<Rightarrow> Inr (FString (dec_int (sint n)))
      | FUint16 n \<Rightarrow> Inr (FString (dec_nat (unat n)))
      | FUint8 n \<Rightarrow> Inr (FString (dec_nat (unat n)))
      | FBool b \<Rightarrow> Inr (FString (if b then ''1'' else ''0''))
      | _ \<Rightarrow> Inl (Logic_error ''basic_string: construction from null is not valid''))"

definition TrimFormatter :: formatter where
  "TrimFormatter property v =
     (case v of
        FString strValue \<Rightarrow> Inr (FString (trim strValue))
      | _ \<Rightarrow> Inl (Invalid_argument (''The property '' @ [CHR 0x27] @ property @ [CHR 0x27] @ '' type must be literal'')))"

text \<open>\<open>FormatTime\<close>: \<open>getFormattedDate\<close> of a format and a \<open>time_t\<close> is the parameter.\<close>

definition no_time :: string where
  "no_time = ''0000-00-00T00:00:00Z00:00''"

definition FormatTime :: "(string \<Rightarrow> int \<Rightarrow> string) \<Rightarrow> formatter" where
  "FormatTime formatted property v =
     Inr (FString (case v of
            FUint64 lastReset \<Rightarrow> formatted ''%FT%T%z'' (sint lastReset)
          | _ \<Rightarrow> no_time))"

definition FormatTimeMsToSec :: "(string \<Rightarrow> int \<Rightarrow> string) \<Rightarrow> formatter" where
  "FormatTimeMsToSec formatted property v =
     (case v of
        FUint64 ms \<Rightarrow> FormatTime formatted property (FUint64 (ms div 1000))
      | _ \<Rightarrow> Inr (FString no_time))"

section \<open>Laws\<close>

named_theorems formatter_defs

lemmas [formatter_defs] =
  formatValueFromDict_def format_enum_def DBusEnumFormatter_def StrHexToNumberFormatter_def
  FormatTime_def FormatTimeMsToSec_def

lemma enum_dict_text [simp]:
  "map_of (enum_dict kvs) (FString s) = map_option (\<lambda>n. FInt32 (of_nat n)) (map_of kvs s)"
  by (induction kvs) (auto simp: enum_dict_def)

lemma format_enum_text:
  "format_enum kvs dflt property (FString s) =
     Inr (FInt32 (of_nat (case map_of kvs s of None \<Rightarrow> dflt | Some n \<Rightarrow> n)))"
  by (simp add: format_enum_def formatValueFromDict_def split: option.splits)

end
