(* ===== verification/Device.thy ===== *)
theory Device
  imports Formatters Dbus_Query
begin

text \<open>
  What the headers of the devices are made of: the accessors their macros
  (\<open>ENTITY_DECL_FIELD...\<close> in \<open>entity.hpp\<close>) declare, the tables of endpoints
  (\<open>DBUS_QUERY_DECL_EP\<close> in \<open>dbus_query.hpp\<close>), and steps on an instance.
\<close>

section \<open>Accessors\<close>

text \<open>\<open>getField##name\<close> for a type: \<open>std::get\<close> throws on another alternative.\<close>

definition get_as :: "(field_value \<Rightarrow> 'a option) \<Rightarrow> 'a \<Rightarrow> string \<Rightarrow> entity_instance \<Rightarrow> 'a may_throw" where
  "get_as sel defval name i =
     (let f = getField name i
      in if isNull f then Inr defval
         else case sel (getValue f) of Some v \<Rightarrow> Inr v | None \<Rightarrow> Inl Bad_variant_access)"

fun as_text :: "field_value \<Rightarrow> string option" where "as_text (FString s) = Some s" | "as_text _ = None"
fun as_texts :: "field_value \<Rightarrow> string list option" where "as_texts (Strings s) = Some s" | "as_texts _ = None"
fun as_enum :: "field_value \<Rightarrow> 32 word option" where "as_enum (FInt32 n) = Some n" | "as_enum _ = None"
fun as_double :: "field_value \<Rightarrow> 64 word option" where "as_double (FDouble d) = Some d" | "as_double _ = None"
fun as_flag :: "field_value \<Rightarrow> bool option" where "as_flag (FBool b) = Some b" | "as_flag _ = None"

definition get_enum :: "nat \<Rightarrow> string \<Rightarrow> entity_instance \<Rightarrow> 32 word may_throw" where
  "get_enum defval = get_as as_enum (of_nat defval)"

section \<open>Steps\<close>

type_synonym instance_step = "entity_instance \<Rightarrow> unit may_throw \<times> entity_instance"

text \<open>\<open>setField##name\<close> and \<open>resetField##name\<close>\<close>

definition set_field :: "string \<Rightarrow> field_value \<Rightarrow> instance_step" where
  "set_field name v i =
     (case supplementOrUpdate_value name v i of Inl e \<Rightarrow> (Inl e, i) | Inr i' \<Rightarrow> (Inr (), i'))"

definition set_enum :: "string \<Rightarrow> nat \<Rightarrow> instance_step" where
  "set_enum name n = set_field name (FInt32 (of_nat n))"

definition reset_field :: "string \<Rightarrow> instance_step" where
  "reset_field name = set_field name FNull"

definition with_value :: "(entity_instance \<Rightarrow> 'a may_throw) \<Rightarrow> ('a \<Rightarrow> instance_step) \<Rightarrow> instance_step" where
  "with_value get f i = (case get i of Inl e \<Rightarrow> (Inl e, i) | Inr v \<Rightarrow> f v i)"

definition no_step :: instance_step where
  "no_step i = (Inr (), i)"

primrec steps :: "instance_step list \<Rightarrow> instance_step" where
  "steps [] = no_step"
| "steps (f # fs) = (\<lambda>i. case f i of (Inl e, i') \<Rightarrow> (Inl e, i') | (Inr _, i') \<Rightarrow> steps fs i')"

definition object_path :: "entity_instance \<Rightarrow> string" where
  "object_path i = (case dbus i of None \<Rightarrow> [] | Some d \<Rightarrow> objectPath d)"

section \<open>Endpoints\<close>

definition ep_field :: "string \<Rightarrow> string \<Rightarrow> (string \<times> string) \<times> formatter list" where
  "ep_field property member = ((property, member), [])"

definition ep_format :: "string \<Rightarrow> string \<Rightarrow> formatter list \<Rightarrow> (string \<times> string) \<times> formatter list" where
  "ep_format property member formatters = ((property, member), formatters)"

definition endpoints :: "(string \<times> setters) list \<Rightarrow> endpoint_map" where
  "endpoints eps = om.emplace_all eps []"

section \<open>Enumerations, links and relations\<close>

text \<open>An enumerator's number is its place in the list of the class.\<close>

primrec position :: "'a list \<Rightarrow> 'a \<Rightarrow> nat" where
  "position [] x = 0"
| "position (y # ys) x = (if x = y then 0 else Suc (position ys x))"

text \<open>A formatter from a dictionary of texts, with the enumerator for any other text.\<close>

definition format_with :: "'a list \<Rightarrow> (string \<times> 'a) list \<Rightarrow> 'a \<Rightarrow> formatter" where
  "format_with values dict defval = format_enum (map (\<lambda>(s, e). (s, position values e)) dict) (position values defval)"

definition get_text :: "string \<Rightarrow> entity_instance \<Rightarrow> string may_throw" where
  "get_text = get_as as_text fieldValueNotAvailable"

text \<open>\<open>defaultLinkProvider\<close>, and a link between instances with the same text, behind a
  \<open>catch (const std::exception&)\<close>.\<close>

definition defaultLinkProvider :: "entity_instance \<Rightarrow> instance_step" where
  "defaultLinkProvider s i = (case supplementOrUpdate s i of Inl e \<Rightarrow> (Inl e, i) | Inr i' \<Rightarrow> (Inr (), i'))"

definition link_equal :: "string \<Rightarrow> string \<Rightarrow> entity_instance \<Rightarrow> instance_step" where
  "link_equal provided own s i =
     (case (get_text provided s, get_text own i) of
        (Inr a, Inr b) \<Rightarrow> (Inr (), if a = b then snd (defaultLinkProvider s i) else i)
      | _ \<Rightarrow> (Inr (), i))"

definition directLinkingRule :: "(string \<times> string \<times> compare) list" where
  "directLinkingRule = [(dummyField, dummyField, \<lambda>_ _. True)]"

text \<open>\<open>s.find (sub) != npos\<close>\<close>

definition contains :: "string \<Rightarrow> string \<Rightarrow> bool" where
  "contains text slug \<longleftrightarrow> list_ex (\<lambda>k. starts_with (drop k text) slug) [0..<Suc (length text)]"

section \<open>Numbers\<close>

text \<open>A \<open>double\<close> cut down to an integer; \<open>None\<close> for no number and for the infinities.\<close>

definition double_trunc :: "64 word \<Rightarrow> int option" where
  "double_trunc w =
     (let n = unat w; e = (n div 2 ^ 52) mod 2 ^ 11;
          m = n mod 2 ^ 52 + (if e = 0 then 0 else 2 ^ 52);
          ex = (if e = 0 then 1 else e);
          k = (if ex \<ge> 1075 then m * 2 ^ (ex - 1075) else m div 2 ^ (1075 - ex))
      in if e = 2047 then None
         else Some (if n \<ge> 2 ^ 63 then - int k else int k))"

text \<open>Its conversion to \<open>int64_t\<close>, which is undefined out of range: a parameter.\<close>

definition double_to_int64 :: "(64 word \<Rightarrow> 64 word) \<Rightarrow> 64 word \<Rightarrow> 64 word" where
  "double_to_int64 out_of_range w =
     (case double_trunc w of
        Some n \<Rightarrow> (if - (2 ^ 63) \<le> n \<and> n < 2 ^ 63 then of_int n else out_of_range w)
      | None \<Rightarrow> out_of_range w)"

section \<open>Laws\<close>

text \<open>An instance with a field set to a value.\<close>

definition put_field :: "string \<Rightarrow> field_value \<Rightarrow> entity_instance \<Rightarrow> entity_instance" where
  "put_field name v i = i\<lparr>memberInstances := om_assign name (Some v) (memberInstances i)\<rparr>"

lemma set_field_Inr [simp]: "set_field name v i = (Inr (), put_field name v i)"
  by (simp add: set_field_def put_field_def supplementOrUpdate_value_eq)

lemma getField_put [simp]: "getField m (put_field name v i) = (if m = name then Some v else getField m i)"
  by (simp add: put_field_def getField_def map_of_om_assign)

lemma dbus_put [simp]: "dbus (put_field name v i) = dbus i" "object_path (put_field name v i) = object_path i"
  by (simp_all add: put_field_def object_path_def)

lemma position_le: "position vs x \<le> length vs"
  by (induction vs) auto

lemma position_inj: "position vs x = position vs y \<Longrightarrow> x \<in> set vs \<Longrightarrow> y \<in> set vs \<Longrightarrow> x = y"
  by (induction vs) (auto split: if_splits)

end
