(* ===== verification/Status.thy ===== *)
theory Status
  imports Device Entity
begin

text \<open>
  \<open>src/status_provider.hpp\<close>: the status of a device, its roll-up over the related instances,
  and the status the callback manager reports. The defaults that roll a status up look at
  other entities, so they are operations of the entities, not values of a query.
\<close>

datatype component_status = Ok | Warning | Critical

fun status_number :: "component_status \<Rightarrow> nat" where
  "status_number Ok = 0" | "status_number Warning = 1" | "status_number Critical = 2"

definition status_code :: "component_status \<Rightarrow> 32 word" where
  "status_code s = of_nat (status_number s)"

definition fieldStatus :: string where "fieldStatus = ''Status''"
definition fieldStatusRollup :: string where "fieldStatusRollup = ''StatusRollup''"
definition fieldCauser :: string where "fieldCauser = ''Causer''"

definition getFieldStatus :: "entity_instance \<Rightarrow> 32 word may_throw" where
  "getFieldStatus = get_enum (status_number Ok) fieldStatus"

definition getFieldStatusRollup :: "entity_instance \<Rightarrow> 32 word may_throw" where
  "getFieldStatusRollup = get_enum (status_number Ok) fieldStatusRollup"

section \<open>The higher status\<close>

definition getHigherStatus :: "32 word \<Rightarrow> 32 word \<Rightarrow> 32 word" where
  "getHigherStatus left right = (if sint left \<ge> sint right then left else right)"

definition getHigherStatus_instance :: "entity_instance \<Rightarrow> 32 word \<Rightarrow> 32 word may_throw" where
  "getHigherStatus_instance i right =
     map_sum id (\<lambda>left. if sint left \<ge> sint right then left else right) (getFieldStatus i)"

definition StatusByFunctional :: formatter where
  "StatusByFunctional property v =
     Inr (FInt32 (status_code (if v = FBool False then Warning else Ok)))"

section \<open>Roll-up\<close>

text \<open>The inner loop over the instances a relation leads to.\<close>

fun rollup_instances :: "bool \<Rightarrow> entity_instance list \<Rightarrow> 32 word \<Rightarrow> 32 word may_throw" where
  "rollup_instances has_rollup [] result = Inr result"
| "rollup_instances has_rollup (i # is) result =
     (case getHigherStatus_instance i result of
        Inl e \<Rightarrow> Inl e
      | Inr result1 \<Rightarrow>
          (if has_rollup
           then (case getFieldStatusRollup i of
                   Inl e \<Rightarrow> Inl e
                 | Inr r \<Rightarrow> rollup_instances has_rollup is (getHigherStatus r result1))
           else rollup_instances has_rollup is result1))"

primrec rollup_relations ::
    "nat \<Rightarrow> entity_env \<Rightarrow> entity_instance \<Rightarrow> relation list \<Rightarrow> 32 word \<Rightarrow> 32 word act" where
  "rollup_relations n env i [] result = ret result"
| "rollup_relations n env i (r # rs) result = (\<lambda>w.
     (let dest = entities w (destination r)
      in if \<not> hasMember fieldStatus dest then rollup_relations n env i rs result w
         else bind_act (getRelatedInstances n env (Some r) [] True i) (\<lambda>is.
                case rollup_instances (hasMember fieldStatusRollup dest) is result of
                  Inl e \<Rightarrow> throw e
                | Inr result1 \<Rightarrow> rollup_relations n env i rs result1) w))"

text \<open>\<open>StatusRollup\<close>: its constructor adds the member, its call rolls the status up.\<close>

definition new_StatusRollup :: "entity \<Rightarrow> entity" where
  "new_StatusRollup e = (if \<not> hasMember fieldStatusRollup e then snd (createMember fieldStatusRollup e) else e)"

definition StatusRollup :: "nat \<Rightarrow> entity_env \<Rightarrow> nat \<Rightarrow> entity_instance \<Rightarrow> field_value act" where
  "StatusRollup n env e i = (\<lambda>w.
     bind_act (rollup_relations n env i (relations (entities w e)) (status_code Ok)) (\<lambda>r. ret (FInt32 r)) w)"

definition new_StatusFromRollup :: "entity \<Rightarrow> entity" where
  "new_StatusFromRollup e = (if \<not> hasMember fieldStatus e then snd (createMember fieldStatus e) else e)"

definition StatusFromRollup :: "entity_instance \<Rightarrow> field_value may_throw" where
  "StatusFromRollup i = map_sum id FInt32 (getFieldStatusRollup i)"

section \<open>The callback manager\<close>

definition isCauserObserved :: "string list \<Rightarrow> string \<Rightarrow> bool" where
  "isCauserObserved observedCausers causer =
     (if observedCausers \<noteq> [] then list_ex (\<lambda>v. causer = v) observedCausers else True)"

definition FormatCauser :: "string list \<Rightarrow> formatter" where
  "FormatCauser observedCausers property v =
     Inr (Strings (case v of
        Associations as \<Rightarrow> filter (isCauserObserved observedCausers) (map (\<lambda>(_, _, causer). causer) as)
      | _ \<Rightarrow> []))"

definition statusDict :: "(string \<times> nat) list" where
  "statusDict = [(''ok'', status_number Ok), (''warning'', status_number Warning),
                 (''critical'', status_number Critical)]"

fun level_loop :: "string list \<Rightarrow> string \<Rightarrow> (string \<times> string \<times> string) list \<Rightarrow> 32 word \<Rightarrow> 32 word may_throw" where
  "level_loop observedCausers property [] result = Inr result"
| "level_loop observedCausers property ((level, x, causer) # as) result =
     (if \<not> isCauserObserved observedCausers causer then level_loop observedCausers property as result
      else case format_enum statusDict (status_number Ok) property (FString level) of
             Inr (FInt32 currentStatus) \<Rightarrow>
               level_loop observedCausers property as (getHigherStatus currentStatus result)
           | Inr _ \<Rightarrow> Inl Bad_variant_access
           | Inl e \<Rightarrow> Inl e)"

definition FormatStatus :: "string list \<Rightarrow> formatter" where
  "FormatStatus observedCausers property v =
     (case v of
        Associations as \<Rightarrow> map_sum id FInt32 (level_loop observedCausers property as (status_code Ok))
      | _ \<Rightarrow> Inr (FInt32 (status_code Ok)))"

definition globalIface :: string where
  "globalIface = ''xyz.openbmc_project.Inventory.Item.Global''"

definition assocIface :: string where
  "assocIface = ''xyz.openbmc_project.Association.Definitions''"

definition callback_query :: "string list \<Rightarrow> query_ops" where
  "callback_query observedCausers =
     \<lparr>searchProperties = endpoints [(assocIface, [ep_format ''Associations'' fieldStatus [FormatStatus observedCausers]])],
      staticFields = no_step, defaultFields = []\<rparr>"

definition callback_kind :: dbus_query where
  "callback_kind = GetObject ''xyz.openbmc_project.CallbackManager'' ''/xyz/openbmc_project/CallbackManager''
     [globalIface, assocIface]"

section \<open>Laws\<close>

text \<open>The three codes and their order.\<close>

lemma status_code_order: "sint (status_code s) = int (status_number s)"
  by (cases s) (simp_all add: status_code_def)

lemma getHigherStatus_max:
  "sint (getHigherStatus a b) = max (sint a) (sint b)"
  by (simp add: getHigherStatus_def)

end
