(* ===== verification/Sensors.thy ===== *)
theory Sensors
  imports Status
begin

text \<open>
  \<open>src/sensors.hpp\<close>: the query that finds the sensors, the formatters of their properties and
  the fields computed from others.
\<close>

section \<open>Names\<close>

datatype sensor_group = Group_power | Group_thermal | Group_sensors

fun group_number :: "sensor_group \<Rightarrow> nat" where
  "group_number Group_power = 0" | "group_number Group_thermal = 1" | "group_number Group_sensors = 2"

datatype sensor_unit =
    Unit_temperature | Unit_voltage | Unit_rotational | Unit_altitude | Unit_current
  | Unit_power | Unit_energyJoules | Unit_percent | Unit_unkown

definition sensor_units :: "sensor_unit list" where
  "sensor_units = [Unit_temperature, Unit_voltage, Unit_rotational, Unit_altitude, Unit_current,
     Unit_power, Unit_energyJoules, Unit_percent, Unit_unkown]"

text \<open>\<open>State\<close> by its numbers.\<close>

definition state_enabled :: nat where "state_enabled = 0"
definition state_absent :: nat where "state_absent = 1"

definition sensorValueInterface :: string where "sensorValueInterface = ''xyz.openbmc_project.Sensor.Value''"
definition sensorThresholdWarningInterface :: string where
  "sensorThresholdWarningInterface = ''xyz.openbmc_project.Sensor.Threshold.Warning''"
definition sensorThresholdCriticalInterface :: string where
  "sensorThresholdCriticalInterface = ''xyz.openbmc_project.Sensor.Threshold.Critical''"
definition sensorAvailabilityInterface :: string where
  "sensorAvailabilityInterface = ''xyz.openbmc_project.State.Decorator.Availability''"
definition sensorOperationalStatusInterface :: string where
  "sensorOperationalStatusInterface = ''xyz.openbmc_project.State.Decorator.OperationalStatus''"

section \<open>Formatters\<close>

text \<open>The first association whose purpose is an inventory gives the name of its object.\<close>

definition FormatAssociatedInventory :: formatter where
  "FormatAssociatedInventory property v =
     Inr (FString (case v of
        Associations as \<Rightarrow>
          (case List.find (\<lambda>(purpose, _, _). purpose \<in> set [''inventory'', ''cpu'']) as of
             Some (_, _, inventory) \<Rightarrow> getNameFromLastSegmentObjectPath inventory False
           | None \<Rightarrow> fieldValueNotAvailable)
      | _ \<Rightarrow> fieldValueNotAvailable))"

definition longDBusEnum :: "string \<Rightarrow> string" where
  "longDBusEnum enumStr = ''xyz.openbmc_project.Sensor.Value.Unit.'' @ enumStr"

definition units :: "(string \<times> sensor_unit) list" where
  "units =
     [(longDBusEnum ''DegreesC'', Unit_temperature), (longDBusEnum ''Volts'', Unit_voltage),
      (longDBusEnum ''RPMS'', Unit_rotational), (longDBusEnum ''Meters'', Unit_altitude),
      (longDBusEnum ''Amperes'', Unit_current), (longDBusEnum ''Watts'', Unit_power),
      (longDBusEnum ''Joules'', Unit_energyJoules), (longDBusEnum ''Percent'', Unit_percent)]"

definition FormatUnit :: formatter where
  "FormatUnit = format_with sensor_units units Unit_unkown"

section \<open>Computed fields\<close>

text \<open>\<open>GroupParser\<close>: the map's groups in their order.\<close>

definition groups :: "(sensor_group \<times> string list) list" where
  "groups =
     [(Group_power, [''/xyz/openbmc_project/sensors/voltage/'', ''/xyz/openbmc_project/sensors/power/'']),
      (Group_thermal, [''/xyz/openbmc_project/sensors/fan_tach/'', ''/xyz/openbmc_project/sensors/temperature/'',
         ''/xyz/openbmc_project/sensors/fan_pwm/''])]"

definition parse_group :: "string \<Rightarrow> sensor_group" where
  "parse_group path =
     (case List.find (\<lambda>(_, paths). list_ex (starts_with path) paths) groups of
        Some (g, _) \<Rightarrow> g
      | None \<Rightarrow> Group_sensors)"

definition setSensorName :: instance_step where
  "setSensorName i = steps
     [set_field ''Id'' (FString (getNameFromLastSegmentObjectPath (object_path i) False)),
      set_field ''Name'' (FString (getNameFromLastSegmentObjectPath (object_path i) True))] i"

definition setAvailable :: instance_step where
  "setAvailable i = (if isNull (getField ''Available'' i) then set_field ''Available'' (FBool True) i else no_step i)"

text \<open>The dictionary as it is written: the critical alarms stand under \<open>ok\<close>.\<close>

definition alarmFieldsDict :: "(component_status \<times> string list) list" where
  "alarmFieldsDict = [(Ok, [''CriticalAlarmHigh'', ''CriticalAlarmLow'']),
                      (Warning, [''WarningAlarmHigh'', ''WarningAlarmLow''])]"

definition sensor_status :: "entity_instance \<Rightarrow> component_status" where
  "sensor_status i =
     (case List.find (\<lambda>(_, fields). list_ex (\<lambda>f. getBoolValue (getField f i)) fields) alarmFieldsDict of
        Some (alarm, _) \<Rightarrow> alarm
      | None \<Rightarrow> Ok)"

definition sensor_setStatus :: instance_step where
  "sensor_setStatus i = set_enum fieldStatus (status_number (sensor_status i)) i"

definition setState :: instance_step where
  "setState = steps
     [set_enum ''State'' state_absent,
      \<lambda>i. if getBoolValue (getField ''Available'' i) then set_enum ''State'' state_enabled i else no_step i]"

definition setGroup :: instance_step where
  "setGroup i = set_enum ''Group'' (group_number (parse_group (object_path i))) i"

definition setNaturalReading :: "(64 word \<Rightarrow> 64 word) \<Rightarrow> instance_step" where
  "setNaturalReading out_of_range =
     with_value (get_as as_double 0 ''Reading'')
       (\<lambda>reading. set_field ''ReadingNatural'' (FInt64 (double_to_int64 out_of_range reading)))"

definition sensor_static_fields :: "(64 word \<Rightarrow> 64 word) \<Rightarrow> instance_step" where
  "sensor_static_fields out_of_range = steps
     [setSensorName, setAvailable, sensor_setStatus, setState, setGroup, setNaturalReading out_of_range]"

section \<open>The query\<close>

definition sensor_endpoints :: endpoint_map where
  "sensor_endpoints = endpoints
     [(sensorValueInterface,
        [ep_field ''Value'' ''Reading'', ep_field ''MinValue'' ''MinValue'', ep_field ''MaxValue'' ''MaxValue'',
         ep_format ''Unit'' ''Unit'' [FormatUnit]]),
      (sensorThresholdWarningInterface,
        [ep_field ''WarningAlarmLow'' ''WarningAlarmLow'', ep_field ''WarningAlarmHigh'' ''WarningAlarmHigh'',
         ep_field ''WarningLow'' ''LowWarning'', ep_field ''WarningHigh'' ''HighWarning'']),
      (sensorThresholdCriticalInterface,
        [ep_field ''CriticalAlarmHigh'' ''CriticalAlarmHigh'', ep_field ''CriticalAlarmLow'' ''CriticalAlarmLow'',
         ep_field ''CriticalLow'' ''LowCritical'', ep_field ''CriticalHigh'' ''HighCritical'']),
      (sensorAvailabilityInterface, [ep_field ''Available'' ''Available'']),
      (sensorOperationalStatusInterface, [ep_field ''Functional'' ''Functional'']),
      (assocIface, [ep_format ''Associations'' ''AssociatedInventoryId'' [FormatAssociatedInventory]])]"

definition sensor_query :: "(64 word \<Rightarrow> 64 word) \<Rightarrow> query_ops" where
  "sensor_query out_of_range =
     \<lparr>searchProperties = sensor_endpoints, staticFields = sensor_static_fields out_of_range, defaultFields = []\<rparr>"

definition sensor_kind :: dbus_query where
  "sensor_kind = FindObject
     \<lparr>crit_path = ''/xyz/openbmc_project/sensors'', crit_interfaces = [sensorValueInterface],
      crit_depth = 0, crit_service = None\<rparr>"

text \<open>The members the constructor adds; the relation and the conditions of other devices.\<close>

definition new_Sensors :: "entity \<Rightarrow> entity" where
  "new_Sensors e = fold (\<lambda>m x. snd (createMember m x))
     [''Id'', ''Name'', fieldStatus, ''State'', ''Group'', ''ReadingNatural''] e"

definition same_inventory :: compare where
  "same_inventory f v =
     (case (v, f) of
        (FString sensorInventory, Some f') \<Rightarrow>
          holds_alternative T_string (getValue f') \<and> getStringValue f' = sensorInventory
      | _ \<Rightarrow> False)"

definition inventoryRelation :: "(string \<times> string \<times> compare) list" where
  "inventoryRelation = [(''Id'', ''AssociatedInventoryId'', same_inventory)]"

definition availableSensors :: condition where
  "availableSensors = buildEqual ''Available'' (FBool True)"

definition sensorsByType :: "nat \<Rightarrow> condition" where
  "sensorsByType u = buildEqual ''Unit'' (FInt32 (of_nat u))"

definition genericSensors :: condition where
  "genericSensors = buildEqual ''Group'' (FInt32 (of_nat (group_number Group_sensors)))"

end
