(* ===== verification/Device_Properties.thy ===== *)
theory Device_Properties
  imports Sensors Entity_Samples
begin

text \<open>
  What holds of the devices: the status that is rolled up over the related instances, the
  status the callback manager reports, and the fields of a sensor.
\<close>

section \<open>The highest status\<close>

text \<open>The specification: a code that is among the given ones and below none of them.\<close>

definition highest :: "32 word list \<Rightarrow> 32 word" where
  "highest cs = of_int (Max (sint ` set cs))"

lemma highest_single: "highest [c] = c"
  by (simp add: highest_def)

lemma highest_mem: "cs \<noteq> [] \<Longrightarrow> sint (highest cs) = Max (sint ` set cs)"
proof -
  assume "cs \<noteq> []"
  then have "Max (sint ` set cs) \<in> sint ` set cs" by simp
  then obtain c where "c \<in> set cs" "Max (sint ` set cs) = sint c" by blast
  then show ?thesis by (simp add: highest_def)
qed

lemma highest_bound: "c \<in> set cs \<Longrightarrow> sint c \<le> sint (highest cs)"
  using highest_mem [of cs] by (cases cs) auto

lemma Max_insert_insert: "Max (insert a (insert b (set xs))) = Max (insert (max a b) (set xs))" for a b :: int
  by (cases xs) (simp_all add: max.assoc)

lemma highest_cons: "highest (getHigherStatus c r # cs) = highest (r # c # cs)"
  using Max_insert_insert [of "sint r" "sint c" "map sint cs"]
  by (simp add: highest_def getHigherStatus_max max.commute)

lemma foldl_higher: "foldl (\<lambda>r c. getHigherStatus c r) r cs = highest (r # cs)"
  by (induction cs arbitrary: r) (simp_all add: highest_single highest_cons)

section \<open>Roll-up\<close>

text \<open>The codes of instances, then of the instances of all relations, in the order they are read.\<close>

fun instance_codes :: "bool \<Rightarrow> entity_instance list \<Rightarrow> 32 word list may_throw" where
  "instance_codes has_rollup [] = Inr []"
| "instance_codes has_rollup (i # is) =
     (case getFieldStatus i of
        Inl e \<Rightarrow> Inl e
      | Inr s \<Rightarrow>
          (case (if has_rollup then map_sum id (\<lambda>r. [s, r]) (getFieldStatusRollup i) else Inr [s]) of
             Inl e \<Rightarrow> Inl e
           | Inr cs \<Rightarrow> map_sum id (\<lambda>ds. cs @ ds) (instance_codes has_rollup is)))"

primrec related_codes :: "nat \<Rightarrow> entity_env \<Rightarrow> entity_instance \<Rightarrow> relation list \<Rightarrow> 32 word list act" where
  "related_codes n env i [] = ret []"
| "related_codes n env i (r # rs) = (\<lambda>w.
     (let dest = entities w (destination r)
      in if \<not> hasMember fieldStatus dest then related_codes n env i rs w
         else bind_act (getRelatedInstances n env (Some r) [] True i) (\<lambda>is.
                case instance_codes (hasMember fieldStatusRollup dest) is of
                  Inl e \<Rightarrow> throw e
                | Inr cs \<Rightarrow> bind_act (related_codes n env i rs) (\<lambda>ds. ret (cs @ ds))) w))"

lemma rollup_instances_codes:
  "rollup_instances h is r = map_sum id (foldl (\<lambda>r c. getHigherStatus c r) r) (instance_codes h is)"
proof (induction "is" arbitrary: r)
  case (Cons i "is")
  have "getHigherStatus_instance i r = map_sum id (\<lambda>c. getHigherStatus c r) (getFieldStatus i)"
    by (simp add: getHigherStatus_instance_def getHigherStatus_def)
  with Cons show ?case
    by (cases "getFieldStatus i"; cases h; cases "getFieldStatusRollup i"; cases "instance_codes h is") simp_all
qed simp

lemma rollup_relations_codes:
  "rollup_relations n env i rs r w =
     bind_act (related_codes n env i rs) (\<lambda>cs. ret (foldl (\<lambda>r c. getHigherStatus c r) r cs)) w"
proof (induction rs arbitrary: r w)
  case (Cons a rs)
  then show ?case
    by (auto simp: Let_def bind_act_def rollup_instances_codes ret_def throw_def split: option.splits sum.splits)
qed (simp add: bind_act_def ret_def)

section \<open>The callback manager\<close>

definition level_code :: "string \<Rightarrow> 32 word" where
  "level_code level = (case map_of statusDict level of Some n \<Rightarrow> of_nat n | None \<Rightarrow> status_code Ok)"

lemma level_loop_codes:
  "level_loop obs p as r =
     Inr (foldl (\<lambda>r c. getHigherStatus c r) r
       (map (\<lambda>(level, _, _). level_code level) (filter (\<lambda>(_, _, causer). isCauserObserved obs causer) as)))"
  by (induction obs p as r rule: level_loop.induct)
     (simp_all add: format_enum_text level_code_def status_code_def split: option.splits)

section \<open>Sensors\<close>

lemmas step_defs = sensor_static_fields_def setSensorName_def setAvailable_def sensor_setStatus_def setState_def
  setGroup_def no_step_def set_enum_def

definition alarm :: "string list \<Rightarrow> entity_instance \<Rightarrow> bool" where
  "alarm names i \<longleftrightarrow> list_ex (\<lambda>f. getBoolValue (getField f i)) names"

lemma sensor_status_alarm:
  "sensor_status i =
     (if \<not> alarm [''CriticalAlarmHigh'', ''CriticalAlarmLow''] i \<and> alarm [''WarningAlarmHigh'', ''WarningAlarmLow''] i
      then Warning else Ok)"
  by (simp add: sensor_status_def alarmFieldsDict_def alarm_def)

definition reading_number :: "entity_instance \<Rightarrow> 64 word option" where
  "reading_number i = (if isNull (getField ''Reading'' i) then Some 0 else as_double (getValue (getField ''Reading'' i)))"

lemma as_double_None: "as_double v = None \<longleftrightarrow> type_of v \<noteq> T_double"
  by (cases v) simp_all

lemma get_reading: "get_as as_double 0 ''Reading'' i =
    (case reading_number i of Some d \<Rightarrow> Inr d | None \<Rightarrow> Inl Bad_variant_access)"
  by (simp add: get_as_def reading_number_def Let_def)

text \<open>What the steps leave, and whether they end with an exception.\<close>

definition sensor_done :: "(64 word \<Rightarrow> 64 word) \<Rightarrow> entity_instance \<Rightarrow> entity_instance" where
  "sensor_done out_of_range i = snd (sensor_static_fields out_of_range i)"

lemma getBoolValue_iff: "getBoolValue f \<longleftrightarrow> f = Some (FBool True)"
  by (auto simp: getBoolValue_def getValue_def isNull_def holds_alternative_def split: field_value.splits)

lemma alarm_put: "m \<notin> set names \<Longrightarrow> alarm names (put_field m v i) = alarm names i"
  by (auto simp: alarm_def list_ex_iff)

lemma sensor_status_set:
  "m \<notin> set [''CriticalAlarmHigh'', ''CriticalAlarmLow'', ''WarningAlarmHigh'', ''WarningAlarmLow''] \<Longrightarrow>
     sensor_status (put_field m v i) = sensor_status i"
  by (simp add: sensor_status_alarm alarm_put)

lemma get_reading_set:
  "m \<noteq> ''Reading'' \<Longrightarrow> reading_number (put_field m v i) = reading_number i"
  by (simp add: reading_number_def)

lemma sensor_static_fields_result:
  "fst (sensor_static_fields out_of_range i) =
     (case reading_number i of Some _ \<Rightarrow> Inr () | None \<Rightarrow> Inl Bad_variant_access)"
  by (simp add: step_defs with_value_def get_reading get_reading_set fieldStatus_def setNaturalReading_def split: option.splits)

lemma sensor_static_fields_status:
  "getField fieldStatus (sensor_done out_of_range i) = Some (FInt32 (status_code (sensor_status i)))"
  by (simp add: sensor_done_def step_defs with_value_def get_reading get_reading_set sensor_status_set setNaturalReading_def
      fieldStatus_def status_code_def split: option.splits)

lemma sensor_static_fields_state:
  "getField ''State'' (sensor_done out_of_range i) =
     Some (FInt32 (if isNull (getField ''Available'' i) \<or> getField ''Available'' i = Some (FBool True) then 0 else 1))"
  by (simp add: sensor_done_def step_defs with_value_def get_reading get_reading_set setNaturalReading_def
      getBoolValue_iff fieldStatus_def state_enabled_def state_absent_def split: option.splits)

lemma sensor_static_fields_group:
  "getField ''Group'' (sensor_done out_of_range i) = Some (FInt32 (of_nat (group_number (parse_group (object_path i)))))"
  by (simp add: sensor_done_def step_defs with_value_def get_reading get_reading_set setNaturalReading_def
      fieldStatus_def split: option.splits)

section \<open>Properties\<close>

text \<open>C36: the roll-up of a status is the highest code among the \<open>Status\<close>, and where the
  destination keeps one the \<open>StatusRollup\<close>, of all instances its relations lead to, and OK.\<close>

theorem status_rollup_is_highest:
  "StatusRollup n env e i w =
     bind_act (related_codes n env i (relations (entities w e)))
       (\<lambda>cs. ret (FInt32 (highest (status_code Ok # cs)))) w"
  by (auto simp: StatusRollup_def rollup_relations_codes foldl_higher bind_act_def ret_def
      split: option.splits sum.splits)

text \<open>The status the callback manager reports for a device is the highest of the levels its
  observed causers have; a level it does not know counts as OK. Nothing is thrown.\<close>

theorem callback_status_is_highest:
  "FormatStatus obs p (Associations as) =
     Inr (FInt32 (highest (status_code Ok #
       map (\<lambda>(level, _, _). level_code level)
         (filter (\<lambda>(_, _, causer). isCauserObserved obs causer) as))))"
  by (simp add: FormatStatus_def level_loop_codes foldl_higher)

text \<open>The status of a sensor. It is Warning when a warning alarm is raised and no critical
  alarm is; with a critical alarm it is OK, and it is never Critical.\<close>

theorem sensor_status_reported:
  "getField fieldStatus (snd (sensor_static_fields out_of_range i)) = Some (FInt32 (status_code
     (if \<not> alarm [''CriticalAlarmHigh'', ''CriticalAlarmLow''] i \<and> alarm [''WarningAlarmHigh'', ''WarningAlarmLow''] i
      then Warning else Ok)))"
  using sensor_static_fields_status [of out_of_range i] by (simp add: sensor_done_def sensor_status_alarm)

text \<open>C37: whatever the bus delivered, after the static fields of a sensor are set its typed
  accessors \<open>getFieldStatus\<close>, \<open>getFieldState\<close> and \<open>getFieldGroup\<close> do not throw and give an
  enumerator of their type; the step fails exactly on a reading that is not a \<open>double\<close>.\<close>

theorem sensor_accessors_typed:
  "\<exists>r j. sensor_static_fields out_of_range i = (r, j) \<and>
     (r = Inr () \<longleftrightarrow> isNull (getField ''Reading'' i) \<or> type_of (getValue (getField ''Reading'' i)) = T_double) \<and>
     (\<exists>s. getFieldStatus j = Inr (status_code s)) \<and>
     get_enum state_absent ''State'' j \<in> {Inr 0, Inr 1} \<and>
     (\<exists>g. get_enum 2 ''Group'' j = Inr (of_nat (group_number g)))"
proof -
  obtain r j where eq: "sensor_static_fields out_of_range i = (r, j)" by fastforce
  then have j: "sensor_done out_of_range i = j" by (simp add: sensor_done_def)
  have enum: "getField m j = Some (FInt32 n) \<Longrightarrow> get_enum d m j = Inr n" for d m n
    by (simp add: get_enum_def get_as_def isNull_def getValue_def)
  have "r = Inr () \<longleftrightarrow> reading_number i \<noteq> None"
    using sensor_static_fields_result [of out_of_range i] eq by (simp split: option.splits)
  then have "r = Inr () \<longleftrightarrow> isNull (getField ''Reading'' i) \<or> type_of (getValue (getField ''Reading'' i)) = T_double"
    by (simp add: reading_number_def as_double_None del: not_None_eq)
  moreover have "get_enum state_absent ''State'' j \<in> {Inr 0, Inr 1}"
    using sensor_static_fields_state [of out_of_range i] by (auto simp: j enum split: if_splits)
  moreover have "\<exists>s. getFieldStatus j = Inr (status_code s)"
    using sensor_static_fields_status [of out_of_range i] by (auto simp: j getFieldStatus_def enum)
  moreover have "\<exists>g. get_enum 2 ''Group'' j = Inr (of_nat (group_number g))"
    using sensor_static_fields_group [of out_of_range i] by (auto simp: j enum)
  ultimately show ?thesis using eq by blast
qed

end
