(* ===== verification/Inventory.thy ===== *)
theory Inventory
  imports Sensors
begin

text \<open>
  The inventory: \<open>src/chassis.hpp\<close>, \<open>fan.hpp\<close>, \<open>psu.hpp\<close>, \<open>drive.hpp\<close> and \<open>common_fields.hpp\<close>. For
  each entity its enumerations, the formatters and endpoints of its query, the criteria, the
  fields computed from others, and what its constructor adds. Default fields that roll the
  status up are operations of \<open>Status\<close>.
\<close>

definition assetInterface :: string where
  "assetInterface = ''xyz.openbmc_project.Inventory.Decorator.Asset''"

definition itemInterface :: string where
  "itemInterface = ''xyz.openbmc_project.Inventory.Item''"

definition add_members :: "string list \<Rightarrow> entity \<Rightarrow> entity" where
  "add_members names e = fold (\<lambda>m x. snd (createMember m x)) names e"

definition last_segment :: "bool \<Rightarrow> entity_instance \<Rightarrow> string" where
  "last_segment cleanup i = getNameFromLastSegmentObjectPath (object_path i) cleanup"

section \<open>Chassis\<close>

datatype chassis_state = Chassis_enabled | Chassis_standbyOffline
datatype chassis_power = Power_on | Power_off
datatype intrusion_status = Intrusion_normal | Intrusion_hardwareIntrusion | Intrusion_tamperingDetected
datatype chassis_type = RackMount | Other_type

definition chassis_states :: "chassis_state list" where "chassis_states = [Chassis_enabled, Chassis_standbyOffline]"
definition chassis_powers :: "chassis_power list" where "chassis_powers = [Power_on, Power_off]"
definition intrusion_statuses :: "intrusion_status list" where
  "intrusion_statuses = [Intrusion_normal, Intrusion_hardwareIntrusion, Intrusion_tamperingDetected]"
definition chassis_types :: "chassis_type list" where "chassis_types = [RackMount, Other_type]"

definition chassisIface :: string where "chassisIface = ''xyz.openbmc_project.State.Chassis''"

definition FormatPower :: formatter where
  "FormatPower = format_with chassis_powers
     [(''xyz.openbmc_project.State.Chassis.PowerState.'' @ ''On'', Power_on)] Power_off"

definition chassis_state_endpoints :: "(string \<Rightarrow> int \<Rightarrow> string) \<Rightarrow> endpoint_map" where
  "chassis_state_endpoints date = endpoints
     [(chassisIface,
        [ep_format ''LastStateChangeTime'' ''LastStateChangeTime'' [FormatTimeMsToSec date],
         ep_format ''CurrentPowerState'' ''PowerState'' [FormatPower]])]"

definition chassis_static_fields :: instance_step where
  "chassis_static_fields = with_value (get_enum (position chassis_powers Power_off) ''PowerState'')
     (\<lambda>power. if power = of_nat (position chassis_powers Power_on)
       then set_enum ''State'' (position chassis_states Chassis_enabled)
       else set_enum ''State'' (position chassis_states Chassis_standbyOffline))"

definition chassis_state_kind :: dbus_query where
  "chassis_state_kind = GetObject chassisIface ''/xyz/openbmc_project/state/chassis0'' [chassisIface]"

definition new_ChassisStateProvider :: "entity \<Rightarrow> entity" where
  "new_ChassisStateProvider = add_members [''State'']"

definition intrusionIface :: string where "intrusionIface = ''xyz.openbmc_project.Chassis.Intrusion''"

definition FormatIntrusion :: formatter where
  "FormatIntrusion = format_with intrusion_statuses
     [(''Normal'', Intrusion_normal), (''HardwareIntrusion'', Intrusion_hardwareIntrusion),
      (''TamperingDetected'', Intrusion_tamperingDetected)] Intrusion_normal"

definition intrusion_endpoints :: endpoint_map where
  "intrusion_endpoints = endpoints [(intrusionIface, [ep_format ''Status'' ''Status'' [FormatIntrusion]])]"

definition intrusion_kind :: dbus_query where
  "intrusion_kind = FindObject \<lparr>crit_path = ''/xyz/openbmc_project/Intrusion'',
     crit_interfaces = [intrusionIface], crit_depth = 1, crit_service = None\<rparr>"

definition platformIface :: string where "platformIface = ''com.yadro.Platform''"

definition FormatChassisType :: formatter where
  "FormatChassisType = format_with chassis_types [(''23'', RackMount)] Other_type"

definition chassis_endpoints :: endpoint_map where
  "chassis_endpoints = endpoints
     [(platformIface,
        [ep_format ''ChassisType'' ''Type'' [FormatChassisType], ep_field ''ChassisPartNumber'' ''PartNumber'']),
      (assetInterface, [ep_field ''Manufacturer'' ''Manufacturer''])]"

definition chassis_kind :: dbus_query where
  "chassis_kind = FindObject \<lparr>crit_path = ''/xyz/openbmc_project/inventory/system/board/'',
     crit_interfaces = [platformIface], crit_depth = 1, crit_service = None\<rparr>"

text \<open>The constructors behind \<open>StatusRollup::defaultGetter\<close> and \<open>StatusFromRollup::defaultGetter\<close>, as every
  \<open>getDefaultFieldsValue\<close> here lists them; the link to the state and to the sensors.\<close>

definition rollup_defaults :: "entity \<Rightarrow> entity" where
  "rollup_defaults e = new_StatusFromRollup (new_StatusRollup e)"

definition new_Chassis :: "entity \<Rightarrow> entity" where
  "new_Chassis = rollup_defaults"

definition chassis_links :: "nat \<Rightarrow> (nat \<times> link_rule) list" where
  "chassis_links state_provider = [(state_provider, defaultLinkProvider)]"

definition chassis_relations :: "nat \<Rightarrow> nat \<Rightarrow> relation list" where
  "chassis_relations chassis sensors =
     [\<lparr>source = chassis, destination = sensors, conditionBuildRules = directLinkingRule\<rparr>]"

section \<open>Fans\<close>

definition fanInventoryIface :: string where "fanInventoryIface = ''xyz.openbmc_project.Inventory.Item.Fan''"

definition asset_fields :: setters where
  "asset_fields = map (\<lambda>m. ep_field m m) [''Manufacturer'', ''Model'', ''PartNumber'', ''SerialNumber'']"

definition fan_endpoints :: endpoint_map where
  "fan_endpoints = endpoints
     [(fanInventoryIface, [ep_field ''Name'' ''Name'', ep_field ''Type'' ''Type'', ep_field ''Connector'' ''Connector'']),
      (itemInterface, [ep_field ''PrettyName'' ''PrettyName'']),
      (assetInterface, asset_fields)]"

definition fan_kind :: dbus_query where
  "fan_kind = FindObject \<lparr>crit_path = ''/xyz/openbmc_project/inventory/system/fan/'',
     crit_interfaces = [fanInventoryIface], crit_depth = 1, crit_service = None\<rparr>"

text \<open>The only state is \<open>enabled\<close>, number 0.\<close>

definition fan_static_fields :: instance_step where
  "fan_static_fields = steps [set_enum ''State'' 0, with_value (get_text ''Name'') (\<lambda>n. set_field ''Id'' (FString n))]"

definition new_Fan :: "entity \<Rightarrow> entity" where
  "new_Fan e = add_members [''Id'', ''State''] (rollup_defaults e)"

definition readingRPM :: condition where
  "readingRPM = sensorsByType (position sensor_units Unit_rotational)"

definition readingPWM :: condition where
  "readingPWM = sensorsByType (position sensor_units Unit_percent)"

definition inventory_relations :: "nat \<Rightarrow> nat \<Rightarrow> relation list" where
  "inventory_relations self sensors =
     [\<lparr>source = self, destination = sensors, conditionBuildRules = inventoryRelation\<rparr>]"

section \<open>Power supplies\<close>

definition psuYadroIface :: string where "psuYadroIface = ''com.yadro.Inventory.PSU''"

text \<open>The first association whose reverse name is \<open>status\<close> gives the supply's identifier.\<close>

definition FormatPsuId :: formatter where
  "FormatPsuId property v = Inr (FString
     (case v of
        Associations as \<Rightarrow>
          (case List.find (\<lambda>(_, purpose, _). purpose = ''status'') as of
             Some (_, _, psuObject) \<Rightarrow> getNameFromLastSegmentObjectPath psuObject False
           | None \<Rightarrow> fieldValueNotAvailable)
      | _ \<Rightarrow> fieldValueNotAvailable))"

definition pmbus_endpoints :: endpoint_map where
  "pmbus_endpoints = endpoints
     [(assocIface, [ep_format ''Associations'' ''Id'' [FormatPsuId]]),
      (psuYadroIface, map (\<lambda>m. ep_field m m)
         [''CrpsMfrFWRevision'', ''PmbusMfrDate'', ''PmbusMfrID'', ''PmbusMfrLocation'', ''PmbusMfrModel'',
          ''PmbusMfrRevision'', ''PmbusMfrSerial'', ''PmbusRevision''])]"

definition pmbus_kind :: dbus_query where
  "pmbus_kind = FindObject \<lparr>crit_path = ''/xyz/openbmc_project/State/Decorator/'',
     crit_interfaces = [psuYadroIface, assocIface], crit_depth = 0,
     crit_service = Some ''xyz.openbmc_project.PSUSensor''\<rparr>"

definition psuInventoryIface :: string where
  "psuInventoryIface = ''xyz.openbmc_project.Inventory.Item.PowerSupply''"

definition trimmed_assets :: setters where
  "trimmed_assets = map (\<lambda>m. ep_format m m [TrimFormatter]) [''Manufacturer'', ''Model'', ''PartNumber'', ''SerialNumber'']"

definition psu_endpoints :: endpoint_map where
  "psu_endpoints = endpoints
     [(psuInventoryIface, [ep_field ''Name'' ''Name'', ep_field ''Type'' ''Type'', ep_field ''Connector'' ''Connector'']),
      (itemInterface, [ep_field ''PrettyName'' ''PrettyName'']),
      (assetInterface, trimmed_assets)]"

definition psu_kind :: dbus_query where
  "psu_kind = FindObject \<lparr>crit_path = ''/xyz/openbmc_project/inventory/system/powersupply/'',
     crit_interfaces = [psuInventoryIface], crit_depth = 1, crit_service = None\<rparr>"

definition psu_static_fields :: instance_step where
  "psu_static_fields = steps [\<lambda>i. set_field ''Id'' (FString (last_segment False i)) i, set_enum ''State'' 0]"

definition linkPSUPMBus :: link_rule where
  "linkPSUPMBus = link_equal ''Id'' ''Id''"

definition powerSensor :: "entity_instance \<Rightarrow> string \<Rightarrow> condition may_throw" where
  "powerSensor i powerDirection =
     map_sum id (\<lambda>name. buildEqual ''Id'' (FString (name @ ''_'' @ powerDirection))) (get_text ''PrettyName'' i)"

definition inputPowerSensor :: "entity_instance \<Rightarrow> condition may_throw" where
  "inputPowerSensor i = powerSensor i ''Input_Power''"

definition outputPowerSensor :: "entity_instance \<Rightarrow> condition may_throw" where
  "outputPowerSensor i = powerSensor i ''Output_Power''"

definition observedCauserList :: "string list" where
  "observedCauserList = [''/xyz/openbmc_project/control/power_supply_redundancy'']"

definition new_PSU :: "entity \<Rightarrow> entity" where
  "new_PSU e = add_members [''Id'', ''State''] (rollup_defaults e)"

definition psu_links :: "nat \<Rightarrow> nat \<Rightarrow> (nat \<times> link_rule) list" where
  "psu_links pmbus callback_manager = [(pmbus, linkPSUPMBus), (callback_manager, defaultLinkProvider)]"

section \<open>Drives\<close>

datatype drive_protocol = Protocol_sas | Protocol_sata | Protocol_nvme | Protocol_fc | Protocol_unknown
datatype media_type = Media_hdd | Media_ssd | Media_unknown
datatype presence = Presence_enabled | Presence_absent

definition drive_protocols :: "drive_protocol list" where
  "drive_protocols = [Protocol_sas, Protocol_sata, Protocol_nvme, Protocol_fc, Protocol_unknown]"
definition media_types :: "media_type list" where "media_types = [Media_hdd, Media_ssd, Media_unknown]"
definition presences :: "presence list" where "presences = [Presence_enabled, Presence_absent]"

definition invDriveIface :: string where "invDriveIface = ''xyz.openbmc_project.Inventory.Item.Drive''"

definition FormatProtocol :: formatter where
  "FormatProtocol = format_with drive_protocols
     (map (\<lambda>(s, p). (invDriveIface @ ''.DriveProtocol.'' @ s, p))
        [(''SAS'', Protocol_sas), (''SATA'', Protocol_sata), (''NVMe'', Protocol_nvme), (''FC'', Protocol_fc)])
     Protocol_unknown"

definition FormatMediaType :: formatter where
  "FormatMediaType = format_with media_types
     (map (\<lambda>(s, p). (invDriveIface @ ''.DriveType.'' @ s, p)) [(''HDD'', Media_hdd), (''SSD'', Media_ssd)])
     Media_unknown"

text \<open>An exception-free cast of \<open>Present\<close>.\<close>

definition FormatPresent :: formatter where
  "FormatPresent property v =
     Inr (FInt32 (of_nat (position presences (if v = FBool True then Presence_enabled else Presence_absent))))"

definition drive_endpoints :: endpoint_map where
  "drive_endpoints = endpoints
     [(assetInterface, map (\<lambda>m. ep_field m m) [''Manufacturer'', ''Model'', ''SerialNumber'', ''PartNumber'']),
      (invDriveIface,
        [ep_field ''Capacity'' ''Capacity'', ep_format ''Protocol'' ''Protocol'' [FormatProtocol],
         ep_format ''Type'' ''MediaType'' [FormatMediaType]]),
      (''xyz.openbmc_project.State.Drive'', [ep_field ''Rebuilding'' ''Updating'']),
      (itemInterface, [ep_field ''PrettyName'' ''PrettyName'', ep_format ''Present'' ''State'' [FormatPresent]])]"

definition drive_kind :: dbus_query where
  "drive_kind = FindObject \<lparr>crit_path = ''/xyz/openbmc_project/inventory'',
     crit_interfaces = [invDriveIface], crit_depth = 0, crit_service = None\<rparr>"

definition drive_static_fields :: instance_step where
  "drive_static_fields = steps
     [\<lambda>i. set_field ''Id'' (FString (last_segment False i)) i, \<lambda>i. set_field ''Name'' (FString (last_segment True i)) i]"

definition new_Drive :: "entity \<Rightarrow> entity" where
  "new_Drive e = add_members [''Id'', ''Name''] (rollup_defaults e)"

text \<open>The one storage controller, a static instance.\<close>

definition storage_controller :: entity_instance where
  "storage_controller = snd (steps
     [set_field ''Id'' (FString ''PCH_Storage_Controller''),
      set_field ''PrettyName'' (FString ''PCH Storage Controller''),
      set_enum fieldStatus (status_number Ok),
      set_enum ''State'' (position presences Presence_enabled)] (new_static_instance ''PCH_Storage_Controller''))"

definition storage_fields :: "string list" where
  "storage_fields = [''Id'', ''PrettyName'', ''State'', fieldStatus]"

definition storage_relations :: "nat \<Rightarrow> nat \<Rightarrow> relation list" where
  "storage_relations self drives =
     [\<lparr>source = self, destination = drives, conditionBuildRules = directLinkingRule\<rparr>]"

end
