(* ===== verification/Processors.thy ===== *)
theory Processors
  imports Inventory Entity
begin

text \<open>
  \<open>src/cpu.hpp\<close>: the processors the sensors service reports, what the SMBIOS provider adds to
  them, and their summary, which is computed whenever it is asked for.
\<close>

datatype processor_type = Processor_cpu | Processor_unknown
datatype instruction_set = Set_x86_64 | Set_powerISA | Set_unknown
datatype arch = Arch_x86 | Arch_power | Arch_unknown

definition processor_types :: "processor_type list" where "processor_types = [Processor_cpu, Processor_unknown]"
definition instruction_sets :: "instruction_set list" where "instruction_sets = [Set_x86_64, Set_powerISA, Set_unknown]"
definition archs :: "arch list" where "archs = [Arch_x86, Arch_power, Arch_unknown]"

section \<open>The SMBIOS provider\<close>

definition cpuItemInterfaceName :: string where
  "cpuItemInterfaceName = ''xyz.openbmc_project.Inventory.Item.Cpu''"

definition smbiosService :: string where
  "smbiosService = ''xyz.openbmc_project.Smbios.MDR_V2''"

definition FormatProcessorType :: formatter where
  "FormatProcessorType = format_with processor_types [(''Central Processor'', Processor_cpu)] Processor_unknown"

definition cpu_smbios_endpoints :: "(64 word \<Rightarrow> string) \<Rightarrow> endpoint_map" where
  "cpu_smbios_endpoints float_text = endpoints
     [(cpuItemInterfaceName,
        [ep_field ''ProcessorCharacteristics'' ''Characteristics'', ep_field ''ProcessorCoreCount'' ''CoreCount'',
         ep_field ''ProcessorFamily'' ''Family'',
         ep_format ''ProcessorId'' ''IdentityReg'' [NumberToStringFormatter float_text],
         ep_field ''ProcessorManufacturer'' ''Manufacturer'', ep_field ''ProcessorMaxSpeed'' ''MaxSpeed'',
         ep_field ''ProcessorSocket'' ''Socket'', ep_field ''ProcessorThreadCount'' ''ThreadCount'',
         ep_field ''ProcessorVersion'' ''Model'',
         ep_format ''ProcessorType'' ''ProcessorType'' [FormatProcessorType]])]"

definition cpu_smbios_kind :: dbus_query where
  "cpu_smbios_kind = FindObject \<lparr>crit_path = ''/xyz/openbmc_project/inventory/'',
     crit_interfaces = [cpuItemInterfaceName], crit_depth = 0, crit_service = Some smbiosService\<rparr>"

text \<open>\<open>setISetAndArch\<close>: of the map, IBM comes before Intel.\<close>

definition dictToDetect :: "(string \<times> instruction_set \<times> arch) list" where
  "dictToDetect = [(''IBM'', Set_powerISA, Arch_power), (''Intel'', Set_x86_64, Arch_x86)]"

definition set_arch :: "instruction_set \<Rightarrow> arch \<Rightarrow> instance_step" where
  "set_arch s a = steps [set_enum ''InstructionSet'' (position instruction_sets s), set_enum ''Arch'' (position archs a)]"

definition setISetAndArch :: instance_step where
  "setISetAndArch = steps
     [set_arch Set_unknown Arch_unknown,
      \<lambda>i. (case List.find (\<lambda>(slug, _). contains (getStringValue (getField ''Manufacturer'' i)) slug) dictToDetect of
             Some (_, s, a) \<Rightarrow> set_arch s a i
           | None \<Rightarrow> no_step i)]"

definition cpu_smbios_static_fields :: instance_step where
  "cpu_smbios_static_fields = steps [\<lambda>i. set_field ''Name'' (FString (last_segment True i)) i, setISetAndArch]"

definition new_CpuSMBiosProvider :: "entity \<Rightarrow> entity" where
  "new_CpuSMBiosProvider = add_members [''Name'', ''InstructionSet'', ''Arch'']"

section \<open>Processors\<close>

definition FormatProcessorState :: formatter where
  "FormatProcessorState = formatValueFromDict T_bool
     (map (\<lambda>(b, s). (FBool b, FInt32 (of_nat (position presences s)))) [(False, Presence_absent), (True, Presence_enabled)])
     (FInt32 (of_nat (position presences Presence_absent)))"

definition processor_endpoints :: endpoint_map where
  "processor_endpoints = endpoints
     [(itemInterface, [ep_field ''PrettyName'' ''PrettyName'', ep_format ''Present'' ''State'' [FormatProcessorState]])]"

definition processor_kind :: dbus_query where
  "processor_kind = FindObject \<lparr>crit_path = ''/xyz/openbmc_project/inventory/system/chassis/motherboard/'',
     crit_interfaces = [itemInterface], crit_depth = 1, crit_service = Some ''xyz.openbmc_project.CPUSensor''\<rparr>"

definition processor_static_fields :: instance_step where
  "processor_static_fields = with_value (get_text ''PrettyName'') (\<lambda>n. set_field ''Id'' (FString n))"

definition linkSMBios :: link_rule where
  "linkSMBios = link_equal ''Name'' ''PrettyName''"

definition new_Processor :: "entity \<Rightarrow> entity" where
  "new_Processor e = add_members [''Id''] (rollup_defaults e)"

section \<open>Summaries\<close>

text \<open>The loop that keeps the higher of each of the two states.\<close>

fun higher_states :: "entity_instance list \<Rightarrow> 32 word \<Rightarrow> 32 word \<Rightarrow> (32 word \<times> 32 word) may_throw" where
  "higher_states [] status rollup = Inr (status, rollup)"
| "higher_states (i # is) status rollup =
     (case getFieldStatus i of
        Inl e \<Rightarrow> Inl e
      | Inr s \<Rightarrow> (case getFieldStatusRollup i of
          Inl e \<Rightarrow> Inl e
        | Inr r \<Rightarrow> higher_states is (getHigherStatus status s) (getHigherStatus rollup r)))"

definition summary_fields :: "32 word \<Rightarrow> 32 word \<Rightarrow> instance_step" where
  "summary_fields status rollup = steps
     [set_field fieldStatus (FInt32 status), set_field fieldStatusRollup (FInt32 rollup),
      set_enum ''State'' (position presences Presence_enabled)]"

definition processor_summary :: "entity_instance list \<Rightarrow> entity_instance may_throw" where
  "processor_summary is = map_sum id
     (\<lambda>(status, rollup). snd (steps [set_field ''Count'' (FUint32 (of_nat (length is))), summary_fields status rollup]
        (new_static_instance ''ProcessorSummaryInstance'')))
     (higher_states is (status_code Ok) (status_code Ok))"

definition processor_summary_process :: "nat \<Rightarrow> entity_env \<Rightarrow> entity_instance list act" where
  "processor_summary_process n env = bind_act (getEntity n env ''Processor'') (\<lambda>e.
     bind_act (getInstances n env e []) (\<lambda>is.
       case processor_summary is of Inl ex \<Rightarrow> throw ex | Inr s \<Rightarrow> ret [s]))"

definition processor_summary_fields :: "string list" where
  "processor_summary_fields = [''Count'', ''State'', fieldStatus, fieldStatusRollup]"

end
