(* ===== verification/Memory_Modules.thy ===== *)
theory Memory_Modules
  imports Processors
begin

text \<open>
  \<open>src/memory.hpp\<close>: the memory modules of the SMBIOS service, the entity that shows the ones
  that are present, and their summary.
\<close>

section \<open>Enumerations\<close>

datatype ecc = ECC_noECC | ECC_singleBitECC | ECC_multiBitECC | ECC_addressParity

datatype form_factor =
    FF_RDIMM | FF_UDIMM | FF_SO_DIMM | FF_LRDIMM | FF_mini_RDIMM | FF_mini_UDIMM | FF_SO_RDIMM_72b
  | FF_SO_UDIMM_72b | FF_SO_DIMM_16b | FF_SO_DIMM_32b | FF_die | FF_unknown

datatype memory_type = Memory_DRAM | Memory_intelOptane | Memory_unknown

datatype memory_device_type =
    Dev_DDR | Dev_DDR2 | Dev_DDR3 | Dev_DDR4 | Dev_DDR4E_SDRAM | Dev_LPDDR4_SDRAM | Dev_LPDDR3_SDRAM
  | Dev_DDR2_SDRAM_FB_DIMM | Dev_DDR2_SDRAM_FB_DIMM_PROBE | Dev_DDR_SGRAM | Dev_ROM | Dev_SDRAM | Dev_EDO
  | Dev_fastPageMode | Dev_pipelinedNibble | Dev_logical | Dev_HBM | Dev_HBM2 | Dev_unknown

definition eccs :: "ecc list" where
  "eccs = [ECC_noECC, ECC_singleBitECC, ECC_multiBitECC, ECC_addressParity]"

definition form_factors :: "form_factor list" where
  "form_factors = [FF_RDIMM, FF_UDIMM, FF_SO_DIMM, FF_LRDIMM, FF_mini_RDIMM, FF_mini_UDIMM, FF_SO_RDIMM_72b,
     FF_SO_UDIMM_72b, FF_SO_DIMM_16b, FF_SO_DIMM_32b, FF_die, FF_unknown]"

definition memory_types :: "memory_type list" where
  "memory_types = [Memory_DRAM, Memory_intelOptane, Memory_unknown]"

definition memory_device_types :: "memory_device_type list" where
  "memory_device_types = [Dev_DDR, Dev_DDR2, Dev_DDR3, Dev_DDR4, Dev_DDR4E_SDRAM, Dev_LPDDR4_SDRAM,
     Dev_LPDDR3_SDRAM, Dev_DDR2_SDRAM_FB_DIMM, Dev_DDR2_SDRAM_FB_DIMM_PROBE, Dev_DDR_SGRAM, Dev_ROM, Dev_SDRAM,
     Dev_EDO, Dev_fastPageMode, Dev_pipelinedNibble, Dev_logical, Dev_HBM, Dev_HBM2, Dev_unknown]"

section \<open>Formatters\<close>

definition dimmItemInterfaceName :: string where
  "dimmItemInterfaceName = ''xyz.openbmc_project.Inventory.Item.Dimm''"

definition dimm_enum :: "string \<Rightarrow> (string \<times> 'a) list \<Rightarrow> (string \<times> 'a) list" where
  "dimm_enum class dict = map (\<lambda>(s, e). (dimmItemInterfaceName @ class @ s, e)) dict"

definition FormatECC :: formatter where
  "FormatECC = format_with eccs (dimm_enum ''.Ecc.''
     [(''NoECC'', ECC_noECC), (''SingleBitECC'', ECC_singleBitECC), (''MultiBitECC'', ECC_multiBitECC),
      (''AddressParity'', ECC_addressParity)]) ECC_noECC"

definition FormatFormFactor :: formatter where
  "FormatFormFactor = format_with form_factors (dimm_enum ''.FormFactor.''
     [(''RDIMM'', FF_RDIMM), (''UDIMM'', FF_UDIMM), (''SO_DIMM'', FF_SO_DIMM), (''LRDIMM'', FF_LRDIMM),
      (''Mini_RDIMM'', FF_mini_RDIMM), (''Mini_UDIMM'', FF_mini_UDIMM), (''SO_RDIMM_72b'', FF_SO_RDIMM_72b),
      (''SO_UDIMM_72b'', FF_SO_UDIMM_72b), (''SO_DIMM_16b'', FF_SO_DIMM_16b), (''SO_DIMM_32b'', FF_SO_DIMM_32b),
      (''Die'', FF_die)]) FF_unknown"

definition FormatMemoryDeviceType :: formatter where
  "FormatMemoryDeviceType = format_with memory_device_types (dimm_enum ''.DeviceType.''
     [(''DDR'', Dev_DDR), (''DDR2'', Dev_DDR2), (''DDR3'', Dev_DDR3), (''DDR4'', Dev_DDR4),
      (''DDR4E_SDRAM'', Dev_DDR4E_SDRAM), (''LPDDR4_SDRAM'', Dev_LPDDR4_SDRAM), (''LPDDR3_SDRAM'', Dev_LPDDR3_SDRAM),
      (''DDR2_SDRAM_FB_DIMM'', Dev_DDR2_SDRAM_FB_DIMM), (''DDR2_SDRAM_FB_DIMM_PROBE'', Dev_DDR2_SDRAM_FB_DIMM_PROBE),
      (''DDR_SGRAM'', Dev_DDR_SGRAM), (''ROM'', Dev_ROM), (''SDRAM'', Dev_SDRAM), (''EDO'', Dev_EDO),
      (''FastPageMode'', Dev_fastPageMode), (''PipelinedNibble'', Dev_pipelinedNibble), (''Logical'', Dev_logical),
      (''HBM'', Dev_HBM), (''HBM2'', Dev_HBM2)]) Dev_unknown"

text \<open>The type of the number stays; any other value becomes the \<open>int\<close> 0.\<close>

definition FormatKiBtoMiB :: formatter where
  "FormatKiBtoMiB property v = Inr
     (case v of FUint64 n \<Rightarrow> FUint64 (drop_bit 10 n) | FUint32 n \<Rightarrow> FUint32 (drop_bit 10 n) | _ \<Rightarrow> FInt32 0)"

section \<open>The provider's query\<close>

definition dimm_sizes :: setters where
  "dimm_sizes = map (\<lambda>(p, m). ep_format p m [FormatKiBtoMiB])
     [(''AllocationAlignementInKiB'', ''AllocationAlignementInMiB''),
      (''AllocationIncrementInKiB'', ''AllocationIncrementInMiB''), (''MemorySizeInKB'', ''MemorySizeInMiB''),
      (''PmRegionMaxSizeKiB'', ''PmRegionMaxSizeMiB''), (''PmRegionSizeLimitKiB'', ''PmRegionSizeLimitMiB''),
      (''PmSizeInKiB'', ''PmSizeInMiB''), (''VolatileRegionMaxSizeKiB'', ''VolatileRegionMaxSizeMiB''),
      (''VolatileRegionSizeLimitKiB'', ''VolatileRegionSizeLimitMiB''),
      (''VolatileSizeInKiB'', ''VolatileSizeInMiB''), (''CacheSizeInKB'', ''CacheSizeInMiB'')]"

definition dimm_endpoints :: "(64 word \<Rightarrow> string) \<Rightarrow> endpoint_map" where
  "dimm_endpoints float_text = endpoints
     [(dimmItemInterfaceName,
        dimm_sizes @
        [ep_format ''ECC'' ''ECC'' [FormatECC], ep_format ''FormFactor'' ''FormFactor'' [FormatFormFactor],
         ep_format ''MemoryType'' ''MemoryDeviceType'' [FormatMemoryDeviceType]] @
        map (\<lambda>m. ep_field m m)
          [''AllowedMemoryModes'', ''AllowedSpeedsMHz'', ''CASLatencies'', ''Channel'', ''IsRankSpareEnabled'',
           ''IsSpareDeviceInUse'', ''MaxAveragePowerLimitmW'', ''MaxMemorySpeedInMhz'', ''MemoryAttributes'',
           ''MemoryConfiguredSpeedInMhz'', ''MemoryController'', ''MemoryDataWidth'', ''MemoryDeviceLocator'',
           ''MemoryMedia'', ''MemoryTotalWidth'', ''MemoryTypeDetail'', ''ModuleManufacturerID'',
           ''ModuleProductID'', ''PmRegionNumberLimit''] @
        [ep_format ''RevisionCode'' ''RevisionCode'' [NumberToStringFormatter float_text]] @
        map (\<lambda>m. ep_field m m)
          [''Slot'', ''Socket'', ''SpareDeviceCount'', ''SubsystemDeviceID'', ''SubsystemVendorID'',
           ''VolatileRegionNumberLimit'']),
      (assetInterface, ep_field ''BuildDate'' ''BuildDate'' # trimmed_assets)]"

definition dimm_kind :: dbus_query where
  "dimm_kind = FindObject \<lparr>crit_path = ''/xyz/openbmc_project/inventory/system/chassis/motherboard/dimm/'',
     crit_interfaces = [dimmItemInterfaceName], crit_depth = 0, crit_service = Some smbiosService\<rparr>"

definition setMemoryType :: instance_step where
  "setMemoryType = with_value (get_enum (position memory_device_types Dev_unknown) ''MemoryDeviceType'')
     (\<lambda>t. set_enum ''MemoryType'' (position memory_types
        (if t = of_nat (position memory_device_types Dev_logical) then Memory_intelOptane else Memory_DRAM)))"

definition setDimmState :: instance_step where
  "setDimmState = with_value (get_text ''Manufacturer'')
     (\<lambda>m. set_enum ''State'' (position presences (if m \<noteq> ''NO DIMM'' then Presence_enabled else Presence_absent)))"

definition dimm_static_fields :: instance_step where
  "dimm_static_fields = steps
     [\<lambda>i. set_field ''Name'' (FString (last_segment True i)) i, \<lambda>i. set_field ''Id'' (FString (last_segment False i)) i,
      set_enum ''State'' (position presences Presence_enabled), setMemoryType, setDimmState,
      set_enum fieldStatus (status_number Ok), set_enum fieldStatusRollup (status_number Ok)]"

definition new_DimmSMBiosProvider :: "entity \<Rightarrow> entity" where
  "new_DimmSMBiosProvider = add_members [''Name'', ''Id'', ''State'', ''MemoryType'', fieldStatus, fieldStatusRollup]"

section \<open>The entities\<close>

definition enabled_modules :: condition where
  "enabled_modules = buildEqual ''State'' (FInt32 (of_nat (position presences Presence_enabled)))"

definition memory_process :: "nat \<Rightarrow> entity_env \<Rightarrow> nat \<Rightarrow> entity_instance list act" where
  "memory_process n env provider =
     bind_act (populate n env provider) (\<lambda>_. getInstances n env provider [Some enabled_modules])"

definition as_uint32 :: "field_value \<Rightarrow> 32 word option" where
  "as_uint32 v = (case v of FUint32 n \<Rightarrow> Some n | _ \<Rightarrow> None)"

text \<open>The loop of the summary: both states are read before the size.\<close>

fun sum_modules :: "entity_instance list \<Rightarrow> 32 word \<times> 32 word \<Rightarrow> 32 word \<Rightarrow> ((32 word \<times> 32 word) \<times> 32 word) may_throw" where
  "sum_modules [] states capacity = Inr (states, capacity)"
| "sum_modules (i # is) states capacity =
     (case higher_states [i] (fst states) (snd states) of
        Inl e \<Rightarrow> Inl e
      | Inr states' \<Rightarrow>
          (case get_as as_uint32 0 ''MemorySizeInMiB'' i of
             Inl e \<Rightarrow> Inl e
           | Inr mib \<Rightarrow> sum_modules is states' (capacity + drop_bit 10 mib)))"

definition memory_summary :: "entity_instance list \<Rightarrow> entity_instance may_throw" where
  "memory_summary is = map_sum id
     (\<lambda>((status, rollup), capacity). snd (steps [set_field ''TotalSize'' (FUint32 capacity), summary_fields status rollup]
        (new_static_instance ''MemroySummaryInstance'')))
     (sum_modules is (status_code Ok, status_code Ok) 0)"

definition memory_summary_process :: "nat \<Rightarrow> entity_env \<Rightarrow> nat \<Rightarrow> entity_instance list act" where
  "memory_summary_process n env provider = bind_act (memory_process n env provider) (\<lambda>is.
     case memory_summary is of Inl ex \<Rightarrow> throw ex | Inr s \<Rightarrow> ret [s])"

definition memory_summary_fields :: "string list" where
  "memory_summary_fields = [''TotalSize'', ''State'', fieldStatus, fieldStatusRollup]"

end
