(* ===== verification/Pcie.thy ===== *)
theory Pcie
  imports Inventory Entity
begin

unbundle bit_operations_syntax

text \<open>
  \<open>src/pcie.hpp\<close>: the devices of the PCIe service with up to eight functions each, whose
  properties are members named by the function's number, and the entity of the functions.
\<close>

section \<open>Enumerations and members\<close>

datatype device_type = Device_singleFunction | Device_multiFunction | Device_unkown

datatype device_class =
    Class_unclassifiedDevice | Class_massStorageController | Class_networkController | Class_displayController
  | Class_multimediaController | Class_memoryController | Class_bridge | Class_communicationController
  | Class_genericSystemPeripheral | Class_inputDeviceController | Class_dockingStation | Class_processor
  | Class_serialBusController | Class_wirelessController | Class_intelligentController
  | Class_satelliteCommunicationsController | Class_encryptionController | Class_signalProcessingController
  | Class_processingAccelerators | Class_nonEssentialInstrumentation | Class_coprocessor
  | Class_unassignedClass | Class_other

datatype function_type = Function_physical | Function_virtual | Function_unkown

definition device_types :: "device_type list" where
  "device_types = [Device_singleFunction, Device_multiFunction, Device_unkown]"

definition device_classes :: "device_class list" where
  "device_classes = [Class_unclassifiedDevice, Class_massStorageController, Class_networkController,
     Class_displayController, Class_multimediaController, Class_memoryController, Class_bridge,
     Class_communicationController, Class_genericSystemPeripheral, Class_inputDeviceController,
     Class_dockingStation, Class_processor, Class_serialBusController, Class_wirelessController,
     Class_intelligentController, Class_satelliteCommunicationsController, Class_encryptionController,
     Class_signalProcessingController, Class_processingAccelerators, Class_nonEssentialInstrumentation,
     Class_coprocessor, Class_unassignedClass, Class_other]"

definition function_types :: "function_type list" where
  "function_types = [Function_physical, Function_virtual, Function_unkown]"

definition otherDeviceClassId :: "8 word" where "otherDeviceClassId = 0xFF"

definition fieldSBD :: string where "fieldSBD = ''Id''"

definition pcieFunctionsCount :: nat where "pcieFunctionsCount = 8"

definition getDynamicFields :: "string list" where
  "getDynamicFields = [''ClassCode'', ''DeviceId'', ''DeviceClassId'', ''DeviceClass'', ''DeviceSubClass'',
     ''DeviceName'', ''FunctionType'', ''RevisionId'', ''SubsystemId'', ''SubsystemName'', ''SubsystemVendorId'',
     ''VendorId'', ''VendorName'']"

definition getComplexFunctionMemberName :: "nat \<Rightarrow> string \<Rightarrow> string" where
  "getComplexFunctionMemberName index dynMemberName = ''Function'' @ dec_nat index @ dynMemberName"

section \<open>The query of the provider\<close>

definition pcieInterfaceName :: string where "pcieInterfaceName = ''xyz.openbmc_project.PCIe.Device''"

definition FormatDeviceType :: formatter where
  "FormatDeviceType = format_with device_types
     [(''SingleFunction'', Device_singleFunction), (''MultiFunction'', Device_multiFunction)] Device_unkown"

definition class_dict :: "(8 word \<times> device_class) list" where
  "class_dict = zip (map of_nat [0..<0x14]) device_classes @ [(0x40, Class_coprocessor), (0xff, Class_unassignedClass)]"

definition FormatDeviceClass :: formatter where
  "FormatDeviceClass = formatValueFromDict T_uint8
     (map (\<lambda>(k, c). (FUint8 k, FInt32 (of_nat (position device_classes c)))) class_dict)
     (FInt32 (of_nat (position device_classes Class_other)))"

definition FormatFunctionType :: formatter where
  "FormatFunctionType = format_with function_types
     [(''Physical'', Function_physical), (''Virtual'', Function_virtual)] Function_unkown"

definition getPCIeMemberNameDict :: setters where
  "getPCIeMemberNameDict =
     [ep_field ''Device'' ''Device'', ep_field ''Manufacturer'' ''Manufacturer'', ep_field ''Subsystem'' ''Subsystem'',
      ep_format ''DeviceType'' ''DeviceType'' [FormatDeviceType]] @
     concat (map (\<lambda>index. map (\<lambda>m. let fieldName = getComplexFunctionMemberName index m
         in ep_format fieldName fieldName (if m = ''FunctionType'' then [FormatFunctionType] else [])) getDynamicFields)
       [0..<pcieFunctionsCount])"

definition pcie_endpoints :: endpoint_map where
  "pcie_endpoints = endpoints [(pcieInterfaceName, getPCIeMemberNameDict)]"

definition pcie_kind :: dbus_query where
  "pcie_kind = FindObject \<lparr>crit_path = ''/xyz/openbmc_project/PCIe'', crit_interfaces = [pcieInterfaceName],
     crit_depth = 0, crit_service = Some ''xyz.openbmc_project.PCIe''\<rparr>"

section \<open>Computed fields\<close>

text \<open>The groups of \<open>^S(\d+)B(\d+)D(\d+)$\<close>.\<close>

definition digits_after :: "char \<Rightarrow> string \<Rightarrow> (string \<times> string) option" where
  "digits_after c text =
     (case text of
        [] \<Rightarrow> None
      | x # rest \<Rightarrow>
          (if x = c \<and> takeWhile isdigit rest \<noteq> [] then Some (takeWhile isdigit rest, dropWhile isdigit rest) else None))"

definition match_SBD :: "string \<Rightarrow> (string \<times> string \<times> string) option" where
  "match_SBD sbd =
     (case digits_after CHR ''S'' sbd of
        None \<Rightarrow> None
      | Some (s, r1) \<Rightarrow> (case digits_after CHR ''B'' r1 of
          None \<Rightarrow> None
        | Some (b, r2) \<Rightarrow> (case digits_after CHR ''D'' r2 of
            None \<Rightarrow> None
          | Some (d, r3) \<Rightarrow> (if r3 = [] then Some (s, b, d) else None))))"

definition setSBD :: instance_step where
  "setSBD i =
     (let sbd = last_segment True i
      in steps
        [set_field fieldSBD (FString sbd),
         (case match_SBD sbd of
            None \<Rightarrow> no_step
          | Some (s, b, d) \<Rightarrow> steps [set_field ''Socket'' (FString s), set_field ''Bus'' (FString b),
                                    set_field ''Address'' (FString d)])] i)"

definition for_functions :: "(nat \<Rightarrow> instance_step) \<Rightarrow> instance_step" where
  "for_functions f = steps (map f [0..<pcieFunctionsCount])"

definition function_text :: "nat \<Rightarrow> string \<Rightarrow> entity_instance \<Rightarrow> string" where
  "function_text index m i = getStringValue (getField (getComplexFunctionMemberName index m) i)"

definition setDeviceSubClass :: instance_step where
  "setDeviceSubClass = for_functions (\<lambda>index i.
     set_field (getComplexFunctionMemberName index ''DeviceSubClass'') (FString (function_text index ''DeviceClass'' i)) i)"

definition class_of_code :: "string \<Rightarrow> string \<Rightarrow> 8 word" where
  "class_of_code property code =
     (case StrHexToNumberFormatter property (FString code) of
        Inr (FUint64 cc) \<Rightarrow> ucast (drop_bit 16 cc AND 0xFF)
      | _ \<Rightarrow> otherDeviceClassId)"

definition setDeviceClassId :: instance_step where
  "setDeviceClassId = for_functions (\<lambda>index i.
     set_field (getComplexFunctionMemberName index ''DeviceClassId'')
       (FUint8 (class_of_code (getComplexFunctionMemberName index ''ClassCode'') (function_text index ''ClassCode'' i))) i)"

definition as_uint8 :: "field_value \<Rightarrow> 8 word option" where
  "as_uint8 v = (case v of FUint8 n \<Rightarrow> Some n | _ \<Rightarrow> None)"

definition class_value :: "string \<Rightarrow> 8 word \<Rightarrow> field_value may_throw" where
  "class_value property dci = map_sum id
     (\<lambda>v. case v of FInt32 n \<Rightarrow> FInt32 n | _ \<Rightarrow> FInt32 (of_nat (position device_classes Class_other)))
     (FormatDeviceClass property (FUint8 dci))"

definition setDeviceClass :: instance_step where
  "setDeviceClass = for_functions (\<lambda>index i.
     (let name = getComplexFunctionMemberName index ''DeviceClass''
      in case as_uint8 (getValue (getField (getComplexFunctionMemberName index ''DeviceClassId'') i)) of
           None \<Rightarrow> (Inl Bad_variant_access, i)
         | Some dci \<Rightarrow> (case class_value name dci of
             Inl e \<Rightarrow> (Inl e, i)
           | Inr v \<Rightarrow> set_field name v i)))"

definition pcie_static_fields :: instance_step where
  "pcie_static_fields = steps
     [setSBD, set_enum fieldStatus (status_number Ok), setDeviceSubClass, setDeviceClassId, setDeviceClass]"

definition new_PCIeProvider :: "entity \<Rightarrow> entity" where
  "new_PCIeProvider = add_members [fieldSBD, ''Socket'', ''Bus'', ''Address'', fieldStatus]"

section \<open>Devices and functions\<close>

text \<open>\<open>std::get\<close> on the value of the other side; the rule is used in both directions.\<close>

definition same_SBD :: "field option \<Rightarrow> field_value \<Rightarrow> bool may_throw" where
  "same_SBD f v =
     (case as_text v of
        None \<Rightarrow> Inl Bad_variant_access
      | Some destSBD \<Rightarrow> Inr (case f of Some f' \<Rightarrow> getStringValue f' = destSBD | None \<Rightarrow> False))"

text \<open>One function of a device: nothing when its device identifier is the empty text.\<close>

definition function_instance :: "entity_instance \<Rightarrow> nat \<Rightarrow> entity_instance option" where
  "function_instance p index =
     (let identifyField = getComplexFunctionMemberName index ''DeviceId'';
          ident = getStringValue (getField identifyField p)
      in if ident = [] then None
         else Some (snd (steps
           ([set_field ''FunctionId'' (FString (dec_nat index)), set_field ''FunctionIdNumerical'' (FUint8 (of_nat index)),
             set_field fieldSBD (getValue (getField fieldSBD p))] @
            map (\<lambda>m. set_field m (getValue (getField (getComplexFunctionMemberName index m) p))) getDynamicFields)
           (new_static_instance (identifyField @ ident @ getStringValue (getField fieldSBD p))))))"

definition functions_of :: "entity_instance list \<Rightarrow> entity_instance list" where
  "functions_of is = concat (map (\<lambda>p. List.map_filter (function_instance p) [0..<pcieFunctionsCount]) is)"

definition pcie_function_process :: "nat \<Rightarrow> entity_env \<Rightarrow> nat \<Rightarrow> entity_instance list act" where
  "pcie_function_process n env provider =
     bind_act (populate n env provider) (\<lambda>_. bind_act (getInstances n env provider []) (\<lambda>is. ret (functions_of is)))"

definition pcie_function_fields :: "string list" where
  "pcie_function_fields = [''ClassCode'', ''DeviceClassId'', ''DeviceClass'', ''DeviceSubClass'', ''DeviceId'',
     ''DeviceName'', ''FunctionType'', ''RevisionId'', ''SubsystemId'', ''FunctionId'', ''FunctionIdNumerical'',
     ''SubsystemName'', ''SubsystemVendorId'', ''VendorId'', ''VendorName'']"

definition new_PCIeFunction :: "entity \<Rightarrow> entity" where
  "new_PCIeFunction = add_members [fieldSBD]"

end
