(* ===== verification/Inventory_Properties.thy ===== *)
theory Inventory_Properties
  imports Memory_Modules Pcie Device_Properties
begin

text \<open>
  What holds of the inventory: the summaries of processors and memory, and the classes and
  functions of PCIe devices.
\<close>

section \<open>Summaries\<close>

lemma getHigherStatus_commute: "getHigherStatus a b = getHigherStatus b a"
  by (metis getHigherStatus_max max.commute signed_word_eqI)

text \<open>An instance with the two states.\<close>

definition shows_states :: "entity_instance \<Rightarrow> 32 word \<Rightarrow> 32 word \<Rightarrow> bool" where
  "shows_states i s r \<longleftrightarrow> getFieldStatus i = Inr s \<and> getFieldStatusRollup i = Inr r"

lemma higher_states_highest:
  assumes "list_all2 (\<lambda>i (s, r). shows_states i s r) is srs"
  shows "higher_states is a b = Inr (highest (a # map fst srs), highest (b # map snd srs))"
proof -
  have "higher_states is a b = Inr (foldl (\<lambda>r c. getHigherStatus c r) a (map fst srs), foldl (\<lambda>r c. getHigherStatus c r) b (map snd srs))"
    using assms
  proof (induction "is" srs arbitrary: a b rule: list_all2_induct)
    case (Cons i "is" sr srs)
    then show ?case
      by (cases sr) (simp add: shows_states_def getHigherStatus_commute [of a] getHigherStatus_commute [of b])
  qed simp
  then show ?thesis by (simp add: foldl_higher)
qed

text \<open>A module with its states and its size.\<close>

definition module_of :: "entity_instance \<Rightarrow> 32 word \<times> 32 word \<Rightarrow> 32 word \<Rightarrow> bool" where
  "module_of i sr mib \<longleftrightarrow> shows_states i (fst sr) (snd sr) \<and> get_as as_uint32 0 ''MemorySizeInMiB'' i = Inr mib"

lemma sum_modules_word:
  assumes "list_all2 (\<lambda>i (sr, mib). module_of i sr mib) is ms"
  shows "sum_modules is (a, b) t =
    Inr ((highest (a # map (fst \<circ> fst) ms), highest (b # map (snd \<circ> fst) ms)), t + sum_list (map (drop_bit 10 \<circ> snd) ms))"
proof -
  have "sum_modules is (a, b) t =
      Inr ((foldl (\<lambda>r c. getHigherStatus c r) a (map (fst \<circ> fst) ms),
            foldl (\<lambda>r c. getHigherStatus c r) b (map (snd \<circ> fst) ms)), t + sum_list (map (drop_bit 10 \<circ> snd) ms))"
    using assms
  proof (induction "is" ms arbitrary: a b t rule: list_all2_induct)
    case (Cons i "is" m ms)
    obtain s r mib where m: "m = ((s, r), mib)" by (cases m) auto
    with Cons show ?case
      by (simp add: module_of_def shows_states_def getHigherStatus_commute [of a] getHigherStatus_commute [of b] add.assoc)
  qed simp
  then show ?thesis by (simp add: foldl_higher)
qed

lemma unat_sum_list_word: "unat (sum_list ws) = sum_list (map unat ws) mod 2 ^ LENGTH('a)" for ws :: "'a :: len word list"
  by (induction ws) (simp_all add: unat_word_ariths mod_add_right_eq)

lemma total_modules:
  "unat (sum_list (map (drop_bit 10 \<circ> snd) ms)) = sum_list (map (\<lambda>m. unat (snd m :: 32 word) div 1024) ms) mod 2 ^ 32"
proof -
  have "unat (drop_bit 10 w) = unat w div 1024" for w :: "32 word"
    by (simp add: drop_bit_eq_div unat_div)
  then show ?thesis by (simp add: unat_sum_list_word comp_def)
qed

section \<open>Functions of PCIe devices\<close>

lemma dec_nat_digit: "n < 8 \<Longrightarrow> dec_nat n = [char_of (48 + n)]"
  by (simp add: dec_nat.simps [of n])

lemma function_member_inj:
  assumes "i < 8" "j < 8" "getComplexFunctionMemberName i m = getComplexFunctionMemberName j m'"
  shows "i = j \<and> m = m'"
proof -
  have "length (dec_nat i) = 1" "length (dec_nat j) = 1" using assms(1,2) by (simp_all add: dec_nat_digit)
  with assms(3) have "dec_nat i = dec_nat j \<and> m = m'" by (simp add: getComplexFunctionMemberName_def append_eq_append_conv)
  then show ?thesis using dec_nat_inj by blast
qed

lemma function_member_iff [simp]:
  "i < 8 \<Longrightarrow> j < 8 \<Longrightarrow> getComplexFunctionMemberName i m = getComplexFunctionMemberName j m' \<longleftrightarrow> i = j \<and> m = m'"
  using function_member_inj by blast

text \<open>A loop over the functions that sets one field of each, from fields it does not change.\<close>

lemma steps_fields:
  assumes "\<And>k i. k \<in> set ks \<Longrightarrow> (\<forall>m \<in> R. getField m i = getField m i0) \<Longrightarrow> f k i = (Inr (), put_field (name k) (v k) i)"
    and "\<And>k. k \<in> set ks \<Longrightarrow> name k \<notin> R" and "distinct (map name ks)" and "\<forall>m \<in> R. getField m i = getField m i0"
  shows "\<exists>j. steps (map f ks) i = (Inr (), j) \<and> dbus j = dbus i \<and>
    (\<forall>m. getField m j = (case map_of (map (\<lambda>k. (name k, v k)) ks) m of Some x \<Rightarrow> Some x | None \<Rightarrow> getField m i))"
  using assms
proof (induction ks arbitrary: i)
  case (Cons k ks)
  let ?i = "put_field (name k) (v k) i"
  have "\<forall>m \<in> R. getField m ?i = getField m i0" using Cons.prems(2,4) by auto
  with Cons.IH [of ?i] Cons.prems obtain j where j: "steps (map f ks) ?i = (Inr (), j)" "dbus j = dbus i"
    "\<And>m. getField m j = (case map_of (map (\<lambda>k. (name k, v k)) ks) m of Some x \<Rightarrow> Some x | None \<Rightarrow> getField m ?i)" by auto
  have "map_of (map (\<lambda>k. (name k, v k)) ks) (name k) = None"
    using Cons.prems(3) by (auto simp: map_of_eq_None_iff image_iff)
  then have "\<forall>m. getField m j = (case map_of (map (\<lambda>k. (name k, v k)) (k # ks)) m of Some x \<Rightarrow> Some x | None \<Rightarrow> getField m i)"
    by (auto simp: j(3) split: option.splits)
  moreover have "steps (map f (k # ks)) i = (Inr (), j)" using Cons.prems(1,4) j(1) by simp
  ultimately show ?case using j(2) by blast
qed (simp add: no_step_def)

lemma map_of_functions:
  "k < 8 \<Longrightarrow> map_of (map (\<lambda>k. (getComplexFunctionMemberName k m, v k)) [0..<pcieFunctionsCount])
     (getComplexFunctionMemberName k m') = (if m' = m then Some (v k) else None)"
  by (auto simp: pcieFunctionsCount_def map_of_eq_None_iff intro!: map_of_is_SomeI)
     (auto simp: distinct_map comp_def inj_on_def)

lemma function_step:
  assumes "\<And>k i. k < 8 \<Longrightarrow> (\<forall>k < 8. getField (getComplexFunctionMemberName k src) i = getField (getComplexFunctionMemberName k src) i0) \<Longrightarrow>
      f k i = (Inr (), put_field (getComplexFunctionMemberName k m) (v k) i)" and "src \<noteq> m"
  shows "\<exists>j. for_functions f i0 = (Inr (), j) \<and>
    (\<forall>k < 8. \<forall>m'. getField (getComplexFunctionMemberName k m') j =
       (if m' = m then Some (v k) else getField (getComplexFunctionMemberName k m') i0))"
proof -
  let ?R = "(\<lambda>k. getComplexFunctionMemberName k src) ` {..<8}" and ?ks = "[0..<pcieFunctionsCount]"
  have "\<exists>j. steps (map f ?ks) i0 = (Inr (), j) \<and> dbus j = dbus i0 \<and>
      (\<forall>m'. getField m' j = (case map_of (map (\<lambda>k. (getComplexFunctionMemberName k m, v k)) ?ks) m' of
         Some x \<Rightarrow> Some x | None \<Rightarrow> getField m' i0))"
  proof (rule steps_fields [where R = ?R and ?i0.0 = i0])
    show "f k i = (Inr (), put_field (getComplexFunctionMemberName k m) (v k) i)"
      if "k \<in> set ?ks" "\<forall>m \<in> ?R. getField m i = getField m i0" for k i
      using that by (intro assms(1)) (auto simp: pcieFunctionsCount_def)
    show "getComplexFunctionMemberName k m \<notin> ?R" if "k \<in> set ?ks" for k
      using that assms(2) by (auto simp: pcieFunctionsCount_def)
    show "distinct (map (\<lambda>k. getComplexFunctionMemberName k m) ?ks)"
      by (auto simp: pcieFunctionsCount_def distinct_map inj_on_def)
  qed simp
  then show ?thesis by (auto simp: for_functions_def map_of_functions)
qed

lemma class_of_code_same: "class_of_code p code = class_of_code q code"
  by (simp add: class_of_code_def StrHexToNumberFormatter_def)

lemma class_of_code_name: "class_of_code (getComplexFunctionMemberName k m) code = class_of_code [] code"
  by (rule class_of_code_same)

definition class_named :: "8 word \<Rightarrow> device_class" where
  "class_named dci = (case map_of class_dict dci of Some c \<Rightarrow> c | None \<Rightarrow> Class_other)"

lemma class_value_named: "class_value p dci = Inr (FInt32 (of_nat (position device_classes (class_named dci))))"
proof -
  have "map_of (map (\<lambda>(k, c). (FUint8 k, FInt32 (of_nat (position device_classes c)))) d) (FUint8 dci) =
      map_option (\<lambda>c. FInt32 (of_nat (position device_classes c))) (map_of d dci)" for d :: "(8 word \<times> device_class) list"
    by (induction d) auto
  then show ?thesis
    by (simp add: class_value_def FormatDeviceClass_def formatValueFromDict_def class_named_def split: option.split)
qed

lemma setSBD_functions:
  "\<exists>j. setSBD i = (Inr (), j) \<and> (\<forall>k m. getField (getComplexFunctionMemberName k m) j = getField (getComplexFunctionMemberName k m) i)"
  by (auto simp: setSBD_def Let_def getComplexFunctionMemberName_def fieldSBD_def no_step_def split: option.split)

section \<open>Concrete inputs\<close>

definition sample_module :: "32 word \<Rightarrow> entity_instance" where
  "sample_module mib = \<lparr>identity = [], memberInstances = [(''MemorySizeInMiB'', Some (FUint32 mib))], dbus = None\<rparr>"

lemma sample_module_of: "module_of (sample_module mib) (0, 0) mib"
  by (simp add: module_of_def shows_states_def sample_module_def getFieldStatus_def getFieldStatusRollup_def get_enum_def
      get_as_def as_uint32_def getField_def getValue_def isNull_def fieldStatus_def fieldStatusRollup_def)

section \<open>Properties\<close>

text \<open>C38: the summary of the memory: the states are the highest of all modules, and the size is the
  sum of the modules' sizes, each cut down to whole GiB before it is added, in 32 bits.\<close>

theorem memory_summary_values:
  assumes "list_all2 (\<lambda>i (sr, mib). module_of i sr mib) is ms"
  shows "\<exists>s n. memory_summary is = Inr s \<and> getField ''TotalSize'' s = Some (FUint32 n) \<and>
    unat n = sum_list (map (\<lambda>m. unat (snd m) div 1024) ms) mod 2 ^ 32 \<and>
    getFieldStatus s = Inr (highest (status_code Ok # map (fst \<circ> fst) ms)) \<and>
    getFieldStatusRollup s = Inr (highest (status_code Ok # map (snd \<circ> fst) ms))"
  using sum_modules_word [OF assms, of "status_code Ok" "status_code Ok" 0] total_modules [of ms]
  by (simp add: memory_summary_def summary_fields_def set_enum_def no_step_def getFieldStatus_def
      getFieldStatusRollup_def get_enum_def get_as_def isNull_def getValue_def fieldStatus_def fieldStatusRollup_def)

theorem memory_summary_values_witness:
  "\<exists>s n. memory_summary [sample_module 1536, sample_module 512] = Inr s \<and>
     getField ''TotalSize'' s = Some (FUint32 n) \<and> unat n = 1"
proof -
  have "list_all2 (\<lambda>i (sr, mib). module_of i sr mib) [sample_module 1536, sample_module 512] [((0, 0), 1536), ((0, 0), 512)]"
    by (simp add: sample_module_of)
  from memory_summary_values [OF this] show ?thesis by auto
qed

text \<open>The reference: the third byte of the number the text stands for, 0 when it stands for none.\<close>

definition class_byte :: "string \<Rightarrow> 8 word" where
  "class_byte code = (case stoul16 code of Inl _ \<Rightarrow> 0 | Inr cc \<Rightarrow> word_of_nat (unat cc div 2 ^ 16))"

lemma class_of_code_byte: "class_of_code p code = class_byte code"
proof -
  have "ucast (drop_bit 16 cc AND 0xFF) = (word_of_nat (unat cc div 2 ^ 16) :: 8 word)" for cc :: "64 word"
  proof -
    have "ucast (drop_bit 16 cc AND 0xFF) = (ucast (drop_bit 16 cc) :: 8 word)"
    proof (rule bit_word_eqI)
      fix n assume n: "n < LENGTH(8)"
      have "bit (0xFF :: 64 word) n" if "n < 8" for n
        using that bit_mask_iff [of 8 n, where 'a = "64 word"] by (simp add: mask_numeral)
      with n show "bit (ucast (drop_bit 16 cc AND 0xFF) :: 8 word) n = bit (ucast (drop_bit 16 cc) :: 8 word) n"
        by (simp add: bit_simps)
    qed
    also have "\<dots> = word_of_nat (unat (drop_bit 16 cc))"
      by (rule unsigned_word_eqI) (simp add: unsigned_ucast_eq unat_of_nat take_bit_eq_mod)
    also have "unat (drop_bit 16 cc) = unat cc div 2 ^ 16"
      by (simp only: unat_drop_bit_eq) (simp only: drop_bit_eq_div)
    finally show ?thesis .
  qed
  then show ?thesis by (simp add: class_of_code_def class_byte_def StrHexToNumberFormatter_def split: sum.splits)
qed

lemma pcie_functions:
  "\<exists>j. pcie_static_fields i = (Inr (), j) \<and> (\<forall>k < 8.
     getField (getComplexFunctionMemberName k ''DeviceSubClass'') j = Some (FString (function_text k ''DeviceClass'' i)) \<and>
     getField (getComplexFunctionMemberName k ''DeviceClassId'') j = Some (FUint8 (class_of_code [] (function_text k ''ClassCode'' i))) \<and>
     getField (getComplexFunctionMemberName k ''DeviceClass'') j =
       Some (FInt32 (of_nat (position device_classes (class_named (class_of_code [] (function_text k ''ClassCode'' i)))))))"
proof -
  let ?name = getComplexFunctionMemberName
  obtain i1 where i1: "setSBD i = (Inr (), i1)" "\<And>k m. getField (?name k m) i1 = getField (?name k m) i"
    using setSBD_functions by blast
  obtain i2 where i2s: "set_enum fieldStatus (status_number Ok) i1 = (Inr (), i2)"
      and i2: "\<And>k m. getField (?name k m) i2 = getField (?name k m) i"
    using i1(2) by (simp add: set_enum_def fieldStatus_def getComplexFunctionMemberName_def)
  have "\<exists>j. setDeviceSubClass i2 = (Inr (), j) \<and> (\<forall>k < 8. \<forall>m'. getField (?name k m') j =
      (if m' = ''DeviceSubClass'' then Some (FString (function_text k ''DeviceClass'' i2)) else getField (?name k m') i2))"
    unfolding setDeviceSubClass_def by (rule function_step [where src = "''DeviceClass''"]) (simp_all add: function_text_def)
  then obtain i3 where i3: "setDeviceSubClass i2 = (Inr (), i3)" "\<And>k m'. k < 8 \<Longrightarrow> getField (?name k m') i3 =
      (if m' = ''DeviceSubClass'' then Some (FString (function_text k ''DeviceClass'' i)) else getField (?name k m') i)"
    by (auto simp: i2 function_text_def)
  have "\<exists>j. setDeviceClassId i3 = (Inr (), j) \<and> (\<forall>k < 8. \<forall>m'. getField (?name k m') j =
      (if m' = ''DeviceClassId'' then Some (FUint8 (class_of_code [] (function_text k ''ClassCode'' i3))) else getField (?name k m') i3))"
    unfolding setDeviceClassId_def
    by (rule function_step [where src = "''ClassCode''"]) (simp_all add: function_text_def class_of_code_name)
  then obtain i4 where i4: "setDeviceClassId i3 = (Inr (), i4)" "\<And>k m'. k < 8 \<Longrightarrow> getField (?name k m') i4 =
      (if m' = ''DeviceClassId'' then Some (FUint8 (class_of_code [] (function_text k ''ClassCode'' i))) else getField (?name k m') i3)"
    by (auto simp: i3(2) function_text_def)
  have "\<exists>j. setDeviceClass i4 = (Inr (), j) \<and> (\<forall>k < 8. \<forall>m'. getField (?name k m') j =
      (if m' = ''DeviceClass'' then Some (FInt32 (of_nat (position device_classes (class_named (class_of_code [] (function_text k ''ClassCode'' i))))))
       else getField (?name k m') i4))"
    unfolding setDeviceClass_def
    by (rule function_step [where src = "''DeviceClassId''"])
       (simp_all add: i4(2) getValue_def isNull_def as_uint8_def class_value_named Let_def)
  then obtain i5 where "setDeviceClass i4 = (Inr (), i5)" "\<And>k m'. k < 8 \<Longrightarrow> getField (?name k m') i5 =
      (if m' = ''DeviceClass'' then Some (FInt32 (of_nat (position device_classes (class_named (class_of_code [] (function_text k ''ClassCode'' i))))))
       else getField (?name k m') i4)" by blast
  with i1(1) i2s i3 i4 show ?thesis by (simp add: pcie_static_fields_def no_step_def)
qed

text \<open>The classes of the functions of a PCIe device: the subclass keeps the text the service
  gives as class, the class identifier is taken from the class code's bits 16 to 23, and the
  class is the one of that number; nothing throws.\<close>

theorem pcie_classes:
  "\<exists>j. pcie_static_fields i = (Inr (), j) \<and> (\<forall>k < 8.
     getField (getComplexFunctionMemberName k ''DeviceSubClass'') j = Some (FString (function_text k ''DeviceClass'' i)) \<and>
     getField (getComplexFunctionMemberName k ''DeviceClassId'') j = Some (FUint8 (class_byte (function_text k ''ClassCode'' i))) \<and>
     getField (getComplexFunctionMemberName k ''DeviceClass'') j =
       Some (FInt32 (of_nat (position device_classes (class_named (class_byte (function_text k ''ClassCode'' i)))))))"
  using pcie_functions [of i] by (simp only: class_of_code_byte)

theorem pcie_classes_witness:
  "\<exists>j. pcie_static_fields \<lparr>identity = [], memberInstances = [(''Function0ClassCode'', Some (FString ''0x020000''))], dbus = None\<rparr> =
     (Inr (), j) \<and> getField ''Function0DeviceClassId'' j = Some (FUint8 2) \<and>
     getField ''Function1DeviceClassId'' j = Some (FUint8 0)"
proof -
  let ?i = "\<lparr>identity = [], memberInstances = [(''Function0ClassCode'', Some (FString ''0x020000''))], dbus = None\<rparr>"
  have digits: "hex_digit (CHR ''0'') = Some 0" "hex_digit (CHR ''2'') = Some 2" "hex_digit (CHR ''N'') = None"
    by code_simp+
  have "stoul16 ''0x020000'' = Inr 0x20000" "stoul16 ''N/A'' = Inl (Invalid_argument ''stoul'')"
    by (simp_all add: stoul16_def digits drop_prefix_def isspace_def Let_def)
  then have code: "class_byte ''0x020000'' = 2" "class_byte ''N/A'' = 0"
    by (simp_all add: class_byte_def)
  have texts: "function_text 0 ''ClassCode'' ?i = ''0x020000''" "function_text 1 ''ClassCode'' ?i = ''N/A''"
    by (simp_all add: function_text_def getComplexFunctionMemberName_def dec_nat_digit getField_def getStringValue_def
        getValue_def isNull_def holds_alternative_def fieldValueNotAvailable_def)
  have names: "getComplexFunctionMemberName 0 ''DeviceClassId'' = ''Function0DeviceClassId''"
    "getComplexFunctionMemberName 1 ''DeviceClassId'' = ''Function1DeviceClassId''"
    by (simp_all add: getComplexFunctionMemberName_def dec_nat_digit)
  obtain j where j: "pcie_static_fields ?i = (Inr (), j)" "\<And>k. k < 8 \<Longrightarrow>
      getField (getComplexFunctionMemberName k ''DeviceClassId'') j = Some (FUint8 (class_byte (function_text k ''ClassCode'' ?i)))"
    using pcie_classes [of ?i] by blast
  from j(2) [of 0] j(2) [of 1] j(1) texts names code show ?thesis by simp
qed

end
