(* ===== verification/Graphql.thy ===== *)
theory Graphql
  imports Redfish_Response Field_Json Entity
begin

text \<open>
  \<open>src/core/route/handlers/graphql_handler.{hpp,cpp}\<close>: the handler of \<open>/api/graphql/\<close>. A visitor
  walks over the fields of an operation and keeps the builders of the objects it is inside
  of; the current one is the head of a stack whose rest are its parents.
  The parser of the query and the walk over its tree are libgraphqlparser's: a document is
  the sequence of calls its walk makes on a visitor, for every operation. The other parameters
  are the text of a JSON value, compact and indented, and its parser.
\<close>

section \<open>Exceptions\<close>

text \<open>A \<open>GqlException\<close> by its \<open>whatJson ()\<close>, or any other exception.\<close>

datatype gql_exn = Gql_exception json | Foreign cpp_exn

definition gql_exception :: "string \<Rightarrow> string \<Rightarrow> (string \<times> string) list \<Rightarrow> gql_exn" where
  "gql_exception target description extra =
     Gql_exception (json_object (map (\<lambda>(k, v). (k, JString v))
       ([(''Target'', target), (''Description'', description)] @ extra)))"

definition GqlInvalidArgument :: "string \<Rightarrow> string \<Rightarrow> gql_exn" where
  "GqlInvalidArgument arg desc = gql_exception ''Invalid Argument'' desc [(''Argument'', arg)]"

definition GqlInternalError :: "string \<Rightarrow> gql_exn" where
  "GqlInternalError description = gql_exception ''Graphql internal impelenetation error'' description []"

definition NotSupported :: "string \<Rightarrow> gql_exn" where
  "NotSupported operation = gql_exception ''Operation'' ''Not Supported'' [(''Operation'', operation)]"

definition GqlAstError :: "string \<Rightarrow> gql_exn" where
  "GqlAstError description = gql_exception ''GraphQL'' ''GraphQL AST error'' [(''AST'', description)]"

section \<open>Builders and programs\<close>

text \<open>\<open>GqlObjectBuild\<close>; its parent is the next one on the stack.\<close>

record gql_build =
  build_name :: string
  entityObject :: "nat option"
  build_relation :: "relation option"
  fragment :: json
  build_alias :: "string option"

record gql_state =
  builders :: "gql_build list"
  gql_world :: entity_world

datatype entity_type = Type_object | Type_array | Type_reference

datatype gql_event =
    Visit_field string "string option" bool
  | End_visit_field bool
  | Visit_variable_definition
  | Visit_value

type_synonym gql_document = "(string \<times> gql_event list) list"

record gql_env =
  gql_entities :: entity_env
  gql_fuel :: nat
  entity_type_of :: "nat \<Rightarrow> entity_type"
  gql_dump :: "json \<Rightarrow> string may_throw"
  gql_dump2 :: "json \<Rightarrow> string may_throw"
  gql_json_parse :: "string \<Rightarrow> json"
  gql_parseString :: "string \<Rightarrow> gql_document option"

text \<open>A program ends with an exception or a value and the state; \<open>None\<close>: out of fuel.\<close>

type_synonym 'a gql = "gql_state \<Rightarrow> ((gql_exn + 'a) \<times> gql_state) option"

definition gret :: "'a \<Rightarrow> 'a gql" where
  "gret v s = Some (Inr v, s)"

definition gthrow :: "gql_exn \<Rightarrow> 'a gql" where
  "gthrow e s = Some (Inl e, s)"

definition gbind :: "'a gql \<Rightarrow> ('a \<Rightarrow> 'b gql) \<Rightarrow> 'b gql" where
  "gbind m f s =
     (case m s of
        None \<Rightarrow> None
      | Some (Inl e, s') \<Rightarrow> Some (Inl e, s')
      | Some (Inr v, s') \<Rightarrow> f v s')"

definition rethrow :: "(gql_exn \<Rightarrow> gql_exn) \<Rightarrow> 'a gql \<Rightarrow> 'a gql" where
  "rethrow h m s = map_option (\<lambda>(r, s'). (map_sum h id r, s')) (m s)"

definition on_entities :: "'a act \<Rightarrow> 'a gql" where
  "on_entities m s = map_option (\<lambda>(r, w). (map_sum Foreign id r, s\<lparr>gql_world := w\<rparr>)) (m (gql_world s))"

primrec gfor :: "'x list \<Rightarrow> ('x \<Rightarrow> unit gql) \<Rightarrow> unit gql" where
  "gfor [] f = gret ()"
| "gfor (x # xs) f = gbind (f x) (\<lambda>_. gfor xs f)"

primrec gmap :: "('x \<Rightarrow> 'y gql) \<Rightarrow> 'x list \<Rightarrow> 'y list gql" where
  "gmap f [] = gret []"
| "gmap f (x # xs) = gbind (f x) (\<lambda>y. gbind (gmap f xs) (\<lambda>ys. gret (y # ys)))"

section \<open>JSON\<close>

text \<open>\<open>j.push_back ({key, v})\<close>: an object gets the member unless it has one; any other value an
  array of the two.\<close>

fun push_member :: "string \<Rightarrow> json \<Rightarrow> json \<Rightarrow> json may_throw" where
  "push_member key v (JObject m) = Inr (JObject (om_emplace key v m))"
| "push_member key v j = json_push_back (JArray [JString key, v]) j"

text \<open>\<open>back ()\<close>; nothing asks for it of an empty object or array.\<close>

fun json_back :: "json \<Rightarrow> json" where
  "json_back (JObject m) = snd (last m)"
| "json_back (JArray xs) = last xs"
| "json_back j = j"

fun json_at :: "string \<Rightarrow> json \<Rightarrow> json may_throw" where
  "json_at key (JObject m) = (case map_of m key of Some v \<Rightarrow> Inr v | None \<Rightarrow> Inl (Json_out_of_range 403))"
| "json_at key _ = Inl (Json_type_error 304)"

text \<open>\<open>std::stoull\<close>\<close>

definition stoull :: "string \<Rightarrow> 64 word may_throw" where
  "stoull text =
     (let s = dropWhile isspace text;
          negative = (s \<noteq> [] \<and> hd s = CHR ''-'');
          digits = takeWhile isdigit (if s \<noteq> [] \<and> (hd s = CHR ''-'' \<or> hd s = CHR ''+'') then tl s else s);
          n = dec_value digits 0
      in if digits = [] then Inl (Invalid_argument ''stoull'')
         else if n \<ge> 2 ^ 64 then Inl Out_of_range
         else Inr (if negative then - of_nat n else of_nat n))"

section \<open>Operations of a builder\<close>

definition instance_key :: "gql_env \<Rightarrow> entity_instance \<Rightarrow> string" where
  "instance_key ge i = dec_nat (unat (getHash (hash_of (gql_entities ge)) i))"

definition all_instances :: "gql_env \<Rightarrow> nat \<Rightarrow> condition option list \<Rightarrow> entity_instance list gql" where
  "all_instances ge e conds = on_entities (getInstances (gql_fuel ge) (gql_entities ge) e conds)"

definition empty_objects :: "gql_env \<Rightarrow> entity_instance list \<Rightarrow> json" where
  "empty_objects ge is = JObject (fold (\<lambda>i. om_assign (instance_key ge i) (JObject [])) is [])"

definition root_build :: "string \<Rightarrow> gql_build" where
  "root_build name = \<lparr>build_name = name, entityObject = None, build_relation = None,
     fragment = json_object [(name, JObject [])], build_alias = None\<rparr>"

definition entity_build :: "gql_env \<Rightarrow> string \<Rightarrow> nat \<Rightarrow> gql_build gql" where
  "entity_build ge name e = gbind (all_instances ge e []) (\<lambda>is.
     gret \<lparr>build_name = name, entityObject = Some e, build_relation = None,
       fragment = empty_objects ge is, build_alias = None\<rparr>)"

definition relation_build :: "gql_env \<Rightarrow> string \<Rightarrow> relation \<Rightarrow> gql_build gql" where
  "relation_build ge name r = gbind (all_instances ge (destination r) []) (\<lambda>is.
     gret \<lparr>build_name = name, entityObject = None, build_relation = Some r,
       fragment = empty_objects ge is, build_alias = None\<rparr>)"

text \<open>\<open>getEntity\<close>; relations have a destination.\<close>

definition build_entity :: "gql_build \<Rightarrow> nat option" where
  "build_entity b =
     (case entityObject b of Some e \<Rightarrow> Some e | None \<Rightarrow> map_option destination (build_relation b))"

definition build_fieldName :: "gql_build \<Rightarrow> string" where
  "build_fieldName b = (case build_alias b of Some a \<Rightarrow> a | None \<Rightarrow> build_name b)"

text \<open>\<open>supplement\<close> with a field: the value of every instance, put under its hash.\<close>

definition add_value :: "gql_env \<Rightarrow> string \<Rightarrow> entity_member \<Rightarrow> entity_instance \<Rightarrow> unit gql" where
  "add_value ge name m i s =
     (case builders s of
        [] \<Rightarrow> gret () s
      | b # bs \<Rightarrow>
          (let f = getField (member_name m) i;
               v = (if \<not> isNull f then field_json (getValue f) else JNull)
           in case json_member (instance_key ge i) (push_member name v) (fragment b) of
                Inl e \<Rightarrow> gthrow (Foreign e) s
              | Inr j \<Rightarrow> gret () (s\<lparr>builders := b\<lparr>fragment := j\<rparr> # bs\<rparr>)))"

fun field_failure :: "string \<Rightarrow> gql_exn \<Rightarrow> gql_exn" where
  "field_failure name (Foreign (Entity_exception _)) = GqlInvalidArgument name ''Field not found''"
| "field_failure name (Foreign Out_of_range) = GqlInternalError ''Internal GQL logic error''"
| "field_failure name e = e"

definition supplement_field :: "gql_env \<Rightarrow> string \<Rightarrow> gql_build \<Rightarrow> unit gql" where
  "supplement_field ge name b =
     (case build_entity b of
        None \<Rightarrow> gthrow (GqlAstError ''Invalid Structure'')
      | Some e \<Rightarrow>
          (if fragment b = JNull then gthrow (GqlAstError ''Invalid Structure'')
           else rethrow (field_failure name)
             (gbind (on_entities (getMember (gql_fuel ge) e name)) (\<lambda>m.
              gbind (all_instances ge e []) (\<lambda>is. gfor is (add_value ge name m))))))"

text \<open>\<open>getFragment\<close>\<close>

definition fragment_of :: "gql_env \<Rightarrow> gql_build \<Rightarrow> entity_instance \<Rightarrow> json gql" where
  "fragment_of ge b i =
     (case json_at (instance_key ge i) (fragment b) of Inl e \<Rightarrow> gthrow (Foreign e) | Inr j \<Rightarrow> gret j)"

fun fragment_failure :: "string \<Rightarrow> gql_exn \<Rightarrow> gql_exn" where
  "fragment_failure name (Foreign Out_of_range) =
     GqlInternalError (''Internal GQL logic error. Can'' @ [CHR 0x27] @ ''t setup the Object data: '' @ name)"
| "fragment_failure name e = e"

definition getFragment :: "gql_env \<Rightarrow> 64 word option \<Rightarrow> gql_build \<Rightarrow> json gql" where
  "getFragment ge parentInstanceHash b = rethrow (fragment_failure (build_name b))
     (case build_entity b of
        None \<Rightarrow> gret (json_back (fragment b))
      | Some e \<Rightarrow>
          gbind (case (build_relation b, parentInstanceHash) of
                   (Some r, Some h) \<Rightarrow> on_entities (getConditions (gql_fuel ge) r h)
                 | _ \<Rightarrow> gret []) (\<lambda>conditions.
          gbind (all_instances ge e conditions) (\<lambda>is.
            (if length is = 1 \<and> entity_type_of ge e \<noteq> Type_array then fragment_of ge b (last is)
             else if length is > 1 \<or> entity_type_of ge e = Type_array
             then gbind (gmap (fragment_of ge b) is) (\<lambda>js. gret (JArray js))
             else gret (JObject [])))))"

text \<open>\<open>supplement\<close> with a child: what it has for every instance of the parent.\<close>

definition push_child :: "gql_env \<Rightarrow> string \<Rightarrow> gql_build \<Rightarrow> string \<Rightarrow> unit gql" where
  "push_child ge name child hashStr = gbind
     (case stoull hashStr of
        Inr h \<Rightarrow> gret (Some h)
      | Inl (Invalid_argument _) \<Rightarrow> gret None
      | Inl e \<Rightarrow> gthrow (Foreign e))
     (\<lambda>hash. gbind (getFragment ge hash child) (\<lambda>childJsonNode s.
        (case builders s of
           c # p # bs \<Rightarrow>
             (case json_member hashStr (push_member name childJsonNode) (fragment p) of
                Inl e \<Rightarrow> gthrow (Foreign e) s
              | Inr j \<Rightarrow> gret () (s\<lparr>builders := c # p\<lparr>fragment := j\<rparr> # bs\<rparr>))
         | _ \<Rightarrow> gret () s)))"

definition pushFragmentToParent :: "gql_env \<Rightarrow> unit gql" where
  "pushFragmentToParent ge s =
     (case builders s of
        child # p # _ \<Rightarrow>
          (if is_object (fragment p)
           then gfor (map fst (json_items (fragment p))) (push_child ge (build_fieldName child) child) s
           else gthrow (GqlInternalError ''A GQL parser implementation error.'') s)
      | _ \<Rightarrow> gret () s)"

section \<open>The visitor of a query\<close>

fun build_failure :: "gql_exn \<Rightarrow> gql_exn" where
  "build_failure (Foreign (Entity_exception what)) = GqlAstError what"
| "build_failure (Foreign (Json_type_error _)) =
     GqlAstError ''Internal GQL implementation error or requested AST structure is not supported''"
| "build_failure e = e"

definition child_build :: "gql_env \<Rightarrow> string \<Rightarrow> gql_build \<Rightarrow> gql_build gql" where
  "child_build ge fieldName b =
     (case build_entity b of
        None \<Rightarrow>
          gbind (on_entities (getEntity (gql_fuel ge) (gql_entities ge) fieldName)) (entity_build ge fieldName)
      | Some e \<Rightarrow> (\<lambda>s.
          (case getRelation fieldName e (gql_world s) of
             None \<Rightarrow> gthrow (GqlInvalidArgument fieldName (''Relation to the '' @ fieldName @ '' was not found'')) s
           | Some r \<Rightarrow> relation_build ge fieldName r s)))"

definition visitField :: "gql_env \<Rightarrow> string \<Rightarrow> string option \<Rightarrow> bool \<Rightarrow> unit gql" where
  "visitField ge fieldName fieldAlias selectionSet s =
     (case builders s of
        [] \<Rightarrow> gthrow (GqlInternalError (if selectionSet then ''The builder was not found'' else ''Not builder found'')) s
      | b # _ \<Rightarrow>
          (if selectionSet
           then gbind (rethrow build_failure (child_build ge fieldName b)) (\<lambda>c s1.
                  gret () (s1\<lparr>builders := (case fieldAlias of Some a \<Rightarrow> c\<lparr>build_alias := Some a\<rparr> | None \<Rightarrow> c) # builders s1\<rparr>)) s
           else supplement_field ge (case fieldAlias of Some a \<Rightarrow> a | None \<Rightarrow> fieldName) b s))"

definition endVisitField :: "gql_env \<Rightarrow> bool \<Rightarrow> unit gql" where
  "endVisitField ge selectionSet =
     (if selectionSet
      then gbind (pushFragmentToParent ge) (\<lambda>_ s.
             gret () (case builders s of b # p # bs \<Rightarrow> s\<lparr>builders := p # bs\<rparr> | _ \<Rightarrow> s))
      else gret ())"

definition visitVariableDefinition :: "unit gql" where
  "visitVariableDefinition = gthrow (NotSupported ''GQL Variable definition temporarry not supported'')"

text \<open>Arguments and string values are visited and have no effect.\<close>

fun visit_event :: "gql_env \<Rightarrow> gql_event \<Rightarrow> unit gql" where
  "visit_event ge (Visit_field name al selectionSet) = visitField ge name al selectionSet"
| "visit_event ge (End_visit_field selectionSet) = endVisitField ge selectionSet"
| "visit_event ge Visit_variable_definition = visitVariableDefinition"
| "visit_event ge Visit_value = gret ()"

section \<open>Operations\<close>

datatype gql_visitor = GqlQueryVisitor

type_synonym visitor_dict = "(string, gql_visitor) omap"

definition visitorName :: string where
  "visitorName = ''query''"

definition registerGqlVisitors :: "visitor_dict \<Rightarrow> visitor_dict" where
  "registerGqlVisitors dict = om_emplace visitorName GqlQueryVisitor dict"

text \<open>The query visitor's life: it walks, and its destructor, which must not throw, takes the
  current builder's fragment, also behind an exception.\<close>

definition query_visitor ::
    "gql_env \<Rightarrow> gql_event list \<Rightarrow> entity_world \<Rightarrow> ((gql_exn + json) \<times> entity_world) ended option" where
  "query_visitor ge events w =
     (case gfor events (visit_event ge) \<lparr>builders = [root_build visitorName], gql_world = w\<rparr> of
        None \<Rightarrow> None
      | Some (r, s) \<Rightarrow>
          (case getFragment ge None (hd (builders s)) s of
             None \<Rightarrow> None
           | Some (Inl _, _) \<Rightarrow> Some Terminates
           | Some (Inr document, s') \<Rightarrow> Some (Ends (map_sum id (\<lambda>_. document) r, gql_world s'))))"

text \<open>The operations of a document in order; the visitor writes to the last member the result
  had when it was built.\<close>

fun visit_operations ::
    "gql_env \<Rightarrow> visitor_dict \<Rightarrow> gql_document \<Rightarrow> (string, json) omap \<Rightarrow> entity_world \<Rightarrow>
     ((gql_exn + (string, json) omap) \<times> entity_world) ended option" where
  "visit_operations ge dict [] result w = Some (Ends (Inr result, w))"
| "visit_operations ge dict ((operation, events) # ops) result w =
     (let result1 = om_emplace operation (JObject []) result
      in case map_of dict operation of
           None \<Rightarrow> Some (Ends (Inl (NotSupported operation), w))
         | Some GqlQueryVisitor \<Rightarrow>
             (case query_visitor ge events w of
                None \<Rightarrow> None
              | Some Undefined_end \<Rightarrow> Some Undefined_end
              | Some Terminates \<Rightarrow> Some Terminates
              | Some (Ends (Inl e, w1)) \<Rightarrow> Some (Ends (Inl e, w1))
              | Some (Ends (Inr document, w1)) \<Rightarrow>
                  visit_operations ge dict ops (om_assign (fst (last result1)) document result1) w1))"

section \<open>The router\<close>

definition respFieldData :: string where "respFieldData = ''data''"
definition respFieldError :: string where "respFieldError = ''error''"

text \<open>\<open>preHandlers\<close>, on the parsed document the handler keeps.\<close>

definition graphql_preHandlers ::
    "gql_env \<Rightarrow> string \<Rightarrow> gql_document option \<Rightarrow> bool may_throw \<times> gql_document option" where
  "graphql_preHandlers ge postBuf gqlNode =
     (if postBuf = [] then (Inr True, gqlNode)
      else case gql_json_parse ge (c_str postBuf) of
             JDiscarded \<Rightarrow> (Inr True, gqlNode)
           | JNull \<Rightarrow> (Inr True, gqlNode)
           | JObject m \<Rightarrow>
               (case map_of m ''query'' of
                  Some (JString astData) \<Rightarrow> (Inr True, gql_parseString ge (c_str astData))
                | _ \<Rightarrow> (Inr True, gqlNode))
           | _ \<Rightarrow> (Inl (Json_type_error 305), gqlNode))"

definition graphql_respond :: "gql_env \<Rightarrow> string \<Rightarrow> json \<Rightarrow> response may_throw" where
  "graphql_respond ge member j =
     map_sum id (\<lambda>text. setContentType applicationJson (setStatus OK (push text new_response)))
       (gql_dump2 ge (json_object [(member, j)]))"

text \<open>\<open>run\<close>. The entry of the log asks an exception for \<open>what ()\<close>, which must not throw.\<close>

definition graphql_run ::
    "gql_env \<Rightarrow> visitor_dict \<Rightarrow> gql_document option \<Rightarrow> entity_world \<Rightarrow>
     (response may_throw \<times> entity_world) ended option" where
  "graphql_run ge dict gqlNode w =
     (case (case gqlNode of
              None \<Rightarrow> Some (Ends (Inl (GqlAstError
                        (''Invalid Grapqh AST. Can'' @ [CHR 0x27] @ ''t parse comming request'')), w))
            | Some document \<Rightarrow> visit_operations ge dict document [] w) of
        None \<Rightarrow> None
      | Some Undefined_end \<Rightarrow> Some Undefined_end
      | Some Terminates \<Rightarrow> Some Terminates
      | Some (Ends (Inr result, w1)) \<Rightarrow> Some (Ends (graphql_respond ge respFieldData (JObject result), w1))
      | Some (Ends (Inl (Foreign e), w1)) \<Rightarrow> Some (Ends (Inl e, w1))
      | Some (Ends (Inl (Gql_exception what), w1)) \<Rightarrow>
          (case gql_dump ge what of
             Inl _ \<Rightarrow> Some Terminates
           | Inr _ \<Rightarrow> Some (Ends (graphql_respond ge respFieldError what, w1))))"

end
