(* ===== verification/Graphql_Facts.thy ===== *)
theory Graphql_Facts
  imports Graphql Entity_Facts
begin

text \<open>
  What a GraphQL query asks for, as a tree of selections, the object it should be answered
  with, and the laws of the visitor that lead there: every step is a step of the current
  builder's table of objects, one for each instance.
\<close>

section \<open>Queries and their answers\<close>

datatype selection = Leaf string "string option" | Branch string "string option" "selection list"

definition shown :: "string \<Rightarrow> string option \<Rightarrow> string" where
  "shown name al = (case al of Some a \<Rightarrow> a | None \<Rightarrow> name)"

fun key_of :: "selection \<Rightarrow> string" where
  "key_of (Leaf n al) = shown n al" | "key_of (Branch n al ss) = shown n al"

text \<open>The calls of the walk over a field: in the order of the source text, the end of a field
  behind its selections.\<close>

fun walk :: "selection \<Rightarrow> gql_event list" where
  "walk (Leaf n al) = [Visit_field n al False, End_visit_field False]"
| "walk (Branch n al ss) = Visit_field n al True # concat (map walk ss) @ [End_visit_field True]"

text \<open>The instances of an entity, and those a relation leads to from an instance.\<close>

definition insts :: "entity_world \<Rightarrow> nat \<Rightarrow> entity_instance list" where
  "insts w e = map snd (instances (entities w e))"

definition conditions_from :: "gql_env \<Rightarrow> entity_world \<Rightarrow> relation \<Rightarrow> entity_instance \<Rightarrow> condition option list" where
  "conditions_from ge w r i =
     (case getConditions (gql_fuel ge) r (getHash (hash_of (gql_entities ge)) i) w of
        Some (Inr cs, _) \<Rightarrow> cs | _ \<Rightarrow> [])"

definition related :: "gql_env \<Rightarrow> entity_world \<Rightarrow> relation \<Rightarrow> entity_instance \<Rightarrow> entity_instance list" where
  "related ge w r i = filter (conditions_pass (conditions_from ge w r i)) (insts w (destination r))"

text \<open>One object, an array, or an empty object.\<close>

definition shape :: "gql_env \<Rightarrow> nat \<Rightarrow> json list \<Rightarrow> json" where
  "shape ge e js =
     (if entity_type_of ge e = Type_array then JArray js
      else case js of [] \<Rightarrow> JObject [] | [j] \<Rightarrow> j | _ \<Rightarrow> JArray js)"

text \<open>The answer to a selection on an instance of an entity.\<close>

definition leaf_value :: "string \<Rightarrow> entity_instance \<Rightarrow> json" where
  "leaf_value name i = (let f = getField name i in if \<not> isNull f then field_json (getValue f) else JNull)"

fun answer :: "gql_env \<Rightarrow> entity_world \<Rightarrow> nat \<Rightarrow> selection \<Rightarrow> entity_instance \<Rightarrow> json" where
  "answer ge w e (Leaf n al) i = leaf_value (shown n al) i"
| "answer ge w e (Branch n al ss) i =
     (case getRelation n e w of
        None \<Rightarrow> JNull
      | Some r \<Rightarrow> shape ge (destination r)
          (map (\<lambda>j. JObject (fold (\<lambda>s. om_emplace (key_of s) (answer ge w (destination r) s j)) ss []))
             (related ge w r i)))"

definition answers ::
    "gql_env \<Rightarrow> entity_world \<Rightarrow> nat \<Rightarrow> selection list \<Rightarrow> entity_instance \<Rightarrow> (string, json) omap" where
  "answers ge w e ss i = fold (\<lambda>s. om_emplace (key_of s) (answer ge w e s i)) ss []"

section \<open>Settled worlds and valid queries\<close>

text \<open>Asking an entity for its instances gives its table and changes nothing.\<close>

definition steady :: "gql_env \<Rightarrow> entity_world \<Rightarrow> nat \<Rightarrow> bool" where
  "steady ge w e \<longleftrightarrow> table_ok (gql_entities ge) (entities w e) \<and>
     (\<forall>conds. getInstances (gql_fuel ge) (gql_entities ge) e conds w =
        Some (Inr (filter (conditions_pass conds) (insts w e)), w))"

definition member_known :: "gql_env \<Rightarrow> entity_world \<Rightarrow> nat \<Rightarrow> string \<Rightarrow> bool" where
  "member_known ge w e name \<longleftrightarrow>
     (\<exists>m. getMember (gql_fuel ge) e name w = Some (Inr m, w) \<and> member_name m = name)"

definition conditions_known :: "gql_env \<Rightarrow> entity_world \<Rightarrow> relation \<Rightarrow> nat \<Rightarrow> bool" where
  "conditions_known ge w r e \<longleftrightarrow> (\<forall>i \<in> set (insts w e).
     \<exists>cs. getConditions (gql_fuel ge) r (getHash (hash_of (gql_entities ge)) i) w = Some (Inr cs, w))"

fun valid_on :: "gql_env \<Rightarrow> entity_world \<Rightarrow> nat \<Rightarrow> selection \<Rightarrow> bool" where
  "valid_on ge w e (Leaf n al) = member_known ge w e (shown n al)"
| "valid_on ge w e (Branch n al ss) =
     (case getRelation n e w of
        None \<Rightarrow> False
      | Some r \<Rightarrow> conditions_known ge w r e \<and> steady ge w (destination r) \<and>
                  list_all (valid_on ge w (destination r)) ss)"

section \<open>Programs\<close>

lemma gbind_simps [simp]:
  "m s = Some (Inr v, s') \<Longrightarrow> gbind m f s = f v s'"
  "m s = Some (Inl e, s') \<Longrightarrow> gbind m f s = Some (Inl e, s')"
  by (simp_all add: gbind_def)

lemma gbind_gret [simp]: "gbind (gret v) f = f v"
  by (simp add: fun_eq_iff gret_def)

lemma rethrow_Inr: "m s = Some (Inr v, s') \<Longrightarrow> rethrow h m s = Some (Inr v, s')"
  by (simp add: rethrow_def)

lemma on_entities_Inr: "m (gql_world s) = Some (Inr v, w) \<Longrightarrow> on_entities m s = Some (Inr v, s\<lparr>gql_world := w\<rparr>)"
  by (simp add: on_entities_def)

lemma gbind_assoc: "gbind (gbind m f) g = gbind m (\<lambda>x. gbind (f x) g)"
  by (auto simp: fun_eq_iff gbind_def split: option.splits sum.splits)

lemma gfor_append: "gfor (xs @ ys) f = gbind (gfor xs f) (\<lambda>_. gfor ys f)"
  by (induction xs) (simp_all add: gbind_assoc)

lemma gmap_Inr: "(\<And>x. x \<in> set xs \<Longrightarrow> f x s = Some (Inr (g x), s)) \<Longrightarrow> gmap f xs s = Some (Inr (map g xs), s)"
  by (induction xs) (simp_all add: gret_def)

lemma all_instances_steady:
  "steady ge (gql_world s) e \<Longrightarrow>
     all_instances ge e conds s = Some (Inr (filter (conditions_pass conds) (insts (gql_world s) e)), s)"
  by (simp add: all_instances_def on_entities_def steady_def)

section \<open>Tables of objects\<close>

lemma stoull_dec: "n < 2 ^ 64 \<Longrightarrow> stoull (dec_nat n) = Inr (of_nat n)"
proof -
  assume n: "n < 2 ^ 64"
  obtain c cs where d: "dec_nat n = c # cs" by (cases "dec_nat n") auto
  have c: "isdigit c" using dec_nat_digits [of c n] d by simp
  then have "\<not> isspace c" "c \<noteq> CHR ''-''" "c \<noteq> CHR ''+''" by (auto simp: isdigit_def isspace_def)
  moreover have "takeWhile isdigit (dec_nat n) = dec_nat n"
    using dec_nat_digits by (simp add: takeWhile_eq_all_conv)
  ultimately show ?thesis using n dec_value_dec_nat [of n] by (simp add: stoull_def Let_def d)
qed

lemma stoull_key: "stoull (instance_key ge i) = Inr (getHash (hash_of (gql_entities ge)) i)"
proof -
  have "unat (getHash (hash_of (gql_entities ge)) i) < 2 ^ 64" using unsigned_less [of "getHash (hash_of (gql_entities ge)) i"] by simp
  then show ?thesis by (simp add: instance_key_def stoull_dec)
qed

lemma key_inj: "instance_key ge i = instance_key ge j \<Longrightarrow>
    getHash (hash_of (gql_entities ge)) i = getHash (hash_of (gql_entities ge)) j"
  by (metis dec_nat_inj instance_key_def word_unat_eq_iff)

lemma keys_distinct: "table_ok (gql_entities ge) (entities w e) \<Longrightarrow> distinct (map (instance_key ge) (insts w e))"
proof -
  assume ok: "table_ok (gql_entities ge) (entities w e)"
  then have "map (getHash (hash_of (gql_entities ge))) (insts w e) = map fst (instances (entities w e))"
    by (auto simp: table_ok_def insts_def)
  with ok have "distinct (map (getHash (hash_of (gql_entities ge))) (insts w e))"
    by (simp add: table_ok_def om_ok_distinct)
  then show ?thesis
    by (auto simp: distinct_map inj_on_def dest: key_inj)
qed

text \<open>The fragment of a builder that has an object for every instance.\<close>

definition table_of :: "gql_env \<Rightarrow> entity_instance list \<Rightarrow> (entity_instance \<Rightarrow> (string, json) omap) \<Rightarrow> (string \<times> json) list" where
  "table_of ge is f = map (\<lambda>i. (instance_key ge i, JObject (f i))) is"

definition has_table ::
    "gql_env \<Rightarrow> entity_instance list \<Rightarrow> (entity_instance \<Rightarrow> (string, json) omap) \<Rightarrow> (string, json) omap \<Rightarrow> bool" where
  "has_table ge is f M \<longleftrightarrow> om_ok M \<and> map_of M = map_of (table_of ge is f)"

lemma table_lookup:
  assumes "distinct (map (instance_key ge) is)" and "i \<in> set is"
  shows "map_of (table_of ge is f) (instance_key ge i) = Some (JObject (f i))"
  using assms by (auto simp: table_of_def comp_def image_iff intro!: map_of_is_SomeI)

lemma table_keys: "map_of (table_of ge is f) k \<noteq> None \<longleftrightarrow> (\<exists>i \<in> set is. k = instance_key ge i)"
  by (force simp: table_of_def map_of_eq_None_iff)

lemma empty_objects_table:
  assumes "distinct (map (instance_key ge) is)"
  shows "\<exists>M. empty_objects ge is = JObject M \<and> has_table ge is (\<lambda>_. []) M"
proof -
  have "om_ok M \<Longrightarrow> om_ok (fold (\<lambda>i. om_assign (instance_key ge i) (JObject [])) is M) \<and>
      map_of (fold (\<lambda>i. om_assign (instance_key ge i) (JObject [])) is M) =
        map_of M ++ map_of (table_of ge is (\<lambda>_. []))" for M
    using assms
  proof (induction "is" arbitrary: M)
    case (Cons i "is")
    then have "map_of (table_of ge is (\<lambda>_. [])) (instance_key ge i) = None"
      using table_keys [of ge "is" "\<lambda>_. []" "instance_key ge i"] by auto
    with Cons show ?case
      by (auto simp: table_of_def om_ok_assign map_of_om_assign map_add_def split: option.splits)
  qed (simp add: table_of_def)
  from this [of "[]"] show ?thesis by (simp add: empty_objects_def has_table_def)
qed

text \<open>A loop whose steps each change the object under their key.\<close>

lemma gfor_table:
  assumes "\<And>x M. x \<in> set xs \<Longrightarrow> om_ok M \<Longrightarrow> map_of M (key x) = Some (JObject (f x)) \<Longrightarrow>
      step x (st M) = Some (Inr (), st (om_assign (key x) (JObject (g x)) M))"
    and "distinct (map key xs)" and "om_ok M" and "\<And>x. x \<in> set xs \<Longrightarrow> map_of M (key x) = Some (JObject (f x))"
  shows "\<exists>M'. gfor xs step (st M) = Some (Inr (), st M') \<and> om_ok M' \<and>
    map_of M' = map_of M ++ map_of (map (\<lambda>x. (key x, JObject (g x))) xs)"
  using assms
proof (induction xs arbitrary: M)
  case (Cons x xs)
  let ?M = "om_assign (key x) (JObject (g x)) M"
  have x: "step x (st M) = Some (Inr (), st ?M)" using Cons.prems by simp
  have "map_of ?M (key y) = Some (JObject (f y))" if "y \<in> set xs" for y
    using Cons.prems(2,4) that by (auto simp: map_of_om_assign image_iff)
  with Cons.IH [of ?M] Cons.prems obtain M' where
    "gfor xs step (st ?M) = Some (Inr (), st M')" "om_ok M'"
    "map_of M' = map_of ?M ++ map_of (map (\<lambda>x. (key x, JObject (g x))) xs)" by (auto simp: om_ok_assign)
  moreover have "map_of (map (\<lambda>x. (key x, JObject (g x))) xs) (key x) = None"
    using Cons.prems(2) by (auto simp: map_of_eq_None_iff image_iff)
  ultimately have "map_of M' = map_of M ++ map_of (map (\<lambda>x. (key x, JObject (g x))) (x # xs))"
    by (auto simp: map_of_om_assign map_add_def fun_eq_iff split: option.splits)
  moreover have "gfor (x # xs) step (st M) = Some (Inr (), st M')"
    using x \<open>gfor xs step (st ?M) = Some (Inr (), st M')\<close> by simp
  ultimately show ?case using \<open>om_ok M'\<close> by blast
qed (auto simp: gret_def)

lemma member_update:
  "map_of M k = Some (JObject m) \<Longrightarrow>
     json_member k (push_member name v) (JObject M) = Inr (JObject (om_assign k (JObject (om_emplace name v m)) M))"
  by (simp add: json_member_def)

section \<open>The steps of the visitor\<close>

text \<open>The current builder stands for an entity and has the objects \<open>f\<close> of its instances.\<close>

definition builds ::
    "gql_env \<Rightarrow> entity_world \<Rightarrow> nat \<Rightarrow> (entity_instance \<Rightarrow> (string, json) omap) \<Rightarrow> gql_build \<Rightarrow> bool" where
  "builds ge w e f b \<longleftrightarrow> build_entity b = Some e \<and>
     (\<exists>M. fragment b = JObject M \<and> has_table ge (insts w e) f M)"

definition grow :: "string \<Rightarrow> (entity_instance \<Rightarrow> json) \<Rightarrow> (entity_instance \<Rightarrow> (string, json) omap) \<Rightarrow> entity_instance \<Rightarrow> (string, json) omap" where
  "grow name v f i = om_emplace name (v i) (f i)"

lemma build_entity_fragment [simp]: "build_entity (b\<lparr>fragment := j\<rparr>) = build_entity b"
  by (simp add: build_entity_def split: option.split)

lemma has_table_update:
  assumes "has_table ge is f M" "om_ok M'" "map_of M' = map_of M ++ map_of (table_of ge is g)"
  shows "has_table ge is g M'"
proof -
  have "(map_of M ++ map_of (table_of ge is g)) k = map_of (table_of ge is g) k" for k
    using assms(1) table_keys [of ge "is" f k] table_keys [of ge "is" g k]
    by (cases "map_of (table_of ge is g) k") (auto simp: has_table_def map_add_def)
  with assms show ?thesis by (simp add: has_table_def fun_eq_iff)
qed

lemma visit_leaf:
  assumes st: "steady ge w e" and b: "builds ge w e f b" and m: "member_known ge w e name"
    and s: "builders s = b # bs" "gql_world s = w"
  shows "\<exists>j. supplement_field ge name b s = Some (Inr (), s\<lparr>builders := b\<lparr>fragment := j\<rparr> # bs\<rparr>) \<and>
    builds ge w e (grow name (leaf_value name) f) (b\<lparr>fragment := j\<rparr>)"
proof -
  obtain M where M: "fragment b = JObject M" "has_table ge (insts w e) f M" and e: "build_entity b = Some e"
    using b by (auto simp: builds_def)
  obtain mem where mem: "getMember (gql_fuel ge) e name w = Some (Inr mem, w)" "member_name mem = name"
    using m by (auto simp: member_known_def)
  let ?st = "\<lambda>M. s\<lparr>builders := b\<lparr>fragment := JObject M\<rparr> # bs\<rparr>"
  have dist: "distinct (map (instance_key ge) (insts w e))"
    using st by (simp add: steady_def keys_distinct)
  have step: "add_value ge name mem i (?st M') = Some (Inr (), ?st (om_assign (instance_key ge i) (JObject (grow name (leaf_value name) f i)) M'))"
    if "map_of M' (instance_key ge i) = Some (JObject (f i))" for i M'
    using that by (simp add: add_value_def member_update mem(2) grow_def leaf_value_def Let_def gret_def)
  have look: "map_of M (instance_key ge i) = Some (JObject (f i))" if "i \<in> set (insts w e)" for i
    using M(2) table_lookup [OF dist] that by (simp add: has_table_def)
  have "om_ok M" using M(2) by (simp add: has_table_def)
  from gfor_table [where st = ?st and key = "instance_key ge" and xs = "insts w e" and f = f and M = M
      and g = "grow name (leaf_value name) f" and step = "add_value ge name mem", OF step dist this look]
  obtain M' where M': "gfor (insts w e) (add_value ge name mem) (?st M) = Some (Inr (), ?st M')" "om_ok M'"
    "map_of M' = map_of M ++ map_of (table_of ge (insts w e) (grow name (leaf_value name) f))"
    by (auto simp: table_of_def)
  have now: "?st M = s" using s M(1) by simp
  have "supplement_field ge name b s = Some (Inr (), ?st M')"
    unfolding supplement_field_def e using mem(1) st s(2) M(1) M'(1)
    by (auto intro!: rethrow_Inr simp: on_entities_Inr all_instances_steady now)
  moreover have "builds ge w e (grow name (leaf_value name) f) (b\<lparr>fragment := JObject M'\<rparr>)"
    using e has_table_update [OF M(2) M'(2,3)] by (auto simp: builds_def)
  ultimately show ?thesis by blast
qed

lemma getFragment_child:
  assumes "steady ge w d" and "builds ge w d f c" and "gql_world s = w"
    and "(case (build_relation c, h) of
           (Some r, Some h) \<Rightarrow> getConditions (gql_fuel ge) r h w = Some (Inr cs, w) | _ \<Rightarrow> cs = [])"
  shows "getFragment ge h c s =
    Some (Inr (shape ge d (map (JObject \<circ> f) (filter (conditions_pass cs) (insts w d)))), s)"
proof -
  let ?is = "filter (conditions_pass cs) (insts w d)"
  obtain M where M: "fragment c = JObject M" "has_table ge (insts w d) f M" and d: "build_entity c = Some d"
    using assms(2) by (auto simp: builds_def)
  have frag: "fragment_of ge c i s = Some (Inr (JObject (f i)), s)" if "i \<in> set ?is" for i
    using that M table_lookup [OF keys_distinct, of ge w d i f] assms(1)
    by (simp add: fragment_of_def has_table_def steady_def gret_def)
  have map: "gmap (fragment_of ge c) ?is s = Some (Inr (map (JObject \<circ> f) ?is), s)"
    using gmap_Inr [of ?is "fragment_of ge c" s "JObject \<circ> f"] frag by simp
  let ?conds = "case (build_relation c, h) of (Some r, Some h) \<Rightarrow> on_entities (getConditions (gql_fuel ge) r h) | _ \<Rightarrow> gret []"
  have c: "?conds s = Some (Inr cs, s)"
    using assms(3,4) by (auto simp: on_entities_Inr gret_def split: option.splits)
  have a: "all_instances ge d cs s = Some (Inr ?is, s)"
    using all_instances_steady [of ge s d cs] assms(1,3) by simp
  have bind: "gbind ?conds (\<lambda>cs. gbind (all_instances ge d cs) k) s = k ?is s" for k :: "entity_instance list \<Rightarrow> json gql"
    by (simp only: gbind_simps(1) [where m = "?conds", OF c] gbind_simps(1) [where m = "all_instances ge d cs", OF a])
  show ?thesis
    unfolding getFragment_def d option.case
    by (rule rethrow_Inr, subst bind, cases ?is; cases "tl ?is")
       (use frag map in \<open>auto simp: shape_def gret_def\<close>)
qed

lemma push_child_step:
  assumes "getFragment ge h child s = Some (Inr j, s)" "builders s = child # p # bs"
    and "(case stoull k of Inr v \<Rightarrow> h = Some v | Inl (Invalid_argument _) \<Rightarrow> h = None | _ \<Rightarrow> False)"
    and "fragment p = JObject M" "map_of M k = Some (JObject m)"
  shows "push_child ge name child k s =
    Some (Inr (), s\<lparr>builders := child # p\<lparr>fragment := JObject (om_assign k (JObject (om_emplace name j m)) M)\<rparr> # bs\<rparr>)"
proof -
  have "(case stoull k of Inr h \<Rightarrow> gret (Some h) | Inl (Invalid_argument _) \<Rightarrow> gret None
      | Inl e \<Rightarrow> gthrow (Foreign e)) = gret h"
    using assms(3) by (auto split: sum.splits cpp_exn.splits)
  then show ?thesis
    using assms(1,2,4,5) by (simp add: push_child_def gret_def member_update)
qed

lemma map_of_keys: "map_of (map (\<lambda>k. (k, h k)) ks) k = (if k \<in> set ks then Some (h k) else None)"
  by (simp add: map_of_map_restrict restrict_map_def)

lemma push_branch:
  assumes st: "steady ge w e" "steady ge w (destination r)"
    and p: "builds ge w e f p" and c: "builds ge w (destination r) g c" "build_relation c = Some r"
    and conds: "conditions_known ge w r e" and s: "builders s = c # p # bs" "gql_world s = w"
  shows "\<exists>j. pushFragmentToParent ge s = Some (Inr (), s\<lparr>builders := c # p\<lparr>fragment := j\<rparr> # bs\<rparr>) \<and>
    builds ge w e (grow (build_fieldName c)
      (\<lambda>i. shape ge (destination r) (map (JObject \<circ> g) (related ge w r i))) f) (p\<lparr>fragment := j\<rparr>)"
proof -
  let ?v = "\<lambda>i. shape ge (destination r) (map (JObject \<circ> g) (related ge w r i))" and ?name = "build_fieldName c"
  let ?is = "insts w e" and ?f' = "grow ?name ?v f"
  obtain M where M: "fragment p = JObject M" "has_table ge ?is f M" and e: "build_entity p = Some e"
    using p by (auto simp: builds_def)
  have dist: "distinct (map (instance_key ge) ?is)" using st(1) by (simp add: steady_def keys_distinct)
  define pick where "pick k = (THE i. i \<in> set ?is \<and> instance_key ge i = k)" for k
  have pick: "pick (instance_key ge i) = i" if "i \<in> set ?is" for i
    unfolding pick_def using that dist by (intro the_equality) (auto simp: distinct_map dest: inj_onD)
  let ?st = "\<lambda>M. s\<lparr>builders := c # p\<lparr>fragment := JObject M\<rparr> # bs\<rparr>"
  have keys: "\<exists>i \<in> set ?is. k = instance_key ge i" if "k \<in> set (map fst M)" for k
  proof -
    have "map_of M k \<noteq> None" using that by (simp add: map_of_eq_None_iff)
    with M(2) table_keys [of ge ?is f k] show ?thesis by (simp add: has_table_def)
  qed
  have frag: "getFragment ge (Some (getHash (hash_of (gql_entities ge)) i)) c (?st M') = Some (Inr (?v i), ?st M')"
    if "i \<in> set ?is" for i M'
  proof -
    from bspec [OF conds [unfolded conditions_known_def] that]
    obtain cs where "getConditions (gql_fuel ge) r (getHash (hash_of (gql_entities ge)) i) w = Some (Inr cs, w)" ..
    with getFragment_child [OF st(2) c(1), where s = "?st M'" and h = "Some (getHash (hash_of (gql_entities ge)) i)" and cs = cs] c(2) s(2)
    show ?thesis by (simp add: related_def conditions_from_def)
  qed
  have step: "push_child ge ?name c k (?st M') = Some (Inr (), ?st (om_assign k (JObject (?f' (pick k))) M'))"
    if k: "k \<in> set (map fst M)" and Mk: "map_of M' k = Some (JObject (f (pick k)))" for k M'
  proof -
    obtain i where i: "i \<in> set ?is" "k = instance_key ge i" using keys [OF k] by blast
    have "stoull k = Inr (getHash (hash_of (gql_entities ge)) i)" using i stoull_key by simp
    with push_child_step [OF frag [OF i(1), of M'], of "p\<lparr>fragment := JObject M'\<rparr>" bs k M' "f i" ?name] Mk pick [OF i(1)] i(2)
    show ?thesis by (simp add: grow_def)
  qed
  have ok: "om_ok M" and look: "\<And>i. i \<in> set ?is \<Longrightarrow> map_of M (instance_key ge i) = Some (JObject (f i))"
    using M(2) table_lookup [OF dist] by (simp_all add: has_table_def)
  have look': "map_of M k = Some (JObject (f (pick k)))" if "k \<in> set (map fst M)" for k
    using keys [OF that] look pick by auto
  have "distinct (map (\<lambda>k. k) (map fst M))" using om_ok_distinct [OF ok] by simp
  from gfor_table [where st = ?st and key = "\<lambda>k. k" and xs = "map fst M" and f = "f \<circ> pick" and g = "?f' \<circ> pick"
      and M = M and step = "push_child ge ?name c", OF _ this ok] step look'
  obtain M' where M': "gfor (map fst M) (push_child ge ?name c) (?st M) = Some (Inr (), ?st M')" "om_ok M'"
    "map_of M' = map_of M ++ map_of (map (\<lambda>k. (k, JObject (?f' (pick k)))) (map fst M))" by auto
  have M'k: "map_of M' k = (if k \<in> set (map fst M) then Some (JObject (?f' (pick k))) else map_of M k)" for k
    unfolding M'(3) map_add_def map_of_keys by simp
  have "map_of M' k = map_of (table_of ge ?is ?f') k" for k
  proof (cases "\<exists>i \<in> set ?is. k = instance_key ge i")
    case True
    then obtain i where i: "i \<in> set ?is" "k = instance_key ge i" by blast
    then have "k \<in> set (map fst M)" using look by (metis list.set_map map_of_eq_None_iff option.distinct(1))
    then show ?thesis
      using i pick table_lookup [OF dist i(1), of ?f'] by (simp add: M'k)
  next
    case False
    then have k: "k \<notin> set (map fst M)" using keys by blast
    moreover from k have "map_of M k = None" by (simp add: map_of_eq_None_iff)
    moreover have "map_of (table_of ge ?is ?f') k = None" using False table_keys [of ge ?is ?f' k] by blast
    ultimately show ?thesis by (simp add: M'k)
  qed
  then have "has_table ge ?is ?f' M'" using M'(2) by (simp add: has_table_def fun_eq_iff)
  then have "builds ge w e ?f' (p\<lparr>fragment := JObject M'\<rparr>)" using e by (auto simp: builds_def)
  moreover have now: "?st M = s" using s(1) M(1) by simp
  moreover have "pushFragmentToParent ge s = Some (Inr (), ?st M')"
    using M'(1) [unfolded now] s(1) M(1) by (simp add: pushFragmentToParent_def)
  ultimately show ?thesis by blast
qed

lemma push_root:
  assumes "steady ge w e" "builds ge w e g c" "build_relation c = None" "builders s = [c, p]" "gql_world s = w"
    and "fragment p = JObject [(visitorName, JObject m)]"
  shows "pushFragmentToParent ge s = Some (Inr (), s\<lparr>builders := [c, p\<lparr>fragment :=
    JObject [(visitorName, JObject (om_emplace (build_fieldName c) (shape ge e (map (JObject \<circ> g) (insts w e))) m))]\<rparr>]\<rparr>)"
proof -
  have "getFragment ge None c s = Some (Inr (shape ge e (map (JObject \<circ> g) (insts w e))), s)"
    using getFragment_child [OF assms(1,2,5), where h = None and cs = "[]"] assms(3) by simp
  moreover have "stoull visitorName = Inl (Invalid_argument ''stoull'')"
    by (simp add: stoull_def visitorName_def isspace_def isdigit_def)
  ultimately show ?thesis
    using push_child_step [of ge None c s _ p "[]" visitorName "[(visitorName, JObject m)]" m "build_fieldName c"] assms(4,6)
    by (simp add: pushFragmentToParent_def gret_def)
qed

section \<open>A walk\<close>

lemma visit_list:
  assumes each: "\<And>t f b s. t \<in> set ts \<Longrightarrow> builds ge w e f b \<Longrightarrow> builders s = b # bs \<Longrightarrow> gql_world s = w \<Longrightarrow>
      \<exists>j. gfor (walk t) (visit_event ge) s = Some (Inr (), s\<lparr>builders := b\<lparr>fragment := j\<rparr> # bs\<rparr>) \<and>
        builds ge w e (grow (key_of t) (answer ge w e t) f) (b\<lparr>fragment := j\<rparr>)"
    and "builds ge w e f b" "builders s = b # bs" "gql_world s = w"
  shows "\<exists>j. gfor (concat (map walk ts)) (visit_event ge) s = Some (Inr (), s\<lparr>builders := b\<lparr>fragment := j\<rparr> # bs\<rparr>) \<and>
    builds ge w e (\<lambda>i. fold (\<lambda>t. om_emplace (key_of t) (answer ge w e t i)) ts (f i)) (b\<lparr>fragment := j\<rparr>)"
  using assms
proof (induction ts arbitrary: f b s)
  case Nil
  then have "s\<lparr>builders := b\<lparr>fragment := fragment b\<rparr> # bs\<rparr> = s" by simp
  with Nil show ?case by (auto intro!: exI [of _ "fragment b"] simp: gret_def)
next
  case (Cons t ts)
  from Cons.prems(1) [OF _ Cons.prems(2-4)] obtain j where
    j: "gfor (walk t) (visit_event ge) s = Some (Inr (), s\<lparr>builders := b\<lparr>fragment := j\<rparr> # bs\<rparr>)"
    "builds ge w e (grow (key_of t) (answer ge w e t) f) (b\<lparr>fragment := j\<rparr>)" by auto
  let ?s = "s\<lparr>builders := b\<lparr>fragment := j\<rparr> # bs\<rparr>"
  have "\<exists>j'. gfor (concat (map walk ts)) (visit_event ge) ?s =
      Some (Inr (), ?s\<lparr>builders := b\<lparr>fragment := j\<rparr>\<lparr>fragment := j'\<rparr> # bs\<rparr>) \<and>
    builds ge w e (\<lambda>i. fold (\<lambda>t. om_emplace (key_of t) (answer ge w e t i)) ts (grow (key_of t) (answer ge w e t) f i))
      (b\<lparr>fragment := j\<rparr>\<lparr>fragment := j'\<rparr>)"
    using Cons.prems(4) by (intro Cons.IH Cons.prems(1) j(2)) simp_all
  with j(1) show ?case by (auto simp: gfor_append grow_def)
qed

lemma build_relation_fragment [simp]: "build_fieldName (b\<lparr>fragment := j\<rparr>) = build_fieldName b"
  by (simp add: build_fieldName_def split: option.split)

text \<open>The builder of an object field, with the alias it is given.\<close>

definition child_of :: "string \<Rightarrow> string option \<Rightarrow> nat option \<Rightarrow> relation option \<Rightarrow> json \<Rightarrow> gql_build" where
  "child_of n al e r j = \<lparr>build_name = n, entityObject = e, build_relation = r, fragment = j, build_alias = al\<rparr>"

lemma child_of_simps [simp]:
  "fragment (child_of n al e r j) = j" "build_relation (child_of n al e r j) = r"
  "build_fieldName (child_of n al e r j) = shown n al"
  "(child_of n al e r j)\<lparr>fragment := j'\<rparr> = child_of n al e r j'"
  "build_entity (child_of n al e r j) = (case e of Some e \<Rightarrow> Some e | None \<Rightarrow> map_option destination r)"
  by (simp_all add: child_of_def build_fieldName_def shown_def build_entity_def split: option.split)

lemma visit_child:
  assumes "steady ge w e" and "gql_world s = w" and "builders s = bs" "bs \<noteq> []"
    and "child_build ge n (hd bs) s = Some (Inr \<lparr>build_name = n, entityObject = eo, build_relation = r,
      fragment = empty_objects ge (insts w e), build_alias = None\<rparr>, s)"
    and "(case eo of Some e \<Rightarrow> Some e | None \<Rightarrow> map_option destination r) = Some e"
  shows "\<exists>j. visitField ge n al True s = Some (Inr (), s\<lparr>builders := child_of n al eo r j # bs\<rparr>) \<and>
    builds ge w e (\<lambda>_. []) (child_of n al eo r j)"
proof -
  obtain M where M: "empty_objects ge (insts w e) = JObject M" "has_table ge (insts w e) (\<lambda>_. []) M"
    using empty_objects_table keys_distinct assms(1) unfolding steady_def by blast
  have "visitField ge n al True s = Some (Inr (), s\<lparr>builders := child_of n al eo r (JObject M) # bs\<rparr>)"
    using assms(3-5) by (cases bs; cases al) (simp_all add: visitField_def rethrow_Inr gret_def child_of_def M(1))
  moreover have "builds ge w e (\<lambda>_. []) (child_of n al eo r (JObject M))"
    using assms(6) M(2) by (simp add: builds_def)
  ultimately show ?thesis by blast
qed

lemma visit_selection:
  assumes "valid_on ge w e sel" "steady ge w e" "builds ge w e f b" "builders s = b # bs" "gql_world s = w"
  shows "\<exists>j. gfor (walk sel) (visit_event ge) s = Some (Inr (), s\<lparr>builders := b\<lparr>fragment := j\<rparr> # bs\<rparr>) \<and>
    builds ge w e (grow (key_of sel) (answer ge w e sel) f) (b\<lparr>fragment := j\<rparr>)"
  using assms
proof (induction sel arbitrary: e f b bs s)
  case (Leaf n al)
  have "answer ge w e (Leaf n al) = leaf_value (shown n al)" by (simp add: fun_eq_iff)
  with visit_leaf [OF Leaf.prems(2,3) _ Leaf.prems(4,5), of "shown n al"] Leaf.prems show ?case
    by (auto simp: visitField_def endVisitField_def shown_def gret_def)
next
  case (Branch n al ss)
  then obtain r where r: "getRelation n e w = Some r" "conditions_known ge w r e" "steady ge w (destination r)"
    "\<forall>t \<in> set ss. valid_on ge w (destination r) t" by (auto simp: list_all_iff split: option.splits)
  let ?d = "destination r"
  have be: "build_entity b = Some e" using Branch.prems(3) by (simp add: builds_def)
  have "child_build ge n (hd (b # bs)) s = Some (Inr \<lparr>build_name = n, entityObject = None, build_relation = Some r,
      fragment = empty_objects ge (insts w ?d), build_alias = None\<rparr>, s)"
    using r(1,3) Branch.prems(5) all_instances_steady [of ge s ?d "[]"]
    by (simp add: child_build_def be relation_build_def gret_def)
  from visit_child [OF r(3) Branch.prems(5,4) _ this, of al] obtain j0 where
    j0: "visitField ge n al True s = Some (Inr (), s\<lparr>builders := child_of n al None (Some r) j0 # b # bs\<rparr>)"
    "builds ge w ?d (\<lambda>_. []) (child_of n al None (Some r) j0)" by auto
  let ?s = "s\<lparr>builders := child_of n al None (Some r) j0 # b # bs\<rparr>"
  let ?g = "\<lambda>i. fold (\<lambda>t. om_emplace (key_of t) (answer ge w ?d t i)) ss []"
  have "\<exists>j. gfor (concat (map walk ss)) (visit_event ge) ?s =
      Some (Inr (), ?s\<lparr>builders := (child_of n al None (Some r) j0)\<lparr>fragment := j\<rparr> # b # bs\<rparr>) \<and>
    builds ge w ?d ?g ((child_of n al None (Some r) j0)\<lparr>fragment := j\<rparr>)"
    using Branch.prems(5) r(3,4) by (intro visit_list j0(2) Branch.IH) simp_all
  then obtain j1 where j1: "gfor (concat (map walk ss)) (visit_event ge) ?s =
      Some (Inr (), s\<lparr>builders := child_of n al None (Some r) j1 # b # bs\<rparr>)"
    "builds ge w ?d ?g (child_of n al None (Some r) j1)" by auto
  from push_branch [OF Branch.prems(2) r(3) Branch.prems(3) j1(2) _ r(2), where bs = bs and
      s = "s\<lparr>builders := child_of n al None (Some r) j1 # b # bs\<rparr>"] Branch.prems(5)
  obtain j where j: "pushFragmentToParent ge (s\<lparr>builders := child_of n al None (Some r) j1 # b # bs\<rparr>) =
      Some (Inr (), s\<lparr>builders := child_of n al None (Some r) j1 # b\<lparr>fragment := j\<rparr> # bs\<rparr>)"
    "builds ge w e (grow (shown n al) (\<lambda>i. shape ge ?d (map (JObject \<circ> ?g) (related ge w r i))) f) (b\<lparr>fragment := j\<rparr>)"
    by auto
  have "answer ge w e (Branch n al ss) = (\<lambda>i. shape ge ?d (map (JObject \<circ> ?g) (related ge w r i)))"
    by (simp add: fun_eq_iff r(1) comp_def)
  with j(2) have "builds ge w e (grow (key_of (Branch n al ss)) (answer ge w e (Branch n al ss)) f) (b\<lparr>fragment := j\<rparr>)"
    by simp
  moreover have "gfor (walk (Branch n al ss)) (visit_event ge) s = Some (Inr (), s\<lparr>builders := b\<lparr>fragment := j\<rparr> # bs\<rparr>)"
    using j0(1) j1(1) j(1) by (simp add: gfor_append endVisitField_def gret_def)
  ultimately show ?case by blast
qed

end
