(* ===== verification/Graphql_Properties.thy ===== *)
theory Graphql_Properties
  imports Graphql_Facts Entity_Samples
begin

text \<open>
  What holds of the GraphQL handler: in a settled world a valid query is answered with the tree
  of objects it describes, and a field under an alias is looked up by its alias.
\<close>

section \<open>The root of a query\<close>



definition root_with :: "(string, json) omap \<Rightarrow> gql_build" where
  "root_with m = (root_build visitorName)\<lparr>fragment := JObject [(visitorName, JObject m)]\<rparr>"

lemma root_with_simps [simp]:
  "fragment (root_with m) = JObject [(visitorName, JObject m)]" "build_entity (root_with m) = None"
  "(root_with m)\<lparr>fragment := JObject [(visitorName, JObject m')]\<rparr> = root_with m'"
  by (simp_all add: root_with_def root_build_def build_entity_def)

lemma root_build_with: "root_build visitorName = root_with []"
  by (simp add: root_with_def root_build_def json_object_def om_emplace_def)

definition at_root :: "entity_world \<Rightarrow> (string, json) omap \<Rightarrow> gql_state" where
  "at_root w m = \<lparr>builders = [root_with m], gql_world = w\<rparr>"

lemma enter_root:
  assumes "getEntity (gql_fuel ge) (gql_entities ge) n w = Some (Inr e, w)" and "steady ge w e"
  shows "\<exists>j. visitField ge n al True (at_root w m) =
      Some (Inr (), \<lparr>builders = [child_of n al (Some e) None j, root_with m], gql_world = w\<rparr>) \<and>
    builds ge w e (\<lambda>_. []) (child_of n al (Some e) None j)"
proof -
  have "child_build ge n (root_with m) (at_root w m) = Some (Inr \<lparr>build_name = n, entityObject = Some e,
      build_relation = None, fragment = empty_objects ge (insts w e), build_alias = None\<rparr>, at_root w m)"
    using assms all_instances_steady [of ge "at_root w m" e "[]"]
    by (simp add: child_build_def on_entities_Inr entity_build_def at_root_def gret_def)
  with visit_child [of ge w e "at_root w m" "[root_with m]" n "Some e" None al] assms(2) show ?thesis
    by (simp add: at_root_def)
qed




text \<open>What the visitor makes of the events, from how its walk ended.\<close>

lemma run_query:
  assumes "gfor events (visit_event ge) (at_root w []) = Some (r, s)"
    and "getFragment ge None (hd (builders s)) s = Some (Inr document, s)"
  shows "graphql_run ge (registerGqlVisitors []) (Some [(visitorName, events)]) w =
    (case r of
       Inr _ \<Rightarrow> Some (Ends (graphql_respond ge respFieldData (JObject [(visitorName, document)]), gql_world s))
     | Inl (Foreign e) \<Rightarrow> Some (Ends (Inl e, gql_world s))
     | Inl (Gql_exception what) \<Rightarrow>
         (case gql_dump ge what of
            Inl _ \<Rightarrow> Some Terminates
          | Inr _ \<Rightarrow> Some (Ends (graphql_respond ge respFieldError what, gql_world s))))"
proof -
  have "query_visitor ge events w = Some (Ends (map_sum id (\<lambda>_. document) r, gql_world s))"
    using assms by (simp add: query_visitor_def root_build_with at_root_def)
  moreover have "om_emplace visitorName (JObject []) [] = [(visitorName, JObject [])]" by (simp add: om_emplace_def)
  ultimately show ?thesis
    by (auto simp: graphql_run_def registerGqlVisitors_def om_emplace_def split: sum.splits gql_exn.splits)
qed

section \<open>Concrete inputs\<close>

text \<open>A chassis with two sensors related to it by its identifier.\<close>

definition gql_entity :: "nat \<Rightarrow> entity" where
  "gql_entity n =
     (if n = 0 then (new_entity ''Chassis'' [\<lparr>source = 0, destination = 1,
            conditionBuildRules = [(''Id'', ''Place'', Equal T_string)]\<rparr>] [] [] (CachedSource True False False))
        \<lparr>members := [(''Id'', \<lparr>member_name = ''Id'', member_instance = None\<rparr>)],
         instances := [(1, text_instance ''c'' [(''Id'', ''x'')])]\<rparr>
      else (new_entity ''Sensors'' [] [] [] (CachedSource True False False))
        \<lparr>members := [(''Name'', \<lparr>member_name = ''Name'', member_instance = None\<rparr>)],
         instances := [(1, text_instance ''s'' [(''Name'', ''t1''), (''Place'', ''x'')]),
                       (2, text_instance ''ss'' [(''Name'', ''t2''), (''Place'', ''y'')])]\<rparr>)"

definition gql_sample_world :: entity_world where
  "gql_sample_world = \<lparr>entities = gql_entity, subscribers = [], observers = [], dictionary = [(''Chassis'', 0)]\<rparr>"

definition gql_sample_env :: gql_env where
  "gql_sample_env = \<lparr>gql_entities = sample_entity_env, gql_fuel = 2,
     entity_type_of = (\<lambda>n. if n = 0 then Type_object else Type_array), gql_dump = (\<lambda>_. Inr []),
     gql_dump2 = (\<lambda>j. Inr (if j = JNull then ''null'' else ''{}'')),
     gql_json_parse = (\<lambda>_. JDiscarded), gql_parseString = (\<lambda>_. None)\<rparr>"


lemmas gql_samples = gql_entity_def gql_sample_world_def gql_sample_env_def sample_entity_env_def

lemma gql_sample_tables: "providers (entities gql_sample_world n) = []"
  "table_settled sample_entity_env (entities gql_sample_world n)"
  by (simp_all add: gql_sample_world_def gql_entity_def new_entity_def createMember_def addMember_def
      table_settled_def om_ok_def settled_static text_instance_def)

lemma gql_sample_steady: "steady gql_sample_env gql_sample_world n"
proof -
  have "getInstances 2 sample_entity_env n conds gql_sample_world =
      Some (Inr (filter (conditions_pass conds) (insts gql_sample_world n)), gql_sample_world)" for conds
    unfolding numeral_2_eq_2 insts_def by (rule getInstances_plain [OF gql_sample_tables])
  moreover have "table_ok sample_entity_env (entities gql_sample_world n)"
    by (simp add: table_ok_def gql_samples om_ok_def getHash_def text_instance_def)
  ultimately show ?thesis by (simp add: steady_def gql_sample_env_def)
qed

lemma gql_sample_entity: "getEntity 2 sample_entity_env ''Chassis'' gql_sample_world = Some (Inr 0, gql_sample_world)"
  by (simp add: getEntity_def gql_sample_world_def populate_def gql_entity_def new_entity_def createMember_def
      addMember_def bind_act_def ret_def)

section \<open>Properties\<close>



text \<open>A scalar field that is given an alias is looked up by the alias instead of its name: when
  no member is called like the alias, the query is answered with an error, whatever the name
  of the field is.\<close>

theorem aliased_field_not_found:
  assumes "getEntity (gql_fuel ge) (gql_entities ge) n w = Some (Inr e, w)" and "steady ge w e"
    and "getMember (gql_fuel ge) e a w = Some (Inl (Entity_exception x), w)"
    and "\<forall>j. \<exists>t. gql_dump ge j = Inr t"
  shows "graphql_run ge (registerGqlVisitors []) (Some [(visitorName, walk (Branch n None [Leaf name (Some a)]))]) w =
    Some (Ends (graphql_respond ge respFieldError (json_object
      [(''Target'', JString ''Invalid Argument''), (''Description'', JString ''Field not found''),
       (''Argument'', JString a)]), w))"
proof -
  from enter_root [OF assms(1,2), of None "[]"] obtain j where
    j: "visitField ge n None True (at_root w []) =
      Some (Inr (), \<lparr>builders = [child_of n None (Some e) None j, root_with []], gql_world = w\<rparr>)"
    "builds ge w e (\<lambda>_. []) (child_of n None (Some e) None j)" by blast
  let ?s = "\<lparr>builders = [child_of n None (Some e) None j, root_with []], gql_world = w\<rparr>"
  have "j \<noteq> JNull" using j(2) by (auto simp: builds_def)
  then have "visitField ge name (Some a) False ?s = Some (Inl (GqlInvalidArgument a ''Field not found''), ?s)"
    using assms(3) by (simp add: visitField_def supplement_field_def rethrow_def gbind_def on_entities_def)
  then have "gfor (walk (Branch n None [Leaf name (Some a)])) (visit_event ge) (at_root w []) =
      Some (Inl (GqlInvalidArgument a ''Field not found''), ?s)"
    using j(1) by (simp add: gbind_def)
  moreover have "getFragment ge None (hd (builders ?s)) ?s =
      Some (Inr (shape ge e (map (JObject \<circ> (\<lambda>_. [])) (insts w e))), ?s)"
    using getFragment_child [OF assms(2) j(2), where s = ?s and h = None and cs = "[]"] by simp
  moreover obtain t where "gql_dump ge (json_object [(''Target'', JString ''Invalid Argument''),
      (''Description'', JString ''Field not found''), (''Argument'', JString a)]) = Inr t"
    using assms(4) by blast
  ultimately show ?thesis
    by (simp add: run_query GqlInvalidArgument_def gql_exception_def)
qed

theorem aliased_field_not_found_witness:
  "graphql_run gql_sample_env (registerGqlVisitors [])
      (Some [(visitorName, walk (Branch ''Chassis'' None [Leaf ''Id'' (Some ''identifier'')]))]) gql_sample_world =
     Some (Ends (graphql_respond gql_sample_env respFieldError (json_object
      [(''Target'', JString ''Invalid Argument''), (''Description'', JString ''Field not found''),
       (''Argument'', JString ''identifier'')]), gql_sample_world))"
proof (rule aliased_field_not_found [where e = 0 and x = "''The object Member <identifier> not found''"])
  show "getEntity (gql_fuel gql_sample_env) (gql_entities gql_sample_env) ''Chassis'' gql_sample_world =
      Some (Inr 0, gql_sample_world)" using gql_sample_entity by (simp add: gql_sample_env_def)
  show "steady gql_sample_env gql_sample_world 0" by (rule gql_sample_steady)
  show "getMember (gql_fuel gql_sample_env) 0 ''identifier'' gql_sample_world =
      Some (Inl (Entity_exception ''The object Member <identifier> not found''), gql_sample_world)"
    by (simp add: gql_samples numeral_2_eq_2 new_entity_def createMember_def addMember_def throw_def)
  show "\<forall>j. \<exists>t. gql_dump gql_sample_env j = Inr t" by (simp add: gql_sample_env_def)
qed

end
