(* ===== verification/Firmware.thy ===== *)
theory Firmware
  imports Inventory
begin

text \<open>
  \<open>src/firmware.hpp\<close>: the provider of the firmware objects with the fields computed from their
  activation, the entity that proxies it with its conditions and relations, and the settings of
  updates.
\<close>

section \<open>Enumerations\<close>

datatype activations =
    Act_notReady | Act_invalid | Act_ready | Act_activating | Act_activatingAsStandbySpare
  | Act_active | Act_failed | Act_standbySpare | Act_staged | Act_staging

datatype purpose = Purpose_bmc | Purpose_bios | Purpose_unknown

datatype firmware_state = Firmware_enabled | Firmware_updating | Firmware_standbySpare

datatype apply_time = Apply_onReset | Apply_immediate | Apply_unknown

definition all_activations :: "activations list" where
  "all_activations = [Act_notReady, Act_invalid, Act_ready, Act_activating, Act_activatingAsStandbySpare,
     Act_active, Act_failed, Act_standbySpare, Act_staged, Act_staging]"

definition purposes :: "purpose list" where "purposes = [Purpose_bmc, Purpose_bios, Purpose_unknown]"

definition firmware_states :: "firmware_state list" where
  "firmware_states = [Firmware_enabled, Firmware_updating, Firmware_standbySpare]"

definition apply_times :: "apply_time list" where
  "apply_times = [Apply_onReset, Apply_immediate, Apply_unknown]"

section \<open>The provider\<close>

definition versionIface :: string where "versionIface = ''xyz.openbmc_project.Software.Version''"
definition activationIface :: string where "activationIface = ''xyz.openbmc_project.Software.Activation''"

definition FormatPurpose :: formatter where
  "FormatPurpose = format_with purposes
     (map (\<lambda>(s, p). (versionIface @ ''.VersionPurpose.'' @ s, p)) [(''BMC'', Purpose_bmc), (''Host'', Purpose_bios)])
     Purpose_unknown"

definition FormatActivations :: formatter where
  "FormatActivations = format_with all_activations
     (map (\<lambda>(s, a). (activationIface @ ''.Activations.'' @ s, a))
        [(''NotReady'', Act_notReady), (''Invalid'', Act_invalid), (''Ready'', Act_ready),
         (''Activating'', Act_activating), (''ActivatingAsStandbySpare'', Act_activatingAsStandbySpare),
         (''Active'', Act_active), (''Failed'', Act_failed), (''StandbySpare'', Act_standbySpare),
         (''Staged'', Act_staged), (''Staging'', Act_staging)])
     Act_notReady"

definition firmware_endpoints :: endpoint_map where
  "firmware_endpoints = endpoints
     [(versionIface, [ep_field ''Version'' ''Version'', ep_format ''Purpose'' ''Purpose'' [FormatPurpose]]),
      (activationIface, [ep_format ''Activation'' ''Activation'' [FormatActivations]])]"

definition firmware_kind :: dbus_query where
  "firmware_kind = FindObject \<lparr>crit_path = ''/xyz/openbmc_project/software'',
     crit_interfaces = [activationIface], crit_depth = 1, crit_service = None\<rparr>"

text \<open>The activation by its number, which any property of another type makes throw.\<close>

definition get_activation :: "entity_instance \<Rightarrow> 32 word may_throw" where
  "get_activation = get_enum (position all_activations Act_notReady) ''Activation''"

definition activation_code :: "activations \<Rightarrow> 32 word" where
  "activation_code a = of_nat (position all_activations a)"

definition firmware_setId :: instance_step where
  "firmware_setId = steps
     [\<lambda>i. set_field ''Id'' (FString (last_segment False i)) i,
      \<lambda>i. set_field ''SoftwareId'' (FString (last_segment True i)) i]"

definition setUpdateable :: instance_step where
  "setUpdateable = steps
     [set_field ''Updateable'' (FBool False),
      with_value get_activation (\<lambda>a. if a = activation_code Act_active then set_field ''Updateable'' (FBool True) else no_step)]"

definition firmware_setStatus :: instance_step where
  "firmware_setStatus = with_value get_activation (\<lambda>activation.
     set_enum fieldStatus (status_number
       (if activation \<noteq> activation_code Act_active \<and> activation \<noteq> activation_code Act_activating \<and>
           activation \<noteq> activation_code Act_ready
        then Warning else Ok)))"

definition firmware_setState :: instance_step where
  "firmware_setState = with_value get_activation (\<lambda>activation.
     set_enum ''State'' (position firmware_states
       (if activation = activation_code Act_activating then Firmware_updating
        else if activation = activation_code Act_standbySpare then Firmware_standbySpare
        else Firmware_enabled)))"

definition firmware_static_fields :: instance_step where
  "firmware_static_fields = steps [firmware_setId, setUpdateable, firmware_setStatus, firmware_setState]"

definition firmware_query :: query_ops where
  "firmware_query = \<lparr>searchProperties = firmware_endpoints, staticFields = firmware_static_fields, defaultFields = []\<rparr>"

definition new_FirmwareProvider :: "entity \<Rightarrow> entity" where
  "new_FirmwareProvider = add_members [''Id'', ''SoftwareId'', ''Updateable'', ''State'', fieldStatus]"

definition firmwareByPurpose :: "purpose \<Rightarrow> condition" where
  "firmwareByPurpose p = buildEqual ''Purpose'' (FInt32 (of_nat (position purposes p)))"

definition firmwareByActivations :: "activations \<Rightarrow> condition" where
  "firmwareByActivations a = buildEqual ''Activation'' (FInt32 (activation_code a))"

section \<open>The entity\<close>

definition purpose_code :: "purpose \<Rightarrow> 32 word" where
  "purpose_code p = of_nat (position purposes p)"

text \<open>The field a rule names by another name than the dummy is there; a null pointer would be
  dereferenced.\<close>

definition has_purpose :: "purpose \<Rightarrow> compare" where
  "has_purpose required f v =
     (case f of
        None \<Rightarrow> False
      | Some f' \<Rightarrow> (case getValue f' of FInt32 n \<Rightarrow> n = purpose_code required | _ \<Rightarrow> False))"

definition firmwareRelation :: "purpose \<Rightarrow> (string \<times> string \<times> compare) list" where
  "firmwareRelation required = [(dummyField, ''Purpose'', has_purpose required)]"

definition source_purpose :: "purpose \<Rightarrow> compare" where
  "source_purpose required f fwPrpsVal = (case fwPrpsVal of FInt32 n \<Rightarrow> n = purpose_code required | _ \<Rightarrow> False)"

definition firmware_inventoryRelation :: "purpose \<Rightarrow> (string \<times> string \<times> compare) list" where
  "firmware_inventoryRelation required = [(''Purpose'', dummyField, source_purpose required)]"

definition activeFirmware :: condition where "activeFirmware = firmwareByActivations Act_active"
definition biosFirmware :: condition where "biosFirmware = firmwareByPurpose Purpose_bios"
definition bmcFirmware :: condition where "bmcFirmware = firmwareByPurpose Purpose_bmc"

definition firmware_relations :: "nat \<Rightarrow> nat \<Rightarrow> nat \<Rightarrow> relation list" where
  "firmware_relations self manager server =
     [\<lparr>source = self, destination = manager, conditionBuildRules = firmware_inventoryRelation Purpose_bmc\<rparr>,
      \<lparr>source = self, destination = server, conditionBuildRules = firmware_inventoryRelation Purpose_bios\<rparr>]"

section \<open>Settings\<close>

definition applyTimeIface :: string where "applyTimeIface = ''xyz.openbmc_project.Software.ApplyTime''"

definition FormatApplyTime :: formatter where
  "FormatApplyTime = format_with apply_times
     (map (\<lambda>(s, a). (applyTimeIface @ ''.RequestedApplyTimes.'' @ s, a))
        [(''OnReset'', Apply_onReset), (''Immediate'', Apply_immediate)])
     Apply_unknown"

definition apply_time_endpoints :: endpoint_map where
  "apply_time_endpoints = endpoints
     [(applyTimeIface, [ep_format ''RequestedApplyTime'' ''ApplyTime'' [FormatApplyTime]])]"

definition apply_time_kind :: dbus_query where
  "apply_time_kind = GetObject ''xyz.openbmc_project.Settings'' ''/xyz/openbmc_project/software/apply_time'' [applyTimeIface]"

text \<open>The limit of a request's body, in MiB, is an option of the build; it is shifted as an \<open>int\<close>.\<close>

definition apply_time_static_fields :: "nat \<Rightarrow> instance_step" where
  "apply_time_static_fields limit_mb =
     set_field ''MaxImageSize'' (FUint64 (scast (push_bit 20 (of_nat limit_mb) :: 32 word)))"

definition new_FirmwareManagment :: "entity \<Rightarrow> entity" where
  "new_FirmwareManagment = add_members [''MaxImageSize'']"

end
