(* ===== verification/Server.thy ===== *)
theory Server
  imports Firmware
begin

text \<open>
  \<open>src/server.hpp\<close>: the providers of the host's settings and the server they supplement; most of
  the work is in the rules that link a provider's instance to the server.
\<close>

section \<open>Tags and lights\<close>

definition assetTagInterfaceName :: string where
  "assetTagInterfaceName = ''xyz.openbmc_project.Inventory.Decorator.AssetTag''"

definition asset_tag_endpoints :: endpoint_map where
  "asset_tag_endpoints = endpoints [(assetTagInterfaceName, [ep_field ''AssetTag'' ''AssetTag''])]"

definition asset_tag_kind :: dbus_query where
  "asset_tag_kind = FindObject \<lparr>crit_path = ''/xyz/openbmc_project/inventory'',
     crit_interfaces = [assetTagInterfaceName, ''xyz.openbmc_project.Inventory.Item.System''],
     crit_depth = 0, crit_service = None\<rparr>"

definition ledAssertedInterfaceName :: string where "ledAssertedInterfaceName = ''xyz.openbmc_project.Led.Group''"

definition indicator_endpoints :: endpoint_map where
  "indicator_endpoints = endpoints [(ledAssertedInterfaceName, [ep_field ''Asserted'' ''Led''])]"

definition indicator_kind :: dbus_query where
  "indicator_kind = FindObject \<lparr>crit_path = ''/xyz/openbmc_project/led/groups'',
     crit_interfaces = [ledAssertedInterfaceName], crit_depth = 1,
     crit_service = Some ''xyz.openbmc_project.LED.GroupManager''\<rparr>"

section \<open>Retries, the watchdog and the power policy\<close>

datatype retry_config = Retry_attempts | Retry_disabled

definition retry_configs :: "retry_config list" where "retry_configs = [Retry_attempts, Retry_disabled]"

definition settingsService :: string where "settingsService = ''xyz.openbmc_project.Settings''"

definition rebootPolicyIface :: string where
  "rebootPolicyIface = ''xyz.openbmc_project.Control.Boot.RebootPolicy''"

definition FormatRetryConfig :: formatter where
  "FormatRetryConfig property v =
     Inr (FInt32 (of_nat (position retry_configs (if v = FBool True then Retry_attempts else Retry_disabled))))"

definition boot_settings_endpoints :: endpoint_map where
  "boot_settings_endpoints = endpoints
     [(rebootPolicyIface, [ep_format ''AutoReboot'' ''RetryConfig'' [FormatRetryConfig]])]"

definition boot_settings_kind :: dbus_query where
  "boot_settings_kind = GetObject settingsService ''/xyz/openbmc_project/control/host0/auto_reboot'' [rebootPolicyIface]"

datatype watchdog_action = Action_none | Action_resetSystem | Action_powerDown | Action_powerCycle

definition watchdog_actions :: "watchdog_action list" where
  "watchdog_actions = [Action_none, Action_resetSystem, Action_powerDown, Action_powerCycle]"

definition watchdogIface :: string where "watchdogIface = ''xyz.openbmc_project.State.Watchdog''"

definition FormatExpireAction :: formatter where
  "FormatExpireAction = format_with watchdog_actions
     (map (\<lambda>(s, a). (watchdogIface @ ''.Action.'' @ s, a))
        [(''None'', Action_none), (''HardReset'', Action_resetSystem), (''PowerOff'', Action_powerDown),
         (''PowerCycle'', Action_powerCycle)])
     Action_none"

definition watchdog_endpoints :: endpoint_map where
  "watchdog_endpoints = endpoints
     [(watchdogIface, [ep_field ''Enabled'' ''Enabled'', ep_format ''ExpireAction'' ''ExpireAction'' [FormatExpireAction]])]"

definition watchdog_kind :: dbus_query where
  "watchdog_kind = GetObject ''xyz.openbmc_project.Watchdog'' ''/xyz/openbmc_project/watchdog/host0'' [watchdogIface]"

text \<open>The attempts that are left: from D-Bus, or a fixed number where the build has no such object.\<close>

definition rebootAttemptsIface :: string where
  "rebootAttemptsIface = ''xyz.openbmc_project.Control.Boot.RebootAttempts''"

definition attempts_endpoints :: endpoint_map where
  "attempts_endpoints = endpoints [(rebootAttemptsIface, [ep_field ''AttemptsLeft'' ''AttemptsLeft''])]"

definition attempts_kind :: dbus_query where
  "attempts_kind = GetObject ''xyz.openbmc_project.State.Host'' ''/xyz/openbmc_project/state/host0'' [rebootAttemptsIface]"

definition fixed_attempts :: "entity_instance list" where
  "fixed_attempts = [snd (set_field ''AttemptsLeft'' (FUint32 3) (new_static_instance ''RebootRemainingProviderInstance''))]"

datatype restore_policy = Restore_alwaysOn | Restore_alwaysOff | Restore_lastState

definition restore_policies :: "restore_policy list" where
  "restore_policies = [Restore_alwaysOn, Restore_alwaysOff, Restore_lastState]"

definition restorePolicyIface :: string where
  "restorePolicyIface = ''xyz.openbmc_project.Control.Power.RestorePolicy''"

definition FormatRestorePolicy :: formatter where
  "FormatRestorePolicy = format_with restore_policies
     (map (\<lambda>(s, p). (restorePolicyIface @ ''.Policy.'' @ s, p))
        [(''AlwaysOn'', Restore_alwaysOn), (''AlwaysOff'', Restore_alwaysOff), (''Restore'', Restore_lastState)])
     Restore_lastState"

definition restore_endpoints :: endpoint_map where
  "restore_endpoints = endpoints
     [(restorePolicyIface, [ep_format ''PowerRestorePolicy'' ''PowerRestorePolicy'' [FormatRestorePolicy]])]"

definition restore_kind :: dbus_query where
  "restore_kind = GetObject settingsService ''/xyz/openbmc_project/control/host0/power_restore_policy'' [restorePolicyIface]"

section \<open>The boot of the host\<close>

text \<open>The first two modes come from the interface of the mode, the others from that of the source;
  \<open>dbusOriginModeMax\<close> is the number of \<open>biosSetup\<close>.\<close>

datatype boot_mode = Mode_diags | Mode_biosSetup | Mode_hdd | Mode_cd | Mode_pxe | Mode_usb | Mode_none

datatype boot_type = Boot_legacy | Boot_uefi

definition boot_modes :: "boot_mode list" where
  "boot_modes = [Mode_diags, Mode_biosSetup, Mode_hdd, Mode_cd, Mode_pxe, Mode_usb, Mode_none]"

definition boot_types :: "boot_type list" where "boot_types = [Boot_legacy, Boot_uefi]"

definition mode_code :: "boot_mode \<Rightarrow> 32 word" where
  "mode_code m = of_nat (position boot_modes m)"

definition dbusOriginModeMax :: "32 word" where "dbusOriginModeMax = mode_code Mode_biosSetup"

definition modeIface :: string where "modeIface = ''xyz.openbmc_project.Control.Boot.Mode''"
definition sourceIface :: string where "sourceIface = ''xyz.openbmc_project.Control.Boot.Source''"
definition typeIface :: string where "typeIface = ''xyz.openbmc_project.Control.Boot.Type''"

definition FormatMode :: formatter where
  "FormatMode = format_with boot_modes
     (map (\<lambda>(s, m). (modeIface @ ''.Modes.'' @ s, m))
        [(''Safe'', Mode_diags), (''Setup'', Mode_biosSetup), (''Regular'', Mode_none)])
     Mode_none"

definition FormatBootType :: formatter where
  "FormatBootType = format_with boot_types
     (map (\<lambda>(s, t). (typeIface @ ''.Types.'' @ s, t)) [(''Legacy'', Boot_legacy), (''EFI'', Boot_uefi)])
     Boot_legacy"

definition boot_sources :: "(string \<times> boot_mode) list" where
  "boot_sources = map (\<lambda>(s, m). (sourceIface @ ''.Sources.'' @ s, m))
     [(''Disk'', Mode_hdd), (''ExternalMedia'', Mode_cd), (''Network'', Mode_pxe),
      (''RemovableMedia'', Mode_usb), (''Default'', Mode_none)]"

text \<open>The accessor of the mode, and \<open>FormatSource\<close>: the enumeration's \<open>>\<close> compares signed numbers.\<close>

definition get_mode :: "entity_instance \<Rightarrow> 32 word may_throw" where
  "get_mode = get_enum (position boot_modes Mode_none) ''Mode''"

definition FormatSource :: "string \<Rightarrow> instance_step" where
  "FormatSource v = with_value get_mode (\<lambda>mode.
     set_field ''Mode'' (FInt32
       (case map_of boot_sources v of
          Some m \<Rightarrow> (if sint mode > sint dbusOriginModeMax then mode_code m else mode)
        | None \<Rightarrow> mode)))"

definition boot_static_fields :: instance_step where
  "boot_static_fields = with_value (get_text ''Source'') FormatSource"

definition boot_endpoints :: endpoint_map where
  "boot_endpoints = endpoints
     [(modeIface, [ep_format ''BootMode'' ''Mode'' [FormatMode]]),
      (sourceIface, [ep_field ''BootSource'' ''Source'']),
      (typeIface, [ep_format ''BootType'' ''Type'' [FormatBootType]])]"

definition boot_kind :: "string \<Rightarrow> dbus_query" where
  "boot_kind path = GetObject settingsService path [modeIface, sourceIface, typeIface]"

definition host_boot_kind :: dbus_query where
  "host_boot_kind = boot_kind ''/xyz/openbmc_project/control/host0/boot''"

definition boot_query :: query_ops where
  "boot_query = \<lparr>searchProperties = boot_endpoints, staticFields = boot_static_fields, defaultFields = []\<rparr>"

definition clearCmosIface :: string where "clearCmosIface = ''xyz.openbmc_project.Control.Boot.ClearCmos''"
definition enableIface :: string where "enableIface = ''xyz.openbmc_project.Object.Enable''"

definition boot_once_endpoints :: endpoint_map where
  "boot_once_endpoints = endpoints
     [(modeIface, [ep_format ''BootMode'' ''Mode'' [FormatMode]]),
      (typeIface, [ep_format ''BootType'' ''Type'' [FormatBootType]]),
      (sourceIface, [ep_field ''BootSource'' ''Source'']),
      (clearCmosIface, [ep_field ''ClearCmos'' ''ClearCmos'']),
      (enableIface, [ep_field ''Enabled'' ''OneTime''])]"

definition boot_once_kind :: dbus_query where
  "boot_once_kind = GetObject settingsService ''/xyz/openbmc_project/control/host0/boot/one_time''
     [modeIface, sourceIface, typeIface, clearCmosIface, enableIface]"

definition boot_once_query :: query_ops where
  "boot_once_query = \<lparr>searchProperties = boot_once_endpoints, staticFields = boot_static_fields, defaultFields = []\<rparr>"

section \<open>The server\<close>

datatype boot_override = Override_continuous | Override_once | Override_none

definition boot_overrides :: "boot_override list" where
  "boot_overrides = [Override_continuous, Override_once, Override_none]"

definition chassisInterface :: string where "chassisInterface = ''xyz.openbmc_project.Inventory.Item.Chassis''"

definition server_endpoints :: endpoint_map where
  "server_endpoints = endpoints
     [(chassisInterface, [ep_field ''Name'' ''Name'', ep_field ''Type'' ''Type'']),
      (assetInterface, asset_fields)]"

definition server_kind :: dbus_query where
  "server_kind = FindObject \<lparr>crit_path = ''/xyz/openbmc_project/inventory/system/chassis/'',
     crit_interfaces = [chassisInterface], crit_depth = 1, crit_service = None\<rparr>"

text \<open>The defaults; the date of now, as \<open>strftime\<close> prints it, is a parameter.\<close>

definition server_defaults :: "string \<Rightarrow> (string \<times> (entity_instance \<Rightarrow> field_value may_throw)) list" where
  "server_defaults date = [(''Datetime'', \<lambda>_. Inr (FString date)), (''Led'', \<lambda>_. Inr (FBool False))]"

definition server_static_fields :: instance_step where
  "server_static_fields = steps [set_field ''ServiceName'' (FString ''system''), set_enum ''State'' 0]"

definition server_query :: "string \<Rightarrow> query_ops" where
  "server_query date = \<lparr>searchProperties = server_endpoints, staticFields = server_static_fields,
     defaultFields = server_defaults date\<rparr>"

definition indicatorObjectsPath :: "string list" where
  "indicatorObjectsPath = [''/xyz/openbmc_project/led/groups/enclosure_identify'',
     ''/xyz/openbmc_project/led/groups/enclosure_identify_blink'']"

definition linkIndicatorLed :: link_rule where
  "linkIndicatorLed s = steps (map (\<lambda>path.
     if getStringValue (getField metaObjectPath s) = path \<and> getBoolValue (getField ''Led'' s)
     then set_field ''Led'' (FBool True) else no_step) indicatorObjectsPath)"

definition linkActiveVersions :: link_rule where
  "linkActiveVersions s =
     with_value (\<lambda>_. get_enum (position purposes Purpose_unknown) ''Purpose'' s) (\<lambda>p.
     with_value (\<lambda>_. get_activation s) (\<lambda>activation.
       if activation = activation_code Act_active
       then (if p = purpose_code Purpose_bmc
             then with_value (\<lambda>_. get_text ''Version'' s) (\<lambda>v. set_field ''BmcVersion'' (FString v))
             else if p = purpose_code Purpose_bios
             then with_value (\<lambda>_. get_text ''Version'' s) (\<lambda>v. set_field ''BiosVersion'' (FString v))
             else no_step)
       else no_step))"

definition set_override :: "boot_override \<Rightarrow> instance_step" where
  "set_override ov = set_enum ''BootOverrideType'' (position boot_overrides ov)"

definition linkHostBoot :: link_rule where
  "linkHostBoot s = steps
     [set_override Override_none, set_field ''Mode'' (FInt32 (mode_code Mode_none)), reset_field ''Type'',
      with_value (\<lambda>_. get_mode s) (\<lambda>mode.
        if mode \<noteq> mode_code Mode_none
        then steps [defaultLinkProvider s, set_override Override_continuous] else no_step)]"

text \<open>\<open>&&\<close> looks at the second operand only when the first one holds.\<close>

definition linkHostBootOnce :: link_rule where
  "linkHostBootOnce s = with_value (\<lambda>_. get_mode s) (\<lambda>mode.
     if mode \<noteq> mode_code Mode_none
     then with_value (\<lambda>_. get_as as_flag False ''OneTime'' s) (\<lambda>once.
            if once then steps [defaultLinkProvider s, set_override Override_once] else no_step)
     else no_step)"

definition linkRebootAttempts :: link_rule where
  "linkRebootAttempts s = with_value (get_enum (position retry_configs Retry_disabled) ''RetryConfig'') (\<lambda>config.
     steps [reset_field ''AttemptsLeft'',
       if config = of_nat (position retry_configs Retry_attempts) then defaultLinkProvider s else no_step])"

definition new_Server :: "entity \<Rightarrow> entity" where
  "new_Server e = add_members [''ServiceName'', ''Datetime'', ''UUID'', ''State'', ''BootOverrideType'', ''BmcVersion'',
     ''BiosVersion''] (new_StatusRollup e)"

text \<open>The providers by their numbers, in the order they are linked in.\<close>

definition server_links :: "nat list \<Rightarrow> (nat \<times> link_rule) list" where
  "server_links ps = zip ps
     [defaultLinkProvider, defaultLinkProvider, defaultLinkProvider, defaultLinkProvider, linkRebootAttempts,
      linkHostBoot, linkHostBootOnce, linkIndicatorLed, linkActiveVersions, defaultLinkProvider]"

definition server_relations :: "nat \<Rightarrow> nat \<Rightarrow> relation list" where
  "server_relations self firmware =
     [\<lparr>source = self, destination = firmware, conditionBuildRules = firmwareRelation Purpose_bios\<rparr>]"

end
