(* ===== verification/Server_Properties.thy ===== *)
theory Server_Properties
  imports Server Device_Properties
begin

text \<open>
  What the server shows: the boot override of its two providers, the mode of a boot object read
  from the bus, and the versions of the active firmware.
\<close>

section \<open>Links\<close>






lemma mode_of: "getField ''Mode'' i = Some (FInt32 m) \<Longrightarrow> get_mode i = Inr m"
  by (simp add: get_mode_def get_enum_def get_as_def isNull_def getValue_def)



section \<open>Reading a boot object\<close>

definition boot_bus :: "string \<Rightarrow> string \<Rightarrow> string \<Rightarrow> get_all" where
  "boot_bus mode src ty = (\<lambda>service path iface.
     if iface = modeIface then Some [(''BootMode'', FString mode)]
     else if iface = sourceIface then Some [(''BootSource'', FString src)]
     else if iface = typeIface then Some [(''BootType'', FString ty)]
     else None)"

text \<open>The mode the interfaces of the mode and of the source stand for together.\<close>

definition selected_mode :: "string \<Rightarrow> string \<Rightarrow> boot_mode" where
  "selected_mode mode src =
     (if mode = modeIface @ ''.Modes.Safe'' then Mode_diags
      else if mode = modeIface @ ''.Modes.Setup'' then Mode_biosSetup
      else case map_of boot_sources src of Some m \<Rightarrow> m | None \<Rightarrow> Mode_none)"

lemma boot_endpoints_list:
  "boot_endpoints =
     [(modeIface, [((''BootMode'', ''Mode''), [FormatMode])]),
      (sourceIface, [((''BootSource'', ''Source''), [])]),
      (typeIface, [((''BootType'', ''Type''), [FormatBootType])])]"
  by (simp add: boot_endpoints_def endpoints_def om.emplace_all_def om_emplace_def ep_format_def ep_field_def
      modeIface_def sourceIface_def typeIface_def)

lemma format_mode_text:
  "FormatMode p (FString mode) = Inr (FInt32 (mode_code
     (if mode = modeIface @ ''.Modes.Safe'' then Mode_diags
      else if mode = modeIface @ ''.Modes.Setup'' then Mode_biosSetup else Mode_none)))"
  by (simp add: FormatMode_def format_with_def format_enum_text mode_code_def split: option.split)

lemma code_of_mode: "sint (mode_code m) > sint dbusOriginModeMax \<longleftrightarrow> m \<notin> {Mode_diags, Mode_biosSetup}"
  by (cases m) (simp_all add: mode_code_def dbusOriginModeMax_def boot_modes_def)

lemma FormatSource_mode:
  assumes "getField ''Mode'' i = Some (FInt32 (mode_code m))"
  shows "FormatSource src i = (Inr (), put_field ''Mode'' (FInt32 (mode_code
     (case map_of boot_sources src of Some x \<Rightarrow> if m \<in> {Mode_diags, Mode_biosSetup} then m else x | None \<Rightarrow> m))) i)"
  using mode_of [OF assms] code_of_mode [of m]
  by (simp add: FormatSource_def with_value_def split: option.split)

lemma source_put: "getField ''Source'' i = Some (FString src) \<Longrightarrow> get_text ''Source'' i = Inr src"
  by (simp add: get_text_def get_as_def isNull_def getValue_def)

section \<open>Firmware\<close>

text \<open>What an instance of the provider says of itself, and the version it makes the server show.\<close>

fun is_firmware :: "entity_instance \<Rightarrow> purpose \<times> activations \<times> string \<Rightarrow> bool" where
  "is_firmware i (p, a, v) \<longleftrightarrow> get_enum (position purposes Purpose_unknown) ''Purpose'' i = Inr (purpose_code p) \<and>
     get_activation i = Inr (activation_code a) \<and> get_text ''Version'' i = Inr v"

definition shown_version :: "purpose \<Rightarrow> (purpose \<times> activations \<times> string) list \<Rightarrow> field \<Rightarrow> field" where
  "shown_version p ds old =
     (case filter (\<lambda>(p', a, _). p' = p \<and> a = Act_active) ds of
        [] \<Rightarrow> old
      | d # ds' \<Rightarrow> Some (FString (snd (snd (last (d # ds'))))))"

lemma shown_version_Cons: "shown_version p (d # ds) old = shown_version p ds (shown_version p [d] old)"
  by (auto simp: shown_version_def split: list.split prod.split)

lemma purpose_code_iff [simp]: "purpose_code p = purpose_code q \<longleftrightarrow> p = q"
  by (cases p; cases q) (simp_all add: purpose_code_def purposes_def)

lemma activation_code_iff: "activation_code a = activation_code Act_active \<longleftrightarrow> a = Act_active"
  by (cases a) (simp_all add: activation_code_def all_activations_def)

lemma link_version:
  assumes "is_firmware f d"
  shows "\<exists>t'. linkActiveVersions f t = (Inr (), t') \<and>
    getField ''BmcVersion'' t' = shown_version Purpose_bmc [d] (getField ''BmcVersion'' t) \<and>
    getField ''BiosVersion'' t' = shown_version Purpose_bios [d] (getField ''BiosVersion'' t)"
  using assms by (cases d) (auto simp: linkActiveVersions_def with_value_def activation_code_iff shown_version_def no_step_def)

definition sample_firmware :: "purpose \<Rightarrow> activations \<Rightarrow> string \<Rightarrow> entity_instance" where
  "sample_firmware p a v = \<lparr>identity = [], memberInstances = [(''Activation'', Some (FInt32 (activation_code a))),
     (''Purpose'', Some (FInt32 (purpose_code p))), (''Version'', Some (FString v))], dbus = None\<rparr>"

lemma sample_is_firmware: "is_firmware (sample_firmware p a v) (p, a, v)"
  by (simp add: sample_firmware_def get_enum_def get_activation_def get_text_def get_as_def getField_def isNull_def getValue_def)

section \<open>Concrete inputs\<close>

definition boot_object :: "nat \<Rightarrow> entity_instance" where
  "boot_object q = new_dbus_instance settingsService ''/boot'' boot_endpoints q False"

definition reads_boot :: "queries \<Rightarrow> entity_instance \<Rightarrow> bool" where
  "reads_boot qs i \<longleftrightarrow> (\<exists>d. dbus i = Some d \<and> targetProperties d = boot_endpoints \<and> qs (dbusQuery d) = Some boot_query)"

lemma reads_boot_put: "reads_boot qs i \<Longrightarrow> reads_boot qs (put_field m v i)"
  by (simp add: reads_boot_def)

lemma fill_boot:
  assumes "reads_boot qs i"
  shows "fillMembers qs modeIface [(''BootMode'', FString mode)] i = (Inr True, put_field ''Mode'' (FInt32 (mode_code
       (if mode = modeIface @ ''.Modes.Safe'' then Mode_diags
        else if mode = modeIface @ ''.Modes.Setup'' then Mode_biosSetup else Mode_none))) i)"
    and "fillMembers qs sourceIface [(''BootSource'', FString src)] i = (Inr True, put_field ''Source'' (FString src) i)"
    and "\<exists>v. fillMembers qs typeIface [(''BootType'', FString ty)] i = (Inr True, put_field ''Type'' v i)"
proof -
  obtain d where d: "dbus i = Some d" "targetProperties d = boot_endpoints" "qs (dbusQuery d) = Some boot_query"
    using assms unfolding reads_boot_def by blast
  have ifaces: "modeIface \<noteq> sourceIface" "modeIface \<noteq> typeIface" "sourceIface \<noteq> typeIface"
    by (simp_all add: modeIface_def sourceIface_def typeIface_def)
  note defs = fillMembers_def dbusPropertySetters_def instance_query_def boot_query_def processFormatters_def getFormatters_def
    resolveDBusVariant_def supplementOrUpdate_value_eq put_field_def boot_endpoints_list
  show "fillMembers qs modeIface [(''BootMode'', FString mode)] i = (Inr True, put_field ''Mode'' (FInt32 (mode_code
       (if mode = modeIface @ ''.Modes.Safe'' then Mode_diags
        else if mode = modeIface @ ''.Modes.Setup'' then Mode_biosSetup else Mode_none))) i)"
    using d ifaces by (simp add: defs format_mode_text)
  show "fillMembers qs sourceIface [(''BootSource'', FString src)] i = (Inr True, put_field ''Source'' (FString src) i)"
    using d ifaces by (simp add: defs)
  show "\<exists>v. fillMembers qs typeIface [(''BootType'', FString ty)] i = (Inr True, put_field ''Type'' v i)"
    using d ifaces by (simp add: defs FormatBootType_def format_with_def format_enum_text) blast
qed

lemma queries_boot:
  assumes "reads_boot qs i"
  shows "queryProperties (boot_bus mode src ty) modeIface i = Inr [(''BootMode'', FString mode)]"
    and "queryProperties (boot_bus mode src ty) sourceIface i = Inr [(''BootSource'', FString src)]"
    and "queryProperties (boot_bus mode src ty) typeIface i = Inr [(''BootType'', FString ty)]"
  using assms by (auto simp: reads_boot_def queryProperties_def boot_bus_def modeIface_def sourceIface_def typeIface_def)

lemma getField_set_state: "getField m (set_state st i) = getField m i"
  by (simp add: set_state_def getField_def)

section \<open>Properties\<close>



text \<open>A boot object read from the bus: whatever texts its three interfaces hold, its mode is that
  of the mode interface when this says diagnostics or setup, and otherwise that of the source.\<close>

theorem boot_object_mode:
  assumes "qs q = Some boot_query"
  shows "\<exists>j. initialize_instance qs (boot_bus mode src ty) (boot_object q) = (Inr (), j) \<and>
    getField ''Mode'' j = Some (FInt32 (mode_code (selected_mode mode src))) \<and> get_mode j = Inr (mode_code (selected_mode mode src))"
proof -
  let ?i = "set_state False (boot_object q)"
  have reads: "reads_boot qs ?i"
    using assms by (simp add: reads_boot_def boot_object_def new_dbus_instance_def set_state_def Let_def supplement_def
        metaObjectPath_def metaObjectService_def map_of_om_emplace)
  obtain m where m: "m = (if mode = modeIface @ ''.Modes.Safe'' then Mode_diags
        else if mode = modeIface @ ''.Modes.Setup'' then Mode_biosSetup else Mode_none)" by blast
  obtain i1 where i1: "i1 = put_field ''Mode'' (FInt32 (mode_code m)) ?i" "reads_boot qs i1"
    using reads_boot_put [OF reads] by blast
  obtain i2 where i2: "i2 = put_field ''Source'' (FString src) i1" "reads_boot qs i2"
    using reads_boot_put [OF i1(2)] by blast
  obtain v where v: "fillMembers qs typeIface [(''BootType'', FString ty)] i2 = (Inr True, put_field ''Type'' v i2)"
    using fill_boot(3) [OF i2(2)] by blast
  let ?k = "put_field ''Type'' v i2"
  have "fillMembers qs modeIface [(''BootMode'', FString mode)] ?i = (Inr True, i1)"
    using fill_boot(1) [OF reads, of mode] by (simp only: i1(1) m)
  moreover have "fillMembers qs sourceIface [(''BootSource'', FString src)] i1 = (Inr True, i2)"
    using fill_boot(2) [OF i1(2), of src] by (simp only: i2(1))
  ultimately have loop: "initialize_loop qs (boot_bus mode src ty) [modeIface, sourceIface, typeIface] False ?i = (Inr False, ?k)"
    using v by (simp add: queries_boot [OF reads] queries_boot [OF i1(2)] queries_boot [OF i2(2)])
  have "FormatSource src ?k = (Inr (), put_field ''Mode'' (FInt32 (mode_code
     (case map_of boot_sources src of Some x \<Rightarrow> if m \<in> {Mode_diags, Mode_biosSetup} then m else x | None \<Rightarrow> m))) ?k)"
    by (rule FormatSource_mode) (simp add: i2(1) i1(1))
  moreover obtain d where d: "dbus ?i = Some d" "map fst (targetProperties d) = [modeIface, sourceIface, typeIface]"
      "qs (dbusQuery d) = Some boot_query"
    using reads by (auto simp: reads_boot_def boot_endpoints_list)
  moreover have "staticFields boot_query ?k = FormatSource src ?k"
    by (simp add: boot_query_def boot_static_fields_def with_value_def source_put i2(1))
  moreover have "instance_query qs ?k = Some boot_query"
    using d by (simp add: instance_query_def i2(1) i1(1))
  ultimately show ?thesis
    using loop mode_of by (auto simp: initialize_instance_def selected_mode_def getField_set_state m split: option.splits)
qed

theorem boot_object_mode_witness:
  "\<exists>j. initialize_instance (\<lambda>_. Some boot_query) (boot_bus (modeIface @ ''.Modes.Setup'') (sourceIface @ ''.Sources.Disk'') [])
     (boot_object 0) = (Inr (), j) \<and> get_mode j = Inr (mode_code Mode_biosSetup)"
proof -
  have "selected_mode (modeIface @ ''.Modes.Setup'') (sourceIface @ ''.Sources.Disk'') = Mode_biosSetup"
    by (simp add: selected_mode_def)
  then show ?thesis
    using boot_object_mode [of "\<lambda>_. Some boot_query" 0 "modeIface @ ''.Modes.Setup''" "sourceIface @ ''.Sources.Disk''" "[]"]
    by auto
qed

text \<open>The versions the server shows: after the firmware instances have been linked in their order,
  the version of the BMC is that of the last active instance with this purpose, the one of the
  BIOS likewise; without such an instance the server keeps what it had.\<close>

theorem active_versions_shown:
  assumes "list_all2 is_firmware fs ds"
  shows "\<exists>t'. steps (map linkActiveVersions fs) t = (Inr (), t') \<and>
    getField ''BmcVersion'' t' = shown_version Purpose_bmc ds (getField ''BmcVersion'' t) \<and>
    getField ''BiosVersion'' t' = shown_version Purpose_bios ds (getField ''BiosVersion'' t)"
  using assms
proof (induction fs ds arbitrary: t rule: list_all2_induct)
  case Nil
  then show ?case by (simp add: shown_version_def no_step_def)
next
  case (Cons f fs d ds)
  obtain t1 where "linkActiveVersions f t = (Inr (), t1)"
    "getField ''BmcVersion'' t1 = shown_version Purpose_bmc [d] (getField ''BmcVersion'' t)"
    "getField ''BiosVersion'' t1 = shown_version Purpose_bios [d] (getField ''BiosVersion'' t)"
    using link_version [OF Cons.hyps(1), of t] by blast
  with Cons.IH [of t1] show ?case by (simp add: shown_version_Cons [of _ d ds])
qed

theorem active_versions_shown_witness:
  "\<exists>t'. steps (map linkActiveVersions [sample_firmware Purpose_bmc Act_active ''1'',
       sample_firmware Purpose_bmc Act_ready ''2'']) (new_static_instance ''server'') = (Inr (), t') \<and>
     getField ''BmcVersion'' t' = Some (FString ''1'') \<and> getField ''BiosVersion'' t' = None"
proof -
  have "list_all2 is_firmware [sample_firmware Purpose_bmc Act_active ''1'', sample_firmware Purpose_bmc Act_ready ''2'']
      [(Purpose_bmc, Act_active, ''1''), (Purpose_bmc, Act_ready, ''2'')]"
    by (simp del: is_firmware.simps add: sample_is_firmware)
  from active_versions_shown [OF this, of "new_static_instance ''server''"] show ?thesis
    by (simp add: shown_version_def getField_def new_static_instance_def)
qed

end
