(* ===== verification/Management.thy ===== *)
theory Management
  imports Firmware
begin

text \<open>
  \<open>src/manager.hpp\<close>, \<open>power.hpp\<close>, \<open>baseboard.hpp\<close>, \<open>session_manager.hpp\<close>, \<open>settings.hpp\<close> and
  \<open>pid_control.hpp\<close>: the management controller, the power of the host, the boards, the sessions of
  services, the settings of the web interface and the control of the fans.
\<close>

section \<open>The management controller\<close>

datatype bmc_transition = Transition_reboot | Transition_none
datatype bmc_state = Bmc_ready | Bmc_notReady | Bmc_updateInProgress
datatype bmc_power = Bmc_on | Bmc_poweringOn | Bmc_poweringOff

definition bmc_transitions :: "bmc_transition list" where "bmc_transitions = [Transition_reboot, Transition_none]"
definition bmc_states :: "bmc_state list" where "bmc_states = [Bmc_ready, Bmc_notReady, Bmc_updateInProgress]"
definition bmc_powers :: "bmc_power list" where "bmc_powers = [Bmc_on, Bmc_poweringOn, Bmc_poweringOff]"

definition bmcManagerIface :: string where "bmcManagerIface = ''xyz.openbmc_project.State.BMC''"

definition FormatTransition :: formatter where
  "FormatTransition = format_with bmc_transitions
     (map (\<lambda>(s, t). (bmcManagerIface @ ''.Transition.'' @ s, t)) [(''Ready'', Transition_reboot), (''NotReady'', Transition_none)])
     Transition_none"

definition FormatBMCState :: formatter where
  "FormatBMCState = format_with bmc_states
     (map (\<lambda>(s, t). (bmcManagerIface @ ''.BMCState.'' @ s, t))
        [(''Ready'', Bmc_ready), (''NotReady'', Bmc_notReady), (''UpdateInProgress'', Bmc_updateInProgress)])
     Bmc_notReady"

definition manager_endpoints :: endpoint_map where
  "manager_endpoints = endpoints [(bmcManagerIface,
     [ep_format ''CurrentBMCState'' ''CurrentBMCState'' [FormatBMCState],
      ep_format ''RequestedBMCTransition'' ''RequestedBMCTransition'' [FormatTransition],
      ep_field ''LastRebootTime'' ''LastRebootTime''])]"

definition manager_kind :: dbus_query where
  "manager_kind = FindObject \<lparr>crit_path = ''/xyz/openbmc_project/state/'', crit_interfaces = [bmcManagerIface],
     crit_depth = 1, crit_service = Some bmcManagerIface\<rparr>"

text \<open>The build does not define \<open>ENITTY_NAMES_FROM_DBUS\<close>.\<close>

definition manager_setName :: instance_step where "manager_setName = set_field ''Name'' (FString ''bmc'')"

definition powerStatesCalc :: "(bmc_power \<times> bmc_state \<times> bmc_transition) list" where
  "powerStatesCalc = [(Bmc_on, Bmc_ready, Transition_none), (Bmc_poweringOn, Bmc_notReady, Transition_none),
     (Bmc_poweringOff, Bmc_ready, Transition_reboot)]"

definition bmc_state_code :: "bmc_state \<Rightarrow> 32 word" where "bmc_state_code s = of_nat (position bmc_states s)"
definition transition_code :: "bmc_transition \<Rightarrow> 32 word" where "transition_code t = of_nat (position bmc_transitions t)"

definition power_of :: "32 word \<Rightarrow> 32 word \<Rightarrow> bmc_power" where
  "power_of st transition =
     (case List.find (\<lambda>(_, s, t). bmc_state_code s = st \<and> transition_code t = transition) powerStatesCalc of
        Some (p, _, _) \<Rightarrow> p
      | None \<Rightarrow> Bmc_poweringOn)"

definition setPowerState :: instance_step where
  "setPowerState =
     with_value (get_enum (position bmc_states Bmc_notReady) ''CurrentBMCState'') (\<lambda>st.
     with_value (get_enum (position bmc_transitions Transition_none) ''RequestedBMCTransition'') (\<lambda>transition.
       set_enum ''PowerState'' (position bmc_powers (power_of st transition))))"

fun as_long :: "field_value \<Rightarrow> 64 word option" where "as_long (FUint64 n) = Some n" | "as_long _ = None"

text \<open>The formatter makes a text of every number.\<close>

definition setLastRebootTimeFmt :: "(string \<Rightarrow> int \<Rightarrow> string) \<Rightarrow> instance_step" where
  "setLastRebootTimeFmt date = with_value (get_as as_long 0 ''LastRebootTime'') (\<lambda>ms i.
     case FormatTimeMsToSec date ''LastRebootTimeFmt'' (FUint64 ms) of
       Inl e \<Rightarrow> (Inl e, i)
     | Inr v \<Rightarrow> (case as_text v of
         Some datetime \<Rightarrow> set_field ''LastRebootTimeFmt'' (FString datetime) i
       | None \<Rightarrow> (Inl Bad_variant_access, i)))"

text \<open>\<open>kvmip\<close> is 0, \<open>ipmi\<close> and \<open>ssh\<close> are 0 and 1.\<close>

definition setGCTypeSupported :: instance_step where
  "setGCTypeSupported = steps [set_field ''GCTypeSupported'' (Ints [0]), set_field ''GCCount'' (FUint8 4)]"

definition setSCTypeSupported :: instance_step where
  "setSCTypeSupported = steps [set_field ''SCTypeSupported'' (Ints [0, 1]), set_field ''SCCount'' (FUint8 15)]"

definition manager_static_fields :: "(string \<Rightarrow> int \<Rightarrow> string) \<Rightarrow> string \<Rightarrow> instance_step" where
  "manager_static_fields date uuid = steps
     [manager_setName, setLastRebootTimeFmt date, setPowerState, setGCTypeSupported, setSCTypeSupported,
      set_enum ''ManagerType'' 0, set_field ''Model'' (FString ''OpenBMC''), set_field ''UUID'' (FString uuid)]"

definition manager_defaults :: "string \<Rightarrow> (string \<times> (entity_instance \<Rightarrow> field_value may_throw)) list" where
  "manager_defaults now = [(''Datetime'', \<lambda>_. Inr (FString now))]"

definition new_BmcManager :: "entity \<Rightarrow> entity" where
  "new_BmcManager e = add_members [''Name'', ''Datetime'', ''Model'', ''ManagerType'', ''PowerState'', ''GCTypeSupported'',
     ''SCTypeSupported'', ''GCCount'', ''SCCount'', ''LastRebootTimeFmt'', ''UUID''] (new_StatusRollup e)"

definition manager_causers :: "string list" where "manager_causers = [''/xyz/openbmc_project/state/bmc0'']"

definition manager_relations :: "nat \<Rightarrow> nat \<Rightarrow> relation list" where
  "manager_relations self firmware =
     [\<lparr>source = self, destination = firmware, conditionBuildRules = firmwareRelation Purpose_bmc\<rparr>]"

section \<open>The power of the host\<close>

definition metaStatus :: string where "metaStatus = ''__meta__raw_dbus_status''"
definition hostInterfaceName :: string where "hostInterfaceName = ''xyz.openbmc_project.State.Host''"

definition host_power_endpoints :: endpoint_map where
  "host_power_endpoints = endpoints [(hostInterfaceName, [ep_field ''CurrentHostState'' metaStatus])]"

definition host_power_kind :: dbus_query where
  "host_power_kind = FindObject \<lparr>crit_path = ''/xyz/openbmc_project/state'', crit_interfaces = [hostInterfaceName],
     crit_depth = 1, crit_service = Some hostInterfaceName\<rparr>"

definition hostStates :: "(string \<times> string \<times> string) list" where
  "hostStates = map (\<lambda>(s, p, e). (hostInterfaceName @ ''.HostState.'' @ s, p, e))
     [(''Running'', ''On'', ''Enabled''), (''Quiesced'', ''On'', ''Quiesced''),
      (''DiagnosticMode'', ''On'', ''InTest''), (''Off'', ''Off'', ''Disabled'')]"

text \<open>\<open>hostStates.at (stateDefaultOff)\<close> is there.\<close>

definition setStatusPower :: instance_step where
  "setStatusPower i =
     (let raw = getStringValue (getField metaStatus i);
          (p, e) = (case map_of hostStates raw of Some pe \<Rightarrow> pe | None \<Rightarrow> (''Off'', ''Disabled''))
      in steps [set_field ''PowerState'' (FString ''Off''), set_field ''PowerState'' (FString p), set_field ''Status'' (FString e)] i)"

definition new_HostPower :: "entity \<Rightarrow> entity" where "new_HostPower = add_members [''PowerState'', ''Status'']"

section \<open>Boards\<close>

datatype board_type = Board_system | Board_backplane | Board_board

definition board_types :: "board_type list" where "board_types = [Board_system, Board_backplane, Board_board]"

definition boardInterface :: string where "boardInterface = ''xyz.openbmc_project.Inventory.Item.Board''"

definition board_endpoints :: endpoint_map where
  "board_endpoints = endpoints [(boardInterface, [ep_field ''Name'' ''Name'']), (assetInterface, asset_fields)]"

definition board_kind :: dbus_query where
  "board_kind = FindObject \<lparr>crit_path = ''/xyz/openbmc_project/inventory/system/board/'', crit_interfaces = [boardInterface],
     crit_depth = 1, crit_service = None\<rparr>"

text \<open>The words in the order of the map.\<close>

definition typeByModelTmpls :: "(string \<times> board_type) list" where
  "typeByModelTmpls = [(''Backplane'', Board_backplane), (''Motherboard'', Board_system), (''Riser'', Board_board)]"

definition board_of_model :: "string \<Rightarrow> board_type" where
  "board_of_model model =
     (case List.find (\<lambda>(tmplWord, _). contains model tmplWord) typeByModelTmpls of Some (_, t) \<Rightarrow> t | None \<Rightarrow> Board_board)"

definition board_setType :: instance_step where
  "board_setType = with_value (get_text ''Model'') (\<lambda>model. set_enum ''Type'' (position board_types (board_of_model model)))"

definition board_static_fields :: instance_step where
  "board_static_fields = steps [\<lambda>i. set_field ''Id'' (FString (last_segment False i)) i, board_setType]"

definition new_Baseboard :: "entity \<Rightarrow> entity" where
  "new_Baseboard e = add_members [''Id'', ''Type''] (rollup_defaults e)"

section \<open>Sessions and settings\<close>

datatype session_type =
    Session_hostConsole | Session_ipmi | Session_kvmip | Session_managerConsole | Session_redfish | Session_virtualMedia
  | Session_webui | Session_nbd | Session_unknown

definition session_types :: "session_type list" where
  "session_types = [Session_hostConsole, Session_ipmi, Session_kvmip, Session_managerConsole, Session_redfish,
     Session_virtualMedia, Session_webui, Session_nbd, Session_unknown]"

definition sessionIface :: string where "sessionIface = ''xyz.openbmc_project.Session.Item''"

definition FormatSessionType :: formatter where
  "FormatSessionType = format_with session_types
     (map (\<lambda>(s, t). (sessionIface @ ''.Type.'' @ s, t))
        [(''HostConsole'', Session_hostConsole), (''IPMI'', Session_ipmi), (''KVMIP'', Session_kvmip),
         (''ManagerConsole'', Session_managerConsole), (''Redfish'', Session_redfish),
         (''VirtualMedia'', Session_virtualMedia), (''WebUI'', Session_webui), (''NBD'', Session_nbd)])
     Session_unknown"

definition session_manager_endpoints :: endpoint_map where
  "session_manager_endpoints = endpoints [(sessionIface,
     [ep_field ''SessionID'' ''Id'', ep_field ''RemoteIPAddr'' ''RemoteIPAddr'', ep_field ''Username'' ''Username'',
      ep_format ''SessionType'' ''SessionType'' [FormatSessionType]])]"

definition session_manager_kind :: dbus_query where
  "session_manager_kind = FindObject \<lparr>crit_path = ''/xyz/openbmc_project/session_manager/'', crit_interfaces = [sessionIface],
     crit_depth = 0, crit_service = Some ''xyz.openbmc_project.SessionManager''\<rparr>"

definition webuiConfigInterfaceName :: string where
  "webuiConfigInterfaceName = ''xyz.openbmc_project.WebUI.Configuration''"

definition settings_endpoints :: endpoint_map where
  "settings_endpoints = endpoints [(webuiConfigInterfaceName, [ep_field ''TitleTemplate'' ''TitleTemplate''])]"

definition settings_kind :: dbus_query where
  "settings_kind = FindObject \<lparr>crit_path = ''/xyz/openbmc_project/'', crit_interfaces = [webuiConfigInterfaceName],
     crit_depth = 0, crit_service = Some ''xyz.openbmc_project.Settings''\<rparr>"

section \<open>Control of the fans\<close>

datatype thermal_profile = Profile_acoustic | Profile_performance

definition thermal_profiles :: "thermal_profile list" where
  "thermal_profiles = [Profile_acoustic, Profile_performance]"

definition thermalModeIface :: string where "thermalModeIface = ''xyz.openbmc_project.Control.ThermalMode''"

definition FormatProfile :: formatter where
  "FormatProfile = format_with thermal_profiles
     [(''Acoustic'', Profile_acoustic), (''Performance'', Profile_performance)] Profile_acoustic"

text \<open>The formatter never throws for a text, and what it makes is a number.\<close>

definition FormatSupportedProfiles :: formatter where
  "FormatSupportedProfiles property v = Inr (Ints (case v of
     Strings ps \<Rightarrow> map (\<lambda>p. case FormatProfile property (FString p) of Inr (FInt32 n) \<Rightarrow> n | _ \<Rightarrow> 0) ps
   | _ \<Rightarrow> []))"

definition profile_endpoints :: endpoint_map where
  "profile_endpoints = endpoints [(thermalModeIface,
     [ep_format ''Current'' ''Profile'' [FormatProfile], ep_format ''Supported'' ''SupportedProfiles'' [FormatSupportedProfiles]])]"

definition profile_kind :: dbus_query where
  "profile_kind = FindObject \<lparr>crit_path = ''/xyz/openbmc_project/control/'', crit_interfaces = [thermalModeIface],
     crit_depth = 0, crit_service = None\<rparr>"

definition emServiceName :: string where "emServiceName = ''xyz.openbmc_project.EntityManager''"
definition pidInterfaceName :: string where "pidInterfaceName = ''xyz.openbmc_project.Configuration.Pid''"

definition pid_endpoints :: endpoint_map where
  "pid_endpoints = endpoints [(pidInterfaceName,
     map (\<lambda>m. ep_field m m) [''Name'', ''Class'', ''Type'', ''Zones'', ''Inputs'', ''Outputs''] @
     map (\<lambda>(p, m). ep_field p m)
       [(''FFGainCoefficient'', ''FeedForwardGainCoef''), (''FFOffCoefficient'', ''FeedForwardOffsetCoef''),
        (''ICoefficient'', ''IntegralCoef''), (''ILimitMax'', ''IntegralLimitMax''), (''ILimitMin'', ''IntegralLimitMin''),
        (''NegativeHysteresis'', ''NegativeHyst''), (''OutLimitMax'', ''OutputMax''), (''OutLimitMin'', ''OutputMin''),
        (''PCoefficient'', ''ProportionalCoef''), (''PositiveHysteresis'', ''PositiveHyst''),
        (''SlewNeg'', ''SlewNegative''), (''SlewPos'', ''SlewPositive'')])]"

definition pid_kind :: dbus_query where
  "pid_kind = FindObject \<lparr>crit_path = ''/xyz/openbmc_project/'', crit_interfaces = [pidInterfaceName],
     crit_depth = 0, crit_service = Some emServiceName\<rparr>"

text \<open>A zone's name among the zones of a controller; what \<open>std::get\<close> throws is caught. The field is
  there, for the rule does not name the dummy.\<close>

definition in_zone :: compare where
  "in_zone f v =
     (case (v, f) of
        (FString searchZone, Some f') \<Rightarrow> (case getValue f' of Strings zones \<Rightarrow> list_ex (\<lambda>z. z = searchZone) zones | _ \<Rightarrow> False)
      | _ \<Rightarrow> False)"

definition pid_relationRules :: "(string \<times> string \<times> compare) list" where
  "pid_relationRules = [(''Name'', ''Zones'', in_zone)]"

definition pid_relations :: "nat \<Rightarrow> nat \<Rightarrow> relation list" where
  "pid_relations pid zone = [\<lparr>source = pid, destination = zone, conditionBuildRules = pid_relationRules\<rparr>]"

definition pidZoneInterfaceName :: string where "pidZoneInterfaceName = ''xyz.openbmc_project.Configuration.Pid.Zone''"

definition zone_endpoints :: endpoint_map where
  "zone_endpoints = endpoints [(pidZoneInterfaceName,
     [ep_field ''Name'' ''Name'', ep_field ''FailSafePercent'' ''FailSafePercent'',
      ep_field ''MinThermalOutput'' ''MinOutputPercent''])]"

definition zone_kind :: dbus_query where
  "zone_kind = FindObject \<lparr>crit_path = ''/'', crit_interfaces = [pidZoneInterfaceName], crit_depth = 0,
     crit_service = Some emServiceName\<rparr>"

definition zone_relations :: "nat \<Rightarrow> nat \<Rightarrow> relation list" where
  "zone_relations zone pid = [\<lparr>source = zone, destination = pid, conditionBuildRules = pid_relationRules\<rparr>]"

end
