(* ===== verification/Accounts.thy ===== *)
theory Accounts
  imports Inventory Entity
begin

text \<open>
  \<open>src/account_settings.hpp\<close>, \<open>roles.hpp\<close> and \<open>accounts.hpp\<close>: the policy of accounts, the roles
  that its privileges stand for, local accounts and those of a directory.
\<close>

section \<open>Settings\<close>

definition policyIface :: string where "policyIface = ''xyz.openbmc_project.User.AccountPolicy''"
definition managerIface :: string where "managerIface = ''xyz.openbmc_project.User.Manager''"

definition account_settings_endpoints :: endpoint_map where
  "account_settings_endpoints = endpoints
     [(policyIface,
        [ep_field ''AccountUnlockTimeout'' ''AccountLockoutDuration'',
         ep_field ''MaxLoginAttemptBeforeLockout'' ''AccountLockoutThreshold'',
         ep_field ''MinPasswordLength'' ''MinPasswordLength'',
         ep_field ''RememberOldPasswordTimes'' ''RememberOldPasswordTimes'']),
      (managerIface, [ep_field ''AllGroups'' ''AllGroups'', ep_field ''AllPrivileges'' ''AllPrivileges''])]"

definition account_settings_kind :: dbus_query where
  "account_settings_kind = GetObject managerIface ''/xyz/openbmc_project/user'' [policyIface, managerIface]"

definition account_settings_static_fields :: instance_step where
  "account_settings_static_fields = set_field ''MaxPasswordLength'' (FUint8 20)"

definition new_AccountSettingsProvider :: "entity \<Rightarrow> entity" where
  "new_AccountSettingsProvider = add_members [''MaxPasswordLength'', ''BasicAuth'', ''Cookie'', ''SessionToken'', ''TLS'', ''XToken'']"

section \<open>Roles\<close>

datatype privilege =
    Priv_login | Priv_configureManager | Priv_configureUsers | Priv_configureSelf | Priv_configureComponents | Priv_noAuth

definition privileges :: "privilege list" where
  "privileges = [Priv_login, Priv_configureManager, Priv_configureUsers, Priv_configureSelf, Priv_configureComponents, Priv_noAuth]"

definition guestRoleName :: string where "guestRoleName = ''Guest''"

definition privToRoles :: "(string \<times> string) list" where
  "privToRoles = [(''priv-admin'', ''Administrator''), (''priv-operator'', ''Operator''), (''priv-user'', ''ReadOnly'')]"

definition role_privileges :: "(string \<times> privilege list) list" where
  "role_privileges =
     [(''Administrator'', [Priv_login, Priv_configureManager, Priv_configureUsers, Priv_configureSelf, Priv_configureComponents]),
      (''Operator'', [Priv_login, Priv_configureSelf, Priv_configureComponents]),
      (''ReadOnly'', [Priv_login, Priv_configureSelf]),
      (guestRoleName, [Priv_noAuth])]"

definition privsToList :: "privilege list \<Rightarrow> 32 word list" where
  "privsToList = map (\<lambda>p. of_nat (position privileges p))"

text \<open>\<open>map::at\<close> throws for a name that is not in the map.\<close>

definition setPrivileges :: instance_step where
  "setPrivileges = with_value (get_text ''Name'') (\<lambda>name i.
     case map_of role_privileges name of
       None \<Rightarrow> (Inl Out_of_range, i)
     | Some ps \<Rightarrow> set_field ''Privileges'' (Ints (privsToList ps)) i)"

definition role_instance :: "string \<Rightarrow> string \<Rightarrow> entity_instance may_throw" where
  "role_instance ident name =
     (case steps [set_field ''Id'' (FString ident), set_field ''Name'' (FString name), setPrivileges] (new_static_instance ident) of
        (Inl e, _) \<Rightarrow> Inl e
      | (Inr _, i) \<Rightarrow> Inr i)"

fun roles_for :: "string list \<Rightarrow> entity_instance list may_throw" where
  "roles_for [] = Inr []"
| "roles_for (p # ps) =
     (case map_of privToRoles p of
        None \<Rightarrow> roles_for ps
      | Some name \<Rightarrow>
          (case role_instance p name of
             Inl e \<Rightarrow> Inl e
           | Inr i \<Rightarrow> map_sum id (\<lambda>is. i # is) (roles_for ps)))"

fun roles_of_accounts :: "entity_instance list \<Rightarrow> entity_instance list may_throw" where
  "roles_of_accounts [] = Inr []"
| "roles_of_accounts (a # as) =
     (case get_as as_texts [] ''AllPrivileges'' a of
        Inl e \<Rightarrow> Inl e
      | Inr privs \<Rightarrow>
          (case roles_for privs of
             Inl e \<Rightarrow> Inl e
           | Inr is \<Rightarrow> map_sum id (\<lambda>js. is @ js) (roles_of_accounts as)))"

definition static_role :: "entity_instance may_throw" where
  "static_role = role_instance guestRoleName guestRoleName"

definition roles :: "entity_instance list \<Rightarrow> entity_instance list may_throw" where
  "roles accounts =
     (case roles_of_accounts accounts of
        Inl e \<Rightarrow> Inl e
      | Inr is \<Rightarrow> map_sum id (\<lambda>i. is @ [i]) static_role)"

definition roles_process :: "nat \<Rightarrow> entity_env \<Rightarrow> nat \<Rightarrow> entity_instance list act" where
  "roles_process n env provider =
     bind_act (populate n env provider) (\<lambda>_. bind_act (getInstances n env provider []) (\<lambda>accounts.
       case roles accounts of Inl e \<Rightarrow> throw e | Inr is \<Rightarrow> ret is))"

definition role_fields :: "string list" where "role_fields = [''Id'', ''Name'', ''Privileges'']"

definition nonGuest :: condition where "nonGuest = buildNonEqual ''Name'' (FString guestRoleName)"

text \<open>Neither side is the dummy, so there is a field.\<close>

definition same_role :: compare where
  "same_role f v =
     (case (f, v) of
        (Some f', FString userPriv) \<Rightarrow> holds_alternative T_string (getValue f') \<and> getStringValue f' = userPriv
      | _ \<Rightarrow> False)"

definition roleDestRelation :: "string \<Rightarrow> (string \<times> string \<times> compare) list" where
  "roleDestRelation destField = [(destField, ''Id'', same_role)]"

section \<open>Local accounts\<close>

datatype account_type =
    Account_redfish | Account_snpm | Account_hostConsole | Account_managerConsole | Account_ipmi | Account_kvmip
  | Account_virtualMedia | Account_webui | Account_unknown

definition account_types :: "account_type list" where
  "account_types = [Account_redfish, Account_snpm, Account_hostConsole, Account_managerConsole, Account_ipmi,
     Account_kvmip, Account_virtualMedia, Account_webui, Account_unknown]"

definition group_types :: "(string \<times> account_type) list" where
  "group_types = [(''redfish'', Account_redfish), (''ipmi'', Account_ipmi), (''ssh'', Account_managerConsole),
     (''web'', Account_webui), (''kvm'', Account_kvmip)]"

text \<open>The groups that stand for a type, the others are left out.\<close>

definition FormatGroups :: formatter where
  "FormatGroups property v = Inr (Ints (case v of
     Strings gs \<Rightarrow> map (\<lambda>t. of_nat (position account_types t)) (List.map_filter (map_of group_types) gs)
   | _ \<Rightarrow> []))"

definition userAttrsIface :: string where "userAttrsIface = ''xyz.openbmc_project.User.Attributes''"

definition account_endpoints :: endpoint_map where
  "account_endpoints = endpoints [(userAttrsIface,
     [ep_field ''RemoteUser'' ''RemoteUser'', ep_field ''UserEnabled'' ''UserEnabled'',
      ep_field ''UserLockedForFailedAttempt'' ''UserLockedForFailedAttempt'',
      ep_field ''UserPasswordExpired'' ''UserPasswordExpired'', ep_field ''UserPrivilege'' ''UserPrivilege'',
      ep_format ''UserGroups'' ''UserGroups'' [FormatGroups]])]"

definition account_kind :: dbus_query where
  "account_kind = FindObject \<lparr>crit_path = ''/xyz/openbmc_project/user'', crit_interfaces = [userAttrsIface],
     crit_depth = 1, crit_service = Some managerIface\<rparr>"

text \<open>\<open>setName\<close>, as the local accounts and those of a directory have it.\<close>

definition account_setName :: instance_step where
  "account_setName = steps
     [\<lambda>i. set_field ''Id'' (FString (last_segment False i)) i, \<lambda>i. set_field ''Name'' (FString (last_segment True i)) i]"

definition new_Accounts :: "entity \<Rightarrow> entity" where "new_Accounts = add_members [''Id'', ''Name'']"

definition account_relations :: "nat \<Rightarrow> nat \<Rightarrow> relation list" where
  "account_relations self role_entity =
     [\<lparr>source = self, destination = role_entity, conditionBuildRules = roleDestRelation ''UserPrivilege''\<rparr>]"

section \<open>Groups and accounts of a directory\<close>

datatype directory_type = Dir_activeDirectory | Dir_openLdap | Dir_unknown

definition directory_types :: "directory_type list" where
  "directory_types = [Dir_activeDirectory, Dir_openLdap, Dir_unknown]"

definition privConfigIface :: string where "privConfigIface = ''xyz.openbmc_project.User.PrivilegeMapperEntry''"

definition group_endpoints :: endpoint_map where
  "group_endpoints = endpoints [(privConfigIface, [ep_field ''GroupName'' ''GroupName'', ep_field ''Privilege'' ''PrivilegeId''])]"

definition group_kind :: dbus_query where
  "group_kind = FindObject \<lparr>crit_path = ''/xyz/openbmc_project/user/'', crit_interfaces = [privConfigIface],
     crit_depth = 0, crit_service = None\<rparr>"

text \<open>The map's segments in their order.\<close>

definition directory_segments :: "(string \<times> directory_type) list" where
  "directory_segments = [(''/active_directory/'', Dir_activeDirectory), (''/openldap/'', Dir_openLdap)]"

definition directory_setType :: instance_step where
  "directory_setType i =
     (case List.find (\<lambda>(segment, _). contains (object_path i) segment) directory_segments of
        Some (_, t) \<Rightarrow> set_enum ''Type'' (position directory_types t) i
      | None \<Rightarrow> no_step i)"

definition group_static_fields :: instance_step where
  "group_static_fields = steps [\<lambda>i. set_field ''Id'' (FString (last_segment True i)) i, directory_setType]"

definition new_DomainGroups :: "entity \<Rightarrow> entity" where "new_DomainGroups = add_members [''Id'', ''Type'']"

text \<open>\<open>adGroups\<close>, \<open>ldapGroups\<close>, \<open>adAccounts\<close>, \<open>openLdapAccounts\<close>\<close>

definition of_directory :: "directory_type \<Rightarrow> condition" where
  "of_directory t = buildEqual ''Type'' (FInt32 (of_nat (position directory_types t)))"

definition group_relations :: "nat \<Rightarrow> nat \<Rightarrow> relation list" where
  "group_relations self role_entity =
     [\<lparr>source = self, destination = role_entity, conditionBuildRules = roleDestRelation ''PrivilegeId''\<rparr>]"

datatype domain_state = Domain_enabled | Domain_standbyOffline

definition domain_states :: "domain_state list" where "domain_states = [Domain_enabled, Domain_standbyOffline]"

definition ldapConfigIface :: string where "ldapConfigIface = ''xyz.openbmc_project.User.Ldap.Config''"

definition FormatDomainState :: formatter where
  "FormatDomainState property v =
     Inr (FInt32 (of_nat (position domain_states (if v = FBool True then Domain_enabled else Domain_standbyOffline))))"

definition FormatDirectoryType :: formatter where
  "FormatDirectoryType = format_with directory_types
     (map (\<lambda>(s, t). (ldapConfigIface @ ''.Type.'' @ s, t))
        [(''OpenLdap'', Dir_openLdap), (''ActiveDirectory'', Dir_activeDirectory)])
     Dir_unknown"

definition FormatList :: formatter where
  "FormatList property v = Inr (Strings (case v of FString item \<Rightarrow> (if item \<noteq> [] then [item] else []) | _ \<Rightarrow> []))"

definition domain_endpoints :: endpoint_map where
  "domain_endpoints = endpoints
     [(ldapConfigIface,
        map (\<lambda>m. ep_field m m) [''LDAPBindDN'', ''LDAPSearchScope'', ''GroupNameAttribute'', ''UserNameAttribute''] @
        [ep_format ''LDAPBaseDN'' ''LDAPBaseDN'' [FormatList], ep_format ''LDAPServerURI'' ''LDAPServerURI'' [FormatList],
         ep_format ''LDAPType'' ''Type'' [FormatDirectoryType]]),
      (''xyz.openbmc_project.Object.Enable'', [ep_format ''Enabled'' ''State'' [FormatDomainState]])]"

definition domain_kind :: dbus_query where
  "domain_kind = FindObject \<lparr>crit_path = ''/xyz/openbmc_project/user/ldap/'', crit_interfaces = [ldapConfigIface],
     crit_depth = 1, crit_service = None\<rparr>"

definition setEnabled :: instance_step where
  "setEnabled = with_value (get_enum (position domain_states Domain_standbyOffline) ''State'') (\<lambda>st.
     set_field ''Enabled'' (FBool (st = of_nat (position domain_states Domain_enabled))))"

definition domain_static_fields :: instance_step where
  "domain_static_fields = steps [account_setName, setEnabled]"

definition new_DomainAccounts :: "entity \<Rightarrow> entity" where "new_DomainAccounts = add_members [''Id'', ''Name'', ''Enabled'']"

definition same_directory :: compare where
  "same_directory f accType =
     (case (f, accType) of
        (Some f', FInt32 n) \<Rightarrow> holds_alternative T_int32 (getValue f') \<and> getIntValue f' = n
      | _ \<Rightarrow> False)"

definition groupsRelation :: "(string \<times> string \<times> compare) list" where
  "groupsRelation = [(''Type'', ''Type'', same_directory)]"

definition domain_relations :: "nat \<Rightarrow> nat \<Rightarrow> relation list" where
  "domain_relations self groups_entity =
     [\<lparr>source = self, destination = groups_entity, conditionBuildRules = groupsRelation\<rparr>]"

end
