(* ===== verification/Certificates.thy ===== *)
theory Certificates
  imports Inventory
begin

text \<open>
  \<open>src/certificates.hpp\<close>: the certificates of the three stores, with the names of issuer and subject
  taken apart into fields.
\<close>

section \<open>Enumerations\<close>

datatype certificate_purpose = Cert_trustStore | Cert_ldap | Cert_https | Cert_unknown

datatype key_usage =
    Usage_digitalSignature | Usage_nonRepudiation | Usage_keyEncipherment | Usage_dataEncipherment | Usage_keyAgreement
  | Usage_keyCertSign | Usage_crlSigning | Usage_encipherOnly | Usage_decipherOnly | Usage_serverAuthentication
  | Usage_clientAuthentication | Usage_codeSigning | Usage_emailProtection | Usage_timestamping | Usage_ocspSigning

definition certificate_purposes :: "certificate_purpose list" where
  "certificate_purposes = [Cert_trustStore, Cert_ldap, Cert_https, Cert_unknown]"

definition key_usages :: "key_usage list" where
  "key_usages = [Usage_digitalSignature, Usage_nonRepudiation, Usage_keyEncipherment, Usage_dataEncipherment,
     Usage_keyAgreement, Usage_keyCertSign, Usage_crlSigning, Usage_encipherOnly, Usage_decipherOnly,
     Usage_serverAuthentication, Usage_clientAuthentication, Usage_codeSigning, Usage_emailProtection,
     Usage_timestamping, Usage_ocspSigning]"

section \<open>The query\<close>

text \<open>The dictionary says \<open>CSPSigning\<close>.\<close>

definition FormatKeyUsage :: formatter where
  "FormatKeyUsage = format_with key_usages
     [(''DigitalSignature'', Usage_digitalSignature), (''NonRepudiation'', Usage_nonRepudiation),
      (''KeyEncipherment'', Usage_keyEncipherment), (''DataEncipherment'', Usage_dataEncipherment),
      (''KeyAgreement'', Usage_keyAgreement), (''KeyCertSign'', Usage_keyCertSign), (''CRLSigning'', Usage_crlSigning),
      (''EncipherOnly'', Usage_encipherOnly), (''DecipherOnly'', Usage_decipherOnly),
      (''ServerAuthentication'', Usage_serverAuthentication), (''ClientAuthentication'', Usage_clientAuthentication),
      (''CodeSigning'', Usage_codeSigning), (''EmailProtection'', Usage_emailProtection),
      (''Timestamping'', Usage_timestamping), (''CSPSigning'', Usage_ocspSigning)]
     Usage_clientAuthentication"

definition certificateIface :: string where "certificateIface = ''xyz.openbmc_project.Certs.Certificate''"

definition certificate_endpoints :: "(string \<Rightarrow> int \<Rightarrow> string) \<Rightarrow> endpoint_map" where
  "certificate_endpoints date = endpoints [(certificateIface,
     [ep_field ''CertificateString'' ''CertificateString'', ep_field ''Issuer'' ''Issuer'', ep_field ''Subject'' ''Subject'',
      ep_field ''KeyUsage'' ''KeyUsage'', ep_format ''ValidNotAfter'' ''ValidNotAfter'' [FormatTime date],
      ep_format ''ValidNotBefore'' ''ValidNotBefore'' [FormatTime date]])]"

definition certificate_setId :: instance_step where
  "certificate_setId i = set_field ''Id'' (FString (last_segment True i)) i"

section \<open>Names\<close>

definition dc :: string where "dc = ''DC''"
definition altName :: string where "altName = ''subjectAltName''"
definition usage :: string where "usage = ''extendedKeyUsage''"

definition dictionary_of_names :: "(string \<times> string) list" where
  "dictionary_of_names =
     [(''L'', ''City''), (''CN'', ''CommonName''), (''C'', ''Country''), (''algorithm'', ''Algorithm''),
      (''emailAddress'', ''Email''), (''O'', ''Organization''), (''OU'', ''OrganizationalUnit''), (''ST'', ''State''),
      (dc, ''DomainComponents''), (altName, ''AdditionalCommonNames''), (usage, ''KeyUsage'')]"

text \<open>The keys of the lists, in the order of the map.\<close>

definition list_keys :: "string list" where "list_keys = [dc, usage, altName]"

definition name_entries :: "string \<Rightarrow> (string \<times> string) list" where
  "name_entries raw = map (\<lambda>entry. splitToPair entry (CHR ''='')) (splitToVector raw (CHR '',''))"

text \<open>The values of a key that is collected in a list.\<close>

definition list_values :: "(string \<times> string) list \<Rightarrow> string \<Rightarrow> string list" where
  "list_values entries key = map snd (filter (\<lambda>(k, _). k = key) entries)"

definition set_entry :: "string \<Rightarrow> string \<times> string \<Rightarrow> instance_step" where
  "set_entry prefix kv =
     (case map_of dictionary_of_names (fst kv) of
        None \<Rightarrow> no_step
      | Some field \<Rightarrow> (if fst kv \<in> set list_keys then no_step else set_field (prefix @ field) (FString (snd kv))))"

text \<open>The formatter never throws for a text, and what it makes is a number.\<close>

definition usage_values :: "string \<Rightarrow> string list \<Rightarrow> 32 word list" where
  "usage_values field texts =
     map (\<lambda>t. case FormatKeyUsage field (FString t) of Inr (FInt32 n) \<Rightarrow> n | _ \<Rightarrow> 0) texts"

definition setKeyUasge :: "string list \<Rightarrow> string \<Rightarrow> instance_step" where
  "setKeyUasge texts prefix = set_field (prefix @ ''KeyUsage'') (Ints (usage_values (prefix @ ''KeyUsage'') texts))"

definition set_list :: "string \<Rightarrow> (string \<times> string) list \<Rightarrow> string \<Rightarrow> instance_step" where
  "set_list prefix entries key =
     (if key = usage then setKeyUasge (list_values entries key) prefix
      else (case map_of dictionary_of_names key of
              Some field \<Rightarrow> set_field (prefix @ field) (Strings (list_values entries key))
            | None \<Rightarrow> no_step))"

definition setCertificateData :: "string \<Rightarrow> string \<Rightarrow> instance_step" where
  "setCertificateData raw prefix =
     (let entries = name_entries raw
      in steps (map (set_entry prefix) entries @ map (set_list prefix entries) list_keys))"

definition setPurpose :: "certificate_purpose \<Rightarrow> instance_step" where
  "setPurpose p = set_enum ''Purpose'' (position certificate_purposes p)"

text \<open>The subject is read after the fields of the issuer were set; both are texts.\<close>

definition certificate_static_fields :: "certificate_purpose \<Rightarrow> instance_step" where
  "certificate_static_fields p = steps
     [certificate_setId, setPurpose p,
      with_value (get_text ''Issuer'') (\<lambda>raw. setCertificateData raw ''Issuer''),
      with_value (get_text ''Subject'') (\<lambda>raw. setCertificateData raw [])]"

definition new_CertificateBase :: "entity \<Rightarrow> entity" where
  "new_CertificateBase =
     (let names = [''City'', ''AdditionalCommonNames'', ''AdditionalOrganizationalUnits'', ''CommonName'', ''Country'',
        ''Email'', ''Organization'', ''OrganizationalUnit'', ''State'', ''Algorithm'']
      in add_members (names @ map (\<lambda>m. ''Issuer'' @ m) (names @ [''KeyUsage''])))"

section \<open>The stores\<close>

definition certificate_kind :: "string \<Rightarrow> string \<Rightarrow> dbus_query" where
  "certificate_kind path service = FindObject
     \<lparr>crit_path = path, crit_interfaces = [certificateIface], crit_depth = 0, crit_service = Some service\<rparr>"

definition trust_store_kind :: dbus_query where
  "trust_store_kind = certificate_kind ''/xyz/openbmc_project/certs/authority/ldap/''
     ''xyz.openbmc_project.Certs.Manager.Authority.Ldap''"

definition ldap_certificates_kind :: dbus_query where
  "ldap_certificates_kind = certificate_kind ''/xyz/openbmc_project/certs/client/ldap/''
     ''xyz.openbmc_project.Certs.Manager.Client.Ldap''"

definition https_certificates_kind :: dbus_query where
  "https_certificates_kind = certificate_kind ''/xyz/openbmc_project/certs/server/https/''
     ''xyz.openbmc_project.Certs.Manager.Server.Https''"

end
