(* ===== verification/Virtual_Media.thy ===== *)
theory Virtual_Media
  imports Inventory
begin

text \<open>
  \<open>src/virtual_media.hpp\<close>: the mount points of virtual media, with the fields computed from their
  paths, states and image addresses.
\<close>

section \<open>Enumerations\<close>

datatype vm_interface = Vm_usb | Vm_hdd | Vm_cdrom
datatype vm_device = Vm_proxy | Vm_legacy | Vm_direct | Vm_unknown
datatype transfer_protocol =
    Transfer_cifs | Transfer_ftp | Transfer_sftp | Transfer_http | Transfer_https | Transfer_nfs | Transfer_scp
  | Transfer_tftp | Transfer_oem
datatype oem_protocol = Oem_nbd | Oem_absent
datatype connection_type = Connection_none | Connection_uri | Connection_applet
datatype vm_state = Vm_enabled | Vm_disabled | Vm_standbyOffline

definition vm_interfaces :: "vm_interface list" where "vm_interfaces = [Vm_usb, Vm_hdd, Vm_cdrom]"
definition vm_devices :: "vm_device list" where "vm_devices = [Vm_proxy, Vm_legacy, Vm_direct, Vm_unknown]"
definition transfer_protocols :: "transfer_protocol list" where
  "transfer_protocols = [Transfer_cifs, Transfer_ftp, Transfer_sftp, Transfer_http, Transfer_https, Transfer_nfs,
     Transfer_scp, Transfer_tftp, Transfer_oem]"
definition oem_protocols :: "oem_protocol list" where "oem_protocols = [Oem_nbd, Oem_absent]"
definition connection_types :: "connection_type list" where
  "connection_types = [Connection_none, Connection_uri, Connection_applet]"
definition vm_states :: "vm_state list" where "vm_states = [Vm_enabled, Vm_disabled, Vm_standbyOffline]"

section \<open>The query\<close>

definition vmMountPointIface :: string where "vmMountPointIface = ''xyz.openbmc_project.VirtualMedia.MountPoint''"
definition vmProcessIface :: string where "vmProcessIface = ''xyz.openbmc_project.VirtualMedia.Process''"

definition FormatInterfaceType :: formatter where
  "FormatInterfaceType = formatValueFromDict T_uint8
     [(FUint8 0, FInt32 (of_nat (position vm_interfaces Vm_usb))), (FUint8 1, FInt32 (of_nat (position vm_interfaces Vm_hdd))),
      (FUint8 2, FInt32 (of_nat (position vm_interfaces Vm_cdrom)))]
     (FInt32 (of_nat (position vm_interfaces Vm_usb)))"

definition FormatExitCode :: formatter where
  "FormatExitCode = formatValueFromDict T_int32
     [(FInt32 0, FInt32 (of_nat (status_number Ok))), (FInt32 (- 1), FInt32 (of_nat (status_number Warning)))]
     (FInt32 (of_nat (status_number Critical)))"

definition FormatVmState :: formatter where
  "FormatVmState = formatValueFromDict T_bool
     [(FBool False, FInt32 (of_nat (position vm_states Vm_standbyOffline))),
      (FBool True, FInt32 (of_nat (position vm_states Vm_enabled)))]
     (FInt32 (of_nat (position vm_states Vm_disabled)))"

definition vm_endpoints :: endpoint_map where
  "vm_endpoints = endpoints
     [(vmMountPointIface,
        map (\<lambda>m. ep_field m m) [''Device'', ''EndpointId'', ''ExportName'', ''ImageURL'', ''Socket'',
          ''RemainingInactivityTimeout'', ''WriteProtected''] @
        [ep_format ''InterfaceType'' ''InterfaceType'' [FormatInterfaceType]]),
      (vmProcessIface,
        [ep_format ''ExitCode'' fieldStatus [FormatExitCode], ep_format ''Active'' ''State'' [FormatVmState]])]"

definition vm_kind :: dbus_query where
  "vm_kind = FindObject \<lparr>crit_path = ''/xyz/openbmc_project/VirtualMedia/'', crit_interfaces = [vmMountPointIface],
     crit_depth = 0, crit_service = Some ''xyz.openbmc_project.VirtualMedia''\<rparr>"

definition get_active :: "entity_instance \<Rightarrow> bool may_throw" where
  "get_active = get_as as_flag False ''Active''"

definition vm_default_status :: "entity_instance \<Rightarrow> field_value may_throw" where
  "vm_default_status i =
     (case get_active i of
        Inl e \<Rightarrow> Inl e
      | Inr True \<Rightarrow> Inr (FInt32 (of_nat (status_number Ok)))
      | Inr False \<Rightarrow> map_sum id FInt32 (getFieldStatus i))"

section \<open>Computed fields\<close>

definition vm_setId :: instance_step where
  "vm_setId i = set_field ''Id'' (FString (last_segment True i)) i"

definition get_image :: "entity_instance \<Rightarrow> string may_throw" where "get_image = get_text ''ImageURL''"

definition device_code :: "vm_device \<Rightarrow> 32 word" where "device_code d = of_nat (position vm_devices d)"
definition state_code :: "vm_state \<Rightarrow> 32 word" where "state_code s = of_nat (position vm_states s)"
definition connection_code :: "connection_type \<Rightarrow> 32 word" where "connection_code c = of_nat (position connection_types c)"
definition transfer_code :: "transfer_protocol \<Rightarrow> 32 word" where "transfer_code t = of_nat (position transfer_protocols t)"

definition get_device :: "entity_instance \<Rightarrow> 32 word may_throw" where
  "get_device = get_enum (position vm_devices Vm_unknown) ''DeviceType''"

definition get_vm_state :: "entity_instance \<Rightarrow> 32 word may_throw" where
  "get_vm_state = get_enum (position vm_states Vm_standbyOffline) ''State''"

text \<open>\<open>getField (fieldImageURL)->setValue (nullptr)\<close>: a member that is missing stays so.\<close>

definition clear_image :: instance_step where
  "clear_image i = (if hasField ''ImageURL'' i then set_field ''ImageURL'' FNull i else no_step i)"

definition setImageName :: instance_step where
  "setImageName = with_value get_device (\<lambda>device.
     if device = device_code Vm_legacy
     then with_value get_image (\<lambda>imageUrl i.
            if \<not> isNull (getField ''ImageURL'' i) \<or> imageUrl = [] then no_step i
            else set_field ''ExportName'' (FString (getNameFromLastSegmentObjectPath imageUrl False)) i)
     else if device = device_code Vm_proxy
     then with_value get_image (\<lambda>imageUrl. steps
            [set_field ''ExportName'' (FString (filter (\<lambda>c. c \<noteq> CHR 0x22) imageUrl)), clear_image])
     else no_step)"

definition wsepDict :: "(string \<times> string) list" where "wsepDict = [(''nbd0'', ''/nbd/0'')]"

definition setWSAddress :: instance_step where
  "setWSAddress = with_value (get_text ''Device'') (\<lambda>device.
     case map_of wsepDict device of
       Some address \<Rightarrow> set_field ''WebSocketAddress'' (FString address)
     | None \<Rightarrow> no_step)"

text \<open>The segments in the order of the map.\<close>

definition deviceTypes :: "(string \<times> vm_device) list" where
  "deviceTypes = [(''/Direct/'', Vm_direct), (''/Legacy/'', Vm_legacy), (''/Proxy/'', Vm_proxy)]"

definition device_of_path :: "string \<Rightarrow> vm_device" where
  "device_of_path path =
     (case List.find (\<lambda>(segment, _). contains path segment) deviceTypes of Some (_, d) \<Rightarrow> d | None \<Rightarrow> Vm_unknown)"

definition setDeviceType :: instance_step where
  "setDeviceType i = set_field ''DeviceType'' (FInt32 (device_code (device_of_path (object_path i)))) i"

definition protocolDict :: "(string \<times> transfer_protocol) list" where
  "protocolDict = [(''cifs://'', Transfer_cifs), (''ftp://'', Transfer_ftp), (''http://'', Transfer_http),
     (''https://'', Transfer_https), (''nfs://'', Transfer_nfs), (''scp://'', Transfer_scp),
     (''sftp://'', Transfer_sftp), (''smb://'', Transfer_cifs), (''tftp://'', Transfer_tftp)]"

definition protocol_of_image :: "string \<Rightarrow> transfer_protocol" where
  "protocol_of_image url =
     (case List.find (\<lambda>(uriProto, _). starts_with url uriProto) protocolDict of Some (_, p) \<Rightarrow> p | None \<Rightarrow> Transfer_oem)"

definition setTransferProtocol :: instance_step where
  "setTransferProtocol = with_value get_image (\<lambda>url.
     set_field ''TransferProtocol'' (FInt32 (transfer_code (if url \<noteq> [] then protocol_of_image url else Transfer_oem))))"

definition get_transfer :: "entity_instance \<Rightarrow> 32 word may_throw" where
  "get_transfer = get_enum (position transfer_protocols Transfer_oem) ''TransferProtocol''"

definition get_connection :: "entity_instance \<Rightarrow> 32 word may_throw" where
  "get_connection = get_enum (position connection_types Connection_none) ''ConnectionType''"

definition set_oem :: "oem_protocol \<Rightarrow> instance_step" where
  "set_oem p = set_enum ''OemTransferProtocol'' (position oem_protocols p)"

definition setOemTransferProtocol :: instance_step where
  "setOemTransferProtocol = with_value get_transfer (\<lambda>t.
     if t \<noteq> transfer_code Transfer_oem then set_oem Oem_absent
     else with_value get_connection (\<lambda>c.
       set_oem (if c = connection_code Connection_none then Oem_absent else Oem_nbd)))"

definition setConnectionType :: instance_step where
  "setConnectionType = with_value get_vm_state (\<lambda>st.
     if st \<noteq> state_code Vm_enabled then set_field ''ConnectionType'' (FInt32 (connection_code Connection_none))
     else with_value get_device (\<lambda>d. set_field ''ConnectionType'' (FInt32 (connection_code
            (if d = device_code Vm_legacy \<or> d = device_code Vm_direct then Connection_uri else Connection_applet)))))"

definition setActive :: instance_step where
  "setActive = with_value get_vm_state (\<lambda>st. set_field ''Active'' (FBool (st = state_code Vm_enabled)))"

definition vm_static_fields :: instance_step where
  "vm_static_fields = steps
     [vm_setId, setDeviceType, setConnectionType, setTransferProtocol, setOemTransferProtocol, setActive,
      setImageName, setWSAddress]"

definition vm_query :: query_ops where
  "vm_query = \<lparr>searchProperties = vm_endpoints, staticFields = vm_static_fields,
     defaultFields = [(fieldStatus, vm_default_status)]\<rparr>"

definition vmByIfaceType :: "vm_interface \<Rightarrow> condition" where
  "vmByIfaceType t = buildEqual ''InterfaceType'' (FInt32 (of_nat (position vm_interfaces t)))"

definition new_VirtualMedia :: "entity \<Rightarrow> entity" where
  "new_VirtualMedia = add_members [''Id'', ''DeviceType'', ''TransferProtocol'', ''OemTransferProtocol'', ''ConnectionType'',
     ''Active'', ''WebSocketAddress'']"

end
