(* ===== verification/Network.thy ===== *)
theory Network
  imports Inventory Entity
begin

text \<open>
  \<open>src/network_interface.hpp\<close> and \<open>network_adapter.hpp\<close>: the configuration of the network, the
  addresses, the interfaces with the fields computed for them and their relations, the adapters.
\<close>

definition networkServiceName :: string where "networkServiceName = ''xyz.openbmc_project.Network''"

section \<open>Configuration\<close>

definition netSysConfigInterfaceName :: string where
  "netSysConfigInterfaceName = ''xyz.openbmc_project.Network.SystemConfiguration''"

definition net_config_endpoints :: endpoint_map where
  "net_config_endpoints = endpoints [(netSysConfigInterfaceName,
     [ep_field ''HostName'' ''HostName'', ep_field ''DefaultGateway'' ''DefaultIPv4Gateway'',
      ep_field ''DefaultGateway6'' ''DefaultIPv6Gateway''])]"

definition net_config_kind :: dbus_query where
  "net_config_kind = FindObject \<lparr>crit_path = ''/xyz/openbmc_project/network'',
     crit_interfaces = [netSysConfigInterfaceName], crit_depth = 1, crit_service = Some networkServiceName\<rparr>"

definition netDHCPConfigInterfaceName :: string where
  "netDHCPConfigInterfaceName = ''xyz.openbmc_project.Network.DHCPConfiguration''"

definition dhcp_endpoints :: endpoint_map where
  "dhcp_endpoints = endpoints [(netDHCPConfigInterfaceName,
     map (\<lambda>m. ep_field m m) [''DNSEnabled'', ''HostNameEnabled'', ''NTPEnabled'', ''SendHostNameEnabled''])]"

definition dhcp_kind :: dbus_query where
  "dhcp_kind = FindObject \<lparr>crit_path = ''/xyz/openbmc_project/network/config'',
     crit_interfaces = [netDHCPConfigInterfaceName], crit_depth = 1, crit_service = Some networkServiceName\<rparr>"

section \<open>Addresses\<close>

datatype ip_type = Ipv4 | Ipv6
datatype ip_origin = Origin_static | Origin_dhcp | Origin_linkLocal | Origin_slaac

definition ip_types :: "ip_type list" where "ip_types = [Ipv4, Ipv6]"
definition ip_origins :: "ip_origin list" where "ip_origins = [Origin_static, Origin_dhcp, Origin_linkLocal, Origin_slaac]"

definition netIpInterfaceName :: string where "netIpInterfaceName = ''xyz.openbmc_project.Network.IP''"

definition FormatOrigin :: formatter where
  "FormatOrigin = format_with ip_origins
     (map (\<lambda>(s, p). (netIpInterfaceName @ ''.AddressOrigin.'' @ s, p))
        [(''Static'', Origin_static), (''DHCP'', Origin_dhcp), (''LinkLocal'', Origin_linkLocal), (''SLAAC'', Origin_slaac)])
     Origin_static"

definition FormatIpType :: formatter where
  "FormatIpType = format_with ip_types
     (map (\<lambda>(s, t). (netIpInterfaceName @ ''.Protocol.'' @ s, t)) [(''IPv4'', Ipv4), (''IPv6'', Ipv6)]) Ipv4"

definition ip_endpoints :: endpoint_map where
  "ip_endpoints = endpoints [(netIpInterfaceName,
     [ep_field ''Address'' ''Address'', ep_field ''Gateway'' ''Gateway'', ep_field ''PrefixLength'' ''PrefixLength'',
      ep_format ''Origin'' ''Origin'' [FormatOrigin], ep_format ''Type'' ''Type'' [FormatIpType]])]"

definition ip_kind :: dbus_query where
  "ip_kind = FindObject \<lparr>crit_path = ''/xyz/openbmc_project/network'', crit_interfaces = [netIpInterfaceName],
     crit_depth = 0, crit_service = Some networkServiceName\<rparr>"

fun as_byte :: "field_value \<Rightarrow> 8 word option" where "as_byte (FUint8 n) = Some n" | "as_byte _ = None"

text \<open>\<open>getNetmask\<close> shifts too far for some lengths: what it then gives is a parameter.\<close>

definition setSubnetMask :: "string \<Rightarrow> instance_step" where
  "setSubnetMask undefined_mask = with_value (get_enum (position ip_types Ipv4) ''Type'') (\<lambda>t.
     if t = of_nat (position ip_types Ipv4)
     then with_value (get_as as_byte 0 ''PrefixLength'') (\<lambda>bits.
            set_field ''SubnetMask'' (FString (case getNetmask (ucast bits) of Some m \<Rightarrow> m | None \<Rightarrow> undefined_mask)))
     else no_step)"

text \<open>\<open>||\<close>: the accessor is called only for a field that has a value.\<close>

definition setGateway :: instance_step where
  "setGateway i =
     (if isNull (getField ''Gateway'' i) then set_field ''Gateway'' (FString ''0.0.0.0'') i
      else with_value (get_text ''Gateway'')
             (\<lambda>g. if g = [] then set_field ''Gateway'' (FString ''0.0.0.0'') else no_step) i)"

definition ip_static_fields :: "string \<Rightarrow> instance_step" where
  "ip_static_fields undefined_mask = steps [setSubnetMask undefined_mask, setGateway]"

definition nonStaticIp :: condition where
  "nonStaticIp = buildNonEqual ''Origin'' (FInt32 (of_nat (position ip_origins Origin_static)))"

definition staticIp :: condition where
  "staticIp = buildEqual ''Origin'' (FInt32 (of_nat (position ip_origins Origin_static)))"

definition new_IP :: "entity \<Rightarrow> entity" where "new_IP = add_members [''SubnetMask'']"

section \<open>Interfaces\<close>

datatype dhcp_state = Dhcp_both | Dhcp_v4 | Dhcp_v6 | Dhcp_none
datatype operating_mode = Operating_stateful | Operating_disabled
datatype link_configuration = Link_fallback | Link_both | Link_v4 | Link_v6 | Link_none
datatype link_status = LinkUp | LinkDown | NoLink
datatype ethernet_state = Ethernet_enabled | Ethernet_disabled
datatype ethernet_kind = Kind_physical | Kind_vlan

definition dhcp_states :: "dhcp_state list" where "dhcp_states = [Dhcp_both, Dhcp_v4, Dhcp_v6, Dhcp_none]"
definition operating_modes :: "operating_mode list" where "operating_modes = [Operating_stateful, Operating_disabled]"
definition link_configurations :: "link_configuration list" where
  "link_configurations = [Link_fallback, Link_both, Link_v4, Link_v6, Link_none]"
definition link_statuses :: "link_status list" where "link_statuses = [LinkUp, LinkDown, NoLink]"
definition ethernet_states :: "ethernet_state list" where "ethernet_states = [Ethernet_enabled, Ethernet_disabled]"
definition ethernet_kinds :: "ethernet_kind list" where "ethernet_kinds = [Kind_physical, Kind_vlan]"

definition netEthInterfaceName :: string where
  "netEthInterfaceName = ''xyz.openbmc_project.Network.EthernetInterface''"

definition FormatDHCPEnabled :: formatter where
  "FormatDHCPEnabled = format_with dhcp_states
     (map (\<lambda>(s, d). (netEthInterfaceName @ ''.DHCPConf.'' @ s, d))
        [(''both'', Dhcp_both), (''v4'', Dhcp_v4), (''v6'', Dhcp_v6), (''none'', Dhcp_none)])
     Dhcp_none"

definition FormatLinkConf :: formatter where
  "FormatLinkConf = format_with link_configurations
     (map (\<lambda>(s, d). (netEthInterfaceName @ ''.LinkLocalConf.'' @ s, d))
        [(''fallback'', Link_fallback), (''both'', Link_both), (''v4'', Link_v4), (''v6'', Link_v6), (''none'', Link_none)])
     Link_none"

definition ethernet_endpoints :: endpoint_map where
  "ethernet_endpoints = endpoints
     [(netEthInterfaceName,
        [ep_field ''AutoNeg'' ''AutoNeg'', ep_format ''DHCPEnabled'' ''DHCPEnabled'' [FormatDHCPEnabled],
         ep_field ''DomainName'' ''DomainName'', ep_field ''IPv6AcceptRA'' ''IPv6AcceptRA'',
         ep_field ''InterfaceName'' ''InterfaceName'',
         ep_format ''LinkLocalAutoConf'' ''LinkLocalAutoConf'' [FormatLinkConf],
         ep_field ''LinkUp'' ''LinkUp'', ep_field ''NICEnabled'' ''NICEnabled'', ep_field ''NTPServers'' ''NTPServers'',
         ep_field ''Nameservers'' ''Nameservers'', ep_field ''Speed'' ''Speed'',
         ep_field ''StaticNameServers'' ''StaticNameServers'']),
      (''xyz.openbmc_project.Network.MACAddress'', [ep_field ''MACAddress'' ''MACAddress'']),
      (''xyz.openbmc_project.Network.VLAN'', [ep_field ''Id'' ''VLANId'', ep_field ''InterfaceName'' ''VLANName''])]"

definition ethernet_query_kind :: dbus_query where
  "ethernet_query_kind = FindObject \<lparr>crit_path = ''/xyz/openbmc_project/network'',
     crit_interfaces = [netEthInterfaceName], crit_depth = 1, crit_service = Some networkServiceName\<rparr>"

definition setKind :: instance_step where
  "setKind i =
     (if isNull (getField ''VLANId'' i) then set_enum ''Kind'' (position ethernet_kinds Kind_physical) i
      else set_enum ''Kind'' (position ethernet_kinds Kind_vlan) i)"

definition ethernet_setState :: instance_step where
  "ethernet_setState = with_value (get_as as_flag False ''NICEnabled'') (\<lambda>up.
     set_enum ''State'' (position ethernet_states (if up then Ethernet_enabled else Ethernet_disabled)))"

definition setLinkStatus :: instance_step where
  "setLinkStatus = with_value (get_enum (position ethernet_states Ethernet_disabled) ''State'') (\<lambda>st.
     if st = of_nat (position ethernet_states Ethernet_disabled)
     then set_enum ''LinkStatus'' (position link_statuses NoLink)
     else with_value (get_as as_flag False ''LinkUp'') (\<lambda>up.
            set_enum ''LinkStatus'' (position link_statuses (if up then LinkUp else LinkDown))))"

definition get_dhcp :: "entity_instance \<Rightarrow> 32 word may_throw" where
  "get_dhcp = get_enum (position dhcp_states Dhcp_none) ''DHCPEnabled''"

definition dhcp_v4 :: "32 word \<Rightarrow> bool" where
  "dhcp_v4 d \<longleftrightarrow> d = of_nat (position dhcp_states Dhcp_both) \<or> d = of_nat (position dhcp_states Dhcp_v4)"

definition setDHCPv4Enabled :: instance_step where
  "setDHCPv4Enabled = with_value get_dhcp (\<lambda>d. set_field ''DHCPv4Enabled'' (FBool (dhcp_v4 d)))"

definition setOperatingMode :: instance_step where
  "setOperatingMode = with_value get_dhcp (\<lambda>d.
     set_enum ''OperatingMode'' (position operating_modes (if dhcp_v4 d then Operating_stateful else Operating_disabled)))"

definition ethernet_static_fields :: instance_step where
  "ethernet_static_fields = steps [setKind, ethernet_setState, setLinkStatus, setDHCPv4Enabled, setOperatingMode]"

text \<open>\<open>setFQDN\<close>, a default: it asks the entity of the configuration for its instances.\<close>

definition fqdn :: "entity_instance list \<Rightarrow> entity_instance \<Rightarrow> field_value may_throw" where
  "fqdn netCfgInstances i =
     (case netCfgInstances of
        [] \<Rightarrow> Inr FNull
      | c # _ \<Rightarrow>
          (case get_text ''HostName'' c of
             Inl e \<Rightarrow> Inl e
           | Inr hostname \<Rightarrow>
               (case get_as as_texts [] ''DomainName'' i of
                  Inl e \<Rightarrow> Inl e
                | Inr [] \<Rightarrow> Inr (FString hostname)
                | Inr (domain # _) \<Rightarrow> Inr (FString (hostname @ ''.'' @ domain)))))"

definition setFQDN :: "nat \<Rightarrow> entity_env \<Rightarrow> entity_instance \<Rightarrow> field_value act" where
  "setFQDN n env i = bind_act (getEntity n env ''NetworkConfig'') (\<lambda>e.
     bind_act (getInstances n env e []) (\<lambda>cs.
       case fqdn cs i of Inl ex \<Rightarrow> throw ex | Inr v \<Rightarrow> ret v))"

definition new_Ethernet :: "entity \<Rightarrow> entity" where
  "new_Ethernet = add_members [''Kind'', ''FQDN'', ''LinkStatus'', ''State'', ''DHCPv4Enabled'', ''OperatingMode'']"

definition vlanEthernet :: condition where
  "vlanEthernet = buildEqual ''Kind'' (FInt32 (of_nat (position ethernet_kinds Kind_vlan)))"

definition physicalEthernet :: condition where
  "physicalEthernet = buildEqual ''Kind'' (FInt32 (of_nat (position ethernet_kinds Kind_physical)))"

text \<open>The relations. Neither rule is given the dummy, so there is a field; the path of an object is
  always a text.\<close>

definition below_interface :: compare where
  "below_interface f v =
     (case (f, v) of
        (Some (Some f'), FString sourceIfaceName) \<Rightarrow>
          \<not> isNull (Some f') \<and> starts_with (getStringValue (Some f')) (sourceIfaceName @ ''.'')
      | _ \<Rightarrow> False)"

definition relationToVLAN :: "(string \<times> string \<times> compare) list" where
  "relationToVLAN = [(''InterfaceName'', ''VLANName'', below_interface)]"

definition below_object :: compare where
  "below_object f v =
     (case (f, v) of
        (Some f', FString path) \<Rightarrow> starts_with (getStringValue f') (path @ ''/'')
      | _ \<Rightarrow> False)"

definition relationToIp :: "(string \<times> string \<times> compare) list" where
  "relationToIp = [(metaObjectPath, metaObjectPath, below_object)]"

definition ethernet_relations :: "nat \<Rightarrow> nat \<Rightarrow> relation list" where
  "ethernet_relations self ip =
     [\<lparr>source = self, destination = ip, conditionBuildRules = relationToIp\<rparr>,
      \<lparr>source = self, destination = self, conditionBuildRules = relationToVLAN\<rparr>]"

section \<open>Adapters\<close>

definition invNetAdpIface :: string where
  "invNetAdpIface = ''xyz.openbmc_project.Inventory.Item.NetworkInterface''"

definition FormatAdapterState :: formatter where
  "FormatAdapterState property v =
     Inr (FInt32 (of_nat (position presences (if v = FBool True then Presence_enabled else Presence_absent))))"

definition adapter_endpoints :: endpoint_map where
  "adapter_endpoints = endpoints
     [(assetInterface, [ep_field ''Manufacturer'' ''Manufacturer'', ep_field ''Model'' ''Model'']),
      (itemInterface, [ep_field ''PrettyName'' ''Name'', ep_format ''Present'' ''State'' [FormatAdapterState]]),
      (invNetAdpIface, [ep_field ''MACAddress'' ''MAC'']),
      (''xyz.openbmc_project.State.Decorator.OperationalStatus'',
        [ep_format ''Functional'' fieldStatus [StatusByFunctional]])]"

definition adapter_kind :: dbus_query where
  "adapter_kind = FindObject \<lparr>crit_path = ''/xyz/openbmc_project/inventory/system/network/adapter/'',
     crit_interfaces = [invNetAdpIface], crit_depth = 1, crit_service = Some ''com.yadro.NetworkAdapter''\<rparr>"

definition new_NetAdapter :: "entity \<Rightarrow> entity" where "new_NetAdapter = rollup_defaults"

end
