(* ===== verification/Network_Protocol.thy ===== *)
theory Network_Protocol
  imports Network
begin

text \<open>
  \<open>src/network_protocol.hpp\<close>: SNMP and NTP settings, and the protocols found among the units of
  systemd, with the ports their sockets listen on.
\<close>

section \<open>Settings\<close>

definition snmpCfgIface :: string where "snmpCfgIface = ''xyz.openbmc_project.SNMPCfg''"

definition snmp_endpoints :: endpoint_map where
  "snmp_endpoints = endpoints [(snmpCfgIface, [ep_field ''Community'' ''CommunityString''])]"

definition snmp_kind :: dbus_query where
  "snmp_kind = GetObject snmpCfgIface ''/xyz/openbmc_project/snmpcfg'' [snmpCfgIface]"

definition snmp_static_fields :: instance_step where
  "snmp_static_fields = steps
     [set_field ''AuthenticationProtocol'' (FString ''CommunityString''), set_field ''CommunityAccessMode'' (FString ''Limited''),
      set_field ''CommunityName'' (FString ''default''), set_field ''EncryptionProtocol'' (FString ''None''),
      set_field ''EnableSNMPv1'' (FBool False), set_field ''EnableSNMPv2c'' (FBool True),
      set_field ''EnableSNMPv3'' (FBool False), set_field ''HideCommunityStrings'' (FBool False),
      set_field ''Port'' (FUint16 161)]"

definition new_SnmpProtocol :: "entity \<Rightarrow> entity" where
  "new_SnmpProtocol = add_members [''AuthenticationProtocol'', ''CommunityAccessMode'', ''CommunityName'', ''EncryptionProtocol'',
     ''EngineId'', ''EnableSNMPv1'', ''EnableSNMPv2c'', ''EnableSNMPv3'', ''HideCommunityStrings'', ''Port'']"

datatype time_sync = Sync_ntp | Sync_manual

definition time_syncs :: "time_sync list" where "time_syncs = [Sync_ntp, Sync_manual]"

definition timeSyncIface :: string where "timeSyncIface = ''xyz.openbmc_project.Time.Synchronization''"

definition FormatTimeSyncMethod :: formatter where
  "FormatTimeSyncMethod = format_with time_syncs
     (map (\<lambda>(s, t). (timeSyncIface @ ''.Method.'' @ s, t)) [(''NTP'', Sync_ntp), (''Manual'', Sync_manual)])
     Sync_manual"

definition ntp_endpoints :: endpoint_map where
  "ntp_endpoints = endpoints [(timeSyncIface, [ep_format ''TimeSyncMethod'' ''TimeSyncMethod'' [FormatTimeSyncMethod]])]"

definition ntp_kind :: dbus_query where
  "ntp_kind = GetObject ''xyz.openbmc_project.Settings'' ''/xyz/openbmc_project/time/sync_method'' [timeSyncIface]"

definition ipmisolIface :: string where "ipmisolIface = ''xyz.openbmc_project.Ipmi.SOL''"

definition ipmisol_endpoints :: endpoint_map where
  "ipmisol_endpoints = endpoints [(ipmisolIface, [ep_field ''Enable'' ''Enabled''])]"

definition ipmisol_kind :: dbus_query where
  "ipmisol_kind = FindObject \<lparr>crit_path = ''/xyz/openbmc_project/ipmi/sol'', crit_interfaces = [ipmisolIface],
     crit_depth = 0, crit_service = None\<rparr>"

section \<open>Protocols\<close>

datatype protocol =
    Proto_ssh | Proto_ipmi | Proto_ipmisol | Proto_kvmip | Proto_https | Proto_sol | Proto_snmp | Proto_ntp | Proto_unknown

definition protocols :: "protocol list" where
  "protocols = [Proto_ssh, Proto_ipmi, Proto_ipmisol, Proto_kvmip, Proto_https, Proto_sol, Proto_snmp, Proto_ntp, Proto_unknown]"

definition protocol_code :: "protocol \<Rightarrow> 32 word" where "protocol_code p = of_nat (position protocols p)"

definition get_protocol :: "entity_instance \<Rightarrow> 32 word may_throw" where
  "get_protocol = get_enum (position protocols Proto_unknown) ''Purpose''"

text \<open>\<open>std::strtol (s, &end, 10)\<close> on a 64-bit \<open>long\<close>: the number (\<open>None\<close> is \<open>ERANGE\<close>) and the rest.\<close>

definition strtol10 :: "string \<Rightarrow> int option \<times> string" where
  "strtol10 text =
     (let s = dropWhile isspace text;
          negative = (s \<noteq> [] \<and> hd s = CHR ''-'');
          t = (if s \<noteq> [] \<and> (hd s = CHR ''-'' \<or> hd s = CHR ''+'') then tl s else s);
          digits = takeWhile isdigit t;
          n = (if negative then - int (dec_value digits 0) else int (dec_value digits 0))
      in if digits = [] then (Some 0, text)
         else (if - (2 ^ 63) \<le> n \<and> n < 2 ^ 63 then Some n else None, dropWhile isdigit t))"

text \<open>The port in the address a socket listens on: what follows the last colon, if all of it is a
  number; it is cut to 16 bits.\<close>

definition listen_port :: "string \<Rightarrow> 16 word option" where
  "listen_port listenStream =
     (case rfind_char (CHR '':'') listenStream of
        None \<Rightarrow> None
      | Some k \<Rightarrow>
          (let portStr = drop (Suc k) listenStream
           in if portStr = [] then None
              else (case strtol10 (c_str portStr) of
                      (Some n, []) \<Rightarrow> Some (of_int n)
                    | _ \<Rightarrow> None)))"

text \<open>\<open>PortQuery::populateInstances\<close>: the first socket of the reply, as (type, stream).\<close>

definition port_instances :: "(string \<times> string) list \<Rightarrow> entity_instance list" where
  "port_instances response =
     (case response of
        [] \<Rightarrow> []
      | (_, listenStream) # _ \<Rightarrow>
          (case listen_port listenStream of
             None \<Rightarrow> []
           | Some port \<Rightarrow> [snd (set_field ''Port'' (FUint16 port) (new_static_instance listenStream))]))"

fun as_port :: "field_value \<Rightarrow> 16 word option" where "as_port (FUint16 n) = Some n" | "as_port _ = None"

definition get_port :: "entity_instance \<Rightarrow> 16 word may_throw" where
  "get_port = get_as as_port 0 ''Port''"

text \<open>\<open>setPort\<close>, with the reply to \<open>Get Listen\<close>; none when the call failed.\<close>

definition setPort :: "(string \<times> string) list option \<Rightarrow> instance_step" where
  "setPort reply = with_value get_protocol (\<lambda>purpose.
     if purpose = protocol_code Proto_https then set_field ''Port'' (FUint16 443)
     else (case port_instances (case reply of None \<Rightarrow> [] | Some r \<Rightarrow> r) of
             [] \<Rightarrow> no_step
           | p # _ \<Rightarrow> with_value (\<lambda>_. get_port p) (\<lambda>port. set_field ''Port'' (FUint16 port))))"

text \<open>Of the ten parts of a unit's entry three are read.\<close>

record unit_meta =
  unit_name :: string
  unit_sub_state :: string
  unit_path :: string

definition protocolFromService :: "string list" where
  "protocolFromService = [''start-ipkvm'', ''snmpd'', ''lighttpd.'']"

definition observedServices :: "(protocol \<times> string) list" where
  "observedServices = [(Proto_ssh, ''dropbear''), (Proto_ipmi, ''phosphor-ipmi-net''), (Proto_kvmip, ''start-ipkvm''),
     (Proto_https, ''lighttpd.''), (Proto_sol, ''obmc-console-ssh''), (Proto_snmp, ''snmpd'')]"

definition ends_with :: "string \<Rightarrow> string \<Rightarrow> bool" where
  "ends_with s suffix = starts_with (rev s) (rev suffix)"

definition is_protocol_unit :: "string \<Rightarrow> bool" where
  "is_protocol_unit name \<longleftrightarrow> ends_with name ''.socket'' \<or> list_ex (starts_with name) protocolFromService"

definition buildIdentityField :: "protocol \<Rightarrow> string" where
  "buildIdentityField p = ''/org/freedesktop/systemd1'' @ ''NetworkProtoId_'' @ dec_nat (position protocols p)"

definition build_protocol :: "queries \<Rightarrow> get_all \<Rightarrow> nat \<Rightarrow> protocol \<Rightarrow> entity_instance may_throw" where
  "build_protocol qs bus q p =
     (case createInstance qs bus q ''org.freedesktop.systemd1'' (buildIdentityField p) [] of
        Inl e \<Rightarrow> Inl e
      | Inr i \<Rightarrow> Inr (snd (steps [set_enum ''Purpose'' (position protocols p), set_field ''Enabled'' (FBool False)] i)))"

definition run_step :: "instance_step \<Rightarrow> entity_instance \<Rightarrow> entity_instance may_throw" where
  "run_step f i = (case f i of (Inl e, _) \<Rightarrow> Inl e | (Inr _, i') \<Rightarrow> Inr i')"

text \<open>The instance of a unit for one service it may be.\<close>

definition unit_instance ::
    "(protocol \<Rightarrow> entity_instance may_throw) \<Rightarrow> (string \<Rightarrow> (string \<times> string) list option) \<Rightarrow> unit_meta \<Rightarrow> protocol \<Rightarrow>
     entity_instance may_throw" where
  "unit_instance build listen u p =
     (case build p of
        Inl e \<Rightarrow> Inl e
      | Inr i \<Rightarrow> run_step (steps
          [set_field ''Enabled'' (FBool (unit_sub_state u = ''running'' \<or> unit_sub_state u = ''listening'')),
           setPort (listen (unit_path u))]) i)"

fun collect_all :: "('a \<Rightarrow> 'b may_throw) \<Rightarrow> 'a list \<Rightarrow> 'b list may_throw" where
  "collect_all f [] = Inr []"
| "collect_all f (x # xs) =
     (case f x of
        Inl e \<Rightarrow> Inl e
      | Inr y \<Rightarrow> (case collect_all f xs of Inl e \<Rightarrow> Inl e | Inr ys \<Rightarrow> Inr (y # ys)))"

text \<open>The two loops: the services of each unit that belongs to a protocol.\<close>

definition unit_services :: "unit_meta list \<Rightarrow> (unit_meta \<times> protocol) list" where
  "unit_services response = concat (map (\<lambda>u.
     if is_protocol_unit (unit_name u)
     then map (\<lambda>(p, _). (u, p)) (filter (\<lambda>(_, svcStartName). starts_with (unit_name u) svcStartName) observedServices)
     else []) response)"

section \<open>Protocols that are no units\<close>

definition defaultProtoList :: "protocol list" where "defaultProtoList = [Proto_ipmisol, Proto_ntp]"

definition get_sync :: "entity_instance \<Rightarrow> 32 word may_throw" where
  "get_sync = get_enum (position time_syncs Sync_manual) ''TimeSyncMethod''"

text \<open>The entity is asked only for the protocol in question; so these two are handed what it says.\<close>

definition setNtpEnabled :: "entity_instance list \<Rightarrow> instance_step" where
  "setNtpEnabled ntpInstances = with_value get_protocol (\<lambda>purpose.
     if purpose \<noteq> protocol_code Proto_ntp then no_step
     else (case ntpInstances of
             [] \<Rightarrow> no_step
           | m # _ \<Rightarrow> with_value (\<lambda>_. get_sync m) (\<lambda>s.
               set_field ''Enabled'' (FBool (s = of_nat (position time_syncs Sync_ntp))))))"

definition setSnmpPort :: "entity_instance list \<Rightarrow> instance_step" where
  "setSnmpPort snmpInstances = with_value get_protocol (\<lambda>purpose.
     if purpose \<noteq> protocol_code Proto_snmp then no_step
     else (case snmpInstances of
             [] \<Rightarrow> no_step
           | m # _ \<Rightarrow> with_value (\<lambda>_. get_port m) (\<lambda>port. set_field ''Port'' (FUint16 port))))"

definition asked :: "nat \<Rightarrow> entity_env \<Rightarrow> string \<Rightarrow> bool \<Rightarrow> entity_instance list act" where
  "asked n env name b =
     (if b then bind_act (getEntity n env name) (\<lambda>e. getInstances n env e []) else ret [])"

definition lift :: "'a may_throw \<Rightarrow> 'a act" where
  "lift r = (case r of Inl e \<Rightarrow> throw e | Inr v \<Rightarrow> ret v)"

definition static_protocol ::
    "nat \<Rightarrow> entity_env \<Rightarrow> (protocol \<Rightarrow> entity_instance may_throw) \<Rightarrow> protocol \<Rightarrow> entity_instance act" where
  "static_protocol n env build p =
     bind_act (lift (build p)) (\<lambda>i.
     bind_act (asked n env ''NtpProtocol'' (p = Proto_ntp)) (\<lambda>ntp.
     bind_act (asked n env ''SnmpProtocol'' (p = Proto_snmp)) (\<lambda>snmp.
       lift (run_step (steps [setNtpEnabled ntp, setSnmpPort snmp]) i))))"

fun collect_act :: "('a \<Rightarrow> 'b act) \<Rightarrow> 'a list \<Rightarrow> 'b list act" where
  "collect_act f [] = ret []"
| "collect_act f (x # xs) = bind_act (f x) (\<lambda>y. bind_act (collect_act f xs) (\<lambda>ys. ret (y # ys)))"

text \<open>\<open>populateInstances\<close>; an exception of sdbusplus gives no instances.\<close>

definition populate_protocols ::
    "nat \<Rightarrow> entity_env \<Rightarrow> (protocol \<Rightarrow> entity_instance may_throw) \<Rightarrow> (string \<Rightarrow> (string \<times> string) list option) \<Rightarrow>
     unit_meta list \<Rightarrow> entity_instance list act" where
  "populate_protocols n env build listen response w0 =
     (case bind_act (lift (collect_all (\<lambda>(u, p). unit_instance build listen u p) (unit_services response))) (\<lambda>units.
           bind_act (collect_act (static_protocol n env build) defaultProtoList) (\<lambda>others. ret (units @ others))) w0 of
        Some (Inl (Sdbus_error _), w) \<Rightarrow> Some (Inr [], w)
      | r \<Rightarrow> r)"

section \<open>Links and relations\<close>

definition linkProviderByPurpose :: "protocol \<Rightarrow> link_rule" where
  "linkProviderByPurpose targetPurpose s = with_value get_protocol (\<lambda>purpose.
     if purpose = protocol_code targetPurpose then defaultLinkProvider s else no_step)"

definition is_protocol :: "protocol \<Rightarrow> compare" where
  "is_protocol target f purposeVal = (case purposeVal of FInt32 n \<Rightarrow> n = protocol_code target | _ \<Rightarrow> False)"

definition additionalProtoCapRelation :: "protocol \<Rightarrow> (string \<times> string \<times> compare) list" where
  "additionalProtoCapRelation target = [(''Purpose'', dummyField, is_protocol target)]"

definition protocol_links :: "nat \<Rightarrow> (nat \<times> link_rule) list" where
  "protocol_links ipmisol = [(ipmisol, linkProviderByPurpose Proto_ipmisol)]"

definition protocol_relations :: "nat \<Rightarrow> nat \<Rightarrow> nat \<Rightarrow> relation list" where
  "protocol_relations self snmp ntp =
     [\<lparr>source = self, destination = snmp, conditionBuildRules = additionalProtoCapRelation Proto_snmp\<rparr>,
      \<lparr>source = self, destination = ntp, conditionBuildRules = additionalProtoCapRelation Proto_ntp\<rparr>]"

end
