(* ===== verification/Management_Properties.thy ===== *)
theory Management_Properties
  imports Management Accounts Certificates Virtual_Media Network_Protocol Device_Properties
begin

text \<open>
  What the remaining devices show: roles, addresses, listening ports, names and usages of
  certificates, mounted images, the power of the host, the zones of the fan control.
\<close>

section \<open>Roles\<close>

definition role_of :: "string \<Rightarrow> (string \<times> string) option" where
  "role_of p = map_option (Pair p) (map_of privToRoles p)"

definition shows_role :: "entity_instance \<Rightarrow> string \<times> string \<Rightarrow> bool" where
  "shows_role r idn \<longleftrightarrow> getField ''Id'' r = Some (FString (fst idn)) \<and> getField ''Name'' r = Some (FString (snd idn)) \<and>
     (\<exists>ps. map_of role_privileges (snd idn) = Some ps \<and> getField ''Privileges'' r = Some (Ints (privsToList ps)))"

lemma role_instance_shown:
  assumes "map_of role_privileges name = Some ps"
  shows "\<exists>r. role_instance ident name = Inr r \<and> shows_role r (ident, name)"
  using assms by (simp add: role_instance_def setPrivileges_def with_value_def get_text_def get_as_def isNull_def
      getValue_def no_step_def shows_role_def)

lemma privToRoles_known: "map_of privToRoles p = Some name \<Longrightarrow> \<exists>ps. map_of role_privileges name = Some ps"
  by (auto simp: privToRoles_def role_privileges_def guestRoleName_def split: if_splits)

lemma roles_for_shown:
  "\<exists>rs. roles_for ps = Inr rs \<and> list_all2 shows_role rs (List.map_filter role_of ps)"
proof (induction ps)
  case Nil
  then show ?case by (simp add: List.map_filter_simps)
next
  case (Cons p ps)
  then obtain rs where rs: "roles_for ps = Inr rs" "list_all2 shows_role rs (List.map_filter role_of ps)" by blast
  show ?case
  proof (cases "map_of privToRoles p")
    case None
    then have "role_of p = None" by (simp add: role_of_def)
    with None rs show ?thesis by simp
  next
    case (Some name)
    with privToRoles_known [OF Some] role_instance_shown obtain r where
      "role_instance p name = Inr r" "shows_role r (p, name)" by blast
    moreover from Some have "role_of p = Some (p, name)" by (simp add: role_of_def)
    ultimately show ?thesis using Some rs by simp
  qed
qed

lemma roles_of_accounts_shown:
  assumes "list_all2 (\<lambda>a ps. get_as as_texts [] ''AllPrivileges'' a = Inr ps) accounts pss"
  shows "\<exists>rs. roles_of_accounts accounts = Inr rs \<and> list_all2 shows_role rs (List.map_filter role_of (concat pss))"
  using assms
proof (induction accounts pss rule: list_all2_induct)
  case Nil
  then show ?case by (simp add: List.map_filter_simps)
next
  case (Cons a as ps pss)
  then obtain rs where "roles_of_accounts as = Inr rs" "list_all2 shows_role rs (List.map_filter role_of (concat pss))" by blast
  moreover obtain qs where "roles_for ps = Inr qs" "list_all2 shows_role qs (List.map_filter role_of ps)"
    using roles_for_shown [of ps] by blast
  moreover have "List.map_filter role_of (ps @ concat pss) = List.map_filter role_of ps @ List.map_filter role_of (concat pss)"
    by (simp add: List.map_filter_def)
  ultimately show ?case using Cons.hyps(1) by (simp add: list_all2_appendI)
qed

definition sample_accounts :: entity_instance where
  "sample_accounts = \<lparr>identity = [], memberInstances =
     [(''AllPrivileges'', Some (Strings [''priv-admin'', ''priv-noaccess'', ''priv-user'']))], dbus = None\<rparr>"

text \<open>C40: The roles: of the privileges the accounts' settings name, in their order, those that stand for
  a role, and the guest behind them; each with the privileges of its name. No name is missing in
  the table of privileges, so \<open>map::at\<close> never throws.\<close>

theorem roles_listed:
  assumes "list_all2 (\<lambda>a ps. get_as as_texts [] ''AllPrivileges'' a = Inr ps) accounts pss"
  shows "\<exists>rs. roles accounts = Inr rs \<and>
    list_all2 shows_role rs (List.map_filter role_of (concat pss) @ [(guestRoleName, guestRoleName)])"
proof -
  obtain rs where rs: "roles_of_accounts accounts = Inr rs" "list_all2 shows_role rs (List.map_filter role_of (concat pss))"
    using roles_of_accounts_shown [OF assms] by blast
  have "map_of role_privileges guestRoleName = Some [Priv_noAuth]" by (simp add: role_privileges_def guestRoleName_def)
  from role_instance_shown [OF this] obtain g where g: "static_role = Inr g" "shows_role g (guestRoleName, guestRoleName)"
    by (auto simp: static_role_def)
  have "roles accounts = Inr (rs @ [g])" by (simp only: roles_def rs(1) g(1) sum.case map_sum.simps)
  moreover have "list_all2 shows_role (rs @ [g]) (List.map_filter role_of (concat pss) @ [(guestRoleName, guestRoleName)])"
    using rs(2) g(2) by (simp add: list_all2_appendI)
  ultimately show ?thesis by blast
qed

theorem roles_listed_witness:
  "\<exists>a b g. roles [sample_accounts] = Inr [a, b, g] \<and> getField ''Name'' a = Some (FString ''Administrator'') \<and>
     getField ''Name'' b = Some (FString ''ReadOnly'') \<and> getField ''Privileges'' g = Some (Ints [5])"
proof -
  have "list_all2 (\<lambda>a ps. get_as as_texts [] ''AllPrivileges'' a = Inr ps) [sample_accounts]
      [[''priv-admin'', ''priv-noaccess'', ''priv-user'']]"
    by (simp add: sample_accounts_def get_as_def getField_def isNull_def getValue_def)
  from roles_listed [OF this] obtain rs where rs: "roles [sample_accounts] = Inr rs"
    "list_all2 shows_role rs (List.map_filter role_of (concat [[''priv-admin'', ''priv-noaccess'', ''priv-user'']]) @
       [(guestRoleName, guestRoleName)])" by blast
  have "List.map_filter role_of (concat [[''priv-admin'', ''priv-noaccess'', ''priv-user'']]) =
      [(''priv-admin'', ''Administrator''), (''priv-user'', ''ReadOnly'')]"
    by (simp add: role_of_def privToRoles_def)
  with rs(2) obtain a b g where "rs = [a, b, g]" "shows_role a (''priv-admin'', ''Administrator'')"
      "shows_role b (''priv-user'', ''ReadOnly'')" "shows_role g (guestRoleName, guestRoleName)"
    by (auto simp: list_all2_Cons2)
  with rs(1) show ?thesis
    by (auto simp: shows_role_def role_privileges_def guestRoleName_def privsToList_def privileges_def)
qed

section \<open>Addresses\<close>

lemma ip_mask_set:
  assumes "getField ''Type'' i = Some (FInt32 (of_nat (position ip_types Ipv4)))"
    and "getField ''PrefixLength'' i = Some (FUint8 (of_nat n))" and "0 < n" "n \<le> 32"
  shows "setSubnetMask m i = (Inr (), put_field ''SubnetMask'' (FString (dotted (2 ^ 32 - 2 ^ (32 - n)))) i)"
proof -
  have "(ucast (of_nat n :: 8 word) :: 32 word) = of_nat n"
    using assms(4) by (simp add: unsigned_of_nat take_bit_nat_eq_self)
  then show ?thesis
    using assms(1,2) getNetmask_prefix [of n] assms(3,4)
    by (simp add: setSubnetMask_def with_value_def get_enum_def get_as_def isNull_def getValue_def)
qed

text \<open>An IPv4 address with a prefix from 1 to 32 shows the mask of that many ones, and a missing or
  empty gateway as all zeros.\<close>

theorem ip_fields_shown:
  assumes "getField ''Type'' i = Some (FInt32 (of_nat (position ip_types Ipv4)))"
    and "getField ''PrefixLength'' i = Some (FUint8 (of_nat n))" and "0 < n" "n \<le> 32"
    and "getField ''Gateway'' i = None \<or> getField ''Gateway'' i = Some (FString g)"
  shows "\<exists>j. ip_static_fields m i = (Inr (), j) \<and>
    getField ''SubnetMask'' j = Some (FString (dotted (2 ^ 32 - 2 ^ (32 - n)))) \<and>
    getField ''Gateway'' j = Some (FString (if getField ''Gateway'' i = None \<or> g = [] then ''0.0.0.0'' else g))"
  using assms(5) ip_mask_set [OF assms(1-4), of m]
  by (auto simp: ip_static_fields_def setGateway_def with_value_def get_text_def get_as_def isNull_def getValue_def no_step_def)

section \<open>Listening ports\<close>

lemma strtol_dec: "strtol10 (dec_nat n) = (if n < 2 ^ 63 then Some (int n) else None, [])"
proof -
  obtain c cs where d: "dec_nat n = c # cs" using dec_nat_nonempty [of n] by (cases "dec_nat n") auto
  have digits: "isdigit c" "\<forall>x \<in> set cs. isdigit x" using dec_nat_digits [of _ n] by (auto simp: d)
  then have "\<not> isspace c" "c \<noteq> CHR ''-''" "c \<noteq> CHR ''+''" by (auto simp: isdigit_def isspace_def)
  moreover have all: "takeWhile isdigit cs = cs" "dropWhile isdigit cs = []" using digits(2) by auto
  ultimately show ?thesis
    using digits(1) dec_value_dec_nat [of n] by (simp add: strtol10_def Let_def d all del: takeWhile_eq_all_conv dropWhile_eq_Nil_conv)
qed

lemma rfind_char_at: "c \<notin> set xs \<Longrightarrow> rfind_char c (ys @ c # xs) = Some (length ys)"
proof (induction ys)
  case Nil
  then have "rfind_char c xs = None" by (rule rfind_char_None [THEN iffD2])
  then show ?case by (simp del: rfind_char_None)
qed simp

text \<open>The port a socket listens on is read back from its address; a number of more than 16 bits is cut
  to its low bits.\<close>

theorem listen_port_read:
  assumes "n < 2 ^ 63"
  shows "listen_port (address @ '':'' @ dec_nat n) = Some (of_nat n)"
proof -
  have digits: "\<forall>x \<in> set (dec_nat n). isdigit x" using dec_nat_digits by auto
  then have "CHR '':'' \<notin> set (dec_nat n)" "CHR 0x00 \<notin> set (dec_nat n)" by (auto simp: isdigit_def)
  then have "rfind_char (CHR '':'') (address @ CHR '':'' # dec_nat n) = Some (length address)"
    "c_str (dec_nat n) = dec_nat n"
    by (simp_all add: rfind_char_at c_str_id)
  then show ?thesis
    using assms dec_nat_nonempty [of n] by (simp add: listen_port_def strtol_dec)
qed

section \<open>Names of certificates\<close>

definition keeps :: "string \<Rightarrow> instance_step \<Rightarrow> bool" where
  "keeps m f \<longleftrightarrow> (\<forall>i. \<exists>i'. f i = (Inr (), i') \<and> getField m i' = getField m i)"

lemma keeps_put: "m \<noteq> n \<Longrightarrow> keeps m (set_field n v)"
  by (simp add: keeps_def)

lemma keeps_none: "keeps m no_step"
  by (simp add: keeps_def no_step_def)

lemma keeps_pass: "keeps m f \<Longrightarrow> \<exists>i'. f i = (Inr (), i') \<and> getField m i' = getField m i"
  by (simp add: keeps_def)

lemma steps_pass:
  "(\<And>f. f \<in> set fs \<Longrightarrow> keeps m f) \<Longrightarrow> \<exists>i'. getField m i' = getField m i \<and> steps (fs @ gs) i = steps gs i'"
proof (induction fs arbitrary: i)
  case Nil
  then show ?case by auto
next
  case (Cons f fs)
  then have "keeps m f" by simp
  then obtain i1 where i1: "f i = (Inr (), i1)" "getField m i1 = getField m i" by (auto simp: keeps_def)
  obtain i' where "getField m i' = getField m i1" "steps (fs @ gs) i1 = steps gs i'"
    using Cons.IH [of i1] Cons.prems by auto
  with i1 show ?case by auto
qed

lemma keeps_steps: "(\<And>f. f \<in> set fs \<Longrightarrow> keeps m f) \<Longrightarrow> keeps m (steps fs)"
  using steps_pass [of fs m _ "[]"] by (auto simp: keeps_def no_step_def)

lemma keeps_set_entry:
  assumes "m \<notin> (\<lambda>kf. prefix @ snd kf) ` {kf \<in> set dictionary_of_names. fst kf \<notin> set list_keys}"
  shows "keeps m (set_entry prefix kv)"
proof (cases "map_of dictionary_of_names (fst kv)")
  case None
  then show ?thesis by (simp add: set_entry_def keeps_none)
next
  case (Some field)
  then have "(fst kv, field) \<in> set dictionary_of_names" by (rule map_of_SomeD)
  with assms have "fst kv \<notin> set list_keys \<Longrightarrow> m \<noteq> prefix @ field" by force
  with Some show ?thesis by (auto simp: set_entry_def keeps_none keeps_put)
qed

lemma set_list_cases:
  "set_list prefix entries dc = set_field (prefix @ ''DomainComponents'') (Strings (list_values entries dc))"
  "set_list prefix entries usage = setKeyUasge (list_values entries usage) prefix"
  "set_list prefix entries altName = set_field (prefix @ ''AdditionalCommonNames'') (Strings (list_values entries altName))"
  by (simp_all add: set_list_def dictionary_of_names_def dc_def usage_def altName_def)

lemma keeps_set_list:
  assumes "m \<noteq> prefix @ ''KeyUsage''" "m \<noteq> prefix @ ''DomainComponents''" "m \<noteq> prefix @ ''AdditionalCommonNames''"
    and "key \<in> set list_keys"
  shows "keeps m (set_list prefix entries key)"
proof -
  from assms(4) consider "key = dc" | "key = usage" | "key = altName" by (auto simp: list_keys_def)
  then show ?thesis by cases (simp_all add: set_list_cases setKeyUasge_def keeps_put assms(1-3))
qed

lemma issuer_keeps_subject: "keeps ''Subject'' (setCertificateData raw ''Issuer'')"
proof -
  have "keeps ''Subject'' (set_entry ''Issuer'' kv)" for kv by (rule keeps_set_entry) auto
  moreover have "keeps ''Subject'' (set_list ''Issuer'' entries key)" if "key \<in> set list_keys" for entries key
    using that by (rule keeps_set_list [rotated 3]) simp_all
  ultimately show ?thesis by (auto simp: setCertificateData_def Let_def intro!: keeps_steps)
qed

lemma subject_sets_usage:
  "\<exists>j. setCertificateData raw [] i = (Inr (), j) \<and>
     getField ''KeyUsage'' j = Some (Ints (usage_values ''KeyUsage'' (list_values (name_entries raw) usage)))"
proof -
  let ?es = "name_entries raw"
  have entry: "keeps ''KeyUsage'' (set_entry [] kv)" for kv
    by (rule keeps_set_entry) (auto simp: dictionary_of_names_def list_keys_def dc_def altName_def usage_def)
  have "\<exists>k. getField ''KeyUsage'' k = getField ''KeyUsage'' i \<and>
      steps (map (set_entry []) ?es @ map (set_list [] ?es) list_keys) i = steps (map (set_list [] ?es) list_keys) k"
    by (rule steps_pass) (auto intro: entry)
  then obtain k where "setCertificateData raw [] i = steps (map (set_list [] ?es) list_keys) k"
    by (auto simp: setCertificateData_def Let_def)
  then show ?thesis by (simp add: list_keys_def set_list_cases setKeyUasge_def no_step_def)
qed

text \<open>A certificate shows as usages of its key those the name of its subject lists, the known ones and
  the client's authentication for the others; what the service reported in \<open>KeyUsage\<close> is lost.\<close>

theorem key_usage_of_subject:
  assumes "getField ''Issuer'' i = Some (FString issuer)" and "getField ''Subject'' i = Some (FString subject)"
  shows "\<exists>j. certificate_static_fields p i = (Inr (), j) \<and>
    getField ''KeyUsage'' j = Some (Ints (usage_values ''KeyUsage'' (list_values (name_entries subject) usage)))"
proof -
  let ?i = "put_field ''Purpose'' (FInt32 (of_nat (position certificate_purposes p))) (put_field ''Id'' (FString (last_segment True i)) i)"
  obtain k where k: "setCertificateData issuer ''Issuer'' ?i = (Inr (), k)" "getField ''Subject'' k = Some (FString subject)"
    using keeps_pass [OF issuer_keeps_subject, of issuer ?i] assms(2) by auto
  obtain j where "setCertificateData subject [] k = (Inr (), j)"
    "getField ''KeyUsage'' j = Some (Ints (usage_values ''KeyUsage'' (list_values (name_entries subject) usage)))"
    using subject_sets_usage by blast
  with k assms show ?thesis
    by (simp add: certificate_static_fields_def certificate_setId_def setPurpose_def set_enum_def with_value_def get_text_def get_as_def
        isNull_def getValue_def no_step_def)
qed

definition sample_certificate :: entity_instance where
  "sample_certificate = \<lparr>identity = [], memberInstances =
     [(''Issuer'', Some (FString ''CN=ca'')), (''KeyUsage'', Some (Strings [''DigitalSignature''])),
      (''Subject'', Some (FString ''CN=bmc,extendedKeyUsage=CodeSigning,extendedKeyUsage=OCSPSigning''))], dbus = None\<rparr>"

text \<open>\<open>CodeSigning\<close> is 11; \<open>OCSPSigning\<close> is not known and becomes 10.\<close>

theorem key_usage_of_subject_witness:
  "\<exists>j. certificate_static_fields Cert_https sample_certificate = (Inr (), j) \<and> getField ''KeyUsage'' j = Some (Ints [11, 10])"
proof -
  have "usage_values ''KeyUsage'' (list_values (name_entries
      ''CN=bmc,extendedKeyUsage=CodeSigning,extendedKeyUsage=OCSPSigning'') usage) = [11, 10]"
    by code_simp
  moreover have "getField ''Issuer'' sample_certificate = Some (FString ''CN=ca'')"
    "getField ''Subject'' sample_certificate = Some (FString ''CN=bmc,extendedKeyUsage=CodeSigning,extendedKeyUsage=OCSPSigning'')"
    by (simp_all add: sample_certificate_def getField_def)
  ultimately show ?thesis using key_usage_of_subject by metis
qed

section \<open>Images\<close>

text \<open>A legacy mount shows the name of its image never: with an address the name is left alone, without
  one it is made of the text for a missing value.\<close>

theorem legacy_image_name:
  assumes "get_device i = Inr (device_code Vm_legacy)" and "url \<noteq> []"
  shows "getField ''ImageURL'' i = Some (FString url) \<Longrightarrow> setImageName i = (Inr (), i)"
    and "getField ''ImageURL'' i = None \<Longrightarrow>
      setImageName i = (Inr (), put_field ''ExportName'' (FString (getNameFromLastSegmentObjectPath fieldValueNotAvailable False)) i)"
  using assms by (simp_all add: setImageName_def with_value_def get_image_def get_text_def get_as_def isNull_def getValue_def
      no_step_def fieldValueNotAvailable_def)

section \<open>Power and zones\<close>

text \<open>Of a host that runs, is quiesced or in diagnostics the power is on; for every other state it is off.\<close>

theorem host_power_shown:
  "\<exists>j. setStatusPower i = (Inr (), j) \<and>
    getField ''PowerState'' j = Some (FString (if getStringValue (getField metaStatus i) \<in>
       {hostInterfaceName @ ''.HostState.'' @ s | s. s \<in> {''Running'', ''Quiesced'', ''DiagnosticMode''}} then ''On'' else ''Off''))"
  by (auto simp: setStatusPower_def hostStates_def no_step_def Let_def)

text \<open>The rule that leads from a zone to its controllers is used for the other way too; there the zone has
  no member with zones, so no zone is ever related to a controller.\<close>

theorem no_zone_of_controller:
  assumes "\<not> hasField ''Zones'' zone"
  shows "\<not> in_zone (Some (getField ''Zones'' zone)) v"
proof -
  have "getField ''Zones'' zone = None" using assms by (auto simp: getField_def hasField_def split: option.splits)
  then show ?thesis by (simp add: in_zone_def getValue_def isNull_def split: field_value.split)
qed

end
