(* ===== verification/Guards.thy ===== *)
theory Guards
  imports Prelude
begin

text \<open>
  The two spin locks of the D-Bus side: \<open>DBusCallGuard\<close> (\<open>src/core/connect/dbus_connect.hpp\<close>),
  which every use of the connection passes, and \<open>instanceAccessGuard\<close>
  (\<open>src/core/entity/dbus_query.hpp\<close>), around the tables of watchers. Both hold the identity of
  the thread inside, \<open>thread::id (0)\<close> (here \<open>None\<close>) when there is none, and let that thread enter
  again. The threads take their steps in any order; the order of memory accesses is that of the
  steps.
\<close>

section \<open>The code\<close>

text \<open>\<open>compare_exchange_strong\<close>: success, what is left in \<open>expected\<close>, and the new value.\<close>

definition compare_exchange :: "'a \<Rightarrow> 'a \<Rightarrow> 'a \<Rightarrow> bool \<times> 'a \<times> 'a" where
  "compare_exchange expected desired value =
     (if value = expected then (True, expected, desired) else (False, value, value))"

text \<open>One turn of a loop that takes a lock: in, with whether the lock was taken, or once more.\<close>

datatype turn = Entered bool | Waits

definition isSameThread :: "'t option \<Rightarrow> 't option \<Rightarrow> bool" where
  "isSameThread captured current = fst (compare_exchange current captured captured)"

definition new_DBusCallGuard :: "nat \<Rightarrow> unit may_throw" where
  "new_DBusCallGuard priority =
     (if priority = 0 then Inl (Logic_error ''Priority cannot be zero'') else Inr ())"

definition call_turn :: "'t \<Rightarrow> 't option \<Rightarrow> turn \<times> 't option" where
  "call_turn current captured =
     (case compare_exchange None (Some current) captured of
        (True, _, captured') \<Rightarrow> (Entered True, captured')
      | (False, vocation, captured') \<Rightarrow>
          (if isSameThread vocation (Some current) then (Entered False, captured') else (Waits, captured')))"

text \<open>The destructor, also of a guard whose operation throws.\<close>

definition destroy_DBusCallGuard :: "bool \<Rightarrow> 't option \<Rightarrow> 't option" where
  "destroy_DBusCallGuard calledUnsafe captured = (if calledUnsafe then captured else None)"

definition call_leave :: "bool \<Rightarrow> 't option \<Rightarrow> 't option" where
  "call_leave took = destroy_DBusCallGuard (\<not> took)"

definition instanceAccessGuardLock_turn :: "'t \<Rightarrow> 't option \<Rightarrow> turn \<times> 't option" where
  "instanceAccessGuardLock_turn current holder =
     (case compare_exchange None (Some current) holder of
        (True, _, holder') \<Rightarrow> (Entered True, holder')
      | (False, vocation, holder') \<Rightarrow>
          (if vocation = Some current then (Entered False, holder') else (Waits, holder')))"

definition instanceAccessGuardUnlock :: "'t option \<Rightarrow> 't option" where
  "instanceAccessGuardUnlock holder = None"

text \<open>\<open>if (isLocked) instanceAccessGuardUnlock ()\<close>\<close>

definition instance_leave :: "bool \<Rightarrow> 't option \<Rightarrow> 't option" where
  "instance_leave isLocked holder = (if isLocked then instanceAccessGuardUnlock holder else holder)"

section \<open>Threads\<close>

text \<open>The sections a thread is in, the innermost first, each with whether it took the lock; and the
  threads that wait.\<close>

record 't guard_state =
  holder :: "'t option"
  sections :: "'t \<Rightarrow> bool list"
  waiting :: "'t set"

definition free_guard :: "'t guard_state" where
  "free_guard = \<lparr>holder = None, sections = (\<lambda>_. []), waiting = {}\<rparr>"

definition entered :: "'t \<Rightarrow> bool \<Rightarrow> 't option \<Rightarrow> 't guard_state \<Rightarrow> 't guard_state" where
  "entered t took h s =
     s\<lparr>holder := h, sections := (sections s)(t := took # sections s t), waiting := waiting s - {t}\<rparr>"

definition left :: "(bool \<Rightarrow> 't option \<Rightarrow> 't option) \<Rightarrow> 't \<Rightarrow> 't guard_state \<Rightarrow> 't guard_state" where
  "left leave t s =
     s\<lparr>holder := leave (hd (sections s t)) (holder s), sections := (sections s)(t := tl (sections s t))\<rparr>"

inductive guard_step ::
    "('t \<Rightarrow> 't option \<Rightarrow> turn \<times> 't option) \<Rightarrow> (bool \<Rightarrow> 't option \<Rightarrow> 't option) \<Rightarrow>
     't guard_state \<Rightarrow> 't guard_state \<Rightarrow> bool" for turns leave where
  enter: "turns t (holder s) = (Entered took, h) \<Longrightarrow> guard_step turns leave s (entered t took h s)"
| wait: "turns t (holder s) = (Waits, h) \<Longrightarrow> guard_step turns leave s (s\<lparr>holder := h, waiting := insert t (waiting s)\<rparr>)"
| leave: "sections s t \<noteq> [] \<Longrightarrow> t \<notin> waiting s \<Longrightarrow> guard_step turns leave s (left leave t s)"

inductive_cases guard_stepE: "guard_step turns leave s s'"

definition inside :: "'t \<Rightarrow> 't guard_state \<Rightarrow> bool" where
  "inside t s \<longleftrightarrow> sections s t \<noteq> []"

text \<open>The thread that is inside is the one the lock names, and only its outermost section took the
  lock.\<close>

definition guard_ok :: "'t guard_state \<Rightarrow> bool" where
  "guard_ok s \<longleftrightarrow>
     (\<forall>t. (if holder s = Some t then \<exists>n. sections s t = replicate n False @ [True] else sections s t = [])) \<and>
     (\<forall>t \<in> waiting s. sections s t = [])"

lemma guard_ok_holder: "guard_ok s \<Longrightarrow> holder s = Some t \<Longrightarrow> \<exists>n. sections s t = replicate n False @ [True]"
  by (simp add: guard_ok_def split: if_splits)

lemma guard_ok_other: "guard_ok s \<Longrightarrow> holder s \<noteq> Some t \<Longrightarrow> sections s t = []"
  by (simp add: guard_ok_def)

lemma guard_ok_waiting: "guard_ok s \<Longrightarrow> t \<in> waiting s \<Longrightarrow> sections s t = []"
  by (simp add: guard_ok_def)

lemma guard_ok_free: "guard_ok free_guard"
  by (simp add: guard_ok_def free_guard_def)

lemma guard_ok_inside: "guard_ok s \<Longrightarrow> inside t s \<longleftrightarrow> holder s = Some t"
  using guard_ok_holder [of s t] guard_ok_other [of s t] by (auto simp: inside_def)

text \<open>Steps of one thread out of its sections.\<close>

definition leaves ::
    "('t \<Rightarrow> 't option \<Rightarrow> turn \<times> 't option) \<Rightarrow> (bool \<Rightarrow> 't option \<Rightarrow> 't option) \<Rightarrow> 't \<Rightarrow>
     't guard_state \<Rightarrow> 't guard_state \<Rightarrow> bool" where
  "leaves turns leave u s s' \<longleftrightarrow> guard_step turns leave s s' \<and> s' = left leave u s"

section \<open>The interface\<close>

text \<open>A lock its holder may take again.\<close>

locale reentrant_lock =
  fixes turns :: "'t \<Rightarrow> 't option \<Rightarrow> turn \<times> 't option"
    and leave :: "bool \<Rightarrow> 't option \<Rightarrow> 't option"
  assumes take_free: "turns t None = (Entered True, Some t)"
    and take_own: "turns t (Some t) = (Entered False, Some t)"
    and take_other: "u \<noteq> t \<Longrightarrow> turns t (Some u) = (Waits, Some u)"
    and leave_outer: "leave True h = None"
    and leave_inner: "leave False h = h"
begin

lemma turns_cases:
  "turns t h = (case h of None \<Rightarrow> (Entered True, Some t)
     | Some u \<Rightarrow> if u = t then (Entered False, Some t) else (Waits, Some u))"
  by (auto simp: take_free take_own take_other split: option.split)

lemma entered_ok:
  assumes "guard_ok s" "turns t (holder s) = (Entered took, h)"
  shows "guard_ok (entered t took h s)"
proof (cases "holder s")
  case None
  with assms(2) have [simp]: "took" "h = Some t" by (auto simp: turns_cases)
  from None guard_ok_other [OF assms(1)] have "sections s u = []" for u by simp
  then show ?thesis by (auto simp: guard_ok_def entered_def intro: exI [of _ 0])
next
  case (Some u)
  with assms(2) have [simp]: "u = t" "\<not> took" "h = Some t" by (auto simp: turns_cases split: if_splits)
  obtain n where "sections s t = replicate n False @ [True]" using guard_ok_holder [OF assms(1)] Some by auto
  then have "took # sections s t = replicate (Suc n) False @ [True]" by simp
  moreover have "sections s v = []" if "v \<noteq> t" for v using guard_ok_other [OF assms(1), of v] that Some by simp
  moreover have "sections s v = []" if "v \<in> waiting s" for v using guard_ok_waiting [OF assms(1) that] .
  ultimately show ?thesis by (auto simp: guard_ok_def entered_def intro: exI [of _ "Suc n"])
qed

lemma left_sections:
  assumes "holder s = Some t" "sections s t = replicate n False @ [True]"
  shows "left leave t s = (case n of 0 \<Rightarrow> s\<lparr>holder := None, sections := (sections s)(t := [])\<rparr>
    | Suc m \<Rightarrow> s\<lparr>sections := (sections s)(t := replicate m False @ [True])\<rparr>)"
  using assms by (cases n) (simp_all add: left_def leave_outer leave_inner)

lemma left_ok:
  assumes "guard_ok s" "sections s t \<noteq> []"
  shows "guard_ok (left leave t s)"
proof -
  have h: "holder s = Some t" using guard_ok_other [OF assms(1)] assms(2) by blast
  obtain n where n: "sections s t = replicate n False @ [True]" using guard_ok_holder [OF assms(1) h] by blast
  have "sections s v = []" if "v \<noteq> t" for v using guard_ok_other [OF assms(1), of v] that h by simp
  moreover have "v \<noteq> t" if "v \<in> waiting s" for v using guard_ok_waiting [OF assms(1) that] assms(2) by blast
  ultimately show ?thesis using h by (auto simp: left_sections [OF h n] guard_ok_def split: nat.split)
qed

lemma step_keeps: "guard_step turns leave s s' \<Longrightarrow> guard_ok s \<Longrightarrow> guard_ok s'"
proof (erule guard_stepE)
  fix t h assume "s' = s\<lparr>holder := h, waiting := insert t (waiting s)\<rparr>" "turns t (holder s) = (Waits, h)" "guard_ok s"
  moreover from this obtain u where "holder s = Some u" "u \<noteq> t" "h = Some u"
    by (auto simp: turns_cases split: option.splits if_splits)
  ultimately show "guard_ok s'" by (auto simp: guard_ok_def)
qed (simp_all add: entered_ok left_ok)

lemma reachable_guarded: "(guard_step turns leave)\<^sup>*\<^sup>* free_guard s \<Longrightarrow> guard_ok s"
  by (induction rule: rtranclp_induct) (auto intro: step_keeps guard_ok_free)

lemma one_inside: "(guard_step turns leave)\<^sup>*\<^sup>* free_guard s \<Longrightarrow> inside t s \<Longrightarrow> inside u s \<Longrightarrow> t = u"
  using guard_ok_inside [OF reachable_guarded] by fastforce

lemma enters_again: "guard_ok s \<Longrightarrow> inside t s \<Longrightarrow> guard_step turns leave s (entered t False (Some t) s)"
  by (rule guard_step.enter) (simp add: guard_ok_inside take_own)

text \<open>The holder gets out by leaving its sections.\<close>

lemma holder_leaves:
  assumes "guard_ok s" "holder s = Some u" "sections s u = replicate n False @ [True]"
  shows "(leaves turns leave u)\<^sup>*\<^sup>* s (s\<lparr>holder := None, sections := (sections s)(u := [])\<rparr>)"
  using assms
proof (induction n arbitrary: s)
  case 0
  then have "u \<notin> waiting s" using guard_ok_waiting [of s u] by auto
  with 0 have "leaves turns leave u s (left leave u s)" by (auto simp: leaves_def intro: guard_step.leave)
  moreover have "left leave u s = s\<lparr>holder := None, sections := (sections s)(u := [])\<rparr>"
    using left_sections [OF 0(2,3)] by simp
  ultimately show ?case by (metis r_into_rtranclp)
next
  case (Suc n)
  then have "u \<notin> waiting s" using guard_ok_waiting [of s u] by auto
  with Suc.prems have out: "leaves turns leave u s (left leave u s)" by (auto simp: leaves_def intro: guard_step.leave)
  have l: "left leave u s = s\<lparr>sections := (sections s)(u := replicate n False @ [True])\<rparr>"
    using left_sections [OF Suc.prems(2,3)] by simp
  have "guard_ok (left leave u s)" using left_ok [OF Suc.prems(1)] Suc.prems(3) by simp
  then have rest: "(leaves turns leave u)\<^sup>*\<^sup>* (left leave u s)
      ((left leave u s)\<lparr>holder := None, sections := (sections (left leave u s))(u := [])\<rparr>)"
    by (rule Suc.IH) (simp_all add: l Suc.prems)
  have "(left leave u s)\<lparr>holder := None, sections := (sections (left leave u s))(u := [])\<rparr> =
      s\<lparr>holder := None, sections := (sections s)(u := [])\<rparr>" by (simp add: l)
  from out rest [unfolded this] show ?case by (rule converse_rtranclp_into_rtranclp)
qed

lemma gets_in:
  assumes "(guard_step turns leave)\<^sup>*\<^sup>* free_guard s" and "holder s \<noteq> Some t"
  shows "\<exists>u s1. (leaves turns leave u)\<^sup>*\<^sup>* s s1 \<and> guard_step turns leave s1 (entered t True (Some t) s1)"
proof -
  have ok: "guard_ok s" using reachable_guarded [OF assms(1)] .
  show ?thesis
  proof (cases "holder s")
    case None
    then have "guard_step turns leave s (entered t True (Some t) s)" by (intro guard_step.enter) (simp add: take_free)
    then show ?thesis by blast
  next
    case (Some u)
    then obtain n where "sections s u = replicate n False @ [True]" using guard_ok_holder [OF ok] by blast
    from holder_leaves [OF ok Some this] obtain s1 where s1: "(leaves turns leave u)\<^sup>*\<^sup>* s s1" "holder s1 = None" by force
    then have "guard_step turns leave s1 (entered t True (Some t) s1)" by (intro guard_step.enter) (simp add: take_free)
    with s1 show ?thesis by blast
  qed
qed

end

section \<open>The two locks\<close>

interpretation call_guard: reentrant_lock call_turn call_leave
  by unfold_locales
    (auto simp: call_turn_def compare_exchange_def isSameThread_def call_leave_def destroy_DBusCallGuard_def)

interpretation instance_guard: reentrant_lock instanceAccessGuardLock_turn instance_leave
  by unfold_locales
    (auto simp: instanceAccessGuardLock_turn_def compare_exchange_def instance_leave_def instanceAccessGuardUnlock_def)

text \<open>C28: at most one thread is inside the guard of the D-Bus connection, in whatever order the threads
  take their steps, however deep the calls are nested and whether they end or throw; a thread that
  is inside enters again without waiting.\<close>

theorem one_thread_calls:
  assumes "(guard_step call_turn call_leave)\<^sup>*\<^sup>* free_guard s" and "inside t s"
  shows "(\<forall>u. inside u s \<longrightarrow> u = t) \<and> guard_step call_turn call_leave s (entered t False (Some t) s)"
  using call_guard.one_inside [OF assms(1,2)] call_guard.enters_again [OF call_guard.reachable_guarded [OF assms(1)] assms(2)]
  by blast

theorem one_thread_calls_witness:
  "\<exists>s. inside (1::nat) s \<and> sections s 1 = [False, True] \<and> waiting s = {2} \<and>
     (\<forall>u. inside u s \<longrightarrow> u = 1) \<and> guard_step call_turn call_leave s (entered 1 False (Some 1) s)"
proof -
  let ?R = "guard_step call_turn call_leave"
  let ?a = "entered (1::nat) True (Some 1) free_guard"
  let ?b = "?a\<lparr>holder := Some 1, waiting := insert 2 (waiting ?a)\<rparr>"
  let ?c = "entered 1 False (Some 1) ?b"
  have "?R free_guard ?a" by (rule guard_step.enter) (simp add: free_guard_def call_guard.take_free)
  moreover have "?R ?a ?b" by (rule guard_step.wait) (simp add: entered_def call_guard.take_other)
  moreover have "?R ?b ?c" by (rule guard_step.enter) (simp add: call_guard.take_own)
  ultimately have "?R\<^sup>*\<^sup>* free_guard ?c" by (meson converse_rtranclp_into_rtranclp rtranclp.rtrancl_refl)
  moreover have "inside 1 ?c" "sections ?c 1 = [False, True]" "waiting ?c = {2}"
    by (auto simp: inside_def entered_def free_guard_def)
  ultimately show ?thesis using one_thread_calls [of ?c 1] by blast
qed

text \<open>C27: no thread is kept out of the watchers' tables: whatever the threads did, when the one inside
  leaves its sections, every other thread gets in with its next turn, and has taken the lock.\<close>

theorem every_thread_gets_in:
  assumes "(guard_step instanceAccessGuardLock_turn instance_leave)\<^sup>*\<^sup>* free_guard s" and "\<not> inside t s"
  shows "\<exists>u s1. (leaves instanceAccessGuardLock_turn instance_leave u)\<^sup>*\<^sup>* s s1 \<and>
    guard_step instanceAccessGuardLock_turn instance_leave s1 (entered t True (Some t) s1) \<and>
    inside t (entered t True (Some t) s1)"
proof -
  have "holder s \<noteq> Some t" using assms guard_ok_inside [OF instance_guard.reachable_guarded [OF assms(1)], of t] by blast
  from instance_guard.gets_in [OF assms(1) this] show ?thesis by (auto simp: inside_def entered_def)
qed

theorem every_thread_gets_in_witness:
  "\<exists>s u s1. inside (1::nat) s \<and> \<not> inside 2 s \<and> (leaves instanceAccessGuardLock_turn instance_leave u)\<^sup>*\<^sup>* s s1 \<and>
     guard_step instanceAccessGuardLock_turn instance_leave s1 (entered 2 True (Some 2) s1)"
proof -
  let ?R = "guard_step instanceAccessGuardLock_turn instance_leave"
  let ?a = "entered (1::nat) True (Some 1) free_guard"
  have "?R free_guard ?a" by (rule guard_step.enter) (simp add: free_guard_def instance_guard.take_free)
  then have "?R\<^sup>*\<^sup>* free_guard ?a" by blast
  moreover have "inside 1 ?a" "\<not> inside 2 ?a" by (auto simp: inside_def entered_def free_guard_def)
  ultimately show ?thesis using every_thread_gets_in [of ?a 2] by blast
qed

end
