(* ===== verification/Dbus_Calls.thy ===== *)
theory Dbus_Calls
  imports Dbus_Connect Guards
begin

text \<open>
  Calls on the connection of \<open>src/core/connect/dbus_connect.{hpp,cpp}\<close>, which pass the lock of
  \<open>Guards\<close>, and its life: it is opened, observed by a thread, and destroyed, which stops that thread.
  What sdbusplus answers is a parameter.
\<close>

section \<open>Calls\<close>

text \<open>An operation behind a \<open>DBusCallGuard\<close>, for a thread that finds the lock as it is: \<open>None\<close> when
  another thread is inside and this one goes on waiting. The destructor of the guard gives the lock
  back, also when the operation throws.\<close>

type_synonym 'a bus_op = "bus_link \<Rightarrow> 'a may_throw \<times> bus_link"

definition guarded :: "nat \<Rightarrow> 't \<Rightarrow> 'a bus_op \<Rightarrow> 't option \<times> bus_link \<Rightarrow> ('a may_throw \<times> 't option \<times> bus_link) option" where
  "guarded priority t operation = (\<lambda>(captured, b).
     (case new_DBusCallGuard priority of
        Inl e \<Rightarrow> Some (Inl e, captured, b)
      | Inr _ \<Rightarrow>
          (case call_turn t captured of
             (Waits, _) \<Rightarrow> None
           | (Entered took, captured') \<Rightarrow>
               (let (r, b') = operation b in Some (r, call_leave took captured', b')))))"

text \<open>What a service answers to a method with its arguments, read as the type the caller wants.\<close>

type_synonym ('x, 'r) bus_service = "string \<Rightarrow> string \<Rightarrow> string \<Rightarrow> string \<Rightarrow> 'x list \<Rightarrow> 'r may_throw"

definition callMethodAndReadUnsafe ::
    "('x, 'r) bus_service \<Rightarrow> string \<Rightarrow> string \<Rightarrow> string \<Rightarrow> string \<Rightarrow> 'x list \<Rightarrow> 'r bus_op" where
  "callMethodAndReadUnsafe service busName path iface method args b =
     (case getConnect b of
        Inl e \<Rightarrow> (Inl e, b)
      | Inr _ \<Rightarrow> (service busName path iface method args, b))"

definition callMethodAndRead ::
    "('x, 'r) bus_service \<Rightarrow> string \<Rightarrow> string \<Rightarrow> string \<Rightarrow> string \<Rightarrow> 'x list \<Rightarrow> 't \<Rightarrow>
     't option \<times> bus_link \<Rightarrow> ('r may_throw \<times> 't option \<times> bus_link) option" where
  "callMethodAndRead service busName path iface method args t =
     guarded 1 t (callMethodAndReadUnsafe service busName path iface method args)"

text \<open>Nothing is read here, and there is no guard.\<close>

definition callMethod ::
    "('x, unit) bus_service \<Rightarrow> string \<Rightarrow> string \<Rightarrow> string \<Rightarrow> string \<Rightarrow> 'x list \<Rightarrow> unit bus_op" where
  "callMethod service busName path iface method args b =
     (case getConnect b of
        Inl e \<Rightarrow> (Inl e, b)
      | Inr _ \<Rightarrow> (service busName path iface method args, b))"

text \<open>A match rule with its handler; sdbusplus throws when the bus does not accept it.\<close>

definition createWatcher ::
    "(string \<Rightarrow> unit may_throw) \<Rightarrow> string \<Rightarrow> 'h \<Rightarrow> 't \<Rightarrow> 't option \<times> bus_link \<Rightarrow>
     ((string \<times> 'h) may_throw \<times> 't option \<times> bus_link) option" where
  "createWatcher add_match rule handler t = guarded 5 t (\<lambda>b.
     (case getConnect b of
        Inl e \<Rightarrow> (Inl e, b)
      | Inr _ \<Rightarrow> (map_sum id (\<lambda>_. (rule, handler)) (add_match rule), b)))"

text \<open>The lock is as it was before, whatever the operation does.\<close>

lemma guarded_lock:
  assumes "guarded priority t operation (captured, b) = Some (r, captured', b')"
  shows "captured' = captured \<and> (priority \<noteq> 0 \<longrightarrow> (captured = None \<or> captured = Some t) \<and> (r, b') = operation b)"
proof (cases "priority = 0")
  case False
  then show ?thesis
    using assms call_guard.leave_outer [where h = "Some t"] call_guard.leave_inner [where h = "Some t"]
    by (cases captured)
       (auto simp: guarded_def new_DBusCallGuard_def call_guard.turns_cases split: prod.splits if_splits)
qed (use assms in \<open>simp add: guarded_def new_DBusCallGuard_def\<close>)

lemma guarded_waits:
  "guarded priority t operation (captured, b) = None \<longleftrightarrow> priority \<noteq> 0 \<and> (\<exists>u. captured = Some u \<and> u \<noteq> t)"
  by (cases captured) (auto simp: guarded_def new_DBusCallGuard_def call_guard.turns_cases split: prod.splits)

text \<open>So a call within a call goes through.\<close>

lemma guarded_nested:
  assumes "captured = None \<or> captured = Some t"
  shows "\<exists>r b'. callMethodAndRead service busName path iface method args t (captured, b) = Some (r, captured, b')"
proof -
  have "callMethodAndRead service busName path iface method args t (captured, b) \<noteq> None"
    using assms by (auto simp: callMethodAndRead_def guarded_waits)
  then obtain x where x: "guarded 1 t (callMethodAndReadUnsafe service busName path iface method args) (captured, b) = Some x"
    unfolding callMethodAndRead_def by blast
  obtain r c b' where rcb: "x = (r, c, b')" by (cases x)
  from guarded_lock [OF x [unfolded rcb]] x rcb show ?thesis by (simp add: callMethodAndRead_def)
qed

section \<open>The life of the connection\<close>

text \<open>The flag and the thread the observer runs on: \<open>thread\<close> is whether there is one to join.\<close>

record bus_thread =
  link :: bus_link
  alive :: bool
  joinable :: bool

definition new_bus_thread :: bus_thread where
  "new_bus_thread = \<lparr>link = new_DBusConnect, alive = False, joinable = False\<rparr>"

text \<open>The assignment destroys a thread that was there; one that can be joined ends the program, which is
  \<open>None\<close>.\<close>

definition DBusConnect_run :: "bus_thread \<Rightarrow> bus_thread option" where
  "DBusConnect_run c = (if joinable c then None else Some (c\<lparr>alive := True, joinable := True\<rparr>))"

text \<open>\<open>join\<close> waits for the end of the observer, which is not there yet when its turns so far, and one
  more that finds the flag cleared, do not end it: \<open>None\<close>.\<close>

definition DBusConnect_terminate :: "(bool \<times> bus_turn) list \<Rightarrow> bus_thread \<Rightarrow> bus_thread option" where
  "DBusConnect_terminate turns c =
     (let c1 = c\<lparr>alive := False\<rparr>
      in if joinable c
         then (if observe (turns @ [(alive c1, Served)]) = Observes then None else Some (c1\<lparr>joinable := False\<rparr>))
         else Some c1)"

definition destroy_DBusConnect :: "(bool \<times> bus_turn) list \<Rightarrow> bus_thread \<Rightarrow> bus_thread option" where
  "destroy_DBusConnect turns c =
     map_option (\<lambda>c1. c1\<lparr>link := snd (disconnect (link c1))\<rparr>) (DBusConnect_terminate turns c)"

text \<open>\<open>createDbusConnection\<close> of a build for the system bus.\<close>

definition createDbusConnection :: "int \<Rightarrow> (int \<Rightarrow> string) \<Rightarrow> bus_names \<Rightarrow> bus_thread may_throw" where
  "createDbusConnection code strerror bus =
     (case connect code strerror bus (link new_bus_thread) of
        (Inl e, _) \<Rightarrow> Inl e
      | (Inr _, b) \<Rightarrow> Inr (new_bus_thread\<lparr>link := b\<rparr>))"

text \<open>\<open>RemoteHostDbusConnect::connect\<close>, with what \<open>sd_bus_open_system_remote\<close> returns for the host.\<close>

definition RemoteHost_connect :: "(string \<Rightarrow> int) \<Rightarrow> (int \<Rightarrow> string) \<Rightarrow> bus_names \<Rightarrow> string \<Rightarrow> bus_link \<Rightarrow> unit may_throw \<times> bus_link" where
  "RemoteHost_connect open_remote strerror bus hostname b =
     (if open_remote hostname < 0
      then (Inl (Runtime_error (''Can'' @ [CHR 0x27] @ ''t establish dbus connection: '' @ strerror (- open_remote hostname))), b)
      else initSdBusConnection bus (b\<lparr>bus_opened := True\<rparr>))"

text \<open>The observer ends once the flag is cleared.\<close>

lemma observe_ends: "observe (turns @ [(False, turn)]) \<noteq> Observes"
  by (induction turns rule: observe.induct) (auto split: bus_turn.splits)

lemma connection_destroyed:
  "\<exists>c'. destroy_DBusConnect turns c = Some c' \<and> \<not> alive c' \<and> \<not> joinable c' \<and> getConnect (link c') \<noteq> Inr ()"
  using observe_ends [of turns Served]
  by (auto simp: destroy_DBusConnect_def DBusConnect_terminate_def disconnect_def getConnect_def Let_def)

end
