(* ===== verification/Startup.thy ===== *)
theory Startup
  imports Graphql Redfish_Node
begin

text \<open>
  The start of the program: \<open>src/core/application.cpp\<close> and \<open>src/routes.cpp\<close>. The application
  waits for the board to boot, registers its routes, connects to D-Bus, builds the entities, lets
  another thread observe the signals, and waits until the three base entities have instances. A
  file guards the time between the connection and the end of the initialization.
  What the file system and the bus answer, the constructors of the entities, and what the observing
  thread does between two looks at the entities, are parameters; a loop that never ends is
  \<open>None\<close>.
\<close>

record boot_env =
  booting :: "nat \<Rightarrow> bool"
  guard_file :: string
  guard_directory :: bool
  bus_connection :: "unit may_throw"
  construct :: "string \<Rightarrow> entity"
  bus_at :: "nat \<Rightarrow> entity_env"
  observed :: "nat \<Rightarrow> entity_world \<Rightarrow> entity_world"

record 'a application =
  visitors :: visitor_dict
  app_routes :: "'a routes"
  connected :: bool
  init_guard :: bool
  observing :: bool
  sigint_handled :: bool
  app_world :: entity_world

type_synonym 'a boot_step = "'a application \<Rightarrow> (unit may_throw \<times> 'a application) option"

definition done_step :: "('a application \<Rightarrow> 'a application) \<Rightarrow> 'a boot_step" where
  "done_step f a = Some (Inr (), f a)"

primrec boot_steps :: "'a boot_step list \<Rightarrow> 'a boot_step" where
  "boot_steps [] a = Some (Inr (), a)"
| "boot_steps (f # gs) a =
     (case f a of
        None \<Rightarrow> None
      | Some (Inl e, a') \<Rightarrow> Some (Inl e, a')
      | Some (Inr _, a') \<Rightarrow> boot_steps gs a')"

definition on_app_world :: "unit act \<Rightarrow> 'a boot_step" where
  "on_app_world m a = map_option (\<lambda>(r, w). (r, a\<lparr>app_world := w\<rparr>)) (m (app_world a))"

section \<open>Waiting for the board\<close>

text \<open>The number of the look that finds no file.\<close>

partial_function (option) looks_until :: "(nat \<Rightarrow> bool) \<Rightarrow> nat \<Rightarrow> nat option" where
  "looks_until there k = (if there k then looks_until there (Suc k) else Some k)"

definition waitBootingBmc :: "boot_env \<Rightarrow> 'a boot_step" where
  "waitBootingBmc be a = map_option (\<lambda>_. (Inr (), a)) (looks_until (booting be) 0)"

section \<open>Routes\<close>

definition registerAllRoutes ::
    "(string \<Rightarrow> nat) \<Rightarrow> (string \<Rightarrow> 'a handler) \<Rightarrow> (session_request \<Rightarrow> 'a handler) \<Rightarrow> 'a boot_step" where
  "registerAllRoutes hash graphql redfish a =
     (let a1 = a\<lparr>visitors := registerGqlVisitors (visitors a)\<rparr>
      in case registerUri hash ''/api/graphql/'' graphql (app_routes a1) of
           Inl e \<Rightarrow> Some (Inl e, a1)
         | Inr rs \<Rightarrow>
             (case registerDynamicUri searchRouteHandler redfish rs of
                Inl e \<Rightarrow> Some (Inl e, a1\<lparr>app_routes := rs\<rparr>)
              | Inr rs' \<Rightarrow> Some (Inr (), a1\<lparr>app_routes := rs'\<rparr>)))"

section \<open>The guard file\<close>

text \<open>In a directory that is there the file can be created.\<close>

definition createInitGuardFile :: "boot_env \<Rightarrow> 'a boot_step" where
  "createInitGuardFile be a =
     (if \<not> guard_directory be
      then Some (Inl (Runtime_error (''The path to create init-guard file doesn'' @ [CHR 0x27] @ ''t exist. Filename: '' @ guard_file be)), a)
      else Some (Inr (), a\<lparr>init_guard := True\<rparr>))"

definition removeInitGuardFile :: "'a boot_step" where
  "removeInitGuardFile a = (if \<not> init_guard a then Some (Inr (), a) else Some (Inr (), a\<lparr>init_guard := False\<rparr>))"

definition initDBusConnect :: "boot_env \<Rightarrow> 'a boot_step" where
  "initDBusConnect be = boot_steps
     [\<lambda>a. (case bus_connection be of Inl e \<Rightarrow> Some (Inl e, a) | Inr _ \<Rightarrow> Some (Inr (), a\<lparr>connected := True\<rparr>)),
      createInitGuardFile be]"

definition getDBusConnect :: "'a application \<Rightarrow> unit may_throw" where
  "getDBusConnect a = (if \<not> connected a then Inl (Runtime_error ''The DBus connection is not initialized.'') else Inr ())"

section \<open>The entities\<close>

definition built_entities :: "string list" where
  "built_entities =
     [''Sensors'', ''Processor'', ''ProcessorSummary'', ''Memory'', ''MemorySummary'', ''Fan'', ''PSU'', ''Drive'',
      ''StorageControllers'', ''NetAdapter'', ''Settings'', ''PCIeDevice'', ''PCIeFunction'', ''HostPower'',
      ''PIDProfile'', ''PIDZone'', ''PID'', ''SnmpProtocol'', ''NtpProtocol'', ''NetworkProtocol'', ''NetworkConfig'',
      ''NetworkDHCPConfig'', ''IP'', ''Ethernet'', ''SessionManager'', ''Accounts'', ''DomainGroups'',
      ''DomainAccounts'', ''AccountSettings'', ''Roles'', ''TrustStoreCertificates'', ''LDAPCertificates'',
      ''HTTPSCertificates'', ''VirtualMedia'', ''Firmware'', ''FirmwareManagment'', ''BmcManager'',
      ''IntrusionSensor'', ''Chassis'', ''Baseboard'', ''Server'']"

text \<open>The entities take the addresses from 0 on, in the order they are built.\<close>

definition buildEntity :: "(string \<Rightarrow> entity) \<Rightarrow> string \<times> nat \<Rightarrow> nat act" where
  "buildEntity builder = (\<lambda>(name, e) w. addEntity e (upd_entity e (\<lambda>_. builder name) w))"

definition build_entities :: "(string \<Rightarrow> entity) \<Rightarrow> unit act" where
  "build_entities builder = for_each (zip built_entities [0..<length built_entities])
     (\<lambda>ne. bind_act (buildEntity builder ne) (\<lambda>_. ret ()))"

definition initEntities :: "nat \<Rightarrow> boot_env \<Rightarrow> 'a boot_step" where
  "initEntities n be = on_app_world
     (bind_act (build_entities (construct be)) (\<lambda>_.
      bind_act (configure n (bus_at be 0)) (\<lambda>_. update n (bus_at be 0))))"

section \<open>The end of the initialization\<close>

definition has_instances :: "nat \<Rightarrow> entity_env \<Rightarrow> string \<Rightarrow> bool act" where
  "has_instances n bus name =
     bind_act (getEntity n bus name) (\<lambda>e. bind_act (getInstances n bus e []) (\<lambda>is. ret (is \<noteq> [])))"

definition isBaseEntitiesInitialized :: "nat \<Rightarrow> entity_env \<Rightarrow> bool act" where
  "isBaseEntitiesInitialized n bus =
     bind_act (has_instances n bus ''Server'') (\<lambda>s. if \<not> s then ret False else
     bind_act (has_instances n bus ''Chassis'') (\<lambda>c. if \<not> c then ret False else
       has_instances n bus ''Baseboard''))"

text \<open>The loop with its sleep, in which the observing thread works on the entities.\<close>

partial_function (option) wait_for_entities ::
    "(nat \<Rightarrow> bool act) \<Rightarrow> (nat \<Rightarrow> entity_world \<Rightarrow> entity_world) \<Rightarrow> nat \<Rightarrow> entity_world \<Rightarrow> (unit may_throw \<times> entity_world) option" where
  "wait_for_entities ready work k w =
     Option.bind (ready k w) (\<lambda>(r, w').
       case r of
         Inl e \<Rightarrow> Some (Inl e, w')
       | Inr b \<Rightarrow> (if b then Some (Inr (), w') else wait_for_entities ready work (Suc k) (work k w')))"

definition finishInitialization :: "nat \<Rightarrow> boot_env \<Rightarrow> 'a boot_step" where
  "finishInitialization n be = boot_steps
     [on_app_world (wait_for_entities (\<lambda>k. isBaseEntitiesInitialized n (bus_at be (Suc k))) (observed be) 0),
      removeInitGuardFile]"

section \<open>The whole\<close>

definition runDBusObserve :: "'a boot_step" where
  "runDBusObserve = done_step (\<lambda>a. a\<lparr>observing := True\<rparr>)"

definition configure_application ::
    "(string \<Rightarrow> nat) \<Rightarrow> (string \<Rightarrow> 'a handler) \<Rightarrow> (session_request \<Rightarrow> 'a handler) \<Rightarrow> nat \<Rightarrow> boot_env \<Rightarrow> 'a boot_step" where
  "configure_application hash graphql redfish n be = boot_steps
     [waitBootingBmc be, registerAllRoutes hash graphql redfish, initDBusConnect be, initEntities n be,
      runDBusObserve, finishInitialization n be, done_step (\<lambda>a. a\<lparr>sigint_handled := True\<rparr>)]"

definition new_application :: "entity_world \<Rightarrow> 'a application" where
  "new_application w = \<lparr>visitors = [], app_routes = no_routes, connected = False, init_guard = False,
     observing = False, sigint_handled = False, app_world = w\<rparr>"

text \<open>The destructor of the connection stops the observing thread. The manager of the FastCGI
  connections, which is stopped before, is not part of the state.\<close>

definition terminate :: "'a application \<Rightarrow> 'a application" where
  "terminate a = a\<lparr>connected := False, observing := False\<rparr>"

text \<open>The number of \<open>SIGINT\<close> is 2.\<close>

definition handleSignals :: "nat \<Rightarrow> 'a application \<Rightarrow> 'a application" where
  "handleSignals signal a = (if signal = 2 then terminate a else a)"

section \<open>The program\<close>

text \<open>The manager of the FastCGI connections is a library: its four calls are parameters.\<close>

record 'a fastcgi_manager =
  setupSignals :: "'a boot_step"
  listen :: "string \<Rightarrow> 'a boot_step"
  start_workers :: "'a boot_step"
  join_workers :: "'a boot_step"

definition start_application :: "'a fastcgi_manager \<Rightarrow> string \<Rightarrow> 'a boot_step" where
  "start_application manager socket_path =
     boot_steps [setupSignals manager, listen manager socket_path, start_workers manager, join_workers manager]"

text \<open>An exception that leaves \<open>main\<close> ends the program.\<close>

datatype program_exit = Exit_success | Uncaught cpp_exn

definition main_program ::
    "(string \<Rightarrow> nat) \<Rightarrow> (string \<Rightarrow> 'a handler) \<Rightarrow> (session_request \<Rightarrow> 'a handler) \<Rightarrow> nat \<Rightarrow> boot_env \<Rightarrow>
     'a fastcgi_manager \<Rightarrow> string \<Rightarrow> entity_world \<Rightarrow> (program_exit \<times> 'a application) option" where
  "main_program hash graphql redfish n be manager socket_path w =
     map_option (\<lambda>(r, a). (case r of Inl e \<Rightarrow> Uncaught e | Inr _ \<Rightarrow> Exit_success, a))
       (boot_steps [configure_application hash graphql redfish n be, start_application manager socket_path] (new_application w))"

end
