(* ===== verification/Entity_Frames.thy ===== *)
theory Entity_Frames
  imports Entity_Properties
begin

text \<open>
  What every operation leaves alone in each entity: a preorder on entities that does not look at the
  instances and at the state of the source, and that new members respect, is kept by the operations
  on the world.
\<close>

definition each_entity :: "(entity \<Rightarrow> entity \<Rightarrow> bool) \<Rightarrow> entity_world \<Rightarrow> entity_world \<Rightarrow> bool" where
  "each_entity Q w w' \<longleftrightarrow> dictionary w' = dictionary w \<and> (\<forall>e. Q (entities w e) (entities w' e))"

locale entity_frame =
  fixes Q :: "entity \<Rightarrow> entity \<Rightarrow> bool"
  assumes same_refl: "Q x x" and same_trans: "Q x y \<Longrightarrow> Q y z \<Longrightarrow> Q x z"
    and any_instances: "Q x (x\<lparr>instances := is\<rparr>)" and any_source: "Q x (x\<lparr>source_of := s\<rparr>)"
    and any_member: "Q x (snd (createMember m x))"

sublocale entity_frame \<subseteq> world_frame "each_entity Q"
  by unfold_locales (auto simp: each_entity_def intro: same_refl same_trans)

context entity_frame
begin

lemma keep_upd: "each_entity Q w w' \<Longrightarrow> (\<And>x. Q x (f x)) \<Longrightarrow> each_entity Q w (upd_entity e f w')"
  by (auto simp: each_entity_def upd_entity_def intro: same_trans)

lemma keep_modify: "(\<And>x. Q x (f x)) \<Longrightarrow> relates (each_entity Q) (modify e f)"
  by (simp add: relates_def modify_def keep_upd world_refl)

lemma keep_raise: "each_entity Q w (raise_failures q w)"
proof -
  have "each_entity Q w (fold (\<lambda>e. upd_entity e (\<lambda>x. x\<lparr>source_of := invalidate (source_of x)\<rparr>)) es v)" if "each_entity Q w v" for es v
    using that by (induction es arbitrary: v) (simp_all add: keep_upd any_source)
  then show ?thesis by (simp add: raise_failures_def world_refl)
qed

lemma keep_configure: "relates (each_entity Q) (configure_query bus e q)"
  by (auto simp: relates_def configure_query_def ret_def each_entity_def configureQueryEvents_def register_observers_def
      intro: same_refl split: source_state.splits)

lemma keep_query: "relates (each_entity Q) (process_query bus e q)"
proof -
  have set: "each_entity Q w (upd_entity e (setInstances bus is) w')" if "each_entity Q w w'" for w w' "is"
    using that by (intro keep_upd) (simp_all add: setInstances_def any_instances)
  have "relates (each_entity Q) (\<lambda>w. let (raised, result) = query_process bus q;
          w1 = (if raised then raise_failures q w else w)
      in case result of
           Inl ex \<Rightarrow> Some (Inl ex, w1)
         | Inr is \<Rightarrow> Some (Inr (), upd_entity e (setInstances bus is) w1))"
    using keep_raise world_refl by (auto simp: relates_def Let_def intro!: set split: prod.splits sum.splits)
  then show ?thesis unfolding process_query_def by (intro keep_bind keep_configure)
qed

lemma keep_filled: "relates (each_entity Q) (populate n bus e)"
  by (intro keep_populate keep_query) (simp_all add: set_source_def keep_modify any_instances any_source)

lemma any_members: "Q x (fold (\<lambda>name y. snd (createMember name y)) names x)"
proof (induction names arbitrary: x)
  case (Cons m names)
  from same_trans [OF any_member Cons.IH] show ?case by simp
qed (simp add: same_refl)

lemma keep_initialize: "relates (each_entity Q) (initialize_entity n bus e)"
proof (induction n arbitrary: e)
  case (Suc n)
  show ?case
    unfolding initialize_entity.simps
    by (intro keep_bind keep_reset keep_modify any_members any_instances keep_providers Suc.IH)
qed (simp add: relates_def)

lemma keep_all:
  "relates (each_entity Q) (\<lambda>w. configure n bus w)" "relates (each_entity Q) (\<lambda>w. update n bus w)"
  unfolding configure_def update_def
  by (rule relates_world [where m = "\<lambda>v. for_each (map snd (dictionary v)) _"], rule keep_each, rule keep_initialize)
     (rule relates_world [where m = "\<lambda>v. for_each (map snd (dictionary v)) _"], rule keep_each, rule keep_filled)

text \<open>What one round of a loop establishes is there at its end.\<close>

lemma keep_done:
  assumes "for_each xs f w = Some (Inr (), w')" and "x \<in> set xs" and "\<And>y. relates (each_entity Q) (f y)"
    and "\<And>v v'. each_entity Q w v \<Longrightarrow> f x v = Some (Inr (), v') \<Longrightarrow> P v'" and "\<And>v v'. P v \<Longrightarrow> each_entity Q v v' \<Longrightarrow> P v'"
  shows "P w'"
  using assms(1,2,4)
proof (induction xs arbitrary: w)
  case (Cons y ys)
  then obtain w1 where w1: "f y w = Some (Inr (), w1)" "for_each ys f w1 = Some (Inr (), w')"
    by (auto simp: bind_act_def split: option.splits sum.splits prod.splits)
  have kept: "each_entity Q w w1" "each_entity Q w1 w'"
    using assms(3) w1 keep_each [of f ys] by (auto simp: relates_def)
  show ?case
  proof (cases "x = y")
    case True
    with Cons.prems(3) [OF world_refl, of w1] w1(1) kept(2) assms(5) show ?thesis by auto
  next
    case False
    with Cons.prems(2) Cons.IH [OF w1(2)] Cons.prems(3) kept(1) show ?thesis by (auto intro: world_trans)
  qed
qed simp

end

end
