(* ===== verification/Startup_Properties.thy ===== *)
theory Startup_Properties
  imports Startup Entity_Frames
begin

text \<open>
  What the start of the program establishes: how long it waits, which entities the manager knows
  afterwards, and the state the application is in when it is configured or fails to.
\<close>

section \<open>Waiting\<close>

lemma looks_until_step: "\<not> there k \<Longrightarrow> looks_until there k = Some k"
    "there k \<Longrightarrow> looks_until there k = looks_until there (Suc k)"
  by (simp_all add: looks_until.simps [of there k])

lemma looks_until_sound: "looks_until there k = Some m \<Longrightarrow> k \<le> m \<and> \<not> there m \<and> (\<forall>j. k \<le> j \<and> j < m \<longrightarrow> there j)"
proof (rule looks_until.raw_induct [of "\<lambda>there k m. k \<le> m \<and> \<not> there m \<and> (\<forall>j. k \<le> j \<and> j < m \<longrightarrow> there j)"])
  fix looks and there :: "nat \<Rightarrow> bool" and k m
  assume IH: "\<And>there k m. looks there k = Some m \<Longrightarrow> k \<le> m \<and> \<not> there m \<and> (\<forall>j. k \<le> j \<and> j < m \<longrightarrow> there j)"
    and eq: "(if there k then looks there (Suc k) else Some k) = Some m"
  show "k \<le> m \<and> \<not> there m \<and> (\<forall>j. k \<le> j \<and> j < m \<longrightarrow> there j)"
  proof (cases "there k")
    case True
    with eq IH [of there "Suc k" m] have "Suc k \<le> m" "\<not> there m" "\<forall>j. Suc k \<le> j \<and> j < m \<longrightarrow> there j" by auto
    with True show ?thesis by (metis Suc_leD Suc_leI order_neq_le_trans)
  qed (use eq in auto)
qed

lemma looks_until_complete: "\<not> there (k + d) \<Longrightarrow> (\<And>j. j < d \<Longrightarrow> there (k + j)) \<Longrightarrow> looks_until there k = Some (k + d)"
proof (induction d arbitrary: k)
  case 0
  then show ?case by (simp add: looks_until_step)
next
  case (Suc d)
  then have "looks_until there (Suc k) = Some (Suc k + d)" by (intro Suc.IH) (auto simp flip: add_Suc_right)
  with Suc.prems(2) [of 0] show ?case by (simp add: looks_until_step)
qed



lemma wait_for_entities_ready:
  "wait_for_entities ready work k w = Some y \<Longrightarrow> \<forall>w'. y = (Inr (), w') \<longrightarrow> (\<exists>j v. ready j v = Some (Inr True, w'))"
proof (rule wait_for_entities.raw_induct [of "\<lambda>ready work k w y. \<forall>w'. y = (Inr (), w') \<longrightarrow> (\<exists>j v. ready j v = Some (Inr True, w'))"])
  fix waits and ready :: "nat \<Rightarrow> bool act" and work k w y
  assume IH: "\<And>ready work k w y. waits ready work k w = Some y \<Longrightarrow> \<forall>w'. y = (Inr (), w') \<longrightarrow> (\<exists>j v. ready j v = Some (Inr True, w'))"
    and eq: "Option.bind (ready k w) (\<lambda>(r, w'). case r of Inl e \<Rightarrow> Some (Inl e, w')
       | Inr b \<Rightarrow> if b then Some (Inr (), w') else waits ready work (Suc k) (work k w')) = Some y"
  from eq obtain r v where rv: "ready k w = Some (r, v)" "(case r of Inl e \<Rightarrow> Some (Inl e, v)
       | Inr b \<Rightarrow> if b then Some (Inr (), v) else waits ready work (Suc k) (work k v)) = Some y"
    by (auto simp: bind_eq_Some_conv)
  show "\<forall>w'. y = (Inr (), w') \<longrightarrow> (\<exists>j v. ready j v = Some (Inr True, w'))"
  proof (cases r)
    case (Inr b)
    then show ?thesis using rv IH [of ready work "Suc k" "work k v" y] by (cases b) auto
  qed (use rv in auto)
qed

section \<open>The manager's dictionary\<close>

abbreviation manager_same :: "entity_world \<Rightarrow> entity_world \<Rightarrow> bool" where
  "manager_same \<equiv> each_entity (\<lambda>x y. entity_name y = entity_name x)"

interpretation manager: entity_frame "\<lambda>x y. entity_name y = entity_name x"
  by unfold_locales (simp_all add: createMember_def addMember_def)

lemma bind_act_ok: "m w = Some (Inr v, w') \<Longrightarrow> bind_act m f w = f v w'"
  by (simp add: bind_act_def)

lemma build_list:
  assumes "distinct (map fst nes)" "distinct (map snd nes)"
    and "\<And>name e. (name, e) \<in> set nes \<Longrightarrow> entity_name (builder name) = name \<and> map_of (dictionary w) name = None"
  shows "\<exists>w'. for_each nes (\<lambda>ne. bind_act (buildEntity builder ne) (\<lambda>_. ret ())) w = Some (Inr (), w') \<and>
    map_of (dictionary w') = map_of (dictionary w) ++ map_of nes \<and>
    (\<forall>e. entities w' e = (case map_of (map prod.swap nes) e of None \<Rightarrow> entities w e | Some name \<Rightarrow> builder name))"
  using assms
proof (induction nes arbitrary: w)
  case Nil
  then show ?case by (simp add: ret_def)
next
  case (Cons ne nes)
  obtain name e where ne: "ne = (name, e)" by (cases ne)
  let ?w = "upd_entity e (\<lambda>_. builder name) w\<lparr>dictionary := om_emplace name e (dictionary w)\<rparr>"
  have new: "entity_name (builder name) = name" "map_of (dictionary w) name = None" using Cons.prems(3) ne by auto
  then have step: "buildEntity builder ne w = Some (Inr e, ?w)"
    by (simp add: buildEntity_def ne addEntity_def upd_entity_def Let_def ret_def)
  have "name \<notin> fst ` set nes" "e \<notin> snd ` set nes" using Cons.prems(1,2) ne by auto
  then have none: "map_of nes name = None" "map_of (map prod.swap nes) e = None"
    by (auto simp: map_of_eq_None_iff image_iff)
  have "\<exists>w'. for_each nes (\<lambda>ne. bind_act (buildEntity builder ne) (\<lambda>_. ret ())) ?w = Some (Inr (), w') \<and>
    map_of (dictionary w') = map_of (dictionary ?w) ++ map_of nes \<and>
    (\<forall>e. entities w' e = (case map_of (map prod.swap nes) e of None \<Rightarrow> entities ?w e | Some name \<Rightarrow> builder name))"
  proof (rule Cons.IH)
    show "entity_name (builder name') = name' \<and> map_of (dictionary ?w) name' = None" if "(name', e') \<in> set nes" for name' e'
    proof -
      have "name' \<noteq> name" using that \<open>name \<notin> fst ` set nes\<close> by force
      with that Cons.prems(3) [of name' e'] new(2) show ?thesis by (simp add: map_of_om_emplace upd_entity_def)
    qed
  qed (use Cons.prems in auto)
  then obtain w' where w': "for_each nes (\<lambda>ne. bind_act (buildEntity builder ne) (\<lambda>_. ret ())) ?w = Some (Inr (), w')"
    "map_of (dictionary w') = map_of (dictionary ?w) ++ map_of nes"
    "\<forall>e. entities w' e = (case map_of (map prod.swap nes) e of None \<Rightarrow> entities ?w e | Some name \<Rightarrow> builder name)" by blast
  have first: "for_each (ne # nes) (\<lambda>ne. bind_act (buildEntity builder ne) (\<lambda>_. ret ())) w =
      for_each nes (\<lambda>ne. bind_act (buildEntity builder ne) (\<lambda>_. ret ())) ?w"
    unfolding for_each.simps
    by (intro bind_act_ok [of _ w "()"]) (simp add: bind_act_ok [where m = "buildEntity builder ne", OF step] ret_def)
  have names: "map_of (dictionary ?w) ++ map_of nes = map_of (dictionary w) ++ map_of (ne # nes)"
    using none new(2) by (auto simp: ne map_of_om_emplace map_add_def fun_eq_iff split: option.split)
  have places: "(case map_of (map prod.swap nes) e' of None \<Rightarrow> entities ?w e' | Some name \<Rightarrow> builder name) =
      (case map_of (map prod.swap (ne # nes)) e' of None \<Rightarrow> entities w e' | Some name \<Rightarrow> builder name)" for e'
    using none by (auto simp: ne upd_entity_def split: option.split)
  show ?case
  proof (intro exI conjI allI)
    show "for_each (ne # nes) (\<lambda>ne. bind_act (buildEntity builder ne) (\<lambda>_. ret ())) w = Some (Inr (), w')"
      unfolding first by (rule w'(1))
    show "map_of (dictionary w') = map_of (dictionary w) ++ map_of (ne # nes)" using w'(2) names by (rule trans)
    show "entities w' e' = (case map_of (map prod.swap (ne # nes)) e' of None \<Rightarrow> entities w e' | Some name \<Rightarrow> builder name)" for e'
      using w'(3) [rule_format, of e'] places [of e'] by (rule trans)
  qed
qed

lemma distinct_entities: "distinct built_entities"
  by (simp add: built_entities_def)

section \<open>The steps of the start\<close>

lemma boot_steps_cases:
  "boot_steps (f # gs) a = Some (r, a') \<longleftrightarrow>
     (\<exists>a1. f a = Some (Inr (), a1) \<and> boot_steps gs a1 = Some (r, a')) \<or> (\<exists>e. f a = Some (Inl e, a') \<and> r = Inl e)"
  by (auto split: option.split sum.split)

lemma on_app_world_parts:
  "on_app_world m a = Some (r, a') \<Longrightarrow> \<exists>w. m (app_world a) = Some (r, w) \<and> a' = a\<lparr>app_world := w\<rparr>"
  by (auto simp: on_app_world_def)

text \<open>The application between the connection and the last step: only the entities change.\<close>

definition started ::
    "(string \<Rightarrow> nat) \<Rightarrow> (string \<Rightarrow> 'a handler) \<Rightarrow> (session_request \<Rightarrow> 'a handler) \<Rightarrow> bool \<Rightarrow> bool \<Rightarrow> bool \<Rightarrow> entity_world \<Rightarrow> 'a application" where
  "started hash graphql redfish conn guarded runs w = \<lparr>visitors = [(visitorName, GqlQueryVisitor)],
     app_routes = \<lparr>routerHandlers = [(hash (toLower ''/api/graphql/''), graphql)],
       dynamicRouterHandlers = [(searchRouteHandler, redfish)]\<rparr>,
     connected = conn, init_guard = guarded, observing = runs, sigint_handled = False, app_world = w\<rparr>"

lemma routes_registered:
  "registerAllRoutes hash graphql redfish (new_application w) = Some (Inr (), started hash graphql redfish False False False w)"
  by (simp add: registerAllRoutes_def new_application_def registerGqlVisitors_def registerUri_def registerDynamicUri_def
      no_routes_def om_emplace_def Let_def started_def)

lemma connection_steps:
  "initDBusConnect be (started hash graphql redfish False False False w) =
     Some (case bus_connection be of
       Inl e \<Rightarrow> (Inl e, started hash graphql redfish False False False w)
     | Inr _ \<Rightarrow> (if guard_directory be then (Inr (), started hash graphql redfish True True False w)
         else (Inl (Runtime_error (''The path to create init-guard file doesn'' @ [CHR 0x27] @ ''t exist. Filename: '' @ guard_file be)),
               started hash graphql redfish True False False w)))"
  by (simp add: initDBusConnect_def createInitGuardFile_def started_def split: sum.split)

lemma finish_steps:
  assumes "finishInitialization n be (started hash graphql redfish True True True w) = Some (r, a)"
  shows "(r = Inr () \<longrightarrow> a = started hash graphql redfish True False True (app_world a) \<and>
      (\<exists>k v. isBaseEntitiesInitialized n (bus_at be (Suc k)) v = Some (Inr True, app_world a))) \<and>
    (r \<noteq> Inr () \<longrightarrow> a = started hash graphql redfish True True True (app_world a))"
proof -
  let ?wait = "wait_for_entities (\<lambda>k. isBaseEntitiesInitialized n (bus_at be (Suc k))) (observed be) 0"
  from assms obtain r1 w1 where w1: "?wait w = Some (r1, w1)"
    "(r1 = Inr () \<and> removeInitGuardFile (started hash graphql redfish True True True w1) = Some (r, a)) \<or>
     (r1 \<noteq> Inr () \<and> r = r1 \<and> a = started hash graphql redfish True True True w1)"
    unfolding finishInitialization_def boot_steps_cases
    by (auto dest!: on_app_world_parts simp: started_def split: option.splits sum.splits)
  show ?thesis
  proof (cases "r1 = Inr ()")
    case True
    then have ready: "\<exists>k v. isBaseEntitiesInitialized n (bus_at be (Suc k)) v = Some (Inr True, w1)"
      using wait_for_entities_ready [OF w1(1)] by blast
    from True w1(2) have "r = Inr ()" "a = started hash graphql redfish True False True w1"
      by (auto simp: removeInitGuardFile_def started_def)
    moreover from this have "app_world a = w1" by (simp add: started_def)
    ultimately show ?thesis using ready by simp
  next
    case False
    with w1(2) show ?thesis by (auto simp: started_def)
  qed
qed

section \<open>Properties\<close>

text \<open>The manager knows exactly the entities the application builds, each under its own name: no two
  share a name, so none is refused, and neither their configuration nor the first update of their
  caches changes the dictionary.\<close>

theorem entities_known:
  assumes "dictionary (app_world a) = []" and "\<And>name. name \<in> set built_entities \<Longrightarrow> entity_name (construct be name) = name"
    and "initEntities n be a = Some (Inr (), a')"
  shows "(map_of (dictionary (app_world a')) name = Some e \<longleftrightarrow> e < length built_entities \<and> name = built_entities ! e) \<and>
    (e < length built_entities \<longrightarrow> entity_name (entities (app_world a') e) = built_entities ! e)"
proof -
  let ?nes = "zip built_entities [0..<length built_entities]"
  have "\<exists>w1. build_entities (construct be) (app_world a) = Some (Inr (), w1) \<and>
    map_of (dictionary w1) = map_of (dictionary (app_world a)) ++ map_of ?nes \<and>
    (\<forall>e. entities w1 e = (case map_of (map prod.swap ?nes) e of None \<Rightarrow> entities (app_world a) e | Some name \<Rightarrow> construct be name))"
    unfolding build_entities_def using assms(1,2) distinct_entities by (intro build_list) (auto dest: set_zip_leftD)
  then obtain w1 where w1: "build_entities (construct be) (app_world a) = Some (Inr (), w1)"
    "map_of (dictionary w1) = map_of ?nes"
    "entities w1 e = (case map_of (map prod.swap ?nes) e of None \<Rightarrow> entities (app_world a) e | Some name \<Rightarrow> construct be name)"
    using assms(1) by auto
  have "relates manager_same (\<lambda>w. bind_act (configure n (bus_at be 0)) (\<lambda>_. update n (bus_at be 0)) w)"
    using manager.keep_bind [OF manager.keep_all(1) manager.keep_all(2)] by simp
  moreover from assms(3) w1(1) have "bind_act (configure n (bus_at be 0)) (\<lambda>_. update n (bus_at be 0)) w1 = Some (Inr (), app_world a')"
    by (auto simp: initEntities_def on_app_world_def bind_act_def)
  ultimately have same: "manager_same w1 (app_world a')" by (auto simp: relates_def)
  have pairs: "(name, e) \<in> set ?nes \<longleftrightarrow> e < length built_entities \<and> name = built_entities ! e" for name e
    by (auto simp: in_set_zip)
  have "map_of ?nes name = Some e \<longleftrightarrow> (name, e) \<in> set ?nes"
    using distinct_entities by (intro map_of_eq_Some_iff) simp
  then have known: "map_of (dictionary (app_world a')) name = Some e \<longleftrightarrow> e < length built_entities \<and> name = built_entities ! e"
    using same w1(2) pairs by (simp add: each_entity_def)
  have "entity_name (entities (app_world a') e) = built_entities ! e" if "e < length built_entities"
  proof -
    have "(e, built_entities ! e) \<in> set (map prod.swap ?nes)" using that by (force simp: pairs)
    then have "map_of (map prod.swap ?nes) e = Some (built_entities ! e)"
      by (intro map_of_is_SomeI) (simp_all add: comp_def prod.swap_def)
    with same w1(3) assms(2) that show ?thesis by (simp add: each_entity_def)
  qed
  with known show ?thesis by blast
qed

text \<open>What the steps have done when they end.\<close>

lemma configured:
  assumes "configure_application hash graphql redfish n be (new_application w) = Some (r, a)"
  shows "(\<exists>m. \<not> booting be m \<and> (\<forall>j < m. booting be j)) \<and>
    (r = Inr () \<longrightarrow> getDBusConnect a = Inr () \<and> guard_directory be \<and> observing a \<and> \<not> init_guard a \<and> sigint_handled a \<and>
       map_of (visitors a) ''query'' = Some GqlQueryVisitor \<and>
       routerHandlers (app_routes a) = [(hash (toLower ''/api/graphql/''), graphql)] \<and>
       dynamicRouterHandlers (app_routes a) = [(searchRouteHandler, redfish)] \<and>
       (\<exists>k v. isBaseEntitiesInitialized n (bus_at be (Suc k)) v = Some (Inr True, app_world a))) \<and>
    (r \<noteq> Inr () \<longrightarrow> \<not> sigint_handled a \<and> (init_guard a \<longleftrightarrow> bus_connection be = Inr () \<and> guard_directory be))"
proof -
  let ?s = "started hash graphql redfish"
  obtain m where m: "looks_until (booting be) 0 = Some m"
  proof (cases "looks_until (booting be) 0")
    case None
    with assms have False by (simp add: configure_application_def waitBootingBmc_def)
    then show ?thesis ..
  qed
  have a1: "waitBootingBmc be (new_application w :: 'a application) = Some (Inr (), new_application w)"
    using m by (simp add: waitBootingBmc_def)
  have booted: "\<not> booting be m \<and> (\<forall>j < m. booting be j)" using looks_until_sound [OF m] by simp
  have rest: "boot_steps [initDBusConnect be, initEntities n be, runDBusObserve, finishInitialization n be,
      done_step (\<lambda>a. a\<lparr>sigint_handled := True\<rparr>)] (?s False False False w) = Some (r, a)"
    using assms by (simp add: configure_application_def a1 routes_registered del: boot_steps.simps(2) add: boot_steps_cases)
  show ?thesis
  proof (cases "bus_connection be = Inr () \<and> guard_directory be")
    case False
    with rest have "r \<noteq> Inr () \<and> \<not> init_guard a \<and> \<not> sigint_handled a"
      unfolding boot_steps_cases [of "initDBusConnect be"] connection_steps
      by (auto simp: started_def split: sum.splits if_splits)
    with booted False show ?thesis by blast
  next
    case True
    with rest have "boot_steps [initEntities n be, runDBusObserve, finishInitialization n be,
        done_step (\<lambda>a. a\<lparr>sigint_handled := True\<rparr>)] (?s True True False w) = Some (r, a)"
      by (simp add: connection_steps)
    then consider (failed) e where "initEntities n be (?s True True False w) = Some (Inl e, a)" "r = Inl e"
      | (filled) a4 where "initEntities n be (?s True True False w) = Some (Inr (), a4)"
          "boot_steps [runDBusObserve, finishInitialization n be, done_step (\<lambda>a. a\<lparr>sigint_handled := True\<rparr>)] a4 = Some (r, a)"
      unfolding boot_steps_cases [of "initEntities n be"] by blast
    then show ?thesis
    proof cases
      case failed
      then have "init_guard a" "\<not> sigint_handled a"
        by (auto simp: initEntities_def started_def dest!: on_app_world_parts)
      with failed booted True show ?thesis by blast
    next
      case filled
      then obtain w4 where "a4 = ?s True True False w4"
        by (auto simp: initEntities_def started_def dest!: on_app_world_parts)
      with filled(2) have "boot_steps [finishInitialization n be, done_step (\<lambda>a. a\<lparr>sigint_handled := True\<rparr>)]
          (?s True True True w4) = Some (r, a)" by (simp add: runDBusObserve_def done_step_def started_def)
      then consider (stuck) e where "finishInitialization n be (?s True True True w4) = Some (Inl e, a)" "r = Inl e"
        | (ready) a5 where "finishInitialization n be (?s True True True w4) = Some (Inr (), a5)" "r = Inr ()"
            "a = a5\<lparr>sigint_handled := True\<rparr>"
        unfolding boot_steps_cases by (auto simp: done_step_def)
      then show ?thesis
      proof cases
        case stuck
        then obtain w5 where "a = ?s True True True w5" using finish_steps [OF stuck(1)] by blast
        then have "init_guard a" "\<not> sigint_handled a" by (simp_all add: started_def)
        with stuck(2) booted True show ?thesis by blast
      next
        case ready
        obtain k v where kv: "isBaseEntitiesInitialized n (bus_at be (Suc k)) v = Some (Inr True, app_world a5)"
          and a5: "a5 = ?s True False True (app_world a5)" using finish_steps [OF ready(1)] by blast
        have "a = (?s True False True (app_world a5))\<lparr>sigint_handled := True\<rparr>" using ready(3) a5 by simp
        then have "getDBusConnect a = Inr ()" "observing a" "\<not> init_guard a" "sigint_handled a" "app_world a = app_world a5"
          "visitors a = [(visitorName, GqlQueryVisitor)]"
          "routerHandlers (app_routes a) = [(hash (toLower ''/api/graphql/''), graphql)]"
          "dynamicRouterHandlers (app_routes a) = [(searchRouteHandler, redfish)]"
          by (simp_all add: started_def getDBusConnect_def)
        with booted True ready(2) kv show ?thesis by (auto simp: visitorName_def)
      qed
    qed
  qed
qed

text \<open>C29: a start that succeeds: the board was booting at every look but the last one; the routes are
  registered, the bus is connected and observed, the guard file is gone, the signal is handled,
  and the server, the chassis and the board have instances. A start that fails does not handle the
  signal, and leaves the guard file behind if the bus was connected and the file could be created.\<close>

theorem start_up:
  assumes "configure_application hash graphql redfish n be (new_application w) = Some (r, a)"
  shows "(\<exists>m. \<not> booting be m \<and> (\<forall>j < m. booting be j)) \<and>
    (r = Inr () \<longrightarrow> getDBusConnect a = Inr () \<and> guard_directory be \<and> observing a \<and> \<not> init_guard a \<and> sigint_handled a \<and>
       map_of (visitors a) ''query'' = Some GqlQueryVisitor \<and>
       map_of (routerHandlers (app_routes a)) (hash (toLower ''/api/graphql/'')) = Some graphql \<and>
       dynamicRouterHandlers (app_routes a) = [(searchRouteHandler, redfish)] \<and>
       (\<exists>k v. isBaseEntitiesInitialized n (bus_at be (Suc k)) v = Some (Inr True, app_world a))) \<and>
    (r \<noteq> Inr () \<longrightarrow> \<not> sigint_handled a \<and> (init_guard a \<longleftrightarrow> bus_connection be = Inr () \<and> guard_directory be))"
  using configured [OF assms] by (cases "r = Inr ()") auto

text \<open>C30: after a start that succeeds a request for the GraphQL path, letter case aside, goes to the
  GraphQL handler, and one whose path begins with the segment of Redfish to the Redfish handler; any
  other finds no handler, unless the hash of its path happens to be that of the GraphQL path.\<close>

theorem started_routes:
  assumes "configure_application hash graphql redfish n be (new_application w) = Some (Inr (), a)"
  shows "find_handler hash (app_routes a) r =
    (if hash (toLower (getUriPath r)) = hash (toLower ''/api/graphql/'') then Some (graphql (toLower (getUriPath r)))
     else if pathInfo (env r) \<noteq> [] \<and> pathInfo (env r) ! 0 = root_segment then Some (redfish r)
     else None)"
  using configured [OF assms] by (auto simp: find_handler_def Let_def searchRouteHandler_def)


section \<open>A start that succeeds\<close>

definition plain_entity :: "string \<Rightarrow> entity" where
  "plain_entity name = new_entity name [] [] [] (CachedSource True False False)"

text \<open>The board boots for two looks; the observing thread finds the objects of the base entities.\<close>

definition sample_boot :: boot_env where
  "sample_boot = \<lparr>booting = (\<lambda>k. k < 2), guard_file = ''guard'', guard_directory = True, bus_connection = Inr (),
     construct = plain_entity, bus_at = (\<lambda>_. sample_entity_env),
     observed = (\<lambda>_. fold (\<lambda>e. upd_entity e (\<lambda>x. x\<lparr>instances := [(1, text_instance ''i'' [])]\<rparr>)) [38, 39, 40])\<rparr>"

definition blank_world :: entity_world where
  "blank_world = \<lparr>entities = (\<lambda>_. plain_entity []), subscribers = [], observers = [], dictionary = []\<rparr>"

definition plain_world :: "entity_world \<Rightarrow> bool" where
  "plain_world w \<longleftrightarrow> (\<forall>e. \<exists>name. entities w e = plain_entity name)"

lemma plain_parts:
  "instances (plain_entity name) = []" "providers (plain_entity name) = []" "entity_queries (plain_entity name) = []"
  "source_of (plain_entity name) = CachedSource True False False" "entity_name (plain_entity name) = name"
  by (simp_all add: plain_entity_def new_entity_def createMember_def addMember_def)

lemma upd_entity_idle: "f (entities w e) = entities w e \<Longrightarrow> upd_entity e f w = w"
  by (simp add: upd_entity_def fun_upd_idem)

lemma plain_idle:
  assumes "plain_world w"
  shows "initialize_entity 1 sample_entity_env e w = Some (Inr (), w)" "populate n sample_entity_env e w = Some (Inr (), w)"
proof -
  obtain name where e: "entities w e = plain_entity name" using assms by (auto simp: plain_world_def)
  have reset: "upd_entity e (\<lambda>x. x\<lparr>instances := []\<rparr>) w = w" by (rule upd_entity_idle) (simp add: e plain_parts)
  have mem: "upd_entity e (\<lambda>x. fold (\<lambda>name y. snd (createMember name y))
      (concat (map (query_fields sample_entity_env) (entity_queries x))) x) w = w"
    by (rule upd_entity_idle) (simp add: e plain_parts)
  show "initialize_entity 1 sample_entity_env e w = Some (Inr (), w)"
    by (simp add: bind_act_def modify_def reset mem e plain_parts ret_def)
  show "populate n sample_entity_env e w = Some (Inr (), w)"
    by (simp add: populate_def e plain_parts ret_def)
qed

lemma for_each_idle: "(\<And>x. f x w = Some (Inr (), w)) \<Longrightarrow> for_each xs f w = Some (Inr (), w)"
  by (induction xs) (simp_all add: ret_def bind_act_ok)

lemma sample_entities_built:
  assumes "app_world a = blank_world"
  shows "\<exists>w. initEntities 1 sample_boot a = Some (Inr (), a\<lparr>app_world := w\<rparr>) \<and> plain_world w \<and>
     map_of (dictionary w) = map_of (zip built_entities [0..<length built_entities])"
proof -
  let ?nes = "zip built_entities [0..<length built_entities]"
  have "\<exists>w. build_entities plain_entity blank_world = Some (Inr (), w) \<and>
    map_of (dictionary w) = map_of (dictionary blank_world) ++ map_of ?nes \<and>
    (\<forall>e. entities w e = (case map_of (map prod.swap ?nes) e of None \<Rightarrow> entities blank_world e | Some name \<Rightarrow> plain_entity name))"
    unfolding build_entities_def
    by (rule build_list) (simp_all add: distinct_entities plain_parts blank_world_def)
  then obtain w where w: "build_entities plain_entity blank_world = Some (Inr (), w)"
    "map_of (dictionary w) = map_of ?nes"
    and at: "\<And>e. entities w e = (case map_of (map prod.swap ?nes) e of None \<Rightarrow> entities blank_world e | Some name \<Rightarrow> plain_entity name)"
    by (auto simp: blank_world_def)
  have plain: "plain_world w"
    unfolding plain_world_def
  proof
    fix e show "\<exists>name. entities w e = plain_entity name"
      by (cases "map_of (map prod.swap ?nes) e") (auto simp: at blank_world_def)
  qed
  have "configure 1 sample_entity_env w = Some (Inr (), w)" "update 1 sample_entity_env w = Some (Inr (), w)"
    unfolding configure_def update_def by (intro for_each_idle plain_idle [OF plain])+
  with w have "initEntities 1 sample_boot a = Some (Inr (), a\<lparr>app_world := w\<rparr>)"
    by (simp add: initEntities_def on_app_world_def sample_boot_def assms bind_act_def)
  with w(2) plain show ?thesis by blast
qed

lemma sample_positions:
  "map_of (zip built_entities [0..<length built_entities]) ''Server'' = Some 40"
  "map_of (zip built_entities [0..<length built_entities]) ''Chassis'' = Some 38"
  "map_of (zip built_entities [0..<length built_entities]) ''Baseboard'' = Some 39"
  by (simp_all add: built_entities_def)

text \<open>The base entities of a world that knows them, filled or not.\<close>

lemma has_instances_look:
  assumes "map_of (dictionary w) name = Some e" "source_of (entities w e) = CachedSource True False False"
    and "providers (entities w e) = []" "table_settled sample_entity_env (entities w e)"
  shows "has_instances 1 sample_entity_env name w = Some (Inr (instances (entities w e) \<noteq> []), w)"
proof -
  have "getEntity 1 sample_entity_env name w = Some (Inr e, w)"
    using assms(1,2) by (simp add: getEntity_def populate_def bind_act_def ret_def)
  moreover have "getInstances (Suc 0) sample_entity_env e [] w = Some (Inr (map snd (instances (entities w e))), w)"
    using getInstances_plain [OF assms(3,4), of 0 "[]"] by (simp del: getInstances.simps)
  ultimately show ?thesis by (simp add: has_instances_def bind_act_def ret_def del: getInstances.simps)
qed

lemma filled_parts:
  assumes "plain_world w"
  shows "entities (observed sample_boot k w) e =
    (if e \<in> {38, 39, 40} then (entities w e)\<lparr>instances := [(1, text_instance ''i'' [])]\<rparr> else entities w e)"
    "dictionary (observed sample_boot k w) = dictionary w"
  by (auto simp: sample_boot_def upd_entity_def)

lemma sample_looks:
  assumes "plain_world w" "map_of (dictionary w) = map_of (zip built_entities [0..<length built_entities])"
  shows "isBaseEntitiesInitialized 1 (bus_at sample_boot 1) w = Some (Inr False, w)"
    "isBaseEntitiesInitialized 1 (bus_at sample_boot 2) (observed sample_boot 0 w) = Some (Inr True, observed sample_boot 0 w)"
proof -
  let ?w = "observed sample_boot 0 w"
  have plain: "providers (entities w e) = []" "source_of (entities w e) = CachedSource True False False"
    "instances (entities w e) = []" for e
    using assms(1) plain_parts by (metis plain_world_def)+
  have "table_settled sample_entity_env (entities w 40)" by (simp add: table_settled_def om_ok_def plain)
  then have "has_instances 1 sample_entity_env ''Server'' w = Some (Inr False, w)"
    using has_instances_look [of w "''Server''" 40] assms(2) sample_positions plain by simp
  then show "isBaseEntitiesInitialized 1 (bus_at sample_boot 1) w = Some (Inr False, w)"
    by (simp add: isBaseEntitiesInitialized_def bind_act_def sample_boot_def ret_def)
  have filled: "table_settled sample_entity_env (entities ?w e)" "providers (entities ?w e) = []"
    "source_of (entities ?w e) = CachedSource True False False" "instances (entities ?w e) \<noteq> []" if "e \<in> {38, 39, 40}" for e
    using that plain [of e] by (simp_all add: filled_parts [OF assms(1)] table_settled_def om_ok_def settled_static text_instance_def)
  have "has_instances 1 sample_entity_env name ?w = Some (Inr True, ?w)" if "(name, e) \<in> {(''Server'', 40), (''Chassis'', 38), (''Baseboard'', 39)}" for name and e :: nat
  proof -
    have "map_of (dictionary ?w) name = Some e" "e \<in> {38, 39, 40}"
      using that sample_positions assms(2) by (auto simp: filled_parts(2) [OF assms(1)])
    with has_instances_look [of ?w name e] filled show ?thesis by simp
  qed
  then show "isBaseEntitiesInitialized 1 (bus_at sample_boot 2) ?w = Some (Inr True, ?w)"
    by (simp add: isBaseEntitiesInitialized_def bind_act_def sample_boot_def ret_def)
qed

lemma sample_entities_found:
  assumes "plain_world w" "map_of (dictionary w) = map_of (zip built_entities [0..<length built_entities])"
  shows "wait_for_entities (\<lambda>k. isBaseEntitiesInitialized 1 (bus_at sample_boot (Suc k))) (observed sample_boot) 0 w =
    Some (Inr (), observed sample_boot 0 w)"
proof -
  have "isBaseEntitiesInitialized 1 (bus_at sample_boot (Suc 1)) (observed sample_boot 0 w) = Some (Inr True, observed sample_boot 0 w)"
    using sample_looks(2) [OF assms] by (simp add: numeral_2_eq_2)
  then have "wait_for_entities (\<lambda>k. isBaseEntitiesInitialized 1 (bus_at sample_boot (Suc k))) (observed sample_boot) 1
      (observed sample_boot 0 w) = Some (Inr (), observed sample_boot 0 w)"
    by (subst wait_for_entities.simps) simp
  with sample_looks(1) [OF assms] show ?thesis by (subst wait_for_entities.simps) simp
qed

lemma sample_started:
  "\<exists>a. configure_application length (\<lambda>_. counting_handler) (\<lambda>_. counting_handler) 1 sample_boot (new_application blank_world) =
       Some (Inr (), a)"
proof -
  let ?s = "started length (\<lambda>_. counting_handler) (\<lambda>_. counting_handler)"
  have looks: "looks_until (booting sample_boot) 0 = Some 2"
    using looks_until_complete [of "booting sample_boot" 0 2] by (simp add: sample_boot_def)
  have "app_world (?s True True False blank_world) = blank_world" by (simp add: started_def)
  from sample_entities_built [OF this] obtain w where
    w: "initEntities 1 sample_boot (?s True True False blank_world) = Some (Inr (), ?s True True False w)" "plain_world w"
      "map_of (dictionary w) = map_of (zip built_entities [0..<length built_entities])"
    by (auto simp: started_def)
  have fin: "finishInitialization 1 sample_boot (?s True True True w) =
      Some (Inr (), ?s True False True (observed sample_boot 0 w))"
    by (simp add: finishInitialization_def on_app_world_def started_def sample_entities_found [OF w(2,3), unfolded One_nat_def] removeInitGuardFile_def)
  have conn: "initDBusConnect sample_boot (?s False False False blank_world) = Some (Inr (), ?s True True False blank_world)"
    by (simp add: connection_steps) (simp add: sample_boot_def)
  have obs: "runDBusObserve (?s True True False w) = Some (Inr (), ?s True True True w)"
    by (simp add: runDBusObserve_def done_step_def started_def)
  have "configure_application length (\<lambda>_. counting_handler) (\<lambda>_. counting_handler) 1 sample_boot (new_application blank_world) =
      Some (Inr (), (?s True False True (observed sample_boot 0 w))\<lparr>sigint_handled := True\<rparr>)"
    by (simp add: configure_application_def waitBootingBmc_def looks routes_registered conn w(1) [unfolded One_nat_def] obs
        fin [unfolded One_nat_def] done_step_def)
  then show ?thesis by blast
qed

theorem start_up_witness:
  "\<exists>a. configure_application length (\<lambda>_. counting_handler) (\<lambda>_. counting_handler) 1 sample_boot (new_application blank_world) =
       Some (Inr (), a) \<and> sigint_handled a \<and> \<not> init_guard a \<and>
     (\<exists>k v. isBaseEntitiesInitialized 1 (bus_at sample_boot (Suc k)) v = Some (Inr True, app_world a))"
  using sample_started start_up [of length "\<lambda>_. counting_handler" "\<lambda>_. counting_handler" 1 sample_boot blank_world "Inr ()"] by blast

theorem started_routes_witness:
  "\<exists>a. configure_application length (\<lambda>_. counting_handler) (\<lambda>_. counting_handler) 1 sample_boot (new_application blank_world) =
       Some (Inr (), a) \<and>
     find_handler length (app_routes a) (new_request (sample_env\<lparr>pathInfo := [''redfish'', ''v1'']\<rparr>)) = Some counting_handler"
proof -
  obtain a where a: "configure_application length (\<lambda>_. counting_handler) (\<lambda>_. counting_handler) 1 sample_boot (new_application blank_world) =
       Some (Inr (), a)" using sample_started by blast
  have "find_handler length (app_routes a) (new_request (sample_env\<lparr>pathInfo := [''redfish'', ''v1'']\<rparr>)) = Some counting_handler"
    by (simp add: started_routes [OF a] new_request_def root_segment_def)
  with a show ?thesis by blast
qed


theorem entities_known_witness:
  "\<exists>a'. initEntities 1 sample_boot (new_application blank_world :: nat application) = Some (Inr (), a') \<and>
     map_of (dictionary (app_world a')) ''Memory'' = Some 3 \<and> entity_name (entities (app_world a') 3) = ''Memory''"
proof -
  let ?a = "new_application blank_world :: nat application"
  have empty: "dictionary (app_world ?a) = []" "app_world ?a = blank_world" by (simp_all add: new_application_def blank_world_def)
  obtain a' where a': "initEntities 1 sample_boot ?a = Some (Inr (), a')" using sample_entities_built [OF empty(2)] by blast
  have "entity_name (construct sample_boot name) = name" for name by (simp add: sample_boot_def plain_parts)
  from entities_known [OF empty(1) this a', of "''Memory''" 3] a' show ?thesis by (simp add: built_entities_def)
qed

end
