(* ===== verification/Devices.thy ===== *)
theory Devices
  imports Startup Memory_Modules Pcie Server Network_Protocol Accounts Certificates Virtual_Media Management
begin

text \<open>
  The devices as the program declares them: for every class of \<open>src/*.hpp\<close> its bases (what kind of
  entity it is and how it caches), its name, its members, queries, providers and relations, and from
  these the entities that \<open>Application::initEntities\<close> constructs. Entities have the addresses of
  \<open>built_entities\<close>, the singletons of the providers those behind them; every entity has one query,
  which has the entity's number.
\<close>

section \<open>Declarations\<close>

text \<open>The populating base class, with the lifetime of \<open>ShortTimeCachedSource\<close>.\<close>

datatype caching = Cached | Short_time int | Lazy

record entity_class =
  class_path :: string
  class_type :: entity_type
  class_caching :: caching

text \<open>All classes are in the namespace of the entities; this is the name \<open>__cxa_demangle\<close> gives.\<close>

definition named_class :: "string \<Rightarrow> entity_type \<Rightarrow> caching \<Rightarrow> entity_class" where
  "named_class name type src =
     \<lparr>class_path = ''app::obmc::entity::'' @ name, class_type = type, class_caching = src\<rparr>"

definition class_name :: "entity_class \<Rightarrow> string" where
  "class_name c = (case NamedEntity_getName (Some (class_path c)) of Inr name \<Rightarrow> name | Inl _ \<Rightarrow> [])"

text \<open>The constructors of the sources; a short-lived cache starts out as old as its lifetime, with
  what the clock shows in nanoseconds.\<close>

definition new_source :: "caching \<Rightarrow> int \<Rightarrow> source_state" where
  "new_source src now =
     (case src of
        Cached \<Rightarrow> CachedSource False False False
      | Short_time ttl \<Rightarrow> ShortTimeCachedSource ttl (now - ttl * 10 ^ 9)
      | Lazy \<Rightarrow> LazySource)"

definition declared :: "entity_class \<Rightarrow> nat \<Rightarrow> relation list \<Rightarrow> (nat \<times> link_rule) list \<Rightarrow> int \<Rightarrow> entity" where
  "declared c self rels provs now = new_entity (class_name c) rels provs [self] (new_source (class_caching c) now)"

definition provider_names :: "string list" where
  "provider_names =
     [''AccountSettingsProvider'', ''ChassisStateProvider'', ''CpuSMBiosProvider'', ''DimmSMBiosProvider'',
      ''FirmwareProvider'', ''IpmiSolProtocolProvider'', ''PCIeProvider'', ''PMBusProvider'', ''AssetTagProvider'',
      ''IndicatorLedProvider'', ''BootSettingsProvider'', ''HostWatchdogProvider'', ''RebootRemainingProvider'',
      ''PowerRestorePolicyProvider'', ''HostBootProvider'', ''HostBootOnceProvider'',
      ''StatusByCallbackManager<PSU>'', ''StatusByCallbackManager<BmcManager>'', ''StatusByCallbackManager<Server>'']"

definition entity_at :: "string \<Rightarrow> nat" where
  "entity_at name = position built_entities name"

definition provider_at :: "string \<Rightarrow> nat" where
  "provider_at name = length built_entities + position provider_names name"

text \<open>The rule between PCIe devices and functions, which is used in both directions. Both sides always
  have a text, so \<open>std::get\<close> does not throw.\<close>

definition linked_by_SBD :: compare where
  "linked_by_SBD f v \<longleftrightarrow> same_SBD f v = Inr True"

definition pcie_relations :: "nat \<Rightarrow> nat \<Rightarrow> relation list" where
  "pcie_relations self other =
     [\<lparr>source = self, destination = other, conditionBuildRules = [(fieldSBD, fieldSBD, linked_by_SBD)]\<rparr>]"

text \<open>The template of the callback manager.\<close>

definition StatusByCallbackManager_class :: "string \<Rightarrow> entity_class" where
  "StatusByCallbackManager_class target =
     named_class (''StatusByCallbackManager<app::obmc::entity::'' @ target @ ''>'') Type_reference Cached"

definition StatusByCallbackManager_entity :: "string \<Rightarrow> int \<Rightarrow> entity" where
  "StatusByCallbackManager_entity target now = add_members [fieldStatusRollup]
    
     (declared (StatusByCallbackManager_class target) (provider_at (''StatusByCallbackManager<'' @ target @ ''>'')) [] [] now)"

section \<open>The classes\<close>

subsection \<open>Settings of accounts\<close>

definition AccountSettingsProvider_class :: entity_class where
  "AccountSettingsProvider_class = named_class ''AccountSettingsProvider'' Type_reference Cached"

definition AccountSettingsProvider_entity :: "int \<Rightarrow> entity" where
  "AccountSettingsProvider_entity now = new_AccountSettingsProvider
     (declared AccountSettingsProvider_class (provider_at ''AccountSettingsProvider'') [] [] now)"

definition AccountSettings_class :: entity_class where
  "AccountSettings_class = named_class ''AccountSettings'' Type_object Lazy"

definition AccountSettings_entity :: "int \<Rightarrow> entity" where
  "AccountSettings_entity now = declared AccountSettings_class (entity_at ''AccountSettings'') [] [] now"

subsection \<open>Accounts\<close>

definition Accounts_class :: entity_class where
  "Accounts_class = named_class ''Accounts'' Type_array Cached"

definition Accounts_entity :: "int \<Rightarrow> entity" where
  "Accounts_entity now = new_Accounts (declared Accounts_class (entity_at ''Accounts'')
     (account_relations (entity_at ''Accounts'') (entity_at ''Roles''))
     [] now)"

definition DomainGroups_class :: entity_class where
  "DomainGroups_class = named_class ''DomainGroups'' Type_array Cached"

definition DomainGroups_entity :: "int \<Rightarrow> entity" where
  "DomainGroups_entity now = new_DomainGroups (declared DomainGroups_class (entity_at ''DomainGroups'')
     (group_relations (entity_at ''DomainGroups'') (entity_at ''Roles''))
     [] now)"

definition DomainAccounts_class :: entity_class where
  "DomainAccounts_class = named_class ''DomainAccounts'' Type_array (Short_time 2)"

definition DomainAccounts_entity :: "int \<Rightarrow> entity" where
  "DomainAccounts_entity now = new_DomainAccounts (declared DomainAccounts_class (entity_at ''DomainAccounts'')
     (domain_relations (entity_at ''DomainAccounts'') (entity_at ''DomainGroups''))
     [] now)"

subsection \<open>Boards\<close>

definition Baseboard_class :: entity_class where
  "Baseboard_class = named_class ''Baseboard'' Type_object Cached"

definition Baseboard_entity :: "int \<Rightarrow> entity" where
  "Baseboard_entity now = new_Baseboard (declared Baseboard_class (entity_at ''Baseboard'')
     (inventory_relations (entity_at ''Baseboard'') (entity_at ''Sensors''))
     [] now)"

subsection \<open>Certificates\<close>

definition TrustStoreCertificates_class :: entity_class where
  "TrustStoreCertificates_class = named_class ''TrustStoreCertificates'' Type_array Cached"

definition TrustStoreCertificates_entity :: "int \<Rightarrow> entity" where
  "TrustStoreCertificates_entity now = new_CertificateBase
     (declared TrustStoreCertificates_class (entity_at ''TrustStoreCertificates'') [] [] now)"

definition LDAPCertificates_class :: entity_class where
  "LDAPCertificates_class = named_class ''LDAPCertificates'' Type_array Cached"

definition LDAPCertificates_entity :: "int \<Rightarrow> entity" where
  "LDAPCertificates_entity now = new_CertificateBase
     (declared LDAPCertificates_class (entity_at ''LDAPCertificates'') [] [] now)"

definition HTTPSCertificates_class :: entity_class where
  "HTTPSCertificates_class = named_class ''HTTPSCertificates'' Type_array Cached"

definition HTTPSCertificates_entity :: "int \<Rightarrow> entity" where
  "HTTPSCertificates_entity now = new_CertificateBase
     (declared HTTPSCertificates_class (entity_at ''HTTPSCertificates'') [] [] now)"

subsection \<open>Chassis\<close>

definition ChassisStateProvider_class :: entity_class where
  "ChassisStateProvider_class = named_class ''ChassisStateProvider'' Type_reference Cached"

definition ChassisStateProvider_entity :: "int \<Rightarrow> entity" where
  "ChassisStateProvider_entity now = new_ChassisStateProvider
     (declared ChassisStateProvider_class (provider_at ''ChassisStateProvider'') [] [] now)"

definition IntrusionSensor_class :: entity_class where
  "IntrusionSensor_class = named_class ''IntrusionSensor'' Type_object Cached"

definition IntrusionSensor_entity :: "int \<Rightarrow> entity" where
  "IntrusionSensor_entity now = declared IntrusionSensor_class (entity_at ''IntrusionSensor'') [] [] now"

definition Chassis_class :: entity_class where
  "Chassis_class = named_class ''Chassis'' Type_object Cached"

definition Chassis_entity :: "int \<Rightarrow> entity" where
  "Chassis_entity now = new_Chassis (declared Chassis_class (entity_at ''Chassis'')
     (chassis_relations (entity_at ''Chassis'') (entity_at ''Sensors''))
     (chassis_links (provider_at ''ChassisStateProvider'')) now)"

subsection \<open>Processors\<close>

definition CpuSMBiosProvider_class :: entity_class where
  "CpuSMBiosProvider_class = named_class ''CpuSMBiosProvider'' Type_reference Cached"

definition CpuSMBiosProvider_entity :: "int \<Rightarrow> entity" where
  "CpuSMBiosProvider_entity now = new_CpuSMBiosProvider
     (declared CpuSMBiosProvider_class (provider_at ''CpuSMBiosProvider'') [] [] now)"

definition Processor_class :: entity_class where
  "Processor_class = named_class ''Processor'' Type_array Cached"

definition Processor_entity :: "int \<Rightarrow> entity" where
  "Processor_entity now = new_Processor (declared Processor_class (entity_at ''Processor'')
     (inventory_relations (entity_at ''Processor'') (entity_at ''Sensors''))
     [(provider_at ''CpuSMBiosProvider'', linkSMBios)] now)"

definition ProcessorSummary_class :: entity_class where
  "ProcessorSummary_class = named_class ''ProcessorSummary'' Type_object Lazy"

definition ProcessorSummary_entity :: "int \<Rightarrow> entity" where
  "ProcessorSummary_entity now = declared ProcessorSummary_class (entity_at ''ProcessorSummary'') [] [] now"

subsection \<open>Drives\<close>

definition Drive_class :: entity_class where
  "Drive_class = named_class ''Drive'' Type_array Cached"

definition Drive_entity :: "int \<Rightarrow> entity" where
  "Drive_entity now = new_Drive (declared Drive_class (entity_at ''Drive'') [] [] now)"

definition StorageControllers_class :: entity_class where
  "StorageControllers_class = named_class ''StorageControllers'' Type_array Lazy"

definition StorageControllers_entity :: "int \<Rightarrow> entity" where
  "StorageControllers_entity now = add_members storage_fields
     (declared StorageControllers_class (entity_at ''StorageControllers'')
     (storage_relations (entity_at ''StorageControllers'') (entity_at ''Drive''))
     [] now)"

subsection \<open>Fans\<close>

definition Fan_class :: entity_class where
  "Fan_class = named_class ''Fan'' Type_array Cached"

definition Fan_entity :: "int \<Rightarrow> entity" where
  "Fan_entity now = new_Fan (declared Fan_class (entity_at ''Fan'')
     (inventory_relations (entity_at ''Fan'') (entity_at ''Sensors''))
     [] now)"

subsection \<open>Firmware\<close>

definition FirmwareProvider_class :: entity_class where
  "FirmwareProvider_class = named_class ''FirmwareProvider'' Type_reference Cached"

definition FirmwareProvider_entity :: "int \<Rightarrow> entity" where
  "FirmwareProvider_entity now = new_FirmwareProvider
     (declared FirmwareProvider_class (provider_at ''FirmwareProvider'') [] [] now)"

definition Firmware_class :: entity_class where
  "Firmware_class = named_class ''Firmware'' Type_array Lazy"

definition Firmware_entity :: "int \<Rightarrow> entity" where
  "Firmware_entity now = declared Firmware_class (entity_at ''Firmware'')
     (firmware_relations (entity_at ''Firmware'') (entity_at ''BmcManager'') (entity_at ''Server''))
     [] now"

definition FirmwareManagment_class :: entity_class where
  "FirmwareManagment_class = named_class ''FirmwareManagment'' Type_object Cached"

definition FirmwareManagment_entity :: "int \<Rightarrow> entity" where
  "FirmwareManagment_entity now = new_FirmwareManagment
     (declared FirmwareManagment_class (entity_at ''FirmwareManagment'') [] [] now)"

subsection \<open>The manager\<close>

definition BmcManager_class :: entity_class where
  "BmcManager_class = named_class ''BmcManager'' Type_object Cached"

definition BmcManager_entity :: "int \<Rightarrow> entity" where
  "BmcManager_entity now = new_BmcManager (declared BmcManager_class (entity_at ''BmcManager'')
     (manager_relations (entity_at ''BmcManager'') (entity_at ''Firmware''))
     [(provider_at ''StatusByCallbackManager<BmcManager>'', defaultLinkProvider)] now)"

subsection \<open>Memory\<close>

definition DimmSMBiosProvider_class :: entity_class where
  "DimmSMBiosProvider_class = named_class ''DimmSMBiosProvider'' Type_reference Cached"

definition DimmSMBiosProvider_entity :: "int \<Rightarrow> entity" where
  "DimmSMBiosProvider_entity now = new_DimmSMBiosProvider
     (declared DimmSMBiosProvider_class (provider_at ''DimmSMBiosProvider'') [] [] now)"

definition Memory_class :: entity_class where
  "Memory_class = named_class ''Memory'' Type_array Lazy"

definition Memory_entity :: "int \<Rightarrow> entity" where
  "Memory_entity now = declared Memory_class (entity_at ''Memory'') [] [] now"

definition MemorySummary_class :: entity_class where
  "MemorySummary_class = named_class ''MemorySummary'' Type_object Lazy"

definition MemorySummary_entity :: "int \<Rightarrow> entity" where
  "MemorySummary_entity now = declared MemorySummary_class (entity_at ''MemorySummary'') [] [] now"

subsection \<open>Adapters\<close>

definition NetAdapter_class :: entity_class where
  "NetAdapter_class = named_class ''NetAdapter'' Type_array Cached"

definition NetAdapter_entity :: "int \<Rightarrow> entity" where
  "NetAdapter_entity now = new_NetAdapter (declared NetAdapter_class (entity_at ''NetAdapter'') [] [] now)"

subsection \<open>Interfaces\<close>

definition NetworkConfig_class :: entity_class where
  "NetworkConfig_class = named_class ''NetworkConfig'' Type_object Cached"

definition NetworkConfig_entity :: "int \<Rightarrow> entity" where
  "NetworkConfig_entity now = declared NetworkConfig_class (entity_at ''NetworkConfig'') [] [] now"

definition NetworkDHCPConfig_class :: entity_class where
  "NetworkDHCPConfig_class = named_class ''NetworkDHCPConfig'' Type_object Cached"

definition NetworkDHCPConfig_entity :: "int \<Rightarrow> entity" where
  "NetworkDHCPConfig_entity now = declared NetworkDHCPConfig_class (entity_at ''NetworkDHCPConfig'') [] [] now"

definition IP_class :: entity_class where
  "IP_class = named_class ''IP'' Type_array Cached"

definition IP_entity :: "int \<Rightarrow> entity" where
  "IP_entity now = new_IP (declared IP_class (entity_at ''IP'') [] [] now)"

definition Ethernet_class :: entity_class where
  "Ethernet_class = named_class ''Ethernet'' Type_array Cached"

definition Ethernet_entity :: "int \<Rightarrow> entity" where
  "Ethernet_entity now = new_Ethernet (declared Ethernet_class (entity_at ''Ethernet'')
     (ethernet_relations (entity_at ''Ethernet'') (entity_at ''IP''))
     [] now)"

subsection \<open>Protocols\<close>

definition IpmiSolProtocolProvider_class :: entity_class where
  "IpmiSolProtocolProvider_class = named_class ''IpmiSolProtocolProvider'' Type_reference Cached"

definition IpmiSolProtocolProvider_entity :: "int \<Rightarrow> entity" where
  "IpmiSolProtocolProvider_entity now =
     declared IpmiSolProtocolProvider_class (provider_at ''IpmiSolProtocolProvider'') [] [] now"

definition SnmpProtocol_class :: entity_class where
  "SnmpProtocol_class = named_class ''SnmpProtocol'' Type_object Cached"

definition SnmpProtocol_entity :: "int \<Rightarrow> entity" where
  "SnmpProtocol_entity now = new_SnmpProtocol (declared SnmpProtocol_class (entity_at ''SnmpProtocol'') [] [] now)"

definition NtpProtocol_class :: entity_class where
  "NtpProtocol_class = named_class ''NtpProtocol'' Type_object Cached"

definition NtpProtocol_entity :: "int \<Rightarrow> entity" where
  "NtpProtocol_entity now = declared NtpProtocol_class (entity_at ''NtpProtocol'') [] [] now"

definition NetworkProtocol_class :: entity_class where
  "NetworkProtocol_class = named_class ''NetworkProtocol'' Type_array (Short_time 10)"

definition NetworkProtocol_entity :: "int \<Rightarrow> entity" where
  "NetworkProtocol_entity now = declared NetworkProtocol_class (entity_at ''NetworkProtocol'')
     (protocol_relations (entity_at ''NetworkProtocol'') (entity_at ''SnmpProtocol'') (entity_at ''NtpProtocol''))
     (protocol_links (provider_at ''IpmiSolProtocolProvider'')) now"

subsection \<open>PCIe\<close>

definition PCIeProvider_class :: entity_class where
  "PCIeProvider_class = named_class ''PCIeProvider'' Type_reference Cached"

definition PCIeProvider_entity :: "int \<Rightarrow> entity" where
  "PCIeProvider_entity now = new_PCIeProvider
     (declared PCIeProvider_class (provider_at ''PCIeProvider'') [] [] now)"

definition PCIeDevice_class :: entity_class where
  "PCIeDevice_class = named_class ''PCIeDevice'' Type_array Lazy"

definition PCIeDevice_entity :: "int \<Rightarrow> entity" where
  "PCIeDevice_entity now = declared PCIeDevice_class (entity_at ''PCIeDevice'')
     (pcie_relations (entity_at ''PCIeDevice'') (entity_at ''PCIeFunction''))
     [] now"

definition PCIeFunction_class :: entity_class where
  "PCIeFunction_class = named_class ''PCIeFunction'' Type_array Lazy"

definition PCIeFunction_entity :: "int \<Rightarrow> entity" where
  "PCIeFunction_entity now = new_PCIeFunction (declared PCIeFunction_class (entity_at ''PCIeFunction'')
     (pcie_relations (entity_at ''PCIeFunction'') (entity_at ''PCIeDevice''))
     [] now)"

subsection \<open>Fan control\<close>

definition PIDProfile_class :: entity_class where
  "PIDProfile_class = named_class ''PIDProfile'' Type_object Cached"

definition PIDProfile_entity :: "int \<Rightarrow> entity" where
  "PIDProfile_entity now = declared PIDProfile_class (entity_at ''PIDProfile'') [] [] now"

definition PIDZone_class :: entity_class where
  "PIDZone_class = named_class ''PIDZone'' Type_array Cached"

definition PIDZone_entity :: "int \<Rightarrow> entity" where
  "PIDZone_entity now = declared PIDZone_class (entity_at ''PIDZone'')
     (zone_relations (entity_at ''PIDZone'') (entity_at ''PID''))
     [] now"

definition PID_class :: entity_class where
  "PID_class = named_class ''PID'' Type_array Cached"

definition PID_entity :: "int \<Rightarrow> entity" where
  "PID_entity now = declared PID_class (entity_at ''PID'')
     (pid_relations (entity_at ''PID'') (entity_at ''PIDZone''))
     [] now"

subsection \<open>The power of the host\<close>

definition HostPower_class :: entity_class where
  "HostPower_class = named_class ''HostPower'' Type_object Cached"

definition HostPower_entity :: "int \<Rightarrow> entity" where
  "HostPower_entity now = new_HostPower (declared HostPower_class (entity_at ''HostPower'') [] [] now)"

subsection \<open>Power supplies\<close>

definition PMBusProvider_class :: entity_class where
  "PMBusProvider_class = named_class ''PMBusProvider'' Type_reference Cached"

definition PMBusProvider_entity :: "int \<Rightarrow> entity" where
  "PMBusProvider_entity now = declared PMBusProvider_class (provider_at ''PMBusProvider'') [] [] now"

definition PSU_class :: entity_class where
  "PSU_class = named_class ''PSU'' Type_array Cached"

definition PSU_entity :: "int \<Rightarrow> entity" where
  "PSU_entity now = new_PSU (declared PSU_class (entity_at ''PSU'')
     (inventory_relations (entity_at ''PSU'') (entity_at ''Sensors''))
     (psu_links (provider_at ''PMBusProvider'') (provider_at ''StatusByCallbackManager<PSU>'')) now)"

subsection \<open>Roles\<close>

definition Roles_class :: entity_class where
  "Roles_class = named_class ''Roles'' Type_array Lazy"

definition Roles_entity :: "int \<Rightarrow> entity" where
  "Roles_entity now = declared Roles_class (entity_at ''Roles'') [] [] now"

subsection \<open>Sensors\<close>

definition Sensors_class :: entity_class where
  "Sensors_class = named_class ''Sensors'' Type_array Cached"

definition Sensors_entity :: "int \<Rightarrow> entity" where
  "Sensors_entity now = new_Sensors (declared Sensors_class (entity_at ''Sensors'') [] [] now)"

subsection \<open>The server\<close>

definition AssetTagProvider_class :: entity_class where
  "AssetTagProvider_class = named_class ''AssetTagProvider'' Type_reference Cached"

definition AssetTagProvider_entity :: "int \<Rightarrow> entity" where
  "AssetTagProvider_entity now = declared AssetTagProvider_class (provider_at ''AssetTagProvider'') [] [] now"

definition IndicatorLedProvider_class :: entity_class where
  "IndicatorLedProvider_class = named_class ''IndicatorLedProvider'' Type_reference Cached"

definition IndicatorLedProvider_entity :: "int \<Rightarrow> entity" where
  "IndicatorLedProvider_entity now =
     declared IndicatorLedProvider_class (provider_at ''IndicatorLedProvider'') [] [] now"

definition BootSettingsProvider_class :: entity_class where
  "BootSettingsProvider_class = named_class ''BootSettingsProvider'' Type_reference Cached"

definition BootSettingsProvider_entity :: "int \<Rightarrow> entity" where
  "BootSettingsProvider_entity now =
     declared BootSettingsProvider_class (provider_at ''BootSettingsProvider'') [] [] now"

definition HostWatchdogProvider_class :: entity_class where
  "HostWatchdogProvider_class = named_class ''HostWatchdogProvider'' Type_reference Cached"

definition HostWatchdogProvider_entity :: "int \<Rightarrow> entity" where
  "HostWatchdogProvider_entity now =
     declared HostWatchdogProvider_class (provider_at ''HostWatchdogProvider'') [] [] now"

definition RebootRemainingProvider_class :: entity_class where
  "RebootRemainingProvider_class = named_class ''RebootRemainingProvider'' Type_reference Cached"

definition RebootRemainingProvider_entity :: "int \<Rightarrow> entity" where
  "RebootRemainingProvider_entity now =
     declared RebootRemainingProvider_class (provider_at ''RebootRemainingProvider'') [] [] now"

definition PowerRestorePolicyProvider_class :: entity_class where
  "PowerRestorePolicyProvider_class = named_class ''PowerRestorePolicyProvider'' Type_reference Cached"

definition PowerRestorePolicyProvider_entity :: "int \<Rightarrow> entity" where
  "PowerRestorePolicyProvider_entity now =
     declared PowerRestorePolicyProvider_class (provider_at ''PowerRestorePolicyProvider'') [] [] now"

definition HostBootProvider_class :: entity_class where
  "HostBootProvider_class = named_class ''HostBootProvider'' Type_reference Cached"

definition HostBootProvider_entity :: "int \<Rightarrow> entity" where
  "HostBootProvider_entity now = declared HostBootProvider_class (provider_at ''HostBootProvider'') [] [] now"

definition HostBootOnceProvider_class :: entity_class where
  "HostBootOnceProvider_class = named_class ''HostBootOnceProvider'' Type_reference Cached"

definition HostBootOnceProvider_entity :: "int \<Rightarrow> entity" where
  "HostBootOnceProvider_entity now =
     declared HostBootOnceProvider_class (provider_at ''HostBootOnceProvider'') [] [] now"

definition Server_class :: entity_class where
  "Server_class = named_class ''Server'' Type_object Cached"

definition Server_entity :: "int \<Rightarrow> entity" where
  "Server_entity now = new_Server (declared Server_class (entity_at ''Server'')
     (server_relations (entity_at ''Server'') (entity_at ''Firmware''))
     (server_links (map provider_at
       [''AssetTagProvider'', ''BootSettingsProvider'', ''HostWatchdogProvider'', ''PowerRestorePolicyProvider'',
        ''RebootRemainingProvider'', ''HostBootProvider'', ''HostBootOnceProvider'', ''IndicatorLedProvider'',
        ''FirmwareProvider'', ''StatusByCallbackManager<Server>''])) now)"

subsection \<open>Sessions of services\<close>

definition SessionManager_class :: entity_class where
  "SessionManager_class = named_class ''SessionManager'' Type_array Lazy"

definition SessionManager_entity :: "int \<Rightarrow> entity" where
  "SessionManager_entity now = declared SessionManager_class (entity_at ''SessionManager'') [] [] now"

subsection \<open>Settings\<close>

definition Settings_class :: entity_class where
  "Settings_class = named_class ''Settings'' Type_object Cached"

definition Settings_entity :: "int \<Rightarrow> entity" where
  "Settings_entity now = declared Settings_class (entity_at ''Settings'') [] [] now"

subsection \<open>Virtual media\<close>

definition VirtualMedia_class :: entity_class where
  "VirtualMedia_class = named_class ''VirtualMedia'' Type_array (Short_time 1)"

definition VirtualMedia_entity :: "int \<Rightarrow> entity" where
  "VirtualMedia_entity now = new_VirtualMedia (declared VirtualMedia_class (entity_at ''VirtualMedia'') [] [] now)"

section \<open>All of them\<close>

text \<open>In the order of \<open>built_entities\<close>, and the providers behind them.\<close>

definition device_entities :: "(int \<Rightarrow> entity) list" where
  "device_entities =
     [Sensors_entity, Processor_entity, ProcessorSummary_entity, Memory_entity, MemorySummary_entity,
      Fan_entity, PSU_entity, Drive_entity, StorageControllers_entity, NetAdapter_entity, Settings_entity,
      PCIeDevice_entity, PCIeFunction_entity, HostPower_entity, PIDProfile_entity, PIDZone_entity, PID_entity,
      SnmpProtocol_entity, NtpProtocol_entity, NetworkProtocol_entity, NetworkConfig_entity,
      NetworkDHCPConfig_entity, IP_entity, Ethernet_entity, SessionManager_entity, Accounts_entity,
      DomainGroups_entity, DomainAccounts_entity, AccountSettings_entity, Roles_entity,
      TrustStoreCertificates_entity, LDAPCertificates_entity, HTTPSCertificates_entity, VirtualMedia_entity,
      Firmware_entity, FirmwareManagment_entity, BmcManager_entity, IntrusionSensor_entity, Chassis_entity,
      Baseboard_entity, Server_entity]"

definition provider_entities :: "(int \<Rightarrow> entity) list" where
  "provider_entities =
     [AccountSettingsProvider_entity, ChassisStateProvider_entity, CpuSMBiosProvider_entity,
      DimmSMBiosProvider_entity, FirmwareProvider_entity, IpmiSolProtocolProvider_entity, PCIeProvider_entity,
      PMBusProvider_entity, AssetTagProvider_entity, IndicatorLedProvider_entity, BootSettingsProvider_entity,
      HostWatchdogProvider_entity, RebootRemainingProvider_entity, PowerRestorePolicyProvider_entity,
      HostBootProvider_entity, HostBootOnceProvider_entity, StatusByCallbackManager_entity ''PSU'',
      StatusByCallbackManager_entity ''BmcManager'', StatusByCallbackManager_entity ''Server'']"

definition declared_classes :: "entity_class list" where
  "declared_classes =
     [Sensors_class, Processor_class, ProcessorSummary_class, Memory_class, MemorySummary_class, Fan_class,
      PSU_class, Drive_class, StorageControllers_class, NetAdapter_class, Settings_class, PCIeDevice_class,
      PCIeFunction_class, HostPower_class, PIDProfile_class, PIDZone_class, PID_class, SnmpProtocol_class,
      NtpProtocol_class, NetworkProtocol_class, NetworkConfig_class, NetworkDHCPConfig_class, IP_class,
      Ethernet_class, SessionManager_class, Accounts_class, DomainGroups_class, DomainAccounts_class,
      AccountSettings_class, Roles_class, TrustStoreCertificates_class, LDAPCertificates_class,
      HTTPSCertificates_class, VirtualMedia_class, Firmware_class, FirmwareManagment_class, BmcManager_class,
      IntrusionSensor_class, Chassis_class, Baseboard_class, Server_class]"

text \<open>What \<open>std::make_shared\<close> gives for an entity's name.\<close>

definition construct_device :: "int \<Rightarrow> string \<Rightarrow> entity" where
  "construct_device now name =
     (case map_of (zip built_entities device_entities) name of
        Some build \<Rightarrow> build now
      | None \<Rightarrow> new_entity name [] [] [] LazySource)"

text \<open>The kind of every entity, for the handlers.\<close>

definition device_entity_type :: "nat \<Rightarrow> entity_type" where
  "device_entity_type e = (if e < length declared_classes then class_type (declared_classes ! e) else Type_reference)"

text \<open>The world with the singletons of the providers, before the first entity is built.\<close>

definition device_world :: "int \<Rightarrow> entity_world" where
  "device_world now = \<lparr>entities = (\<lambda>e. if e < length built_entities \<or> length built_entities + length provider_entities \<le> e
       then new_entity [] [] [] [] LazySource else (provider_entities ! (e - length built_entities)) now),
     subscribers = [], observers = [], dictionary = []\<rparr>"

section \<open>The fields of the queries\<close>

definition endpoint_fields :: "endpoint_map \<Rightarrow> string list" where
  "endpoint_fields eps = getFields \<lparr>searchProperties = eps, staticFields = no_step, defaultFields = []\<rparr>"

text \<open>Fields do not depend on how dates and numbers are printed.\<close>

definition provider_fields :: "string list list" where
  "provider_fields =
     [endpoint_fields account_settings_endpoints, endpoint_fields (chassis_state_endpoints (\<lambda>_ _. [])),
      endpoint_fields (cpu_smbios_endpoints (\<lambda>_. [])), endpoint_fields (dimm_endpoints (\<lambda>_. [])),
      endpoint_fields firmware_endpoints, endpoint_fields ipmisol_endpoints, endpoint_fields pcie_endpoints,
      endpoint_fields pmbus_endpoints, endpoint_fields asset_tag_endpoints, endpoint_fields indicator_endpoints,
      endpoint_fields boot_settings_endpoints, endpoint_fields watchdog_endpoints, endpoint_fields attempts_endpoints,
      endpoint_fields restore_endpoints, endpoint_fields boot_endpoints, endpoint_fields boot_once_endpoints,
      getFields (callback_query []), getFields (callback_query []), getFields (callback_query [])]"

text \<open>\<open>ProxyQuery\<close> initializes its provider when it is made, so its fields are the members of the
  initialized provider.\<close>

definition new_ProxyQuery :: "nat \<Rightarrow> entity_env \<Rightarrow> nat \<Rightarrow> unit act" where
  "new_ProxyQuery n bus provider = initialize_entity n bus provider"

definition proxied :: "nat \<Rightarrow> string list" where
  "proxied k = proxy_fields (add_members (provider_fields ! k) ((provider_entities ! k) 0))"

definition entity_fields :: "string list list" where
  "entity_fields =
     [endpoint_fields sensor_endpoints, endpoint_fields processor_endpoints, processor_summary_fields, proxied 3,
      memory_summary_fields, endpoint_fields fan_endpoints, endpoint_fields psu_endpoints, endpoint_fields drive_endpoints,
      storage_fields, endpoint_fields adapter_endpoints, endpoint_fields settings_endpoints, proxied 6,
      pcie_function_fields, endpoint_fields host_power_endpoints, endpoint_fields profile_endpoints,
      endpoint_fields zone_endpoints, endpoint_fields pid_endpoints, endpoint_fields snmp_endpoints,
      endpoint_fields ntp_endpoints, [''Purpose'', ''Enabled'', ''Port''], endpoint_fields net_config_endpoints,
      endpoint_fields dhcp_endpoints, endpoint_fields ip_endpoints, endpoint_fields ethernet_endpoints,
      endpoint_fields session_manager_endpoints, endpoint_fields account_endpoints, endpoint_fields group_endpoints,
      endpoint_fields domain_endpoints, proxied 0, role_fields, endpoint_fields (certificate_endpoints (\<lambda>_ _. [])),
      endpoint_fields (certificate_endpoints (\<lambda>_ _. [])), endpoint_fields (certificate_endpoints (\<lambda>_ _. [])),
      endpoint_fields vm_endpoints, proxied 4, endpoint_fields apply_time_endpoints, endpoint_fields manager_endpoints,
      endpoint_fields intrusion_endpoints, endpoint_fields chassis_endpoints, endpoint_fields board_endpoints,
      endpoint_fields server_endpoints]"

definition device_fields :: "nat \<Rightarrow> string list" where
  "device_fields e = (if e < length (entity_fields @ provider_fields) then (entity_fields @ provider_fields) ! e else [])"

section \<open>The start\<close>

text \<open>The constructors of the entities that are filled from a provider make its proxy: memory and its
  summary, the PCIe devices, the settings of accounts, the firmware.\<close>

definition construct_proxies :: "nat \<Rightarrow> entity_env \<Rightarrow> unit act" where
  "construct_proxies n bus = for_each
     (map provider_at [''DimmSMBiosProvider'', ''DimmSMBiosProvider'', ''PCIeProvider'', ''AccountSettingsProvider'',
        ''FirmwareProvider''])
     (new_ProxyQuery n bus)"

definition start_devices :: "nat \<Rightarrow> int \<Rightarrow> boot_env \<Rightarrow> 'a boot_step" where
  "start_devices n now be = boot_steps
     [on_app_world (construct_proxies n (bus_at be 0)), initEntities n (be\<lparr>construct := construct_device now\<rparr>)]"

section \<open>Names and relations\<close>

text \<open>\<open>EntityManager::getEntity<TEntity>\<close>: by the name behind the last colon of the class.\<close>

definition getEntity_of :: "nat \<Rightarrow> entity_env \<Rightarrow> string option \<Rightarrow> nat act" where
  "getEntity_of n bus className =
     (case NamedEntity_getName className of
        Inl _ \<Rightarrow> throw (Runtime_error (''Can'' @ [CHR 0x27] @ ''t acquire entityName by symbols''))
      | Inr en \<Rightarrow> getEntity n bus en)"

text \<open>\<open>ENTITY_DEF_RELATION\<close> and \<open>Relation::build<TDestination>\<close>: both ends are looked up, and so
  populated, when the relations of an entity are used for the first time. The entities here have their
  relations from the beginning.\<close>

definition define_relation ::
    "nat \<Rightarrow> entity_env \<Rightarrow> string \<Rightarrow> entity_class \<Rightarrow> (string \<times> string \<times> compare) list \<Rightarrow> relation act" where
  "define_relation n bus self dest rules =
     bind_act (getEntity n bus self) (\<lambda>s. bind_act (getEntity_of n bus (Some (class_path dest))) (\<lambda>d.
       ret (Relation_build s d rules)))"

end
