(* ===== verification/Entity_Fuel.thy ===== *)
theory Entity_Fuel
  imports Entity_Properties
begin

text \<open>
  How deep the operations on entities go. When no entity supplements itself, not even through other
  providers, the recursion along the providers ends: every provider has a rank below that of the
  entities it supplements, and an operation never needs more levels than the rank of its entity,
  whatever the queries, the rules and the bus do.
\<close>

section \<open>Actions that end\<close>

definition ends_in :: "(entity_world \<Rightarrow> bool) \<Rightarrow> 'a act \<Rightarrow> bool" where
  "ends_in P m \<longleftrightarrow> (\<forall>w. P w \<longrightarrow> (\<exists>r w'. m w = Some (r, w') \<and> P w'))"

named_theorems ends

lemma ends_inD: "ends_in P m \<Longrightarrow> P w \<Longrightarrow> \<exists>r w'. m w = Some (r, w') \<and> P w'"
  by (simp add: ends_in_def)

lemma ends_ret [ends]: "ends_in P (ret v)"
  by (simp add: ends_in_def ret_def)

lemma ends_throw [ends]: "ends_in P (throw e)"
  by (simp add: ends_in_def throw_def)

lemma ends_world: "(\<And>w. P w \<Longrightarrow> ends_in P (m w)) \<Longrightarrow> ends_in P (\<lambda>w. m w w)"
  by (simp add: ends_in_def)

lemma ends_bind [ends]: "ends_in P m \<Longrightarrow> (\<And>v. ends_in P (f v)) \<Longrightarrow> ends_in P (bind_act m f)"
  unfolding ends_in_def bind_act_def by (fastforce split: sum.splits)

lemma ends_each: "(\<And>x. x \<in> set xs \<Longrightarrow> ends_in P (f x)) \<Longrightarrow> ends_in P (for_each xs f)"
  by (induction xs) (simp_all add: ends_ret ends_bind)

lemma ends_catch: "ends_in P m \<Longrightarrow> ends_in P (catch_sdbus m)"
  unfolding ends_in_def catch_sdbus_def by (fastforce split: sum.splits cpp_exn.splits)

lemma ends_modify: "(\<And>w. P w \<Longrightarrow> P (upd_entity e f w)) \<Longrightarrow> ends_in P (modify e f)"
  by (simp add: ends_in_def modify_def)

lemma ends_first: "(\<And>p. p \<in> set ps \<Longrightarrow> ends_in P (ask p)) \<Longrightarrow> ends_in P (first_member ask ps name)"
proof (induction ps)
  case Nil
  then show ?case by (simp add: ends_throw)
next
  case (Cons p ps)
  then have "ends_in P (ask p)" "ends_in P (first_member ask ps name)" by simp_all
  then show ?case unfolding ends_in_def first_member.simps by (fastforce split: sum.splits)
qed

lemma ends_collect: "(\<And>x. x \<in> set xs \<Longrightarrow> ends_in P (f x)) \<Longrightarrow> ends_in P (collect f xs)"
  by (induction xs) (simp_all add: ends_ret ends_bind)

lemma ends_visit: "(\<And>h. ends_in P (visit h)) \<Longrightarrow> ends_in P (visit_all visit hs)"
  by (induction hs) (simp_all add: ends_ret ends_bind)

section \<open>Providers\<close>

text \<open>The providers of every entity are among those of a given wiring.\<close>

definition wired :: "(nat \<Rightarrow> nat list) \<Rightarrow> entity_world \<Rightarrow> bool" where
  "wired pf w \<longleftrightarrow> (\<forall>e. fst ` set (providers (entities w e)) \<subseteq> set (pf e))"

lemma wired_upd: "wired pf w \<Longrightarrow> providers (f (entities w e)) = providers (entities w e) \<Longrightarrow> wired pf (upd_entity e f w)"
  by (simp add: wired_def upd_entity_def)

lemma wired_fold: "wired pf w \<Longrightarrow> wired pf (fold (\<lambda>e. upd_entity e (\<lambda>x. x\<lparr>source_of := invalidate (source_of x)\<rparr>)) es w)"
  by (induction es arbitrary: w) (simp_all add: wired_upd)

lemma wired_raise: "wired pf w \<Longrightarrow> wired pf (raise_failures q w)"
  by (simp add: raise_failures_def wired_fold)

lemma providers_setInstances [simp]: "providers (setInstances bus is x) = providers x"
  by (simp add: setInstances_def)

lemma providers_createMember [simp]: "providers (snd (createMember name x)) = providers x"
  by (simp add: createMember_def addMember_def)

lemma providers_members [simp]: "providers (fold (\<lambda>name y. snd (createMember name y)) names x) = providers x"
  by (induction names arbitrary: x) simp_all

lemma ends_set_source [ends]: "ends_in (wired pf) (set_source e f)"
  by (simp add: set_source_def ends_modify wired_upd)

lemma ends_empty [ends]: "ends_in (wired pf) (modify e (\<lambda>x. x\<lparr>instances := []\<rparr>))"
  by (simp add: ends_modify wired_upd)

lemma ends_on_instance [ends]: "ends_in (wired pf) (on_instance e h f)"
  unfolding ends_in_def on_instance_def by (auto simp: ret_def wired_upd split: option.splits prod.splits)

lemma ends_configure [ends]: "ends_in (wired pf) (configure_query bus e q)"
  unfolding ends_in_def configure_query_def
  by (auto simp: ret_def configureQueryEvents_def register_observers_def wired_def split: source_state.splits)

lemma ends_process_query [ends]: "ends_in (wired pf) (process_query bus e q)"
  unfolding process_query_def
proof (rule ends_bind [OF ends_configure])
  fix v :: unit
  show "ends_in (wired pf) (\<lambda>w. let (raised, result) = query_process bus q;
          w1 = (if raised then raise_failures q w else w)
      in case result of
           Inl ex \<Rightarrow> Some (Inl ex, w1)
         | Inr is \<Rightarrow> Some (Inr (), upd_entity e (setInstances bus is) w1))"
    unfolding ends_in_def using wired_raise [of pf _ q]
    by (cases "query_process bus q") (auto simp: Let_def wired_upd split: sum.splits)
qed

lemma ends_supplement [ends]: "ends_in (wired pf) (supplementInstance e h rule is)"
  by (simp add: supplementInstance_def ends_each ends)

section \<open>The interface\<close>

text \<open>A wiring without cycles.\<close>

locale provider_order =
  fixes pf :: "nat \<Rightarrow> nat list" and rank :: "nat \<Rightarrow> nat"
  assumes rank_falls: "p \<in> set (pf e) \<Longrightarrow> rank p < rank e"
begin

lemma ends_providers:
  assumes "\<And>p. p \<in> set (pf e) \<Longrightarrow> ends_in (wired pf) (f p)"
  shows "ends_in (wired pf) (\<lambda>w. for_each (map fst (providers (entities w e))) f w)"
proof (rule ends_world [where m = "\<lambda>v. for_each (map fst (providers (entities v e))) f"])
  fix w assume "wired pf w"
  then have "p \<in> set (pf e)" if "p \<in> set (map fst (providers (entities w e)))" for p
    using that by (auto simp: wired_def)
  then show "ends_in (wired pf) (for_each (map fst (providers (entities w e))) f)" by (intro ends_each assms)
qed

lemma below: "p \<in> set (pf e) \<Longrightarrow> rank e < Suc n \<Longrightarrow> rank p < n"
  using rank_falls [of p e] by simp

lemma ends_reset: "rank e < n \<Longrightarrow> ends_in (wired pf) (resetCache n e)"
proof (induction n arbitrary: e)
  case (Suc n)
  then show ?case unfolding resetCache.simps
    by (intro ends_bind ends_empty ends_providers) (auto dest: below)
qed simp

lemma ends_processQueries: "rank e < n \<Longrightarrow> ends_in (wired pf) (processQueries n bus e)"
proof (induction n arbitrary: e)
  case (Suc n)
  let ?q = "\<lambda>v. for_each (entity_queries (entities v e)) (process_query bus e)"
  have "ends_in (wired pf) (\<lambda>w. bind_act (\<lambda>v. for_each (map fst (providers (entities v e))) (processQueries n bus) v) (\<lambda>_ v. ?q v v) w)"
    using Suc by (intro ends_bind ends_providers ends_world [where m = ?q] ends_each ends_process_query) (auto dest: below)
  then show ?case unfolding processQueries.simps by (intro ends_catch) (simp add: bind_act_def)
qed simp

lemma ends_initialize: "rank e < n \<Longrightarrow> ends_in (wired pf) (initialize_entity n bus e)"
proof (induction n arbitrary: e)
  case (Suc n)
  then show ?case unfolding initialize_entity.simps
    by (intro ends_bind ends_reset ends_modify ends_providers wired_upd) (auto dest: below)
qed simp

lemma ends_refill: "rank e < n \<Longrightarrow> ends_in (wired pf) (refill n bus e)"
  unfolding refill_def by (intro ends_bind ends_reset ends_processQueries)

lemma ends_populate: "rank e < n \<Longrightarrow> ends_in (wired pf) (populate n bus e)"
proof -
  assume r: "rank e < n"
  show ?thesis
    unfolding ends_in_def
  proof (intro allI impI)
    fix w assume w: "wired pf w"
    have fills: "ends_in (wired pf) (bind_act (set_source e f) (\<lambda>_. bind_act (refill n bus e) (\<lambda>_. set_source e g)))"
      "ends_in (wired pf) (bind_act (refill n bus e) (\<lambda>_. set_source e g))" for f g
      using r by (simp_all add: ends ends_refill)
    show "\<exists>r w'. populate n bus e w = Some (r, w') \<and> wired pf w'"
      using w fills [THEN ends_inD, OF w] ends_refill [OF r, THEN ends_inD, OF w]
      by (cases "source_of (entities w e)") (auto simp: populate_def ret_def)
  qed
qed

lemma ends_getInstances: "rank e < n \<Longrightarrow> ends_in (wired pf) (getInstances n bus e conds)"
proof (induction n arbitrary: e conds)
  case (Suc n)
  have rules: "ends_in (wired pf) (\<lambda>w. for_each (providers (entities w e))
      (\<lambda>(p, rule). bind_act (getInstances n bus p []) (supplementInstance e h rule)) w)" for h
  proof (rule ends_world [where m = "\<lambda>v. for_each (providers (entities v e)) _"])
    fix w assume w: "wired pf w"
    show "ends_in (wired pf) (for_each (providers (entities w e))
        (\<lambda>(p, rule). bind_act (getInstances n bus p []) (supplementInstance e h rule)))"
    proof (rule ends_each)
      fix x assume "x \<in> set (providers (entities w e))"
      with w have "fst x \<in> set (pf e)" by (auto simp: wired_def)
      then have "ends_in (wired pf) (getInstances n bus (fst x) [])" by (intro Suc.IH below [OF _ Suc.prems])
      then show "ends_in (wired pf) ((\<lambda>(p, rule). bind_act (getInstances n bus p []) (supplementInstance e h rule)) x)"
        by (auto simp: ends split: prod.splits)
    qed
  qed
  have "ends_in (wired pf) (\<lambda>w. ret (case map_of (instances (entities w e)) h of None \<Rightarrow> None
      | Some i \<Rightarrow> if conditions_pass conds i then Some i else None) w)" for h
    by (rule ends_world [where m = "\<lambda>w. ret (case map_of (instances (entities w e)) h of None \<Rightarrow> None | Some i \<Rightarrow> _ i)"]) (rule ends_ret)
  then have "ends_in (wired pf) (visit_instance bus (\<lambda>p. getInstances n bus p []) e conds h)" for h
    unfolding visit_instance_def by (intro ends_bind ends_on_instance rules)
  then show ?case unfolding getInstances.simps
    by (intro ends_world [where m = "\<lambda>w. visit_all _ (map fst (instances (entities w e)))"] ends_visit)
qed simp

lemma ends_getMember: "rank e < n \<Longrightarrow> ends_in (wired pf) (getMember n e name)"
proof (induction n arbitrary: e)
  case (Suc n)
  show ?case
    unfolding ends_in_def
  proof (intro allI impI)
    fix w assume w: "wired pf w"
    have "ends_in (wired pf) (first_member (\<lambda>p. getMember n p name) (map fst (providers (entities w e))) name)"
    proof (rule ends_first)
      fix p assume "p \<in> set (map fst (providers (entities w e)))"
      with w have "p \<in> set (pf e)" by (auto simp: wired_def)
      then show "ends_in (wired pf) (getMember n p name)" by (intro Suc.IH below [OF _ Suc.prems])
    qed
    then show "\<exists>r w'. getMember (Suc n) e name w = Some (r, w') \<and> wired pf w'"
      using w by (auto simp: ret_def dest: ends_inD split: option.splits)
  qed
qed simp

lemma ends_getEntity:
  assumes "\<And>e. rank e < n"
  shows "ends_in (wired pf) (getEntity n bus name)"
  unfolding ends_in_def
proof (intro allI impI)
  fix w assume w: "wired pf w"
  have "ends_in (wired pf) (bind_act (populate n bus e) (\<lambda>_. ret e))" for e by (intro ends_bind ends_populate ends_ret assms)
  then show "\<exists>r w'. getEntity n bus name w = Some (r, w') \<and> wired pf w'"
    using w by (auto simp: getEntity_def throw_def dest: ends_inD split: option.splits)
qed

lemma ends_configure_all:
  assumes "\<And>e. rank e < n"
  shows "ends_in (wired pf) (\<lambda>w. configure n bus w)" "ends_in (wired pf) (\<lambda>w. update n bus w)"
  unfolding configure_def update_def
  by (rule ends_world [where m = "\<lambda>w. for_each (map snd (dictionary w)) _"],
      intro ends_each ends_initialize ends_populate assms)+

lemma ends_related:
  assumes "\<And>e. rank e < n"
  shows "ends_in (wired pf) (getRelatedInstances n bus rel conds skipEmpty i)"
proof -
  have rule: "ends_in (wired pf) (rule_condition n r h x)" for r h x
  proof -
    obtain ms md cmp where x: "x = (ms, md, cmp)" by (cases x)
    have "ends_in (wired pf) (\<lambda>w. (case getInstance h (entities w (source r)) of
        None \<Rightarrow> ret [] w
      | Some i \<Rightarrow> ret [Some (condition_value md (getValue (getField (member_name m) i)) cmp)] w))" for m
      unfolding ends_in_def by (simp add: ret_def split: option.splits)
    then have "ends_in (wired pf) (bind_act (getMember n (source r) ms) (\<lambda>m w. (case getInstance h (entities w (source r)) of
        None \<Rightarrow> ret [] w
      | Some i \<Rightarrow> ret [Some (condition_value md (getValue (getField (member_name m) i)) cmp)] w)))"
      by (intro ends_bind ends_getMember assms)
    then show ?thesis unfolding x rule_condition_def by (auto simp: ends_in_def ret_def)
  qed
  then show ?thesis
    by (cases rel) (auto simp: getRelatedInstances_def getConditions_def Let_def
        intro!: ends_ret ends_bind ends_collect ends_getInstances assms split: if_splits)
qed

end

end
