(* ===== verification/Devices_Facts.thy ===== *)
theory Devices_Facts
  imports Devices Entity_Fuel Startup_Properties
begin

text \<open>
  What the operations on entities need to know of the declared devices: their names, their providers
  and relations, and their members.
\<close>

section \<open>Parts\<close>

lemma device_lengths:
  "length built_entities = 41" "length device_entities = 41" "length provider_names = 19"
  "length provider_entities = 19" "length entity_fields = 41" "length provider_fields = 19"
  by (simp_all add: built_entities_def device_entities_def provider_names_def provider_entities_def entity_fields_def
      provider_fields_def)

text \<open>Members change neither the name nor the relations nor the providers.\<close>

definition same_wiring :: "entity \<Rightarrow> entity \<Rightarrow> bool" where
  "same_wiring x y \<longleftrightarrow> entity_name x = entity_name y \<and> relations x = relations y \<and> providers x = providers y \<and>
     entity_queries x = entity_queries y \<and> map_of (members y) \<subseteq>\<^sub>m map_of (members x)"

lemma same_wiring_refl: "same_wiring x x"
  by (simp add: same_wiring_def)

lemma same_wiring_trans: "same_wiring x y \<Longrightarrow> same_wiring y z \<Longrightarrow> same_wiring x z"
  by (auto simp: same_wiring_def intro: map_le_trans)

lemma emplace_keeps: "map_of m \<subseteq>\<^sub>m map_of (om_emplace k v m)"
  by (auto simp: map_le_def map_of_om_emplace split: option.splits)

lemma createMember_wiring: "same_wiring (snd (createMember m x)) x"
  by (simp add: same_wiring_def createMember_def addMember_def emplace_keeps)

lemma add_members_wiring: "same_wiring (add_members names x) x"
proof (induction names arbitrary: x)
  case (Cons m names)
  from same_wiring_trans [OF Cons.IH createMember_wiring] show ?case by (simp add: add_members_def)
qed (simp add: add_members_def same_wiring_refl)

lemma rollup_wiring:
  "same_wiring (new_StatusRollup x) x" "same_wiring (new_StatusFromRollup x) x" "same_wiring (rollup_defaults x) x"
proof -
  show r: "same_wiring (new_StatusRollup x) x" for x by (simp add: new_StatusRollup_def createMember_wiring same_wiring_refl)
  show f: "same_wiring (new_StatusFromRollup x) x" for x by (simp add: new_StatusFromRollup_def createMember_wiring same_wiring_refl)
  from same_wiring_trans [OF f r] show "same_wiring (rollup_defaults x) x" by (simp add: rollup_defaults_def)
qed

lemmas wirings = add_members_wiring rollup_wiring

text \<open>So do the constructors.\<close>

lemma same_parts:
  "entity_name (add_members names x) = entity_name x" "relations (add_members names x) = relations x"
  "providers (add_members names x) = providers x" "entity_name (rollup_defaults x) = entity_name x"
  "relations (rollup_defaults x) = relations x" "providers (rollup_defaults x) = providers x"
  "entity_name (new_StatusRollup x) = entity_name x" "relations (new_StatusRollup x) = relations x"
  "providers (new_StatusRollup x) = providers x" "entity_queries (add_members names x) = entity_queries x"
  "entity_queries (rollup_defaults x) = entity_queries x" "entity_queries (new_StatusRollup x) = entity_queries x"
  using wirings by (simp_all add: same_wiring_def)

lemmas constructor_defs =
  new_AccountSettingsProvider_def new_Accounts_def new_Baseboard_def new_BmcManager_def
  new_CertificateBase_def new_Chassis_def new_ChassisStateProvider_def new_CpuSMBiosProvider_def
  new_DimmSMBiosProvider_def new_DomainAccounts_def new_DomainGroups_def new_Drive_def new_Ethernet_def
  new_Fan_def new_FirmwareManagment_def new_FirmwareProvider_def new_HostPower_def new_IP_def
  new_NetAdapter_def new_PCIeFunction_def new_PCIeProvider_def new_PSU_def new_Processor_def new_Sensors_def [folded add_members_def]
  new_Server_def new_SnmpProtocol_def new_VirtualMedia_def

lemma add_members_has: "m \<in> set names \<Longrightarrow> hasMember m (add_members names x)"
proof (induction names arbitrary: x)
  case (Cons k names)
  have "map_of (members (snd (createMember k x))) \<subseteq>\<^sub>m map_of (members (add_members names (snd (createMember k x))))"
    using add_members_wiring by (simp add: same_wiring_def)
  moreover have "hasMember k (snd (createMember k x))"
    by (simp add: hasMember_def createMember_def addMember_def map_of_om_emplace split: option.split)
  ultimately show ?case using Cons by (auto simp: add_members_def hasMember_def map_le_def dom_def)
qed simp

lemma add_members_keeps: "hasMember m x \<Longrightarrow> hasMember m (add_members names x)"
  using add_members_wiring [of names x] by (auto simp: same_wiring_def hasMember_def map_le_def dom_def)

subsection \<open>Names\<close>

lemma rfind_char_prefix: "c \<notin> set name \<Longrightarrow> rfind_char c (xs @ c # name) = Some (length xs)"
  by (induction xs) (simp_all add: rfind_char_None [THEN iffD2])

lemma class_name_named: "CHR '':'' \<notin> set name \<Longrightarrow> class_name (named_class name type src) = name"
proof -
  assume "CHR '':'' \<notin> set name"
  from rfind_char_prefix [OF this, of "''app::obmc::entity:''"] show ?thesis
    by (simp add: class_name_def named_class_def NamedEntity_getName_def)
qed

lemma declared_parts:
  "entity_name (declared c self rels provs now) = class_name c" "relations (declared c self rels provs now) = rels"
  "providers (declared c self rels provs now) = provs" "entity_queries (declared c self rels provs now) = [self]"
  by (simp_all add: declared_def new_entity_def createMember_def addMember_def)

lemma declared_meta: "hasMember metaObjectPath (declared c self rels provs now)"
  by (simp add: declared_def new_entity_def createMember_def addMember_def hasMember_def map_of_om_emplace
      split: option.split)

lemmas class_defs =
  Sensors_class_def Processor_class_def ProcessorSummary_class_def Memory_class_def MemorySummary_class_def
  Fan_class_def PSU_class_def Drive_class_def StorageControllers_class_def NetAdapter_class_def
  Settings_class_def PCIeDevice_class_def PCIeFunction_class_def HostPower_class_def PIDProfile_class_def
  PIDZone_class_def PID_class_def SnmpProtocol_class_def NtpProtocol_class_def NetworkProtocol_class_def
  NetworkConfig_class_def NetworkDHCPConfig_class_def IP_class_def Ethernet_class_def SessionManager_class_def
  Accounts_class_def DomainGroups_class_def DomainAccounts_class_def AccountSettings_class_def Roles_class_def
  TrustStoreCertificates_class_def LDAPCertificates_class_def HTTPSCertificates_class_def
  VirtualMedia_class_def Firmware_class_def FirmwareManagment_class_def BmcManager_class_def
  IntrusionSensor_class_def Chassis_class_def Baseboard_class_def Server_class_def
  AccountSettingsProvider_class_def ChassisStateProvider_class_def CpuSMBiosProvider_class_def
  DimmSMBiosProvider_class_def FirmwareProvider_class_def IpmiSolProtocolProvider_class_def
  PCIeProvider_class_def PMBusProvider_class_def AssetTagProvider_class_def IndicatorLedProvider_class_def
  BootSettingsProvider_class_def HostWatchdogProvider_class_def RebootRemainingProvider_class_def
  PowerRestorePolicyProvider_class_def HostBootProvider_class_def HostBootOnceProvider_class_def
  StatusByCallbackManager_class_def

lemmas entity_defs =
  Sensors_entity_def Processor_entity_def ProcessorSummary_entity_def Memory_entity_def
  MemorySummary_entity_def Fan_entity_def PSU_entity_def Drive_entity_def StorageControllers_entity_def
  NetAdapter_entity_def Settings_entity_def PCIeDevice_entity_def PCIeFunction_entity_def HostPower_entity_def
  PIDProfile_entity_def PIDZone_entity_def PID_entity_def SnmpProtocol_entity_def NtpProtocol_entity_def
  NetworkProtocol_entity_def NetworkConfig_entity_def NetworkDHCPConfig_entity_def IP_entity_def
  Ethernet_entity_def SessionManager_entity_def Accounts_entity_def DomainGroups_entity_def
  DomainAccounts_entity_def AccountSettings_entity_def Roles_entity_def TrustStoreCertificates_entity_def
  LDAPCertificates_entity_def HTTPSCertificates_entity_def VirtualMedia_entity_def Firmware_entity_def
  FirmwareManagment_entity_def BmcManager_entity_def IntrusionSensor_entity_def Chassis_entity_def
  Baseboard_entity_def Server_entity_def

lemmas provider_defs =
  AccountSettingsProvider_entity_def ChassisStateProvider_entity_def CpuSMBiosProvider_entity_def
  DimmSMBiosProvider_entity_def FirmwareProvider_entity_def IpmiSolProtocolProvider_entity_def
  PCIeProvider_entity_def PMBusProvider_entity_def AssetTagProvider_entity_def IndicatorLedProvider_entity_def
  BootSettingsProvider_entity_def HostWatchdogProvider_entity_def RebootRemainingProvider_entity_def
  PowerRestorePolicyProvider_entity_def HostBootProvider_entity_def HostBootOnceProvider_entity_def
  StatusByCallbackManager_entity_def

lemma class_names: "map class_name declared_classes = built_entities"
  by (simp add: declared_classes_def class_defs class_name_named built_entities_def)

lemma device_names: "map (\<lambda>d. entity_name (d now)) device_entities = built_entities"
  by (simp add: device_entities_def entity_defs constructor_defs same_parts declared_parts Let_def class_defs
      class_name_named built_entities_def)

lemma device_queries: "map (\<lambda>d. entity_queries (d now)) device_entities = map (\<lambda>name. [entity_at name]) built_entities"
  by (simp add: device_entities_def entity_defs constructor_defs same_parts declared_parts Let_def built_entities_def)

lemma position_nth: "distinct xs \<Longrightarrow> e < length xs \<Longrightarrow> position xs (xs ! e) = e"
  by (induction xs arbitrary: e) (auto simp: nth_Cons split: nat.splits)

subsection \<open>Providers\<close>

lemmas link_defs = chassis_links_def psu_links_def protocol_links_def server_links_def

lemma provider_at_less: "name \<in> set provider_names \<Longrightarrow> 41 \<le> provider_at name \<and> provider_at name < 60"
proof -
  have "x \<in> set xs \<Longrightarrow> position xs x < length xs" for x :: string and xs by (induction xs) auto
  then show "name \<in> set provider_names \<Longrightarrow> 41 \<le> provider_at name \<and> provider_at name < 60"
    using device_lengths by (fastforce simp: provider_at_def)
qed

lemma device_provider_names:
  "list_all (\<lambda>d. list_all (\<lambda>(p, _). p \<in> provider_at ` set provider_names) (providers (d now))) device_entities"
  by (simp add: device_entities_def entity_defs constructor_defs same_parts declared_parts link_defs provider_names_def
      Let_def)

lemma provider_without: "d \<in> set provider_entities \<Longrightarrow> providers (d now) = []"
  by (auto simp: provider_entities_def provider_defs constructor_defs same_parts declared_parts)

subsection \<open>Relations\<close>

lemmas relation_defs = account_relations_def group_relations_def domain_relations_def firmware_relations_def
  chassis_relations_def inventory_relations_def storage_relations_def manager_relations_def pid_relations_def
  zone_relations_def ethernet_relations_def protocol_relations_def server_relations_def pcie_relations_def

text \<open>Every relation starts at its own entity and leads to an entity that is built.\<close>

lemma device_relation_ends:
  "list_all2 (\<lambda>name d. \<forall>r \<in> set (relations (d now)). source r = entity_at name \<and>
     (\<exists>dest \<in> set built_entities. destination r = entity_at dest)) built_entities device_entities"
  unfolding device_entities_def
  by (simp add: entity_defs constructor_defs same_parts declared_parts relation_defs Let_def built_entities_def)

subsection \<open>The members rules ask for\<close>

lemma endpoint_fields_member: "(iface, ss) \<in> set eps \<Longrightarrow> distinct (map fst eps) \<Longrightarrow> ((p, m), fmts) \<in> set ss \<Longrightarrow>
  m \<in> set (endpoint_fields (endpoints eps))"
proof -
  assume a: "(iface, ss) \<in> set eps" "distinct (map fst eps)" "((p, m), fmts) \<in> set ss"
  from a(1,2) have "map_of (om.emplace_all eps []) iface = Some ss"
    using om.lookup_emplace_all [of "[]" eps iface] by simp
  then have "(iface, ss) \<in> set (endpoints eps)" by (auto simp: endpoints_def dest: map_of_SomeD)
  with a(3) show ?thesis by (force simp: endpoint_fields_def getFields_def)
qed

lemma proxied_member: "m \<in> set (provider_fields ! k) \<Longrightarrow> m \<in> set (proxied k)"
  using add_members_has [of m "provider_fields ! k" "(provider_entities ! k) 0"]
  by (auto simp: proxied_def proxy_fields_def hasMember_def dest: map_of_SomeD intro: rev_image_eqI)

lemma proxied_own: "hasMember m ((provider_entities ! k) 0) \<Longrightarrow> m \<in> set (proxied k)"
  using add_members_wiring [of "provider_fields ! k" "(provider_entities ! k) 0"]
  by (force simp: proxied_def proxy_fields_def hasMember_def same_wiring_def map_le_def dom_def dest: map_of_SomeD)

lemma rule_fields:
  "''UserPrivilege'' \<in> set (endpoint_fields account_endpoints)" "''PrivilegeId'' \<in> set (endpoint_fields group_endpoints)"
  "''Type'' \<in> set (endpoint_fields domain_endpoints)" "''InterfaceName'' \<in> set (endpoint_fields ethernet_endpoints)"
  "''Name'' \<in> set (endpoint_fields pid_endpoints)" "''Name'' \<in> set (endpoint_fields zone_endpoints)"
  "''Purpose'' \<in> set (endpoint_fields firmware_endpoints)"
  by (simp_all add: account_endpoints_def group_endpoints_def domain_endpoints_def ethernet_endpoints_def pid_endpoints_def
      zone_endpoints_def firmware_endpoints_def endpoint_fields_def getFields_def endpoints_def om_emplace_def ep_field_def
      ep_format_def userAttrsIface_def privConfigIface_def ldapConfigIface_def netEthInterfaceName_def pidInterfaceName_def
      pidZoneInterfaceName_def versionIface_def activationIface_def)

lemma rule_proxied: "''Purpose'' \<in> set (proxied 4)" "fieldSBD \<in> set (proxied 6)"
proof -
  show "''Purpose'' \<in> set (proxied 4)" by (rule proxied_member) (simp add: provider_fields_def rule_fields)
  have "hasMember fieldSBD (PCIeProvider_entity 0)"
    by (simp add: PCIeProvider_entity_def new_PCIeProvider_def add_members_has)
  then show "fieldSBD \<in> set (proxied 6)" by (intro proxied_own) (simp add: provider_entities_def)
qed

lemmas rule_defs = roleDestRelation_def groupsRelation_def firmware_inventoryRelation_def firmwareRelation_def
  inventoryRelation_def directLinkingRule_def pid_relationRules_def relationToIp_def relationToVLAN_def
  additionalProtoCapRelation_def

text \<open>Every rule asks the source for a member that its constructor or its query declares.\<close>

lemma device_rule_sources:
  "list_all2 (\<lambda>fields d. \<forall>r \<in> set (relations (d now)). \<forall>(ms, _) \<in> set (conditionBuildRules r).
     ms = dummyField \<or> hasMember ms (d now) \<or> ms \<in> set fields) entity_fields device_entities"
  unfolding entity_fields_def device_entities_def
  by (simp add: entity_defs constructor_defs same_parts declared_parts relation_defs Let_def rule_defs rule_fields
      rule_proxied add_members_has add_members_keeps declared_meta)

end
