(* ===== verification/Devices_Properties.thy ===== *)
theory Devices_Properties
  imports Devices_Facts
begin

text \<open>
  What the declarations of the devices promise to the operations on entities: names without clashes,
  relations between entities that are there and by members that are there, and providers that have
  no providers, so that two levels are always enough.
\<close>

section \<open>The wiring\<close>

text \<open>Only built entities have providers, and only singletons of providers.\<close>

definition device_providers :: "nat \<Rightarrow> nat list" where
  "device_providers e = (if e < length built_entities then map provider_at provider_names else [])"

definition device_rank :: "nat \<Rightarrow> nat" where
  "device_rank e = (if e < length built_entities then 1 else 0)"

interpretation devices: provider_order device_providers device_rank
  by unfold_locales (auto simp: device_providers_def device_rank_def provider_at_def split: if_splits)

lemma device_rank_small: "device_rank e < 2"
  by (simp add: device_rank_def)

text \<open>What is left alone by the operations: names, relations, providers and queries, and members are
  never removed.\<close>

interpretation wiring: entity_frame "\<lambda>x y. same_wiring y x"
proof unfold_locales
  show "same_wiring z x" if "same_wiring y x" "same_wiring z y" for x y z using same_wiring_trans [OF that(2,1)] .
qed (simp_all add: same_wiring_refl createMember_wiring, simp_all add: same_wiring_def)

lemma wired_kept: "wired pf w \<Longrightarrow> each_entity (\<lambda>x y. same_wiring y x) w w' \<Longrightarrow> wired pf w'"
  by (simp add: wired_def each_entity_def same_wiring_def)

section \<open>The constructors\<close>

lemma construct_device_at:
  assumes "e < length built_entities"
  shows "construct_device now (built_entities ! e) = (device_entities ! e) now"
proof -
  have "(built_entities ! e, device_entities ! e) \<in> set (zip built_entities device_entities)"
    using assms device_lengths by (auto simp: in_set_zip intro: exI [of _ e])
  then have "map_of (zip built_entities device_entities) (built_entities ! e) = Some (device_entities ! e)"
    using distinct_entities device_lengths by (intro map_of_is_SomeI) simp_all
  then show ?thesis by (simp add: construct_device_def)
qed

lemma construct_device_name:
  assumes "name \<in> set built_entities"
  shows "entity_name (construct_device now name) = name"
proof -
  obtain e where e: "e < length built_entities" "name = built_entities ! e" using assms by (auto simp: in_set_conv_nth)
  then have "entity_name ((device_entities ! e) now) = map (\<lambda>d. entity_name (d now)) device_entities ! e"
    using device_lengths by simp
  with e show ?thesis by (simp add: construct_device_at device_names)
qed

lemma construct_device_providers:
  "fst ` set (providers (construct_device now name)) \<subseteq> set (map provider_at provider_names)"
proof (cases "map_of (zip built_entities device_entities) name")
  case None
  then show ?thesis by (simp add: construct_device_def new_entity_def createMember_def addMember_def)
next
  case (Some d)
  then have "d \<in> set device_entities" by (auto dest!: map_of_SomeD set_zip_rightD)
  with device_provider_names [of now] have "list_all (\<lambda>(p, _). p \<in> provider_at ` set provider_names) (providers (d now))"
    by (simp add: list_all_iff)
  with Some show ?thesis by (auto simp: construct_device_def list_all_iff)
qed

text \<open>The entity of a world between the construction of the first and of the last one.\<close>

lemma ends_build: "ends_in (wired device_providers) (build_entities (construct_device now))"
proof -
  have "ends_in (wired device_providers) (bind_act (buildEntity (construct_device now) ne) (\<lambda>_. ret ()))"
    if ne: "ne \<in> set (zip built_entities [0..<length built_entities])" for ne
  proof (rule ends_bind [OF _ ends_ret])
    obtain name e where [simp]: "ne = (name, e)" by (cases ne)
    from ne have e: "e < length built_entities" by (auto dest: set_zip_rightD)
    have "wired device_providers (upd_entity e (\<lambda>_. construct_device now name) w)" if "wired device_providers w" for w
      using that e construct_device_providers [of now name] by (auto simp: wired_def upd_entity_def device_providers_def)
    then show "ends_in (wired device_providers) (buildEntity (construct_device now) ne)"
      unfolding ends_in_def buildEntity_def addEntity_def Let_def
      by (auto simp: throw_def ret_def wired_def split: option.splits)
  qed
  then show ?thesis unfolding build_entities_def by (rule ends_each)
qed

lemma device_world_wired: "wired device_providers (device_world now)"
  using device_lengths
  by (auto simp: wired_def device_world_def device_providers_def provider_without new_entity_def createMember_def addMember_def)

section \<open>What never throws\<close>

definition quiet :: "unit act \<Rightarrow> bool" where
  "quiet m \<longleftrightarrow> (\<forall>w e w'. m w \<noteq> Some (Inl e, w'))"

lemma quiet_bind: "quiet m \<Longrightarrow> (\<And>v. quiet (f v)) \<Longrightarrow> quiet (bind_act m f)"
  by (auto simp: quiet_def bind_act_def split: option.splits sum.splits prod.splits)

lemma quiet_modify: "quiet (modify e f)"
  by (simp add: quiet_def modify_def)

lemma quiet_world: "(\<And>w. quiet (m w)) \<Longrightarrow> quiet (\<lambda>w. m w w)"
  by (simp add: quiet_def)

lemma quiet_each: "(\<And>x. quiet (f x)) \<Longrightarrow> quiet (for_each xs f)"
  by (induction xs) (simp_all add: quiet_bind, simp add: quiet_def ret_def)

lemma quiet_providers: "(\<And>x. quiet (f x)) \<Longrightarrow> quiet (\<lambda>w. for_each (map fst (providers (entities w e))) f w)"
  by (rule quiet_world [where m = "\<lambda>v. for_each (map fst (providers (entities v e))) f"]) (rule quiet_each)

lemma quiet_reset: "quiet (resetCache n e)"
  by (induction n arbitrary: e) (simp add: quiet_def, simp add: quiet_bind quiet_modify quiet_providers)

lemma quiet_initialize: "quiet (initialize_entity n bus e)"
proof (induction n arbitrary: e)
  case (Suc n)
  then show ?case unfolding initialize_entity.simps by (intro quiet_bind quiet_reset quiet_modify quiet_providers)
qed (simp add: quiet_def)

lemma quiet_ends: "ends_in P m \<Longrightarrow> quiet m \<Longrightarrow> P w \<Longrightarrow> \<exists>w'. m w = Some (Inr (), w') \<and> P w'"
proof -
  assume "ends_in P m" "quiet m" "P w"
  then obtain r w' where "m w = Some (r, w')" "P w'" using ends_inD by blast
  with \<open>quiet m\<close> show ?thesis by (cases r) (auto simp: quiet_def)
qed

section \<open>The started devices\<close>

lemma initialize_members:
  assumes "initialize_entity (Suc n) bus e w = Some (Inr (), w')" and "m \<in> set (concat (map (query_fields bus) (entity_queries (entities w e))))"
  shows "hasMember m (entities w' e)"
proof -
  let ?names = "\<lambda>x. concat (map (query_fields bus) (entity_queries x))"
  obtain w1 w2 where w1: "resetCache (Suc n) e w = Some (Inr (), w1)"
    and w2: "w2 = upd_entity e (\<lambda>x. add_members (?names x) x) w1"
    and w': "for_each (map fst (providers (entities w2 e))) (initialize_entity n bus) w2 = Some (Inr (), w')"
    using assms(1) unfolding initialize_entity.simps
    by (auto simp: bind_act_def modify_def add_members_def simp del: resetCache.simps split: option.splits sum.splits prod.splits)
  have "relates (each_entity (\<lambda>x y. same_wiring y x)) (resetCache (Suc n) e)"
    by (intro wiring.keep_reset wiring.keep_modify wiring.any_instances)
  with w1 have "each_entity (\<lambda>x y. same_wiring y x) w w1" unfolding relates_def by blast
  then have "entity_queries (entities w1 e) = entity_queries (entities w e)" by (simp add: each_entity_def same_wiring_def)
  with assms(2) have "hasMember m (entities w2 e)" by (simp add: w2 upd_entity_def add_members_has)
  moreover have "relates (each_entity (\<lambda>x y. same_wiring y x)) (for_each (map fst (providers (entities w2 e))) (initialize_entity n bus))"
    by (intro wiring.keep_each wiring.keep_initialize)
  with w' have "each_entity (\<lambda>x y. same_wiring y x) w2 w'" unfolding relates_def by blast
  ultimately show ?thesis by (auto simp: each_entity_def same_wiring_def hasMember_def map_le_def dom_def)
qed

lemma devices_built:
  assumes "dictionary w = []"
  shows "\<exists>w'. build_entities (construct_device now) w = Some (Inr (), w') \<and>
    map_of (dictionary w') = map_of (zip built_entities [0..<length built_entities]) \<and>
    (\<forall>e < length built_entities. entities w' e = (device_entities ! e) now)"
proof -
  let ?nes = "zip built_entities [0..<length built_entities]"
  have "\<exists>w'. build_entities (construct_device now) w = Some (Inr (), w') \<and>
    map_of (dictionary w') = map_of (dictionary w) ++ map_of ?nes \<and>
    (\<forall>e. entities w' e = (case map_of (map prod.swap ?nes) e of None \<Rightarrow> entities w e | Some name \<Rightarrow> construct_device now name))"
    unfolding build_entities_def using distinct_entities assms
    by (intro build_list) (auto dest: set_zip_leftD simp: construct_device_name)
  then obtain w' where w': "build_entities (construct_device now) w = Some (Inr (), w')" "map_of (dictionary w') = map_of ?nes"
    "\<And>e. entities w' e = (case map_of (map prod.swap ?nes) e of None \<Rightarrow> entities w e | Some name \<Rightarrow> construct_device now name)"
    using assms by auto
  have "entities w' e = (device_entities ! e) now" if "e < length built_entities" for e
  proof -
    have "(e, built_entities ! e) \<in> set (map prod.swap ?nes)" using that by (force simp: in_set_zip)
    then have "map_of (map prod.swap ?nes) e = Some (built_entities ! e)"
      by (intro map_of_is_SomeI) (simp_all add: comp_def prod.swap_def)
    with w'(3) construct_device_at [OF that] show ?thesis by simp
  qed
  with w'(1,2) show ?thesis by blast
qed

lemma devices_started:
  "\<exists>r w. start_devices 2 now be (new_application (device_world now) :: 'a application) =
       Some (r, (new_application (device_world now))\<lparr>app_world := w\<rparr>) \<and>
     wired device_providers w \<and> map_of (dictionary w) = map_of (zip built_entities [0..<length built_entities]) \<and>
     (\<forall>e < length built_entities. same_wiring (entities w e) ((device_entities ! e) now) \<and>
       (\<forall>m \<in> set (query_fields (bus_at be 0) e). hasMember m (entities w e)))"
proof -
  let ?a = "new_application (device_world now) :: 'a application"
  let ?same = "each_entity (\<lambda>x y. same_wiring y x)"
  let ?bus = "bus_at be 0"
  note fuel = devices.ends_initialize [OF device_rank_small] device_rank_small
  have proxies: "ends_in (wired device_providers) (construct_proxies 2 ?bus)" "quiet (construct_proxies 2 ?bus)"
    "relates ?same (construct_proxies 2 ?bus)"
    unfolding construct_proxies_def new_ProxyQuery_def [abs_def]
    by (intro ends_each fuel) (intro quiet_each quiet_initialize, intro wiring.keep_each wiring.keep_initialize)
  obtain w1 where w1: "construct_proxies 2 ?bus (device_world now) = Some (Inr (), w1)" "wired device_providers w1"
    using quiet_ends [OF proxies(1,2) device_world_wired] by blast
  with proxies(3) have "?same (device_world now) w1" by (simp add: relates_def)
  then have "dictionary w1 = []" by (simp add: each_entity_def device_world_def)
  from devices_built [OF this] obtain w2 where
    w2: "build_entities (construct_device now) w1 = Some (Inr (), w2)"
      "map_of (dictionary w2) = map_of (zip built_entities [0..<length built_entities])"
      "\<And>e. e < length built_entities \<Longrightarrow> entities w2 e = (device_entities ! e) now" by blast
  with ends_inD [OF ends_build w1(2), of now] have wired2: "wired device_providers w2" by auto
  have "quiet (\<lambda>w. configure 2 ?bus w)"
    unfolding configure_def
    by (rule quiet_world [where m = "\<lambda>w. for_each (map snd (dictionary w)) _"]) (intro quiet_each quiet_initialize)
  from quiet_ends [OF devices.ends_configure_all(1) this wired2] device_rank_small obtain w3 where
    w3: "configure 2 ?bus w2 = Some (Inr (), w3)" "wired device_providers w3" by blast
  obtain r w4 where w4: "update 2 ?bus w3 = Some (r, w4)" "wired device_providers w4"
    using ends_inD [OF devices.ends_configure_all(2) w3(2)] device_rank_small by blast
  have same: "?same w2 w3" "?same w3 w4" using wiring.keep_all w3(1) w4(1) by (auto simp: relates_def)
  have wires: "same_wiring (entities w4 e) ((device_entities ! e) now)" if "e < length built_entities" for e
    using wiring.world_trans [OF same] unfolding each_entity_def w2(3) [OF that, symmetric] by blast
  have fields: "hasMember m (entities w4 e)"
    if e: "e < length built_entities" and m: "m \<in> set (query_fields ?bus e)" for e m
  proof -
    have "map_of (dictionary w2) (built_entities ! e) = Some e"
      using e distinct_entities w2(2) by (auto intro!: map_of_is_SomeI simp: in_set_zip)
    then have known: "e \<in> set (map snd (dictionary w2))" by (force dest: map_of_SomeD)
    have queries: "entity_queries ((device_entities ! e) now) = [e]"
    proof -
      have "entity_queries ((device_entities ! e) now) = map (\<lambda>d. entity_queries (d now)) device_entities ! e"
        using e device_lengths by simp
      also have "\<dots> = [entity_at (built_entities ! e)]" using e device_queries by simp
      finally show ?thesis using e distinct_entities by (simp add: entity_at_def position_nth)
    qed
    have "hasMember m (entities w3 e)"
    proof (rule wiring.keep_done [OF w3(1) [unfolded configure_def] known wiring.keep_initialize])
      fix v v' assume v: "?same w2 v" "initialize_entity 2 ?bus e v = Some (Inr (), v')"
      then have "entity_queries (entities v e) = [e]" using queries w2(3) [OF e] by (simp add: each_entity_def same_wiring_def)
      with m initialize_members [of 1 ?bus e v v' m] v(2) show "hasMember m (entities v' e)" by (simp add: numeral_2_eq_2)
    qed (auto simp: each_entity_def same_wiring_def hasMember_def map_le_def dom_def)
    with same(2) show ?thesis by (auto simp: each_entity_def same_wiring_def hasMember_def map_le_def dom_def)
  qed
  have "start_devices 2 now be ?a = Some (r, ?a\<lparr>app_world := w4\<rparr>)"
    using w1(1) w2(1) w3(1) w4(1)
    by (cases r) (simp_all add: start_devices_def initEntities_def on_app_world_def bind_act_def new_application_def)
  with wires fields w4(2) w2(2) same show ?thesis by (auto simp: each_entity_def)
qed

section \<open>Conditions\<close>

lemma conditions_built:
  assumes "\<And>ms x. (ms, x) \<in> set rules \<Longrightarrow> ms = dummyField \<or> hasMember ms (entities w (source r))"
  shows "\<exists>cs. collect (rule_condition (Suc n) r h) rules w = Some (Inr cs, w)"
  using assms
proof (induction rules)
  case (Cons rule rules)
  obtain ms md cmp where rule: "rule = (ms, md, cmp)" by (cases rule)
  have "\<exists>c. rule_condition (Suc n) r h rule w = Some (Inr c, w)"
    using Cons.prems [of ms "(md, cmp)"] rule
    by (auto simp: rule_condition_def ret_def bind_act_def hasMember_def split: option.splits)
  moreover have "\<exists>cs. collect (rule_condition (Suc n) r h) rules w = Some (Inr cs, w)" using Cons by auto
  ultimately show ?case by (auto simp: bind_act_def ret_def)
qed (simp add: ret_def)

section \<open>Waiting\<close>



section \<open>Properties\<close>


text \<open>C34: after the start every relation of a device starts at its own entity and leads to an entity that
  the manager knows under its name, and its conditions can be built for every instance: the member a
  rule asks the source for is always declared, so no member is reported missing.\<close>

theorem device_relations:
  assumes "start_devices 2 now be (new_application (device_world now) :: 'a application) = Some (r, a)" and "query_fields (bus_at be 0) = device_fields"
    and "e < length built_entities" and "rel \<in> set (relations (entities (app_world a) e))"
  shows "source rel = e \<and> (\<exists>dest. map_of (dictionary (app_world a)) dest = Some (destination rel) \<and>
      entity_name (entities (app_world a) (destination rel)) = dest) \<and>
    (\<exists>cs. getConditions (Suc n) rel h (app_world a) = Some (Inr cs, app_world a))"
proof -
  obtain w where w: "a = (new_application (device_world now) :: 'a application)\<lparr>app_world := w\<rparr>"
     "map_of (dictionary w) = map_of (zip built_entities [0..<length built_entities])"
     "\<And>e. e < length built_entities \<Longrightarrow> same_wiring (entities w e) ((device_entities ! e) now)"
     "\<And>e m. e < length built_entities \<Longrightarrow> m \<in> set (device_fields e) \<Longrightarrow> hasMember m (entities w e)"
    using devices_started [where 'a = 'a, of now be] assms(1,2) by auto
  let ?d = "device_entities ! e" and ?name = "built_entities ! e"
  have rel: "rel \<in> set (relations (?d now))" using assms(4) w(1) w(3) [OF assms(3)] by (simp add: same_wiring_def)
  have at: "entity_at (built_entities ! k) = k" if "k < length built_entities" for k
    using that distinct_entities by (simp add: entity_at_def position_nth)
  have "\<forall>r \<in> set (relations (?d now)). source r = entity_at ?name \<and> (\<exists>dest \<in> set built_entities. destination r = entity_at dest)"
    using list_all2_nthD [OF device_relation_ends assms(3)] .
  with rel obtain dest where src: "source rel = e" and dest: "dest \<in> set built_entities" "destination rel = entity_at dest"
    using at [OF assms(3)] by auto
  then obtain k where k: "k < length built_entities" "dest = built_entities ! k" "destination rel = k"
    using at by (auto simp: in_set_conv_nth)
  have "map_of (dictionary w) dest = Some k"
    using k distinct_entities unfolding w(2) by (intro map_of_is_SomeI) (auto simp: in_set_zip)
  moreover have "entity_name (entities w k) = dest"
  proof -
    have "entity_name (entities w k) = map (\<lambda>d. entity_name (d now)) device_entities ! k"
      using w(3) [OF k(1)] k(1) device_lengths by (simp add: same_wiring_def)
    with k show ?thesis by (simp add: device_names)
  qed
  moreover have "\<exists>cs. getConditions (Suc n) rel h w = Some (Inr cs, w)"
  proof -
    have "e < length entity_fields" using assms(3) device_lengths by simp
    from list_all2_nthD [OF device_rule_sources [of now] this]
    have "\<forall>(ms, _) \<in> set (conditionBuildRules rel). ms = dummyField \<or> hasMember ms (?d now) \<or> ms \<in> set (device_fields e)"
      using rel \<open>e < length entity_fields\<close> by (auto simp: device_fields_def nth_append)
    moreover have "hasMember ms (entities w e)" if "hasMember ms (?d now)" for ms
      using that w(3) [OF assms(3)] by (auto simp: same_wiring_def hasMember_def map_le_def dom_def)
    ultimately have "ms = dummyField \<or> hasMember ms (entities w e)" if "(ms, x) \<in> set (conditionBuildRules rel)" for ms x
      using that w(4) [OF assms(3)] by blast
    then show ?thesis unfolding getConditions_def by (intro conditions_built) (auto simp: src)
  qed
  ultimately show ?thesis using src k(3) w(1) by auto
qed



section \<open>Witnesses\<close>

definition device_boot :: boot_env where
  "device_boot = sample_boot\<lparr>bus_at := (\<lambda>_. sample_entity_env\<lparr>query_fields := device_fields\<rparr>)\<rparr>"

theorem device_relations_witness:
  "\<exists>r a. start_devices 2 0 device_boot (new_application (device_world 0) :: nat application) = Some (r, a) \<and>
     (\<exists>rel \<in> set (relations (entities (app_world a) 34)).
        source rel = 34 \<and> map_of (dictionary (app_world a)) ''BmcManager'' = Some (destination rel) \<and>
        (\<exists>cs. getConditions 1 rel 7 (app_world a) = Some (Inr cs, app_world a)))"
proof -
  obtain r w where w: "start_devices 2 0 device_boot (new_application (device_world 0) :: nat application) =
       Some (r, (new_application (device_world 0))\<lparr>app_world := w\<rparr>)"
     "map_of (dictionary w) = map_of (zip built_entities [0..<length built_entities])"
     "same_wiring (entities w 34) ((device_entities ! 34) 0)"
    using devices_started [where 'a = nat, of 0 device_boot] device_lengths by auto
  let ?rel = "\<lparr>source = 34, destination = 36, conditionBuildRules = firmware_inventoryRelation Purpose_bmc\<rparr>"
  have "entity_at ''Firmware'' = 34" "entity_at ''BmcManager'' = 36" by (simp_all add: entity_at_def built_entities_def)
  then have "?rel \<in> set (relations ((device_entities ! 34) 0))"
    by (simp add: device_entities_def Firmware_entity_def declared_parts firmware_relations_def)
  then have rel: "?rel \<in> set (relations (entities w 34))" using w(3) by (simp add: same_wiring_def)
  have fields: "query_fields (bus_at device_boot 0) = device_fields" "34 < length built_entities"
    by (simp_all add: device_boot_def device_lengths)
  have rel': "?rel \<in> set (relations (entities (app_world ((new_application (device_world 0) :: nat application)\<lparr>app_world := w\<rparr>)) 34))"
    using rel by simp
  obtain cs where "getConditions (Suc 0) ?rel 7 w = Some (Inr cs, w)"
    using device_relations [OF w(1) fields rel', of 0 7] by auto
  moreover have "map_of (dictionary w) ''BmcManager'' = Some 36" unfolding w(2) by (simp add: built_entities_def)
  ultimately show ?thesis using w(1) rel by (intro exI conjI bexI [of _ ?rel] exI [of _ cs]) auto
qed



end
